(* ===== verification/Prelude.thy ===== *)
theory Prelude
  imports Complex_Main "HOL-Library.Char_ord"
begin

text \<open>
  Shared ground of the development: the HTTP responses the handlers write, JSON values,
  the string functions of Go's standard library that the handlers call
  (\<^verbatim>\<open>strings.TrimSpace\<close>, \<^verbatim>\<open>strings.Split\<close>, \<^verbatim>\<open>strings.Repeat\<close>,
  \<^verbatim>\<open>strconv.Atoi\<close>, the verbs \<^verbatim>\<open>%d\<close> and \<^verbatim>\<open>%0nd\<close> of
  \<^verbatim>\<open>fmt.Sprintf\<close>), two's complement arithmetic on Go's 64-bit \<^verbatim>\<open>int\<close>, and
  lemmas on lists of table rows. A Go string is a list of bytes, which is what
  \<^typ>\<open>string\<close> is.
\<close>

named_theorems handler_defs \<open>unfolding rules of the handlers\<close>
named_theorems frame \<open>tables a statement or helper leaves unchanged\<close>

section \<open>JSON and HTTP responses\<close>

datatype json =
    JNull
  | JBool bool
  | JStr string
  | JInt int
  | JNum rat
  | JArr "json list"
  | JObj "(string \<times> json) list"

datatype body =
    Json json
  | Plain string
  | Csv "string list list"

record response =
  rcode :: int
  rbody :: body

abbreviation status_ok :: int where "status_ok \<equiv> 200"
abbreviation status_created :: int where "status_created \<equiv> 201"
abbreviation status_bad_request :: int where "status_bad_request \<equiv> 400"
abbreviation status_unauthorized :: int where "status_unauthorized \<equiv> 401"
abbreviation status_forbidden :: int where "status_forbidden \<equiv> 403"
abbreviation status_not_found :: int where "status_not_found \<equiv> 404"
abbreviation status_conflict :: int where "status_conflict \<equiv> 409"
abbreviation status_internal :: int where "status_internal \<equiv> 500"

abbreviation respond :: "int \<Rightarrow> (string \<times> json) list \<Rightarrow> response" where
  "respond c fs \<equiv> \<lparr>rcode = c, rbody = Json (JObj fs)\<rparr>"

text \<open>The JSON error object most handlers write: \<^verbatim>\<open>{"success": false, "error": msg}\<close>.\<close>

abbreviation fail_json :: "int \<Rightarrow> string \<Rightarrow> response" where
  "fail_json c msg \<equiv> respond c [(''success'', JBool False), (''error'', JStr msg)]"

abbreviation db_unavailable :: response where
  "db_unavailable \<equiv> fail_json status_internal ''database connection unavailable''"

text \<open>A field with \<^verbatim>\<open>omitempty\<close>.\<close>

definition nonempty_field :: "string \<Rightarrow> string \<Rightarrow> (string \<times> json) list" where
  "nonempty_field k s = (if s = '''' then [] else [(k, JStr s)])"

text \<open>The answer of the listings that are not paginated.\<close>

abbreviation data_response :: "json list \<Rightarrow> response" where
  "data_response xs \<equiv> respond status_ok [(''success'', JBool True), (''data'', JArr xs)]"

text \<open>\<^verbatim>\<open>http.Error\<close> writes the message as plain text followed by a newline.\<close>

abbreviation http_error :: "string \<Rightarrow> int \<Rightarrow> response" where
  "http_error msg c \<equiv> \<lparr>rcode = c, rbody = Plain (msg @ [CHR 0x0A])\<rparr>"

text \<open>
  A panic in a handler (a nil pool used without a check, an index out of range):
  \<^verbatim>\<open>middleware.Recoverer\<close> answers with status 500 and no body.
\<close>

abbreviation panicked :: response where
  "panicked \<equiv> \<lparr>rcode = status_internal, rbody = Plain []\<rparr>"

fun json_field :: "json \<Rightarrow> string \<Rightarrow> json option" where
  "json_field (JObj fs) k = map_of fs k"
| "json_field _ _ = None"

definition rfield :: "response \<Rightarrow> string \<Rightarrow> json option" where
  "rfield r k = (case rbody r of Json j \<Rightarrow> json_field j k | _ \<Rightarrow> None)"

section \<open>Go's 64-bit integers\<close>

definition wrap64 :: "int \<Rightarrow> int" where
  "wrap64 x = (x + 2 ^ 63) mod 2 ^ 64 - 2 ^ 63"

definition int64 :: "int \<Rightarrow> bool" where
  "int64 x \<longleftrightarrow> - (2 ^ 63) \<le> x \<and> x < 2 ^ 63"

lemma wrap64_id [simp]: "int64 x \<Longrightarrow> wrap64 x = x"
  by (simp add: wrap64_def int64_def)

lemma wrap64_int64 [simp]: "int64 (wrap64 x)"
proof -
  have "0 \<le> (x + 2 ^ 63) mod 2 ^ 64" "(x + 2 ^ 63) mod 2 ^ 64 < (2 ^ 64 :: int)"
    by simp_all
  then show ?thesis by (simp add: wrap64_def int64_def)
qed

text \<open>Integer division of Go truncates towards zero.\<close>

definition tdiv :: "int \<Rightarrow> int \<Rightarrow> int" where
  "tdiv a b = sgn a * sgn b * (\<bar>a\<bar> div \<bar>b\<bar>)"

definition tmod :: "int \<Rightarrow> int \<Rightarrow> int" where
  "tmod a b = a - tdiv a b * b"

lemma tdiv_nonneg: "0 \<le> a \<Longrightarrow> 0 < b \<Longrightarrow> tdiv a b = a div b"
  by (cases "a = 0") (simp_all add: tdiv_def)

lemma tmod_nonneg: "0 \<le> a \<Longrightarrow> 0 < b \<Longrightarrow> tmod a b = a mod b"
  by (simp add: tmod_def tdiv_nonneg minus_div_mult_eq_mod)

section \<open>Decimal numbers as text\<close>

definition digit :: "nat \<Rightarrow> char" where
  "digit d = char_of (48 + d)"

fun decn :: "nat \<Rightarrow> string" where
  "decn n = (if n < 10 then [digit n] else decn (n div 10) @ [digit (n mod 10)])"

declare decn.simps [simp del]

text \<open>\<^verbatim>\<open>%d\<close>: the decimal digits, with a minus sign for a negative number.\<close>

definition dec :: "int \<Rightarrow> string" where
  "dec i = (if i < 0 then CHR ''-'' # decn (nat (- i)) else decn (nat i))"

text \<open>\<^verbatim>\<open>%0wd\<close> on a non-negative number: padded with zeros on the left to width \<open>w\<close>.\<close>

definition decpad :: "nat \<Rightarrow> nat \<Rightarrow> string" where
  "decpad w n = replicate (w - length (decn n)) CHR ''0'' @ decn n"

definition is_digit :: "char \<Rightarrow> bool" where
  "is_digit c \<longleftrightarrow> 48 \<le> (of_char c :: nat) \<and> (of_char c :: nat) \<le> 57"

definition digit_val :: "char \<Rightarrow> nat" where
  "digit_val c = of_char c - 48"

definition numval :: "string \<Rightarrow> nat" where
  "numval cs = foldl (\<lambda>a c. 10 * a + digit_val c) 0 cs"

text \<open>
  \<^verbatim>\<open>strconv.Atoi\<close>: an optional sign, then one or more decimal digits; an error
  (\<^term>\<open>None\<close>) on any other text and on a value outside the 64-bit range.
\<close>

definition atoi :: "string \<Rightarrow> int option" where
  "atoi s =
     (let neg = (case s of [] \<Rightarrow> False | c # _ \<Rightarrow> c = CHR ''-'');
          ds = (case s of [] \<Rightarrow> [] | c # cs \<Rightarrow> if c = CHR ''-'' \<or> c = CHR ''+'' then cs else s)
      in if ds = [] \<or> \<not> list_all is_digit ds then None
         else let v = (if neg then - int (numval ds) else int (numval ds))
              in if int64 v then Some v else None)"

lemma digit_numerals [simp]:
  "digit 0 = CHR ''0''" "digit (Suc 0) = CHR ''1''" "digit 2 = CHR ''2''" "digit 3 = CHR ''3''"
  "digit 4 = CHR ''4''" "digit 5 = CHR ''5''" "digit 6 = CHR ''6''" "digit 7 = CHR ''7''"
  "digit 8 = CHR ''8''" "digit 9 = CHR ''9''"
  by (code_simp)+

lemma of_char_digit: "d < 10 \<Longrightarrow> (of_char (digit d) :: nat) = 48 + d"
  by (simp add: digit_def)

lemma digit_val_digit [simp]: "d < 10 \<Longrightarrow> digit_val (digit d) = d"
  by (simp add: digit_val_def of_char_digit)

lemma is_digit_digit [simp]: "d < 10 \<Longrightarrow> is_digit (digit d)"
  by (simp add: is_digit_def of_char_digit)

lemma numval_Nil [simp]: "numval [] = 0"
  by (simp add: numval_def)

lemma numval_snoc [simp]: "numval (cs @ [c]) = 10 * numval cs + digit_val c"
  by (simp add: numval_def)

lemma numval_zeros [simp]: "numval (replicate k CHR ''0'' @ cs) = numval cs"
  by (induction k) (simp_all add: numval_def digit_val_def)

lemma numval_decn [simp]: "numval (decn n) = n"
proof (induction n rule: decn.induct)
  case (1 n)
  show ?case
  proof (cases "n < 10")
    case True
    then show ?thesis by (subst decn.simps) (simp add: numval_def)
  next
    case False
    with 1 show ?thesis by (subst decn.simps) simp
  qed
qed

lemma decn_digits [simp]: "list_all is_digit (decn n)"
proof (induction n rule: decn.induct)
  case (1 n)
  then show ?case by (subst decn.simps) simp
qed

lemma decn_not_Nil [simp]: "decn n \<noteq> []"
  by (subst decn.simps) simp

lemma numval_decpad [simp]: "numval (decpad w n) = n"
  by (simp add: decpad_def)

lemma decpad_inj: "decpad w m = decpad w n \<longleftrightarrow> m = n"
  by (metis numval_decpad)

lemma decn_inj: "decn m = decn n \<longleftrightarrow> m = n"
  by (metis numval_decn)

lemma list_all_decpad [simp]: "list_all is_digit (decpad w n)"
  by (simp add: decpad_def list_all_append) (simp add: list_all_iff is_digit_def)

lemma minus_not_digit [simp]: "\<not> is_digit CHR ''-''" "\<not> is_digit CHR ''+''"
  by (simp_all add: is_digit_def)

lemma decn_hd: "decn n = c # cs \<Longrightarrow> is_digit c"
  using decn_digits [of n] by simp

theorem atoi_dec: "int64 i \<Longrightarrow> atoi (dec i) = Some i"
proof (cases "i < 0")
  case True
  assume "int64 i"
  with True show ?thesis by (simp add: atoi_def dec_def)
next
  case False
  assume i: "int64 i"
  obtain c cs where d: "decn (nat i) = c # cs" by (cases "decn (nat i)") auto
  have "is_digit c" using d by (rule decn_hd)
  then have "c \<noteq> CHR ''-''" "c \<noteq> CHR ''+''" by auto
  moreover have "list_all is_digit (c # cs)" "numval (c # cs) = nat i"
    by (simp_all flip: d)
  ultimately show ?thesis using False i by (simp add: atoi_def dec_def d)
qed

lemma atoi_int64: "atoi s = Some i \<Longrightarrow> int64 i"
  by (auto simp: atoi_def Let_def split: if_splits)

section \<open>Strings\<close>

text \<open>
  \<^verbatim>\<open>strings.TrimSpace\<close> removes Unicode white space at both ends. The number of bytes of
  a white space character at the front of a UTF-8 string (0 if there is none), and the same at
  the back, on the reversed string.
\<close>

fun space_front :: "nat list \<Rightarrow> nat" where
  "space_front (a # b # c # _) =
     (if a \<in> {9, 10, 11, 12, 13, 32} then 1
      else if a = 0xC2 \<and> (b = 0x85 \<or> b = 0xA0) then 2
      else if (a = 0xE1 \<and> b = 0x9A \<and> c = 0x80)
        \<or> (a = 0xE2 \<and> b = 0x80 \<and> (0x80 \<le> c \<and> c \<le> 0x8A \<or> c = 0xA8 \<or> c = 0xA9 \<or> c = 0xAF))
        \<or> (a = 0xE2 \<and> b = 0x81 \<and> c = 0x9F) \<or> (a = 0xE3 \<and> b = 0x80 \<and> c = 0x80) then 3
      else 0)"
| "space_front [a, b] =
     (if a \<in> {9, 10, 11, 12, 13, 32} then 1
      else if a = 0xC2 \<and> (b = 0x85 \<or> b = 0xA0) then 2 else 0)"
| "space_front [a] = (if a \<in> {9, 10, 11, 12, 13, 32} then 1 else 0)"
| "space_front [] = 0"

fun space_back :: "nat list \<Rightarrow> nat" where
  "space_back (c # b # a # _) =
     (if c \<in> {9, 10, 11, 12, 13, 32} then 1
      else if b = 0xC2 \<and> (c = 0x85 \<or> c = 0xA0) then 2
      else if space_front [a, b, c] = 3 then 3 else 0)"
| "space_back [c, b] =
     (if c \<in> {9, 10, 11, 12, 13, 32} then 1
      else if b = 0xC2 \<and> (c = 0x85 \<or> c = 0xA0) then 2 else 0)"
| "space_back [c] = (if c \<in> {9, 10, 11, 12, 13, 32} then 1 else 0)"
| "space_back [] = 0"

function trim_by :: "(nat list \<Rightarrow> nat) \<Rightarrow> string \<Rightarrow> string" where
  "trim_by f s =
     (if s = [] \<or> f (map of_char s) = 0 then s else trim_by f (drop (f (map of_char s)) s))"
  by pat_completeness auto
termination
  by (relation "measure (\<lambda>(f, s). length s)") auto

declare trim_by.simps [simp del]

definition trim_space :: "string \<Rightarrow> string" where
  "trim_space s = rev (trim_by space_back (rev (trim_by space_front s)))"

text \<open>\<^verbatim>\<open>strings.Split\<close> by a one-byte separator.\<close>

fun split_on :: "char \<Rightarrow> string \<Rightarrow> string list" where
  "split_on c [] = [[]]"
| "split_on c (x # xs) =
     (if x = c then [] # split_on c xs
      else case split_on c xs of [] \<Rightarrow> [[x]] | y # ys \<Rightarrow> (x # y) # ys)"

lemma split_on_not_Nil [simp]: "split_on c s \<noteq> []"
  by (induction s) (auto split: list.splits)

text \<open>
  \<^verbatim>\<open>strings.ToUpper\<close> and \<^verbatim>\<open>strings.ToLower\<close>, as far as a comparison with an
  ASCII word can see them: the ASCII letters, and the non-ASCII characters whose other case is an
  ASCII letter. Any other non-ASCII character stays non-ASCII.
\<close>

definition upper_ascii :: "nat \<Rightarrow> nat" where
  "upper_ascii n = (if 97 \<le> n \<and> n \<le> 122 then n - 32 else n)"

definition lower_ascii :: "nat \<Rightarrow> nat" where
  "lower_ascii n = (if 65 \<le> n \<and> n \<le> 90 then n + 32 else n)"

fun to_upper_bytes :: "nat list \<Rightarrow> nat list" where
  "to_upper_bytes (a # b # r) =
     (if a = 0xC4 \<and> b = 0xB1 then 73 # to_upper_bytes r
      else if a = 0xC5 \<and> b = 0xBF then 83 # to_upper_bytes r
      else upper_ascii a # to_upper_bytes (b # r))"
| "to_upper_bytes [a] = [upper_ascii a]"
| "to_upper_bytes [] = []"

definition to_upper :: "string \<Rightarrow> string" where
  "to_upper s = map char_of (to_upper_bytes (map of_char s))"

fun to_lower_bytes :: "nat list \<Rightarrow> nat list" where
  "to_lower_bytes (a # b # c # r) =
     (if a = 0xC4 \<and> b = 0xB0 then 105 # to_lower_bytes (c # r)
      else if a = 0xE2 \<and> b = 0x84 \<and> c = 0xAA then 107 # to_lower_bytes r
      else lower_ascii a # to_lower_bytes (b # c # r))"
| "to_lower_bytes [a, b] =
     (if a = 0xC4 \<and> b = 0xB0 then [105] else [lower_ascii a, lower_ascii b])"
| "to_lower_bytes [a] = [lower_ascii a]"
| "to_lower_bytes [] = []"

definition to_lower :: "string \<Rightarrow> string" where
  "to_lower s = map char_of (to_lower_bytes (map of_char s))"

section \<open>Tables\<close>

text \<open>The rows of a table that satisfy a condition are changed, the others kept.\<close>

definition upd_where :: "('r \<Rightarrow> bool) \<Rightarrow> ('r \<Rightarrow> 'r) \<Rightarrow> 'r list \<Rightarrow> 'r list" where
  "upd_where p f rs = map (\<lambda>r. if p r then f r else r) rs"

definition count_where :: "('r \<Rightarrow> bool) \<Rightarrow> 'r list \<Rightarrow> nat" where
  "count_where p rs = length (filter p rs)"

text \<open>
  \<^verbatim>\<open>INSERT ... ON CONFLICT DO UPDATE\<close>: the row in conflict is updated, else the new row is
  appended.
\<close>

definition upsert :: "('r \<Rightarrow> bool) \<Rightarrow> ('r \<Rightarrow> 'r) \<Rightarrow> 'r \<Rightarrow> 'r list \<Rightarrow> 'r list" where
  "upsert p f r rs = (if \<exists>x\<in>set rs. p x then upd_where p f rs else rs @ [r])"

lemma length_upd_where [simp]: "length (upd_where p f rs) = length rs"
  by (simp add: upd_where_def)

lemma upd_where_Nil [simp]: "upd_where p f [] = []"
  by (simp add: upd_where_def)

lemma upd_where_Cons [simp]:
  "upd_where p f (r # rs) = (if p r then f r else r) # upd_where p f rs"
  by (simp add: upd_where_def)

lemma in_upd_where:
  "x \<in> set (upd_where p f rs) \<longleftrightarrow> (\<exists>r\<in>set rs. x = (if p r then f r else r))"
  by (auto simp: upd_where_def)

lemma map_upd_where: "(\<And>r. g (f r) = g r) \<Longrightarrow> map g (upd_where p f rs) = map g rs"
  by (simp add: upd_where_def)

lemma upd_where_none: "(\<And>r. r \<in> set rs \<Longrightarrow> \<not> p r) \<Longrightarrow> upd_where p f rs = rs"
  by (simp add: upd_where_def map_idI)

lemma count_where_0: "count_where p rs = 0 \<longleftrightarrow> (\<forall>r\<in>set rs. \<not> p r)"
  by (auto simp: count_where_def filter_empty_conv)

lemma upd_where_count_0: "count_where p rs = 0 \<Longrightarrow> upd_where p f rs = rs"
  by (simp add: count_where_0 upd_where_none)

text \<open>The first row of a filtered projection.\<close>

lemma first_row:
  "(case concat (map (\<lambda>x. if p x then [f x] else []) xs) of [] \<Rightarrow> None | r # _ \<Rightarrow> Some r)
   = map_option f (find p xs)"
  by (induction xs) auto

lemma first_filter:
  "(case map f (filter p xs) of [] \<Rightarrow> None | r # _ \<Rightarrow> Some r) = map_option f (find p xs)"
  by (induction xs) auto

lemma find_upd_where_none:
  assumes "\<And>r. r \<in> set rs \<Longrightarrow> p r \<Longrightarrow> q r" "\<And>r. q r \<Longrightarrow> \<not> p (f r)"
  shows "find p (upd_where q f rs) = None"
  using assms by (induction rs) auto

text \<open>An upsert keeps a key unique, and a look-up finds the row it wrote or what was there.\<close>

lemma in_upsert:
  "x \<in> set (upsert p f r rs) \<Longrightarrow> x = r \<or> x \<in> set rs \<or> (\<exists>y\<in>set rs. p y \<and> x = f y)"
  by (auto simp: upsert_def in_upd_where split: if_splits)

lemma distinct_upsert:
  assumes "distinct (map k rs)" "\<And>x. k (f x) = k x" "\<And>x. p x \<longleftrightarrow> k x = k r"
  shows "distinct (map k (upsert p f r rs))"
  using assms by (auto simp: upsert_def map_upd_where)

lemma find_upsert_same:
  assumes "p r" "\<And>x. p x \<Longrightarrow> p (f x)"
  shows "find p (upsert p f r rs) = Some (case find p rs of None \<Rightarrow> r | Some x \<Rightarrow> f x)"
proof (induction rs)
  case Nil
  then show ?case using assms(1) by (simp add: upsert_def)
next
  case (Cons x rs)
  then show ?case using assms by (auto simp: upsert_def split: if_splits)
qed

lemma find_append_none: "\<not> q r \<Longrightarrow> find q (rs @ [r]) = find q rs"
  by (induction rs) auto

lemma find_upd_where_other:
  assumes "\<And>x. p x \<Longrightarrow> \<not> q x \<and> \<not> q (f x)"
  shows "find q (upd_where p f rs) = find q rs"
  by (induction rs) (use assms in auto)

lemma find_upsert_other:
  assumes "\<And>x. p x \<Longrightarrow> \<not> q x \<and> \<not> q (f x)" "\<not> q r"
  shows "find q (upsert p f r rs) = find q rs"
  using assms by (simp add: upsert_def find_upd_where_other find_append_none)

lemma find_upd_where_same:
  assumes "\<And>x. p x \<Longrightarrow> p (f x)"
  shows "find p (upd_where p f rs) = map_option f (find p rs)"
  by (induction rs) (use assms in auto)

lemma find_unique:
  "distinct (map k xs) \<Longrightarrow> x \<in> set xs \<Longrightarrow> find (\<lambda>y. k y = k x) xs = Some x"
  by (induction xs) force+

lemma find_upd_where_key:
  assumes "\<And>r. k (f r) = k r" "\<And>r. p r \<Longrightarrow> k r = a"
  shows "b \<noteq> a \<Longrightarrow> find (\<lambda>r. k r = b) (upd_where p f rs) = find (\<lambda>r. k r = b) rs"
  by (induction rs) (use assms in auto)

text \<open>
  \<^verbatim>\<open>%02d\<close>, and \<^verbatim>\<open>fmt.Sscanf(s, "%d", &n)\<close> with the error ignored: white space, an
  optional sign and at least one digit are read, and what follows is not looked at;
  \<^term>\<open>None\<close> when \<open>n\<close> is left as it was.
\<close>

definition dec02 :: "int \<Rightarrow> string" where
  "dec02 i = (if i < 0 then dec i else decpad 2 (nat i))"

definition scan_int :: "string \<Rightarrow> int option" where
  "scan_int s =
     (let t = dropWhile (\<lambda>c. of_char c \<in> {9 :: nat, 11, 12, 13, 32}) s;
          neg = (case t of [] \<Rightarrow> False | c # _ \<Rightarrow> c = CHR ''-'');
          u = (case t of [] \<Rightarrow> [] | c # cs \<Rightarrow> if c = CHR ''-'' \<or> c = CHR ''+'' then cs else t);
          ds = takeWhile is_digit u
      in if ds = [] then None
         else let v = (if neg then - int (numval ds) else int (numval ds))
              in if int64 v then Some v else None)"

end
