(* ===== verification/Float64.thy ===== *)
theory Float64
  imports Prelude "HOL-Library.Log_Nat"
begin

text \<open>
  Go's \<^verbatim>\<open>float64\<close>: the finite IEEE 754 binary64 numbers as rationals, and the
  rounding \<open>fl\<close> of an exact result to the nearest of them, ties to even, with gradual
  underflow below \<open>2^-1022\<close>. An operation of the program is the exact operation followed by
  \<open>fl\<close> (evaluation without fused multiply-add, as on amd64), and a decimal constant of the
  source is \<open>fl\<close> of its value. Overflow to infinity and NaN are outside the model: the
  operations that are proved about stay below their largest operand.

  The locale \<open>rounding\<close> is the interface the money and time computations rely on (monotone,
  exact on small multiples of powers of two, result such a multiple); its lemmas are what the
  components use, through the interpretation \<open>b64\<close> on \<open>fl\<close>.
\<close>

section \<open>The rounding function\<close>

type_synonym float64 = rat

definition rne :: "rat \<Rightarrow> int" where
  "rne q = (let f = \<lfloor>q\<rfloor>; d = q - of_int f
            in if d < 1 / 2 then f else if 1 / 2 < d then f + 1
               else if even f then f else f + 1)"

text \<open>The exponent of the leading bit of a positive number.\<close>

definition expo :: "rat \<Rightarrow> int" where
  "expo x = (if 1 \<le> x then int (floorlog 2 (nat \<lfloor>x\<rfloor>)) - 1
             else - int (floorlog 2 (nat (\<lceil>1 / x\<rceil> - 1))))"

definition ulp_exp :: "rat \<Rightarrow> int" where
  "ulp_exp x = max (expo \<bar>x\<bar> - 52) (- 1074)"

definition fl :: "rat \<Rightarrow> float64" where
  "fl x = (if x = 0 then 0
           else of_int (rne (x / 2 powi ulp_exp x)) * 2 powi ulp_exp x)"

lemma rne_bounds: "of_int (rne q) - 1 / 2 \<le> q \<and> q \<le> of_int (rne q) + 1 / 2"
  unfolding rne_def Let_def by (auto; linarith)

lemma rne_of_int [simp]: "rne (of_int n) = n"
  by (simp add: rne_def)

lemma rne_mono:
  assumes "p \<le> q"
  shows "rne p \<le> rne q"
proof (cases "\<lfloor>p\<rfloor> = \<lfloor>q\<rfloor>")
  case True
  with assms show ?thesis by (auto simp: rne_def Let_def)
next
  case False
  with assms have "\<lfloor>p\<rfloor> + 1 \<le> \<lfloor>q\<rfloor>" by (metis floor_mono order_le_less zless_imp_add1_zle)
  moreover have "rne p \<le> \<lfloor>p\<rfloor> + 1" "\<lfloor>q\<rfloor> \<le> rne q" by (auto simp: rne_def Let_def)
  ultimately show ?thesis by linarith
qed

lemma rne_uminus: "rne (- q) = - rne q"
proof (cases "q = of_int \<lfloor>q\<rfloor>")
  case True
  then have "rne q = \<lfloor>q\<rfloor>" "rne (- q) = - \<lfloor>q\<rfloor>"
    by (metis rne_of_int, metis of_int_minus rne_of_int)
  then show ?thesis by simp
next
  case False
  then have "\<lfloor>- q\<rfloor> = - \<lfloor>q\<rfloor> - 1"
    by (metis add_uminus_conv_diff ceiling_altdef ceiling_def minus_add_distrib minus_minus)
  then show ?thesis
    by (auto simp: rne_def Let_def)
qed

lemma of_nat_pow_le: "2 ^ j \<le> n \<Longrightarrow> (2 ^ j :: rat) \<le> of_nat n"
  using of_nat_mono [of "2 ^ j" n, where 'a = rat] by simp

lemma of_nat_less_pow: "n < 2 ^ k \<Longrightarrow> of_nat n + 1 \<le> (2 ^ k :: rat)"
  using of_nat_mono [of "Suc n" "2 ^ k", where 'a = rat] by simp

lemma expo_bounds:
  assumes "0 < x"
  shows "2 powi expo x \<le> x \<and> x < 2 powi (expo x + 1)"
proof (cases "1 \<le> x")
  case True
  define n where "n = nat \<lfloor>x\<rfloor>"
  define k where "k = floorlog 2 n"
  have n: "0 < n" and fl: "of_int \<lfloor>x\<rfloor> = (of_nat n :: rat)"
    using True by (auto simp: n_def)
  then have "2 ^ (k - 1) \<le> n" "n < 2 ^ k"
    using floorlog_bounds [of n 2] by (auto simp: k_def)
  moreover have k: "0 < k"
    using n by (simp add: k_def floorlog_eq_zero_iff flip: neq0_conv)
  ultimately have b: "(2 ^ (k - 1) :: rat) \<le> of_nat n" "(of_nat n :: rat) + 1 \<le> 2 ^ k"
    by (simp_all only: of_nat_pow_le of_nat_less_pow)
  have "of_nat n \<le> x" "x < of_nat n + 1"
    using fl by linarith+
  with b have "2 ^ (k - 1) \<le> x" "x < 2 ^ k" by linarith+
  moreover have "expo x = int (k - 1)" "expo x + 1 = int k"
    using True k by (auto simp: expo_def k_def n_def)
  ultimately show ?thesis by (simp only: power_int_of_nat)
next
  case False
  define y where "y = 1 / x"
  define n where "n = nat (\<lceil>y\<rceil> - 1)"
  define k where "k = floorlog 2 n"
  have y: "1 < y" using False assms by (simp add: y_def field_simps)
  then have c: "1 < \<lceil>y\<rceil>" by (simp add: less_ceiling_iff)
  then have n: "0 < n" and n_eq: "(of_nat n :: rat) = of_int \<lceil>y\<rceil> - 1"
    by (auto simp: n_def)
  then have "2 ^ (k - 1) \<le> n" "n < 2 ^ k"
    using floorlog_bounds [of n 2] by (auto simp: k_def)
  moreover have k: "0 < k"
    using n by (simp add: k_def floorlog_eq_zero_iff flip: neq0_conv)
  ultimately have b: "(2 ^ (k - 1) :: rat) \<le> of_nat n" "(of_nat n :: rat) + 1 \<le> 2 ^ k"
    by (simp_all only: of_nat_pow_le of_nat_less_pow)
  have "of_nat n < y" "y \<le> of_nat n + 1"
    using n_eq by (linarith+)
  with b have lo: "2 ^ (k - 1) < y" and hi: "y \<le> 2 ^ k" by linarith+
  have e: "expo x = - int k" using False by (simp add: expo_def k_def n_def y_def)
  have "1 / 2 ^ k \<le> x" using hi assms by (simp add: y_def field_simps)
  moreover have "x < 1 / 2 ^ (k - 1)" using lo assms by (simp add: y_def field_simps)
  moreover have "expo x + 1 = - int (k - 1)" using e k by simp
  ultimately show ?thesis
    by (simp only: e power_int_minus power_int_of_nat inverse_eq_divide)
qed

lemma powi_two_mono: "a \<le> b \<Longrightarrow> (2 powi a :: rat) \<le> 2 powi b"
  by (simp add: power_int_increasing)

lemma powi_two_less: "a < b \<Longrightarrow> (2 powi a :: rat) < 2 powi b"
  by (simp add: power_int_strict_increasing)

lemma powi_two_add: "(2 powi (a + b) :: rat) = 2 powi a * 2 powi b"
  by (simp add: power_int_add)

lemma powi_two_nonneg: "0 \<le> k \<Longrightarrow> (2 powi k :: rat) = of_int (2 ^ nat k)"
  by (simp add: power_int_def)

lemma expo_mono:
  assumes "0 < x" "x \<le> y"
  shows "expo x \<le> expo y"
proof (rule ccontr)
  assume "\<not> expo x \<le> expo y"
  then have "2 powi (expo y + 1) \<le> (2 powi expo x :: rat)" by (simp add: powi_two_mono)
  also have "\<dots> \<le> x" using expo_bounds assms by blast
  also have "\<dots> \<le> y" by fact
  also have "\<dots> < 2 powi (expo y + 1)" using expo_bounds [of y] assms by force
  finally show False by simp
qed

lemma ulp_exp_mono: "0 < x \<Longrightarrow> x \<le> y \<Longrightarrow> ulp_exp x \<le> ulp_exp y"
  using expo_mono [of x y] by (auto simp: ulp_exp_def)

lemma scaled_less: "0 < x \<Longrightarrow> x / 2 powi ulp_exp x < 2 ^ 53"
proof -
  assume x: "0 < x"
  have "x < 2 powi (expo x + 1)" using x expo_bounds by blast
  also have "\<dots> \<le> 2 powi (53 + ulp_exp x)"
    using x by (intro powi_two_mono) (simp add: ulp_exp_def)
  finally show ?thesis by (simp add: powi_two_add field_simps)
qed

lemma fl_0 [simp]: "fl 0 = 0"
  by (simp add: fl_def)

lemma fl_uminus: "fl (- x) = - fl x"
  by (simp add: fl_def ulp_exp_def rne_uminus)

lemma rne_nonneg: "0 \<le> q \<Longrightarrow> 0 \<le> rne q"
  using rne_mono [of 0 q] rne_of_int [of 0] by simp

lemma fl_nonneg: "0 \<le> x \<Longrightarrow> 0 \<le> fl x"
  by (auto simp: fl_def intro!: mult_nonneg_nonneg rne_nonneg)

lemma fl_mono_pos:
  assumes "0 < x" "x \<le> y"
  shows "fl x \<le> fl y"
proof (cases "ulp_exp x = ulp_exp y")
  case True
  have "x / 2 powi ulp_exp y \<le> y / 2 powi ulp_exp y"
    using assms by (simp add: divide_right_mono)
  then show ?thesis using assms True by (simp add: fl_def rne_mono)
next
  case False
  let ?a = "ulp_exp x" and ?b = "ulp_exp y"
  have lt: "?a < ?b" using False ulp_exp_mono [OF assms] by simp
  then have b: "?b = expo y - 52" using assms by (auto simp: ulp_exp_def max_def split: if_splits)
  have "rne (x / 2 powi ?a) \<le> 2 ^ 53"
    using rne_mono [of "x / 2 powi ?a" "of_int (2 ^ 53)"] scaled_less [OF assms(1)] rne_of_int
    by (metis less_imp_le of_int_numeral of_int_power)
  then have "of_int (rne (x / 2 powi ?a)) \<le> (2 ^ 53 :: rat)"
    by (metis of_int_le_iff of_int_numeral of_int_power)
  then have "fl x \<le> 2 ^ 53 * 2 powi ?a"
    using assms by (simp add: fl_def mult_right_mono)
  also have "\<dots> = 2 powi (53 + ?a)" by (simp add: powi_two_add)
  also have "\<dots> \<le> 2 powi (52 + ?b)" using lt by (intro powi_two_mono) simp
  also have "\<dots> = 2 ^ 52 * 2 powi ?b" by (simp add: powi_two_add)
  also have "\<dots> \<le> fl y"
  proof -
    have "2 powi (52 + ?b) \<le> y" using expo_bounds [of y] assms b by simp
    then have "of_int (2 ^ 52) \<le> y / 2 powi ?b" by (simp add: powi_two_add field_simps)
    then have "2 ^ 52 \<le> rne (y / 2 powi ?b)" using rne_mono rne_of_int by metis
    then have "(2 ^ 52 :: rat) \<le> of_int (rne (y / 2 powi ?b))"
      by (metis of_int_le_iff of_int_numeral of_int_power)
    then show ?thesis using assms by (simp add: fl_def mult_right_mono)
  qed
  finally show ?thesis .
qed

lemma fl_mono:
  assumes "x \<le> y"
  shows "fl x \<le> fl y"
proof -
  consider "0 < x" | "x \<le> 0" "0 \<le> y" | "y < 0" by linarith
  then show ?thesis
  proof cases
    case 1
    then show ?thesis using assms by (rule fl_mono_pos)
  next
    case 2
    then have "0 \<le> fl (- x)" "0 \<le> fl y" by (simp_all add: fl_nonneg)
    then show ?thesis by (simp add: fl_uminus)
  next
    case 3
    then have "fl (- y) \<le> fl (- x)" using assms by (intro fl_mono_pos) auto
    then show ?thesis by (simp add: fl_uminus)
  qed
qed

lemma fl_exact_pos:
  assumes "0 < m" "m \<le> 2 ^ 53" "- 1074 \<le> e"
  shows "fl (of_int m * 2 powi e) = of_int m * 2 powi e"
proof -
  let ?x = "of_int m * 2 powi e :: rat"
  let ?u = "ulp_exp ?x"
  have pos: "0 < ?x" using assms by simp
  have "of_int m \<le> (2 ^ 53 :: rat)"
    using assms(2) by (metis of_int_le_iff of_int_numeral of_int_power)
  then have le: "?x \<le> 2 powi (53 + e)" by (simp add: powi_two_add)
  have "\<exists>k :: int. ?x / 2 powi ?u = of_int k"
  proof (cases "?x = 2 powi (53 + e)")
    case True
    have "2 powi expo ?x \<le> ?x" using expo_bounds pos by blast
    then have "expo ?x \<le> 53 + e" using True powi_two_less [of "53 + e" "expo ?x"] by force
    then have "0 \<le> 53 + e - ?u" using pos assms(3) by (auto simp: ulp_exp_def)
    moreover have "?x / 2 powi ?u = 2 powi (53 + e - ?u)"
      using True by (simp add: power_int_diff)
    ultimately show ?thesis by (metis powi_two_nonneg)
  next
    case False
    then have lt: "?x < 2 powi (53 + e)" using le by simp
    have "2 powi expo ?x \<le> ?x" using expo_bounds pos by blast
    then have "expo ?x < 53 + e" using lt powi_two_mono [of "53 + e" "expo ?x"] by force
    then have "0 \<le> e - ?u" using pos assms(3) by (auto simp: ulp_exp_def)
    moreover have "?x / 2 powi ?u = of_int m * 2 powi (e - ?u)"
      by (simp add: power_int_diff)
    ultimately show ?thesis by (metis of_int_mult powi_two_nonneg)
  qed
  then obtain k where k: "?x / 2 powi ?u = of_int k" by blast
  then have "?x = of_int k * 2 powi ?u" by (simp add: field_simps)
  then show ?thesis using pos k by (simp add: fl_def)
qed

lemma fl_exact:
  assumes "\<bar>m\<bar> \<le> 2 ^ 53" "- 1074 \<le> e"
  shows "fl (of_int m * 2 powi e) = of_int m * 2 powi e"
proof -
  consider "0 < m" | "m = 0" | "m < 0" by linarith
  then show ?thesis
  proof cases
    case 1
    then show ?thesis using assms fl_exact_pos by simp
  next
    case 2
    then show ?thesis by simp
  next
    case 3
    then have "fl (of_int (- m) * 2 powi e) = of_int (- m) * 2 powi e"
      using assms by (intro fl_exact_pos) auto
    then show ?thesis using fl_uminus [of "of_int m * 2 powi e"] by simp
  qed
qed

lemma fl_repr: "\<exists>m e. fl x = of_int m * 2 powi e \<and> \<bar>m\<bar> \<le> 2 ^ 53 \<and> - 1074 \<le> e"
proof (cases "x = 0")
  case True
  then show ?thesis by (intro exI [of _ 0]) auto
next
  case False
  let ?q = "\<bar>x\<bar> / 2 powi ulp_exp x"
  have "?q < of_int (2 ^ 53)" using scaled_less [of "\<bar>x\<bar>"] False by (simp add: ulp_exp_def)
  then have "rne ?q \<le> 2 ^ 53" "0 \<le> rne ?q"
    using rne_mono [of ?q "of_int (2 ^ 53)"] rne_of_int by (metis less_imp_le, simp add: rne_nonneg)
  then have "\<bar>rne (x / 2 powi ulp_exp x)\<bar> \<le> 2 ^ 53"
    by (cases "0 \<le> x") (auto simp: rne_uminus abs_if)
  then show ?thesis using False
    by (intro exI [of _ "rne (x / 2 powi ulp_exp x)"] exI [of _ "ulp_exp x"])
      (simp add: fl_def, simp add: ulp_exp_def)
qed

section \<open>Representable numbers\<close>

definition is_f64 :: "rat \<Rightarrow> bool" where
  "is_f64 x \<longleftrightarrow> (\<exists>m e. x = of_int m * 2 powi e \<and> \<bar>m\<bar> \<le> 2 ^ 53 \<and> - 1074 \<le> e)"

lemma is_f64I: "\<bar>m\<bar> \<le> 2 ^ 53 \<Longrightarrow> - 1074 \<le> e \<Longrightarrow> is_f64 (of_int m * 2 powi e)"
  unfolding is_f64_def by blast

lemma f64_int: "\<bar>n\<bar> \<le> 2 ^ 53 \<Longrightarrow> is_f64 (of_int n)"
  using is_f64I [of n 0] by simp

lemma f64_nat: "n \<le> 2 ^ 53 \<Longrightarrow> is_f64 (of_nat n)"
  using f64_int [of "int n"] by simp

lemma f64_numeral [simp]: "numeral n \<le> (2 ^ 53 :: int) \<Longrightarrow> is_f64 (numeral n)"
  using f64_int [of "numeral n"] by simp

lemma f64_0 [simp]: "is_f64 0" and f64_1 [simp]: "is_f64 1"
  using f64_int [of 0] f64_int [of 1] by simp_all

text \<open>A number of 53 bits, shifted right by at most 1074 places.\<close>

lemma f64_shift: "\<bar>m\<bar> \<le> 2 ^ 53 \<Longrightarrow> k \<le> 1074 \<Longrightarrow> is_f64 (of_int m / 2 ^ k)"
  using is_f64I [of m "- int k"] by (simp add: power_int_minus divide_inverse)

lemma f64_div_pow2:
  assumes "is_f64 x" "2 powi (int k - 1021) \<le> \<bar>x\<bar>"
  shows "is_f64 (x / 2 ^ k)"
proof -
  obtain m e where x: "x = of_int m * 2 powi e" "\<bar>m\<bar> \<le> 2 ^ 53"
    using assms(1) by (auto simp: is_f64_def)
  have "- 1074 \<le> e - int k"
  proof (rule ccontr)
    assume "\<not> ?thesis"
    then have e: "2 powi e \<le> (2 powi (int k - 1075) :: rat)" by (intro powi_two_mono) simp
    have "of_int \<bar>m\<bar> \<le> (2 ^ 53 :: rat)"
      using x(2) by (metis of_int_le_iff of_int_numeral of_int_power)
    then have "\<bar>x\<bar> \<le> 2 ^ 53 * 2 powi (int k - 1075)"
      using e by (auto simp: x(1) abs_mult intro!: mult_mono)
    also have "\<dots> = 2 powi (53 + (int k - 1075))" by (simp only: powi_two_add) simp
    also have "\<dots> < 2 powi (int k - 1021)" by (intro powi_two_less) simp
    finally show False using assms(2) by simp
  qed
  then have "is_f64 (of_int m * 2 powi (e - int k))" using x(2) by (intro is_f64I)
  then show ?thesis by (simp add: x(1) power_int_diff)
qed

text \<open>Sterbenz: the difference of two numbers within a factor of two is exact.\<close>

lemma f64_sterbenz:
  assumes "is_f64 x" "is_f64 y" "0 \<le> y" "y \<le> x" "x \<le> 2 * y"
  shows "is_f64 (x - y)"
proof -
  obtain m d where x: "x = of_int m * 2 powi d" "\<bar>m\<bar> \<le> 2 ^ 53" "- 1074 \<le> d"
    using assms(1) by (auto simp: is_f64_def)
  obtain n e where y: "y = of_int n * 2 powi e" "\<bar>n\<bar> \<le> 2 ^ 53" "- 1074 \<le> e"
    using assms(2) by (auto simp: is_f64_def)
  define c where "c = min d e"
  have dc: "(2 powi d :: rat) = of_int (2 ^ nat (d - c)) * 2 powi c"
    and ec: "(2 powi e :: rat) = of_int (2 ^ nat (e - c)) * 2 powi c"
    using powi_two_add [of "d - c" c] powi_two_add [of "e - c" c]
    by (simp_all add: powi_two_nonneg c_def)
  define k where "k = m * 2 ^ nat (d - c) - n * 2 ^ nat (e - c)"
  have k: "x - y = of_int k * 2 powi c"
    by (simp add: k_def x(1) y(1) dc ec algebra_simps)
  have bound: "of_int k * 2 powi c \<le> (2 ^ 53 :: rat) * 2 powi c"
  proof (cases "d \<le> e")
    case True
    then have "c = d" by (simp add: c_def)
    then have "x \<le> 2 ^ 53 * 2 powi c"
      using x(2) by (auto simp: x(1) intro!: mult_right_mono)
    then show ?thesis using assms k by linarith
  next
    case False
    then have "c = e" by (simp add: c_def)
    then have "y \<le> 2 ^ 53 * 2 powi c"
      using y(2) by (auto simp: y(1) intro!: mult_right_mono)
    then show ?thesis using assms k by linarith
  qed
  then have "(of_int k :: rat) \<le> 2 ^ 53" by simp
  then have "k \<le> 2 ^ 53" by (metis of_int_le_iff of_int_numeral of_int_power)
  moreover have "0 \<le> of_int k * (2 powi c :: rat)" using assms k by simp
  then have "0 \<le> k" by (auto simp: zero_le_mult_iff dest: leD)
  ultimately show ?thesis unfolding k by (intro is_f64I) (auto simp: c_def x y)
qed

section \<open>The interface: a correctly rounding arithmetic\<close>

locale rounding =
  fixes rnd :: "rat \<Rightarrow> rat"
  assumes mono: "x \<le> y \<Longrightarrow> rnd x \<le> rnd y"
    and exact: "is_f64 x \<Longrightarrow> rnd x = x"
    and repr: "is_f64 (rnd x)"
begin

lemma le_bound: "x \<le> b \<Longrightarrow> is_f64 b \<Longrightarrow> rnd x \<le> b"
  using mono [of x b] by (simp add: exact)

lemma ge_bound: "b \<le> x \<Longrightarrow> is_f64 b \<Longrightarrow> b \<le> rnd x"
  using mono [of b x] by (simp add: exact)

lemma nonneg: "0 \<le> x \<Longrightarrow> 0 \<le> rnd x"
  using ge_bound [of 0 x] by simp

lemma between:
  "a \<le> x \<Longrightarrow> x \<le> b \<Longrightarrow> is_f64 a \<Longrightarrow> is_f64 b \<Longrightarrow> a \<le> rnd x \<and> rnd x \<le> b"
  by (simp add: le_bound ge_bound)

lemma idem [simp]: "rnd (rnd x) = rnd x"
  by (simp add: exact repr)

lemma zero [simp]: "rnd 0 = 0"
  by (simp add: exact)

lemma of_int: "\<bar>n\<bar> \<le> 2 ^ 53 \<Longrightarrow> rnd (of_int n) = of_int n"
  by (simp add: exact f64_int)

text \<open>
  A part between half of a total and the total, and what is left of it, add up to the total
  exactly.
\<close>

lemma split_total:
  assumes "is_f64 b" "b / 2 \<le> y" "y \<le> b" "is_f64 y" "0 \<le> b"
  shows "rnd (b - y) = b - y \<and> rnd (y + rnd (b - y)) = b"
proof -
  have "is_f64 (b - y)" using assms by (intro f64_sterbenz) auto
  then show ?thesis using assms(1) by (simp add: exact)
qed

text \<open>Adding one to a small whole number is exact: a float64 used as a counter counts.\<close>

lemma count_up: "n < 2 ^ 53 \<Longrightarrow> rnd (of_nat n + 1) = of_nat (Suc n)"
  using of_int [of "int (Suc n)"] by (simp add: add.commute)

end

lemma fl_is_f64: "is_f64 (fl x)"
  using fl_repr [of x] by (simp add: is_f64_def)

lemma fl_f64: "is_f64 x \<Longrightarrow> fl x = x"
  by (auto simp: is_f64_def fl_exact)

interpretation b64: rounding fl
  by unfold_locales (simp_all add: fl_mono fl_f64 fl_is_f64)

lemmas fl_rules = b64.le_bound b64.ge_bound b64.nonneg b64.exact b64.repr

section \<open>Operations and constants\<close>

text \<open>The operations of Go on \<^verbatim>\<open>float64\<close> operands; division only by non-zero numbers.\<close>

definition fadd :: "float64 \<Rightarrow> float64 \<Rightarrow> float64" where "fadd x y = fl (x + y)"
definition fsub :: "float64 \<Rightarrow> float64 \<Rightarrow> float64" where "fsub x y = fl (x - y)"
definition fmul :: "float64 \<Rightarrow> float64 \<Rightarrow> float64" where "fmul x y = fl (x * y)"
definition fdiv :: "float64 \<Rightarrow> float64 \<Rightarrow> float64" where "fdiv x y = fl (x / y)"

text \<open>\<^verbatim>\<open>float64(n)\<close> of an integer and \<^verbatim>\<open>int(x)\<close>, which drops the fraction.\<close>

definition f_of_int :: "int \<Rightarrow> float64" where "f_of_int n = fl (of_int n)"

definition int_of_f :: "float64 \<Rightarrow> int" where
  "int_of_f x = (if 0 \<le> x then \<lfloor>x\<rfloor> else \<lceil>x\<rceil>)"

lemma f_of_int_exact: "\<bar>n\<bar> \<le> 2 ^ 53 \<Longrightarrow> f_of_int n = of_int n"
  by (simp add: f_of_int_def b64.of_int)

lemma fl_two_fifths: "fl (2 / 5) = 3602879701896397 / 9007199254740992"
  by code_simp

text \<open>\<^verbatim>\<open>%.kf\<close>: the nearest decimal with \<open>k\<close> places, ties to even.\<close>

definition show_fixed :: "nat \<Rightarrow> float64 \<Rightarrow> string" where
  "show_fixed k x =
     (let n = nat \<bar>rne (x * 10 ^ k)\<bar>
      in (if x < 0 then ''-'' else '''') @ decn (n div 10 ^ k)
         @ (if k = 0 then '''' else CHR ''.'' # decpad k (n mod 10 ^ k)))"

end
