(* ===== verification/Db.thy ===== *)
theory Db
  imports Prelude "HOL-Library.State_Monad"
begin

text \<open>
  The connection to PostgreSQL as the handlers see it. A handler is a computation in the state
  monad over a connection record that the schema extends with the tables. Every statement goes
  through \<open>stmt\<close>: it may fail for a reason outside the model (the list \<open>outcomes\<close>, one entry
  per statement, with an empty list meaning that all succeed), it fails where the server refuses
  it (the statement's function gives \<^term>\<open>None\<close>), and otherwise it yields a result and new
  tables. A result \<^term>\<open>None\<close> is the error value of pgx; each handler decides, as in the
  code, whether it looks at it.

  \<open>wp\<close> and \<open>keeps\<close> are the proof rules for such computations: what holds after a run, and
  which state predicates a run preserves whatever fails.
\<close>

section \<open>The connection\<close>

text \<open>
  \<open>db_nil\<close>: the pool is nil (the service started without a database); \<open>ids\<close> and \<open>issued\<close>:
  the server's supply of UUIDs; \<open>sequence\<close>: the next value of the sequence of employee
  numbers; \<open>now\<close>: the clock in nanoseconds since 1970, one reading per
  request; \<open>uuid_in\<close>: the server's conversion of text to a UUID, \<^term>\<open>None\<close> when it is
  not one; \<open>date_in\<close>: the same to a date; \<open>to_num k\<close>: the value a \<^verbatim>\<open>NUMERIC\<close> column with \<open>k\<close> decimals stores for a
  \<^verbatim>\<open>float64\<close>, \<^term>\<open>None\<close> when it does not fit;
  \<open>ilike s p\<close>: whether the server finds \<open>s\<close> to match the pattern \<open>p\<close>; \<open>err_text\<close>: what
  \<^verbatim>\<open>err.Error()\<close> says of a failed statement.
\<close>

record conn =
  db_nil :: bool
  outcomes :: "bool list"
  ids :: "nat \<Rightarrow> string"
  issued :: nat
  sequence :: int
  now :: int
  uuid_in :: "string \<Rightarrow> string option"
  date_in :: "string \<Rightarrow> int option"
  to_num :: "nat \<Rightarrow> rat \<Rightarrow> rat option"
  ilike :: "string \<Rightarrow> string \<Rightarrow> bool"
  err_text :: string

definition next_ok :: "'t conn_scheme \<Rightarrow> bool" where
  "next_ok w = (case outcomes w of [] \<Rightarrow> True | b # _ \<Rightarrow> b)"

abbreviation popped :: "'t conn_scheme \<Rightarrow> 't conn_scheme" where
  "popped w \<equiv> w\<lparr>outcomes := tl (outcomes w)\<rparr>"

definition stmt ::
  "('t conn_scheme \<Rightarrow> ('a \<times> 't conn_scheme) option) \<Rightarrow> ('t conn_scheme, 'a option) state" where
  "stmt f = State (\<lambda>w.
     if next_ok w
     then (case f (popped w) of None \<Rightarrow> (None, popped w) | Some (a, w') \<Rightarrow> (Some a, w'))
     else (None, popped w))"

text \<open>\<^verbatim>\<open>Query\<close> and the loop over its rows; the function gives the rows.\<close>

definition query :: "('t conn_scheme \<Rightarrow> 'a option) \<Rightarrow> ('t conn_scheme, 'a option) state" where
  "query f = stmt (\<lambda>w. map_option (\<lambda>a. (a, w)) (f w))"

definition select :: "('t conn_scheme \<Rightarrow> 'a) \<Rightarrow> ('t conn_scheme, 'a option) state" where
  "select f = query (\<lambda>w. Some (f w))"

text \<open>
  The rows of a query with casts or an offset. An error that the server raises while it runs the
  query reaches the code only after the last row, where no handler looks, so that the loop over the
  rows ends at once; \<^verbatim>\<open>Query\<close> itself fails when the statement cannot be sent or prepared.
\<close>

definition query_rows ::
  "('t conn_scheme \<Rightarrow> 'r list option) \<Rightarrow> ('t conn_scheme, 'r list option) state" where
  "query_rows f = select (\<lambda>w. case f w of None \<Rightarrow> [] | Some rs \<Rightarrow> rs)"

text \<open>
  A loop that keeps the rows that scan and passes over an error: pgx closes the rows on an error of
  \<^verbatim>\<open>Scan\<close>, so that the rows after it are not read either.
\<close>

definition scan_rows :: "('r \<Rightarrow> 'v option) \<Rightarrow> 'r list \<Rightarrow> 'v list" where
  "scan_rows f rs = List.map_filter f (takeWhile (\<lambda>r. f r \<noteq> None) rs)"

text \<open>
  A loop that does not look at the error of \<^verbatim>\<open>Scan\<close>: the row that does not scan is kept with
  the columns before the failing one (\<^term>\<open>Inl\<close>), and is the last.
\<close>

fun scan_through :: "('r \<Rightarrow> 'v + 'v) \<Rightarrow> 'r list \<Rightarrow> 'v list" where
  "scan_through f [] = []"
| "scan_through f (r # rs) =
     (case f r of Inl v \<Rightarrow> [v] | Inr v \<Rightarrow> v # scan_through f rs)"

text \<open>\<^verbatim>\<open>QueryRow(...).Scan(...)\<close>: the first row, an error when there is none.\<close>

definition query_row ::
  "('t conn_scheme \<Rightarrow> 'a list option) \<Rightarrow> ('t conn_scheme, 'a option) state" where
  "query_row f = query (\<lambda>w. case f w of Some (r # _) \<Rightarrow> Some r | _ \<Rightarrow> None)"

definition select_row ::
  "('t conn_scheme \<Rightarrow> 'a list) \<Rightarrow> ('t conn_scheme, 'a option) state" where
  "select_row f = query_row (\<lambda>w. Some (f w))"

text \<open>\<^verbatim>\<open>Exec\<close>; the result is the number of rows affected.\<close>

definition exec ::
  "('t conn_scheme \<Rightarrow> (nat \<times> 't conn_scheme) option) \<Rightarrow> ('t conn_scheme, nat option) state" where
  "exec f = stmt f"

text \<open>An \<^verbatim>\<open>INSERT\<close> of a row that takes the next UUID of the server, returning it.\<close>

definition insert_row ::
  "(string \<Rightarrow> 't conn_scheme \<Rightarrow> 't conn_scheme option) \<Rightarrow> ('t conn_scheme, string option) state"
  where
  "insert_row f = stmt (\<lambda>w. map_option (\<lambda>w'. (ids w (issued w), w'\<lparr>issued := issued w + 1\<rparr>))
                     (f (ids w (issued w)) w))"

text \<open>A statement on a table or column that no migration creates: always an error.\<close>

definition no_such_column :: "('t conn_scheme, 'a option) state" where
  "no_such_column = stmt (\<lambda>_. None)"

definition reads :: "('w \<Rightarrow> 'a) \<Rightarrow> ('w, 'a) state" where
  "reads f = State (\<lambda>w. (f w, w))"

text \<open>
  The early return of a handler on an error: \<open>orelse m r k\<close> runs \<open>m\<close>, answers \<open>r\<close> when it gave
  \<^term>\<open>None\<close> and goes on with \<open>k\<close> otherwise.
\<close>

definition orelse :: "('w, 'a option) state \<Rightarrow> 'b \<Rightarrow> ('a \<Rightarrow> ('w, 'b) state) \<Rightarrow> ('w, 'b) state"
  where
  "orelse m r k = State_Monad.bind m
     (\<lambda>x. case x of None \<Rightarrow> State_Monad.return r | Some a \<Rightarrow> k a)"

text \<open>A count whose error is ignored: the variable keeps its zero.\<close>

definition or_zero :: "('w, int option) state \<Rightarrow> ('w, int) state" where
  "or_zero m = State_Monad.bind m
     (\<lambda>x. State_Monad.return (case x of None \<Rightarrow> 0 | Some n \<Rightarrow> n))"

primrec foreach :: "('a \<Rightarrow> ('w, unit) state) \<Rightarrow> 'a list \<Rightarrow> ('w, unit) state" where
  "foreach f [] = State_Monad.return ()"
| "foreach f (x # xs) = State_Monad.bind (f x) (\<lambda>_. foreach f xs)"

text \<open>A loop that accumulates: \<open>f\<close> gets the element and the accumulated value.\<close>

primrec fold_loop :: "('a \<Rightarrow> 'b \<Rightarrow> ('w, 'b) state) \<Rightarrow> 'a list \<Rightarrow> 'b \<Rightarrow> ('w, 'b) state" where
  "fold_loop f [] b = State_Monad.return b"
| "fold_loop f (x # xs) b = State_Monad.bind (f x b) (fold_loop f xs)"

section \<open>What holds after a run\<close>

definition wp :: "('w, 'a) state \<Rightarrow> ('a \<Rightarrow> 'w \<Rightarrow> bool) \<Rightarrow> 'w \<Rightarrow> bool" where
  "wp m Q w = (case run_state m w of (a, w') \<Rightarrow> Q a w')"

lemma wp_return [simp]: "wp (State_Monad.return a) Q w = Q a w"
  by (simp add: wp_def State_Monad.return_def)

lemma wp_bind [simp]: "wp (State_Monad.bind m k) Q w = wp m (\<lambda>a. wp (k a) Q) w"
  by (simp add: wp_def State_Monad.bind_def split: prod.splits)

lemma wp_return_eta [simp]: "wp (State_Monad.return a) Q = Q a"
  by (rule ext) simp

lemma wp_bind_eta [simp]: "wp (State_Monad.bind m k) Q = wp m (\<lambda>a. wp (k a) Q)"
  by (rule ext) simp

lemma wp_reads [simp]: "wp (reads f) Q w = Q (f w) w"
  by (simp add: wp_def reads_def)

lemma wp_orelse [simp]:
  "wp (orelse m r k) Q w =
   wp m (\<lambda>x. case x of None \<Rightarrow> Q r | Some a \<Rightarrow> wp (k a) Q) w"
  unfolding orelse_def wp_bind by (rule arg_cong2 [where f = "\<lambda>P. wp m P"])
    (auto intro!: ext split: option.splits)

lemma wp_stmt:
  "wp (stmt f) Q w =
   (if next_ok w
    then (case f (popped w) of None \<Rightarrow> Q None (popped w) | Some (a, w') \<Rightarrow> Q (Some a) w')
    else Q None (popped w))"
  by (auto simp: wp_def stmt_def split: option.splits)

lemma wp_query:
  "wp (query f) Q w = Q (if next_ok w then f (popped w) else None) (popped w)"
  by (auto simp: query_def wp_stmt split: option.splits)

lemma wp_select [simp]:
  "wp (select f) Q w = Q (if next_ok w then Some (f (popped w)) else None) (popped w)"
  by (simp add: select_def wp_query)

lemma wp_query_rows [simp]:
  "wp (query_rows f) Q w =
   Q (if next_ok w then Some (case f (popped w) of None \<Rightarrow> [] | Some rs \<Rightarrow> rs) else None) (popped w)"
  by (simp add: query_rows_def)

lemma wp_query_row [simp]:
  "wp (query_row f) Q w =
   Q (if next_ok w then (case f (popped w) of Some (r # _) \<Rightarrow> Some r | _ \<Rightarrow> None) else None)
     (popped w)"
  by (auto simp: query_row_def wp_query)

lemma wp_select_row [simp]:
  "wp (select_row f) Q w =
   Q (if next_ok w then (case f (popped w) of r # _ \<Rightarrow> Some r | _ \<Rightarrow> None) else None)
     (popped w)"
  by (auto simp: select_row_def split: list.split)

lemma wp_exec:
  "wp (exec f) Q w =
   (if next_ok w
    then (case f (popped w) of None \<Rightarrow> Q None (popped w) | Some (a, w') \<Rightarrow> Q (Some a) w')
    else Q None (popped w))"
  by (simp add: exec_def wp_stmt)

lemma wp_any: "(\<And>a w'. Q a w') \<Longrightarrow> wp m Q w"
  by (auto simp: wp_def split: prod.splits)

lemma wp_True [simp]: "wp m (\<lambda>_ _. True) w"
  by (rule wp_any) simp

lemma wp_mono: "wp m P w \<Longrightarrow> (\<And>a w'. P a w' \<Longrightarrow> Q a w') \<Longrightarrow> wp m Q w"
  by (auto simp: wp_def split: prod.splits)

lemma wp_conj: "wp m (\<lambda>a w'. P a w' \<and> Q a w') w \<longleftrightarrow> wp m P w \<and> wp m Q w"
  by (auto simp: wp_def split: prod.splits)

lemma wp_run: "wp m Q w \<Longrightarrow> run_state m w = (a, w') \<Longrightarrow> Q a w'"
  by (simp add: wp_def)

lemma wp_snd: "wp m (\<lambda>_. P) w \<Longrightarrow> P (snd (run_state m w))"
  by (simp add: wp_def case_prod_unfold)

section \<open>What a run preserves\<close>

named_theorems keeps_rules \<open>rules for keeps\<close>

definition keeps :: "('w \<Rightarrow> bool) \<Rightarrow> ('w, 'a) state \<Rightarrow> bool" where
  "keeps I m \<longleftrightarrow> (\<forall>w. I w \<longrightarrow> wp m (\<lambda>_. I) w)"

lemma keepsI: "(\<And>w. I w \<Longrightarrow> wp m (\<lambda>_. I) w) \<Longrightarrow> keeps I m"
  by (simp add: keeps_def)

lemma keepsD: "keeps I m \<Longrightarrow> I w \<Longrightarrow> I (snd (run_state m w))"
  by (cases "run_state m w") (auto simp: keeps_def wp_def)

lemma keeps_run: "keeps I m \<Longrightarrow> I w \<Longrightarrow> run_state m w = (a, w') \<Longrightarrow> I w'"
  by (auto dest: keepsD)

lemma keeps_return [keeps_rules]: "keeps I (State_Monad.return a)"
  by (simp add: keeps_def)

lemma keeps_reads [keeps_rules]: "keeps I (reads f)"
  by (simp add: keeps_def)

lemma keeps_bind [keeps_rules]:
  "keeps I m \<Longrightarrow> (\<And>a. keeps I (k a)) \<Longrightarrow> keeps I (State_Monad.bind m k)"
  unfolding keeps_def wp_bind by (blast intro: wp_mono)

lemma keeps_orelse [keeps_rules]:
  "keeps I m \<Longrightarrow> (\<And>a. keeps I (k a)) \<Longrightarrow> keeps I (orelse m r k)"
  unfolding orelse_def
  by (intro keeps_bind) (auto split: option.splits intro: keeps_return)

lemma keeps_if [keeps_rules]:
  "(c \<Longrightarrow> keeps I m) \<Longrightarrow> (\<not> c \<Longrightarrow> keeps I n) \<Longrightarrow> keeps I (if c then m else n)"
  by simp

lemma keeps_option [keeps_rules]:
  "keeps I m \<Longrightarrow> (\<And>a. keeps I (k a)) \<Longrightarrow>
   keeps I (case x of None \<Rightarrow> m | Some a \<Rightarrow> k a)"
  by (cases x) auto

lemma keeps_list [keeps_rules]:
  "keeps I m \<Longrightarrow> (\<And>a as. keeps I (k a as)) \<Longrightarrow>
   keeps I (case x of [] \<Rightarrow> m | a # as \<Rightarrow> k a as)"
  by (cases x) auto

lemma keeps_prod [keeps_rules]:
  "(\<And>a b. keeps I (k a b)) \<Longrightarrow> keeps I (case x of (a, b) \<Rightarrow> k a b)"
  by (cases x) auto

lemma keeps_let [keeps_rules]: "(\<And>a. keeps I (k a)) \<Longrightarrow> keeps I (Let x k)"
  by (simp add: Let_def)

lemma keeps_foreach [keeps_rules]:
  "(\<And>x. keeps I (f x)) \<Longrightarrow> keeps I (foreach f xs)"
  by (induction xs) (auto intro: keeps_return keeps_bind)

lemma keeps_fold_loop [keeps_rules]:
  "(\<And>x b. keeps I (f x b)) \<Longrightarrow> keeps I (fold_loop f xs b)"
  by (induction xs arbitrary: b) (auto intro: keeps_return keeps_bind)

text \<open>
  An invariant of the tables does not depend on the list of outcomes nor on the number of ids
  issued, so that only the statements that write need an argument.
\<close>

definition stable :: "('t conn_scheme \<Rightarrow> bool) \<Rightarrow> bool" where
  "stable I \<longleftrightarrow> (\<forall>w os. I (w\<lparr>outcomes := os\<rparr>) \<longleftrightarrow> I w)"

lemma stable_popped: "stable I \<Longrightarrow> I (popped w) \<longleftrightarrow> I w"
  by (simp add: stable_def)

lemma keeps_stmt:
  assumes "stable I" "\<And>w a w'. f w = Some (a, w') \<Longrightarrow> I w \<Longrightarrow> I w'"
  shows "keeps I (stmt f)"
  using assms
  by (auto simp: keeps_def wp_stmt stable_popped split: option.splits prod.splits)

lemma keeps_query [keeps_rules]: "stable I \<Longrightarrow> keeps I (query f)"
  by (auto simp: query_def intro!: keeps_stmt)

lemma keeps_select [keeps_rules]: "stable I \<Longrightarrow> keeps I (select f)"
  unfolding select_def by (rule keeps_query)

lemma keeps_query_rows [keeps_rules]: "stable I \<Longrightarrow> keeps I (query_rows f)"
  unfolding query_rows_def by (rule keeps_select)

lemma keeps_query_row [keeps_rules]: "stable I \<Longrightarrow> keeps I (query_row f)"
  unfolding query_row_def by (rule keeps_query)

lemma keeps_select_row [keeps_rules]: "stable I \<Longrightarrow> keeps I (select_row f)"
  unfolding select_row_def by (rule keeps_query_row)

text \<open>Where the continuation needs what the first row of a query says.\<close>

lemma keeps_select_row_bind:
  assumes "stable I" "\<And>w. I w \<Longrightarrow> wp (k None) (\<lambda>_. I) w"
    "\<And>w x xs. I w \<Longrightarrow> f w = x # xs \<Longrightarrow> wp (k (Some x)) (\<lambda>_. I) w"
  shows "keeps I (State_Monad.bind (select_row f) k)"
  using assms by (auto simp: keeps_def stable_popped split: list.split)

lemma keeps_select_row_orelse:
  assumes "stable I" "\<And>w x xs. I w \<Longrightarrow> f w = x # xs \<Longrightarrow> wp (k x) (\<lambda>_. I) w"
  shows "keeps I (orelse (select_row f) r k)"
  using assms by (auto simp: keeps_def stable_popped split: list.split)

lemma wp_insert_row:
  assumes "stable I" "I w"
    "\<And>v w'. I v \<Longrightarrow> f (ids v (issued v)) v = Some w' \<Longrightarrow>
       Q (Some (ids v (issued v))) (w'\<lparr>issued := issued v + 1\<rparr>)"
    "\<And>v. I v \<Longrightarrow> Q None v"
  shows "wp (insert_row f) Q w"
  using assms(3) [of "popped w"] assms(4) [of "popped w"] assms(1,2)
  by (auto simp: insert_row_def wp_stmt stable_popped split: option.split)

lemma keeps_insert_row_orelse:
  assumes "stable I"
    "\<And>v w'. I v \<Longrightarrow> f (ids v (issued v)) v = Some w' \<Longrightarrow>
       wp (k (ids v (issued v))) (\<lambda>_. I) (w'\<lparr>issued := issued v + 1\<rparr>)"
  shows "keeps I (orelse (insert_row f) r k)"
  unfolding keeps_def wp_orelse
proof (intro allI impI)
  fix w
  assume "I w"
  then show "wp (insert_row f) (\<lambda>x. case x of None \<Rightarrow> (\<lambda>w'. I w')
      | Some a \<Rightarrow> wp (k a) (\<lambda>_. I)) w"
    using assms by (intro wp_insert_row [where I = I]) auto
qed

lemma keeps_no_such_column [keeps_rules]: "stable I \<Longrightarrow> keeps I no_such_column"
  unfolding no_such_column_def by (rule keeps_stmt) auto

lemma keeps_exec:
  "stable I \<Longrightarrow> (\<And>w n w'. f w = Some (n, w') \<Longrightarrow> I w \<Longrightarrow> I w') \<Longrightarrow> keeps I (exec f)"
  unfolding exec_def by (rule keeps_stmt)

lemma keeps_insert_row:
  "stable I \<Longrightarrow> (\<And>w i w' n. f i w = Some w' \<Longrightarrow> I w \<Longrightarrow> I (w'\<lparr>issued := n\<rparr>)) \<Longrightarrow>
   keeps I (insert_row f)"
  unfolding insert_row_def by (rule keeps_stmt) auto

section \<open>From the same tables\<close>

text \<open>The same tables, whatever statements were spent.\<close>

definition same_tables :: "'t conn_scheme \<Rightarrow> 't conn_scheme \<Rightarrow> bool" where
  "same_tables w w' \<longleftrightarrow> (\<exists>os. w' = w\<lparr>outcomes := os\<rparr>)"

lemma same_tables_refl [simp]: "same_tables w w"
  unfolding same_tables_def by (rule exI [of _ "outcomes w"]) simp

lemma same_tables_stable [simp]: "stable (same_tables w)"
proof -
  have "same_tables w v" if s: "same_tables w (v\<lparr>outcomes := os\<rparr>)" for v os
  proof -
    obtain os' where "v\<lparr>outcomes := os\<rparr> = w\<lparr>outcomes := os'\<rparr>"
      using s unfolding same_tables_def by blast
    then have "v\<lparr>outcomes := os\<rparr>\<lparr>outcomes := outcomes v\<rparr> = w\<lparr>outcomes := os'\<rparr>\<lparr>outcomes := outcomes v\<rparr>"
      by simp
    then have "v = w\<lparr>outcomes := outcomes v\<rparr>" by simp
    then show ?thesis unfolding same_tables_def by blast
  qed
  moreover have "same_tables w (v\<lparr>outcomes := os\<rparr>)" if "same_tables w v" for v os
    using that by (auto simp: same_tables_def)
  ultimately show ?thesis unfolding stable_def by blast
qed

lemma same_tablesD:
  assumes "same_tables w w'"
  obtains os where "w' = w\<lparr>outcomes := os\<rparr>"
  using assms by (auto simp: same_tables_def)

lemma wp_select_row_same:
  assumes "same_tables w v" "f (popped v) = f w"
    "\<And>v'. same_tables w v' \<Longrightarrow> Q None v'"
    "\<And>v' x xs. same_tables w v' \<Longrightarrow> f w = x # xs \<Longrightarrow> Q (Some x) v'"
  shows "wp (select_row f) Q v"
proof -
  have "same_tables w (popped v)" using assms(1) by (simp add: stable_popped)
  then show ?thesis using assms(2-4) by (auto split: list.split)
qed

lemma wp_same:
  assumes "keeps (same_tables w) m" "same_tables w v"
    "\<And>a v'. same_tables w v' \<Longrightarrow> Q a v'"
  shows "wp m Q v"
  by (rule wp_mono [of m "\<lambda>_. same_tables w"]) (use assms in \<open>auto simp: keeps_def\<close>)

lemma wp_insert_row_same:
  assumes "same_tables w v" "\<And>v'. same_tables w v' \<Longrightarrow> Q None v'"
    "\<And>os w'. f (ids w (issued w)) (w\<lparr>outcomes := os\<rparr>) = Some w' \<Longrightarrow>
       Q (Some (ids w (issued w))) (w'\<lparr>issued := issued w + 1\<rparr>)"
  shows "wp (insert_row f) Q v"
proof -
  obtain os where "v = w\<lparr>outcomes := os\<rparr>" using assms(1) by (rule same_tablesD)
  moreover have "same_tables w (popped v)" using assms(1) by (simp add: stable_popped)
  ultimately show ?thesis
    using assms(2,3) by (auto simp: insert_row_def wp_stmt split: option.split)
qed

lemma wp_no_such_same:
  assumes "same_tables w v" "\<And>v'. same_tables w v' \<Longrightarrow> Q None v'"
  shows "wp no_such_column Q v"
  using assms by (simp add: no_such_column_def wp_stmt stable_popped)

section \<open>Runs in which no statement fails for an outside reason\<close>

definition calm :: "'t conn_scheme \<Rightarrow> bool" where
  "calm w \<longleftrightarrow> outcomes w = []"

lemma run_reads [simp]: "run_state (reads f) w = (f w, w)"
  by (simp add: reads_def)

lemma run_return [simp]: "run_state (State_Monad.return a) w = (a, w)"
  by (simp add: State_Monad.return_def)

lemma run_bind: "run_state (State_Monad.bind m k) w =
    (case run_state m w of (a, w') \<Rightarrow> run_state (k a) w')"
  by (simp add: State_Monad.bind_def split: prod.splits)

lemma run_orelse: "run_state (orelse m r k) w =
    (case run_state m w of (None, w') \<Rightarrow> (r, w') | (Some a, w') \<Rightarrow> run_state (k a) w')"
  by (simp add: orelse_def run_bind split: prod.splits option.splits)

lemma popped_calm [simp]: "outcomes w = [] \<Longrightarrow> w\<lparr>outcomes := []\<rparr> = w"
  by (cases w) simp

lemma run_stmt_calm: "outcomes w = [] \<Longrightarrow>
    run_state (stmt f) w = (case f w of None \<Rightarrow> (None, w) | Some (a, w') \<Rightarrow> (Some a, w'))"
  by (simp add: stmt_def next_ok_def split: option.splits)

lemma run_query_calm: "outcomes w = [] \<Longrightarrow> run_state (query f) w = (f w, w)"
  by (simp add: query_def run_stmt_calm split: option.splits)

lemma run_select_calm: "outcomes w = [] \<Longrightarrow> run_state (select f) w = (Some (f w), w)"
  by (simp add: select_def run_query_calm)

lemma run_query_rows_calm: "outcomes w = [] \<Longrightarrow>
    run_state (query_rows f) w = (Some (case f w of None \<Rightarrow> [] | Some rs \<Rightarrow> rs), w)"
  by (simp add: query_rows_def run_select_calm)

lemma run_query_row_calm: "outcomes w = [] \<Longrightarrow>
    run_state (query_row f) w = (case f w of Some (r # _) \<Rightarrow> Some r | _ \<Rightarrow> None, w)"
  by (simp add: query_row_def run_query_calm)

lemma run_select_row_calm: "outcomes w = [] \<Longrightarrow>
    run_state (select_row f) w = (case f w of [] \<Rightarrow> None | r # _ \<Rightarrow> Some r, w)"
  by (simp add: select_row_def run_query_row_calm split: list.splits)

lemma run_exec_calm: "outcomes w = [] \<Longrightarrow>
    run_state (exec f) w = (case f w of None \<Rightarrow> (None, w) | Some (a, w') \<Rightarrow> (Some a, w'))"
  by (simp add: exec_def run_stmt_calm)

lemma run_insert_calm: "outcomes w = [] \<Longrightarrow>
    run_state (insert_row f) w =
      (case f (ids w (issued w)) w of None \<Rightarrow> (None, w)
       | Some w' \<Rightarrow> (Some (ids w (issued w)), w'\<lparr>issued := issued w + 1\<rparr>))"
  by (simp add: insert_row_def run_stmt_calm split: option.splits)

lemma run_no_such_calm: "outcomes w = [] \<Longrightarrow> run_state no_such_column w = (None, w)"
  by (simp add: no_such_column_def run_stmt_calm)

lemmas run_calm = run_bind run_orelse run_query_calm run_select_calm run_query_rows_calm run_query_row_calm
  run_select_row_calm run_exec_calm run_insert_calm run_no_such_calm

text \<open>With nothing failing, an invariant that says so need not be stable.\<close>

definition quiet :: "('t conn_scheme \<Rightarrow> bool) \<Rightarrow> bool" where
  "quiet I \<longleftrightarrow> (\<forall>w. I w \<longrightarrow> outcomes w = [])"

lemma quiet_stmt:
  assumes "quiet I" "\<And>w a w'. f w = Some (a, w') \<Longrightarrow> I w \<Longrightarrow> I w'"
  shows "keeps I (stmt f)"
  using assms by (auto simp: keeps_def wp_def quiet_def run_stmt_calm split: option.splits)

lemma quiet_query: "quiet I \<Longrightarrow> keeps I (query f)"
  unfolding query_def by (rule quiet_stmt) auto

lemma quiet_query_row: "quiet I \<Longrightarrow> keeps I (query_row f)"
  unfolding query_row_def by (rule quiet_query)

lemma quiet_exec:
  "quiet I \<Longrightarrow> (\<And>w n w'. f w = Some (n, w') \<Longrightarrow> I w \<Longrightarrow> I w') \<Longrightarrow> keeps I (exec f)"
  unfolding exec_def by (rule quiet_stmt)

lemma quiet_insert_row:
  "quiet I \<Longrightarrow> (\<And>w i w' n. f i w = Some w' \<Longrightarrow> I w \<Longrightarrow> I (w'\<lparr>issued := n\<rparr>)) \<Longrightarrow>
   keeps I (insert_row f)"
  unfolding insert_row_def by (rule quiet_stmt) auto

lemma run_fold_loop_append:
  "run_state (fold_loop f (xs @ ys) b) w =
   (case run_state (fold_loop f xs b) w of (c, w') \<Rightarrow> run_state (fold_loop f ys c) w')"
  by (induction xs arbitrary: b w) (simp_all add: run_bind split: prod.split)

section \<open>What a run does not see\<close>

text \<open>
  A run does not see a part of the state when it commutes with any change of that part. A change
  that leaves the connection alone gives the rules for statements, and the rules for the other
  constructs carry it over to whole handlers.
\<close>

definition blind :: "('w \<Rightarrow> 'w) \<Rightarrow> ('w, 'a) state \<Rightarrow> bool" where
  "blind f m \<longleftrightarrow> (\<forall>w. run_state m (f w) = apsnd f (run_state m w))"

lemma blind_return: "blind f (State_Monad.return a)"
  by (simp add: blind_def)

lemma blind_bind: "blind f m \<Longrightarrow> (\<And>a. blind f (k a)) \<Longrightarrow> blind f (State_Monad.bind m k)"
  by (simp add: blind_def run_bind apsnd_def map_prod_def split: prod.split)

lemma blind_orelse: "blind f m \<Longrightarrow> (\<And>a. blind f (k a)) \<Longrightarrow> blind f (orelse m r k)"
  unfolding orelse_def by (rule blind_bind) (auto intro: blind_return split: option.split)

lemma blind_reads: "(\<And>w. g (f w) = g w) \<Longrightarrow> blind f (reads g)"
  by (simp add: blind_def)

lemmas blind_rules = blind_return blind_bind blind_orelse blind_reads

locale unseen_part =
  fixes change :: "'t conn_scheme \<Rightarrow> 't conn_scheme"
  assumes same_outcomes: "outcomes (change w) = outcomes w"
    and commutes: "change (w\<lparr>outcomes := os\<rparr>) = (change w)\<lparr>outcomes := os\<rparr>"
begin

lemma blind_stmt:
  assumes "\<And>w. g (change w) = map_option (apsnd change) (g w)"
  shows "blind change (stmt g)"
  unfolding blind_def
proof
  fix w
  have "(change w)\<lparr>outcomes := tl (outcomes w)\<rparr> = change (popped w)" by (simp add: commutes)
  then show "run_state (stmt g) (change w) = apsnd change (run_state (stmt g) w)"
    by (simp add: stmt_def next_ok_def same_outcomes assms split: option.split prod.split)
qed

lemma blind_query: "(\<And>w. g (change w) = g w) \<Longrightarrow> blind change (query g)"
  unfolding query_def by (rule blind_stmt) (simp add: option.map_comp o_def)

lemma blind_query_row: "(\<And>w. g (change w) = g w) \<Longrightarrow> blind change (query_row g)"
  unfolding query_row_def by (rule blind_query) simp

lemma blind_exec:
  "(\<And>w. g (change w) = map_option (apsnd change) (g w)) \<Longrightarrow> blind change (exec g)"
  unfolding exec_def by (rule blind_stmt)

end

section \<open>Transactions\<close>

text \<open>
  A transaction runs on the state with a mark that says whether a statement of it has failed: the
  server refuses every later statement then, and turns the commit into a rollback. A query without
  rows counts as failed as well, which is the same to code that gives up on it. The body of the
  transaction either gives up with an answer (\<^term>\<open>Inl\<close>), which rolls back, or asks for the
  commit. A rollback restores the tables; the identifiers and sequence values taken stay taken.
\<close>

definition in_tx :: "('w, 'a option) state \<Rightarrow> (bool \<times> 'w, 'a option) state" where
  "in_tx m = State (\<lambda>(failed, w).
     if failed then (None, (True, w))
     else (case run_state m w of (r, w') \<Rightarrow> (r, (r = None, w'))))"

definition rolled_back :: "'t conn_scheme \<Rightarrow> 't conn_scheme \<Rightarrow> 't conn_scheme" where
  "rolled_back w0 w = w0\<lparr>outcomes := outcomes w, issued := issued w, sequence := sequence w\<rparr>"

definition transaction ::
  "'r \<Rightarrow> (bool \<times> 't conn_scheme, 'r + 'a) state \<Rightarrow> 'r \<Rightarrow> ('a \<Rightarrow> 'r) \<Rightarrow> ('t conn_scheme, 'r) state"
  where
  "transaction no_begin body no_commit k =
     orelse (exec (\<lambda>w. Some (0, w))) no_begin
       (\<lambda>_. State (\<lambda>w0.
          case run_state body (False, w0) of
            (Inl r, (failed, w)) \<Rightarrow> (r, rolled_back w0 w)
          | (Inr a, (failed, w)) \<Rightarrow>
              if failed then (no_commit, rolled_back w0 w)
              else (case run_state (exec (\<lambda>w. Some (0, w))) w of
                      (None, w') \<Rightarrow> (no_commit, rolled_back w0 w')
                    | (Some _, w') \<Rightarrow> (k a, w'))))"

text \<open>Nothing but identifiers and statements was used up.\<close>

definition untouched :: "'t conn_scheme \<Rightarrow> 't conn_scheme \<Rightarrow> bool" where
  "untouched w w' \<longleftrightarrow>
     w' = w\<lparr>outcomes := outcomes w', issued := issued w', sequence := sequence w'\<rparr>"

lemma untouched_refl [simp]: "untouched w w"
  unfolding untouched_def by (cases w) simp

lemma untouched_popped [simp]: "untouched w (popped w)"
  unfolding untouched_def by (cases w) simp

lemma untouched_trans: "untouched u v \<Longrightarrow> untouched v w \<Longrightarrow> untouched u w"
  unfolding untouched_def by (cases u; cases v; cases w) simp

lemma untouched_rolled_back: "untouched w0 (rolled_back w0 w)"
  by (simp add: untouched_def rolled_back_def)

text \<open>
  All or nothing: a transaction leaves the tables alone, or every statement and the commit succeeded
  and the tables are those of the body.
\<close>

lemma transaction_atomic:
  assumes "\<And>r w'. untouched w w' \<Longrightarrow> r \<in> {no_begin, no_commit} \<Longrightarrow> Q r w'"
    "\<And>r b v w'. run_state body (False, popped w) = (Inl r, (b, v)) \<Longrightarrow> untouched w w' \<Longrightarrow> Q r w'"
    "\<And>a v. run_state body (False, popped w) = (Inr a, (False, v)) \<Longrightarrow> Q (k a) (popped v)"
  shows "wp (transaction no_begin body no_commit k) Q w"
proof -
  have t: "untouched w (rolled_back (popped w) v)" for v
    using untouched_popped untouched_rolled_back by (rule untouched_trans)
  obtain x b v where r: "run_state body (False, popped w) = (x, (b, v))"
    by (cases "run_state body (False, popped w)") auto
  have c: "run_state (exec (\<lambda>w. Some (0, w))) v = (if next_ok v then Some 0 else None, popped v)"
    by (simp add: exec_def stmt_def)
  show ?thesis
    unfolding transaction_def wp_orelse wp_exec
    using assms t r c by (cases x; cases b) (auto simp: wp_def split: prod.splits)
qed

text \<open>What a statement did when no failure is marked after it.\<close>

lemma run_in_tx: "run_state (in_tx m) (False, w) = (case run_state m w of (r, w') \<Rightarrow> (r, (r = None, w')))"
  by (simp add: in_tx_def)

lemma run_in_tx_failed: "run_state (in_tx m) (True, w) = (None, (True, w))"
  by (simp add: in_tx_def)

text \<open>What the statements of a transaction preserve, the transaction preserves.\<close>

lemma keeps_in_tx [keeps_rules]: "keeps I m \<Longrightarrow> keeps (\<lambda>s. I (snd s)) (in_tx m)"
  by (auto simp: keeps_def wp_def in_tx_def split: prod.splits)

lemma keeps_transaction:
  assumes "\<And>w w'. untouched w w' \<Longrightarrow> I w \<Longrightarrow> I w'" "keeps (\<lambda>s. I (snd s)) body"
  shows "keeps I (transaction no_begin body no_commit k)"
proof (rule keepsI)
  fix w
  assume "I w"
  then have p: "I (popped w)" using assms(1) untouched_popped by blast
  show "wp (transaction no_begin body no_commit k) (\<lambda>_. I) w"
  proof (rule transaction_atomic)
    show "I w'" if "untouched w w'" for w' using assms(1) that \<open>I w\<close> by blast
    then show "I w'" if "untouched w w'" for w' using that .
    fix a v
    assume "run_state body (False, popped w) = (Inr a, (False, v))"
    then have "I v" using keeps_run [OF assms(2)] p by fastforce
    then show "I (popped v)" using assms(1) untouched_popped by blast
  qed
qed

end
