(* ===== verification/Dates.thy ===== *)
theory Dates
  imports Prelude
begin

text \<open>
  Calendar dates. A date is the number of days since 1 January 1970; a point in time is a number
  of nanoseconds since then, in UTC. \<open>civil\<close> gives the year, month and day of a date, \<open>days_of\<close>
  the date of a year, month and day, \<open>weekday\<close> what \<^verbatim>\<open>time.Weekday\<close> says (0 is Sunday), and
  \<open>parse_date\<close> is \<^verbatim>\<open>time.Parse("2006-01-02", s)\<close>.
\<close>

section \<open>The proleptic Gregorian calendar\<close>

definition days_of :: "int \<Rightarrow> int \<Rightarrow> int \<Rightarrow> int" where
  "days_of y m d =
     (let y' = (if m \<le> 2 then y - 1 else y);
          era = y' div 400; yoe = y' mod 400;
          mp = (m + 9) mod 12;
          doy = (153 * mp + 2) div 5 + d - 1;
          doe = yoe * 365 + yoe div 4 - yoe div 100 + doy
      in era * 146097 + doe - 719468)"

definition civil :: "int \<Rightarrow> int \<times> int \<times> int" where
  "civil n =
     (let z = n + 719468; era = z div 146097; doe = z mod 146097;
          yoe = (doe - doe div 1460 + doe div 36524 - doe div 146096) div 365;
          doy = doe - (365 * yoe + yoe div 4 - yoe div 100);
          mp = (5 * doy + 2) div 153;
          d = doy - (153 * mp + 2) div 5 + 1;
          m = (if mp < 10 then mp + 3 else mp - 9);
          y = yoe + era * 400
      in (if m \<le> 2 then y + 1 else y, m, d))"

definition year_of :: "int \<Rightarrow> int" where "year_of n = fst (civil n)"
definition month_of :: "int \<Rightarrow> int" where "month_of n = fst (snd (civil n))"
definition mday_of :: "int \<Rightarrow> int" where "mday_of n = snd (snd (civil n))"

definition weekday :: "int \<Rightarrow> int" where "weekday n = (n + 4) mod 7"

definition leap_year :: "int \<Rightarrow> bool" where
  "leap_year y \<longleftrightarrow> y mod 4 = 0 \<and> (y mod 100 \<noteq> 0 \<or> y mod 400 = 0)"

definition month_days :: "int \<Rightarrow> int \<Rightarrow> int" where
  "month_days y m =
     (if m = 2 then if leap_year y then 29 else 28
      else if m \<in> {4, 6, 9, 11} then 30 else 31)"

lemma weekday_bounds: "0 \<le> weekday n \<and> weekday n \<le> 6"
  by (simp add: weekday_def pos_mod_bound zle_diff1_eq [symmetric])

lemma month_days_bounds: "28 \<le> month_days y m \<and> month_days y m \<le> 31"
  by (simp add: month_days_def)

text \<open>
  The year, the month and the day of the date of a year, a month and a day are these again: the
  position \<open>yoe\<close> of the year in its cycle of 400 years is found from the day of the cycle.
\<close>

lemma div_eqI: "(b::int) * q \<le> a \<Longrightarrow> a < b * q + b \<Longrightarrow> a div b = q"
  by (rule int_div_pos_eq [of _ _ _ "a - b * q"]) auto

lemma year_of_era:
  fixes yoe doy :: int
  assumes "0 \<le> yoe" "yoe < 400" "0 \<le> doy" "doy \<le> 365"
    "doy = 365 \<Longrightarrow> yoe mod 4 = 3 \<and> (yoe mod 100 = 99 \<longrightarrow> yoe = 399)"
  defines "doe \<equiv> yoe * 365 + yoe div 4 - yoe div 100 + doy"
  shows "0 \<le> doe \<and> doe < 146097"
    "(doe - doe div 1460 + doe div 36524 - doe div 146096) div 365 = yoe"
proof -
  define c k q r where "c = yoe div 100" "k = yoe mod 100" "q = k div 4" "r = k mod 4"
  have y: "yoe = 100 * c + k" and k: "k = 4 * q + r" "0 \<le> r" "r \<le> 3" "0 \<le> q" "q \<le> 24" "0 \<le> c" "c \<le> 3"
    using assms(1,2) by (auto simp: c_k_q_r_def)
  have m100: "yoe mod 100 = k" by (simp add: c_k_q_r_def)
  have y4: "yoe div 4 = 25 * c + q"
    by (rule div_eqI; use y k in \<open>simp add: algebra_simps\<close>)
  have m4: "yoe mod 4 = r"
    using y k y4 by (simp add: minus_div_mult_eq_mod [symmetric])
  define rest where "rest = 1460 * q + 365 * r + q + doy"
  have d: "doe = 36524 * c + rest"
    unfolding doe_def y4 rest_def c_k_q_r_def(1)[symmetric] using y k by simp
  have late: "doy \<le> 364 \<or> doy = 365 \<and> r = 3 \<and> (q \<le> 23 \<or> c = 3)"
  proof (cases "doy = 365")
    case True
    have "c = 3" if "q = 24"
      using assms(5) [OF True] m4 m100 y k that by simp
    moreover have "r = 3" using assms(5) [OF True] m4 by simp
    ultimately show ?thesis using True k by linarith
  qed (use assms(4) in simp)
  then have rest: "0 \<le> rest" "rest \<le> 36523 \<or> rest = 36524 \<and> c = 3"
    using k assms(3,4) unfolding rest_def by linarith+
  show "0 \<le> doe \<and> doe < 146097" using d rest k by linarith
  have cent: "doe div 36524 - doe div 146096 = c"
  proof (cases "rest = 36524 \<and> c = 3")
    case True
    then show ?thesis using d by simp
  next
    case False
    then have "doe div 36524 = c" "doe div 146096 = 0"
      using d rest k by (auto intro!: div_eqI)
    then show ?thesis by simp
  qed
  have "doe div 1460 = 25 * c + q \<or> doe div 1460 = 25 * c + q + 1 \<and> 1 \<le> doy"
  proof (cases "365 * r + (24 * c + q) + doy < 1460")
    case True
    then have "doe div 1460 = 25 * c + q"
      using d k assms(3) unfolding rest_def by (intro div_eqI) (simp_all add: algebra_simps)
    then show ?thesis ..
  next
    case False
    then have "doe div 1460 = 25 * c + q + 1"
      using d k assms(4) unfolding rest_def by (intro div_eqI) (simp_all add: algebra_simps)
    then show ?thesis using False k by linarith
  qed
  moreover have "doy = 365 \<Longrightarrow> doe div 1460 = 25 * c + q + 1"
    using d k late unfolding rest_def by (intro div_eqI) (simp_all add: algebra_simps)
  ultimately have "365 * yoe \<le> doe - doe div 1460 + doe div 36524 - doe div 146096"
    "doe - doe div 1460 + doe div 36524 - doe div 146096 < 365 * yoe + 365"
    using d k y cent late assms(3) unfolding rest_def by linarith+
  then show "(doe - doe div 1460 + doe div 36524 - doe div 146096) div 365 = yoe"
    by (rule div_eqI)
qed

lemma leap_position:
  assumes "leap_year y"
  shows "(y - 1) mod 400 mod 4 = 3 \<and> ((y - 1) mod 400 mod 100 = 99 \<longrightarrow> (y - 1) mod 400 = 399)"
proof -
  define s where "s = y mod 400"
  have s: "0 \<le> s" "s < 400" "s mod 4 = 0" "s mod 100 \<noteq> 0 \<or> s = 0"
    using assms by (auto simp: s_def leap_year_def mod_mod_cancel)
  have p: "(y - 1) mod 400 = (s - 1) mod 400" by (simp add: s_def mod_simps)
  show ?thesis
  proof (cases "s = 0")
    case True
    then show ?thesis by (simp add: p)
  next
    case False
    then have e: "(y - 1) mod 400 = s - 1" using s p by simp
    have "(s - 1) mod 4 = (s mod 4 - 1) mod 4" "s mod 100 = ((s - 1) mod 100 + 1) mod 100"
      by (simp_all add: mod_simps)
    then show ?thesis using s False e by auto
  qed
qed

lemma month_fits:
  assumes "1 \<le> m" "m \<le> 12" "1 \<le> d" "d \<le> month_days y m"
  defines "mp \<equiv> (m + 9) mod 12" and "doy \<equiv> (153 * ((m + 9) mod 12) + 2) div 5 + d - 1"
  shows "0 \<le> doy" "doy \<le> 365" "doy = 365 \<Longrightarrow> m = 2 \<and> leap_year y"
    "(5 * doy + 2) div 153 = mp" "doy - (153 * mp + 2) div 5 + 1 = d"
    "(if mp < 10 then mp + 3 else mp - 9) = m"
proof -
  have m: "m = 1 \<or> m = 2 \<or> m = 3 \<or> m = 4 \<or> m = 5 \<or> m = 6 \<or> m = 7 \<or> m = 8 \<or> m = 9
      \<or> m = 10 \<or> m = 11 \<or> m = 12"
  proof (cases "m \<le> 6")
    case True
    then have "m = 1 \<or> m = 2 \<or> m = 3 \<or> m = 4 \<or> m = 5 \<or> m = 6" using assms(1) by linarith
    then show ?thesis by blast
  next
    case False
    then have "m = 7 \<or> m = 8 \<or> m = 9 \<or> m = 10 \<or> m = 11 \<or> m = 12" using assms(2) by linarith
    then show ?thesis by blast
  qed
  have "0 \<le> doy \<and> doy \<le> 365 \<and> (doy = 365 \<longrightarrow> m = 2 \<and> leap_year y)"
    using m assms(3,4) unfolding doy_def month_days_def by (elim disjE) (auto split: if_splits)
  then show "0 \<le> doy" "doy \<le> 365" "doy = 365 \<Longrightarrow> m = 2 \<and> leap_year y" by blast+
  have "153 * mp \<le> 5 * doy + 2 \<and> 5 * doy + 2 < 153 * mp + 153"
    using m assms(3,4) unfolding doy_def mp_def month_days_def
    by (elim disjE) (auto split: if_splits)
  then show "(5 * doy + 2) div 153 = mp" by (intro div_eqI) auto
  show "(if mp < 10 then mp + 3 else mp - 9) = m"
    using m unfolding mp_def by (elim disjE) simp_all
  show "doy - (153 * mp + 2) div 5 + 1 = d" by (simp add: doy_def mp_def)
qed

lemma civil_days_of:
  assumes "1 \<le> m" "m \<le> 12" "1 \<le> d" "d \<le> month_days y m"
  shows "civil (days_of y m d) = (y, m, d)"
proof -
  define y' where "y' = (if m \<le> 2 then y - 1 else y)"
  define mp where "mp = (m + 9) mod 12"
  define doy where "doy = (153 * mp + 2) div 5 + d - 1"
  define yoe where "yoe = y' mod 400"
  define doe where "doe = yoe * 365 + yoe div 4 - yoe div 100 + doy"
  note fits = month_fits [OF assms, folded mp_def, folded doy_def]
  have leap: "yoe mod 4 = 3 \<and> (yoe mod 100 = 99 \<longrightarrow> yoe = 399)" if "doy = 365"
    using leap_position [of y] fits(3) [OF that] by (simp add: yoe_def y'_def)
  have yoe: "0 \<le> yoe" "yoe < 400" by (simp_all add: yoe_def)
  have era: "0 \<le> doe \<and> doe < 146097"
    "(doe - doe div 1460 + doe div 36524 - doe div 146096) div 365 = yoe"
    unfolding doe_def by (rule year_of_era; use yoe fits(1,2) leap in blast)+
  have n: "days_of y m d + 719468 = y' div 400 * 146097 + doe"
    unfolding days_of_def Let_def y'_def [symmetric] mp_def [symmetric] doy_def [symmetric]
      yoe_def [symmetric] doe_def [symmetric] by simp
  have q: "(days_of y m d + 719468) div 146097 = y' div 400"
    "(days_of y m d + 719468) mod 146097 = doe"
    unfolding n using era(1) by simp_all
  have d: "doe - (365 * yoe + yoe div 4 - yoe div 100) = doy" by (simp add: doe_def)
  have y: "yoe + y' div 400 * 400 = y'" by (simp add: yoe_def)
  show ?thesis
    unfolding civil_def Let_def q
    unfolding era(2) d
    unfolding fits(4) fits(5) unfolding fits(6) y by (simp add: y'_def)
qed

section \<open>Points in time\<close>

definition nanos_per_day :: int where "nanos_per_day = 86400000000000"
definition nanos_per_minute :: int where "nanos_per_minute = 60000000000"
definition nanos_per_hour :: int where "nanos_per_hour = 3600000000000"

definition date_of :: "int \<Rightarrow> int" where "date_of t = t div nanos_per_day"

section \<open>Dates as text\<close>

text \<open>
  \<^verbatim>\<open>time.Parse\<close> with the layout \<^verbatim>\<open>2006-01-02\<close>: four digits, a dash, two digits, a dash,
  two digits and nothing else, with a month from 1 to 12 and a day of that month.
\<close>

definition parse_date :: "string \<Rightarrow> int option" where
  "parse_date s =
     (if length s = 10 \<and> s ! 4 = CHR ''-'' \<and> s ! 7 = CHR ''-''
         \<and> list_all is_digit (take 4 s @ take 2 (drop 5 s) @ drop 8 s)
      then let y = int (numval (take 4 s)); m = int (numval (take 2 (drop 5 s)));
               d = int (numval (drop 8 s))
           in if 1 \<le> m \<and> m \<le> 12 \<and> 1 \<le> d \<and> d \<le> month_days y m then Some (days_of y m d)
              else None
      else None)"

text \<open>\<^verbatim>\<open>Format("2006-01-02")\<close> and \<^verbatim>\<open>to_char(date, 'YYYY-MM-DD')\<close>.\<close>

definition show_date :: "int \<Rightarrow> string" where
  "show_date n =
     decpad 4 (nat (year_of n)) @ ''-'' @ decpad 2 (nat (month_of n)) @ ''-''
       @ decpad 2 (nat (mday_of n))"

text \<open>
  \<^verbatim>\<open>Format("2006-01-02 15:04:05")\<close> and \<^verbatim>\<open>to_char(t, 'YYYY-MM-DD HH24:MI:SS')\<close>,
  both in UTC.
\<close>

definition seconds_of_day :: "int \<Rightarrow> int" where
  "seconds_of_day t = (t mod nanos_per_day) div 1000000000"

definition show_clock :: "int \<Rightarrow> string" where
  "show_clock t =
     (let s = seconds_of_day t
      in decpad 2 (nat (s div 3600)) @ '':'' @ decpad 2 (nat (s div 60 mod 60)) @ '':''
           @ decpad 2 (nat (s mod 60)))"

definition show_time :: "int \<Rightarrow> string" where
  "show_time t = show_date (date_of t) @ '' '' @ show_clock t"

end
