(* ===== verification/Schema.thy ===== *)
theory Schema
  imports Db Dates
begin

text \<open>
  The tables of \<^verbatim>\<open>backend/migrations\<close> that the modelled handlers touch, one record per row
  with the columns they use, in the order of a sequential scan. Timestamps are nanoseconds since
  1970, dates are day numbers, \<^verbatim>\<open>NUMERIC\<close> values are rationals, and a column that a handler
  tests or writes as NULL is an option. Uniqueness, NOT NULL and UUID casts are the model's where a
  statement depends on them; other constraints (lengths, foreign keys) show only as a statement
  that may fail.
\<close>

section \<open>Identity\<close>

record user_row =
  u_id :: string
  u_email :: string
  u_hash :: string
  u_active :: bool
  u_login :: "int option"
  u_reset :: "string option"
  u_reset_exp :: "int option"
  u_invite :: "string option"
  u_invite_exp :: "int option"
  u_invited :: "int option"
  u_created :: int

record role_row =
  ro_id :: string
  ro_name :: string
  ro_desc :: "string option"

record employee_row =
  e_id :: string
  e_user :: "string option"
  e_code :: string
  e_first :: string
  e_last :: string
  e_dept :: "string option"
  e_manager :: "string option"
  e_desig :: "string option"
  e_status :: string
  e_deleted :: bool
  e_type :: "string option"
  e_joined :: int
  e_probation :: "int option"
  e_confirmed :: "int option"
  e_notice :: "int option"
  e_nation :: "string option"
  e_location :: "string option"
  e_phone :: "string option"
  e_reports :: "string option"
  e_created :: int

record designation_row =
  dg_id :: string
  dg_name :: string
  dg_grade :: "string option"
  dg_level :: "string option"
  dg_org :: string
  dg_deleted :: bool

record audit_row =
  au_user :: string
  au_action :: string
  au_module :: string
  au_entity :: string
  au_entity_id :: string
  au_reason :: string
  au_time :: int

section \<open>Payroll\<close>

record currency_row =
  cu_code :: string
  cu_name :: string
  cu_symbol :: string
  cu_rate :: rat
  cu_base :: bool

record component_row =
  sc_id :: string
  sc_code :: "string option"
  sc_name :: string
  sc_type :: string
  sc_calc :: "string option"
  sc_value :: "rat option"
  sc_taxable :: "bool option"
  sc_statutory :: "bool option"

record structure_row =
  ss_id :: string
  ss_emp :: string
  ss_currency :: string
  ss_base :: rat
  ss_active :: bool
  ss_created :: int

record run_row =
  pr_id :: string
  pr_org :: string
  pr_month :: int
  pr_year :: int
  pr_status :: string
  pr_employees :: int
  pr_gross :: rat
  pr_deductions :: rat
  pr_net :: rat
  pr_lop :: rat
  pr_advances :: rat
  pr_variance :: rat
  pr_processed_by :: "string option"
  pr_approved_by :: "string option"
  pr_approved_at :: "int option"
  pr_locked_at :: "int option"
  pr_created :: int

record payslip_row =
  ps_id :: string
  ps_run :: string
  ps_emp :: string
  ps_basic :: rat
  ps_hra :: rat
  ps_earnings :: rat
  ps_deductions :: rat
  ps_net :: rat
  ps_status :: string
  ps_created :: int

record advance_row =
  pa_id :: string
  pa_emp :: string
  pa_amount :: rat
  pa_months :: int
  pa_reason :: string
  pa_month :: int
  pa_year :: int
  pa_status :: string
  pa_approved_by :: "string option"
  pa_created :: int

section \<open>Requests, leave and attendance\<close>

text \<open>
  \<^verbatim>\<open>regularization_requests\<close>, \<^verbatim>\<open>od_requests\<close>, \<^verbatim>\<open>wfh_requests\<close>, \<^verbatim>\<open>exit_requests\<close>.
  The timestamp \<^verbatim>\<open>requested_check_in\<close> of a regularization is its date and a time of that day
  (\<open>rq_clock\<close>); \<open>rq_out\<close> is \<^verbatim>\<open>requested_check_out\<close>. The other tables have a date only,
  which is the resignation date of an exit, whose \<open>rq_out\<close> is the last working date.
\<close>

record request_row =
  rq_id :: string
  rq_emp :: string
  rq_date :: "int option"
  rq_clock :: int
  rq_out :: "int option"
  rq_reason :: string
  rq_status :: string
  rq_created :: int

record leave_row =
  la_id :: string
  la_emp :: string
  la_type :: string
  la_start :: int
  la_end :: int
  la_days :: rat
  la_reason :: string
  la_status :: string
  la_half :: bool
  la_half_type :: string
  la_from :: string
  la_to :: string
  la_duration :: string
  la_attachment :: string
  la_created :: int

record daily_row =
  ad_id :: string
  ad_emp :: string
  ad_date :: int
  ad_in :: "int option"
  ad_out :: "int option"
  ad_status :: string
  ad_late :: int
  ad_valid :: string
  ad_worked :: "rat option"
  ad_expected :: "rat option"
  ad_ot :: "rat option"
  ad_shift :: "string option"
  ad_by :: "string option"
  ad_at :: "int option"
  ad_comment :: "string option"

section \<open>The tables\<close>

record world = conn +
  users :: "user_row list"
  roles :: "role_row list"
  user_roles :: "(string \<times> string) list"
  employees :: "employee_row list"
  orgs :: "string list"
  departments :: "(string \<times> string) list"
  designations :: "designation_row list"
  audit_logs :: "audit_row list"
  currencies :: "currency_row list"
  components :: "component_row list"
  structures :: "structure_row list"
  runs :: "run_row list"
  payslips :: "payslip_row list"
  advances :: "advance_row list"
  leaves :: "leave_row list"
  regularizations :: "request_row list"
  ods :: "request_row list"
  wfhs :: "request_row list"
  exits :: "request_row list"
  daily :: "daily_row list"

text \<open>Identifiers compare as text (\<^verbatim>\<open>id::text = $1\<close>); NULL equals nothing.\<close>

definition user_is :: "string \<Rightarrow> employee_row \<Rightarrow> bool" where
  "user_is u e \<longleftrightarrow> e_user e = Some u"

definition full_name :: "employee_row \<Rightarrow> string" where
  "full_name e = e_first e @ '' '' @ e_last e"

text \<open>\<^verbatim>\<open>COALESCE(col::text, '')\<close>.\<close>

definition text_or_empty :: "string option \<Rightarrow> string" where
  "text_or_empty x = (case x of None \<Rightarrow> [] | Some s \<Rightarrow> s)"

definition designation_names :: "'a world_scheme \<Rightarrow> (string \<times> string) list" where
  "designation_names w = map (\<lambda>d. (dg_id d, dg_name d)) (designations w)"

text \<open>\<^verbatim>\<open>COALESCE(t.name, dflt)\<close> after a left join on a table of names.\<close>

definition name_in :: "(string \<times> string) list \<Rightarrow> string option \<Rightarrow> string \<Rightarrow> string" where
  "name_in table key dflt =
     (case key of None \<Rightarrow> dflt
      | Some k \<Rightarrow> (case map_of table k of None \<Rightarrow> dflt | Some n \<Rightarrow> n))"

text \<open>
  A world without rows, on which the witnesses build theirs: identifiers count up, every text
  is a UUID and every number is stored as it is.
\<close>

definition empty_world :: world where
  "empty_world =
     \<lparr>db_nil = False, outcomes = [], ids = (\<lambda>n. ''id-'' @ decn n), issued = 0,
      sequence = 1001, now = 1785542400000000000, uuid_in = Some, date_in = parse_date, to_num = (\<lambda>_. Some), ilike = (=), err_text = ''error'',
      users = [], roles = [], user_roles = [], employees = [], orgs = [], departments = [],
      designations = [], audit_logs = [], currencies = [], components = [], structures = [], runs = [],
      payslips = [], advances = [], leaves = [], regularizations = [], ods = [], wfhs = [],
      exits = [], daily = []\<rparr>"

lemma empty_world_calm [simp]: "outcomes empty_world = []" "\<not> db_nil empty_world"
  by (simp_all add: empty_world_def)

definition demo_employee :: employee_row where
  "demo_employee = \<lparr>e_id = ''e1'', e_user = Some ''u1'', e_code = ''EMP-1'', e_first = ''Ann'',
     e_last = ''Lee'', e_dept = Some ''d1'', e_manager = Some ''e9'', e_desig = None,
     e_status = ''ACTIVE'', e_deleted = False, e_type = Some ''PERMANENT'',
     e_joined = 19000, e_probation = None, e_confirmed = None, e_notice = Some 30,
     e_nation = Some ''Indian'', e_location = None, e_phone = None, e_reports = None, e_created = 0\<rparr>"

section \<open>Leave, helpdesk and security\<close>

text \<open>The tables that only one component uses; the records above are a part of these.\<close>

record leave_type_row =
  lt_id :: string
  lt_name :: string
  lt_code :: "string option"
  lt_freq :: "string option"
  lt_days :: "rat option"
  lt_carry :: "rat option"
  lt_sandwich :: "bool option"
  lt_half :: "bool option"
  lt_encash :: "bool option"

record leave_balance_row =
  lb_id :: string
  lb_emp :: string
  lb_type :: string
  lb_year :: int
  lb_accrued :: "rat option"
  lb_used :: "rat option"
  lb_balance :: "rat option"

record leave_policy_row =
  lp_id :: string
  lp_type :: string
  lp_name :: string
  lp_freq :: string
  lp_rate :: rat
  lp_carry :: int
  lp_sandwich :: bool
  lp_encash :: bool

record accrual_row =
  al_id :: string
  al_emp :: string
  al_type :: string
  al_date :: int
  al_days :: rat
  al_reason :: "string option"
  al_created :: int

record encashment_row =
  en_id :: string
  en_emp :: string
  en_type :: string
  en_days :: rat
  en_rate :: rat
  en_total :: rat
  en_status :: string
  en_reason :: "string option"
  en_by :: "string option"
  en_at :: "int option"
  en_created :: int

record category_row =
  hc_id :: string
  hc_name :: string
  hc_desc :: "string option"
  hc_sla :: int

record ticket_row =
  tk_id :: string
  tk_number :: string
  tk_emp :: string
  tk_cat :: string
  tk_subject :: string
  tk_desc :: string
  tk_priority :: string
  tk_status :: string
  tk_assigned :: "string option"
  tk_resolved :: "int option"
  tk_notes :: "string option"
  tk_created :: int

record comment_row =
  cm_id :: string
  cm_ticket :: string
  cm_user :: string
  cm_text :: string
  cm_created :: int

record access_row =
  dl_id :: string
  dl_user :: string
  dl_module :: string
  dl_action :: string
  dl_resource :: "string option"
  dl_ip :: "string option"
  dl_agent :: "string option"
  dl_at :: int

record hr_world = world +
  leave_types :: "leave_type_row list"
  leave_balances :: "leave_balance_row list"
  leave_policies :: "leave_policy_row list"
  accruals :: "accrual_row list"
  encashments :: "encashment_row list"
  categories :: "category_row list"
  tickets :: "ticket_row list"
  comments :: "comment_row list"
  access_logs :: "access_row list"

definition empty_hr :: hr_world where
  "empty_hr = world.extend empty_world
     (hr_world.fields [] [] [] [] [] [] [] [] [])"

section \<open>Attendance\<close>

record raw_punch_row =
  rp_id :: string
  rp_emp :: string
  rp_provider :: string
  rp_time :: int
  rp_type :: string
  rp_payload :: string

record att_log_row =
  lg_id :: string
  lg_emp :: string
  lg_date :: int
  lg_in :: "int option"
  lg_out :: "int option"
  lg_status :: string

record exception_row =
  ax_id :: string
  ax_emp :: string
  ax_date :: int
  ax_type :: string
  ax_late :: int
  ax_early :: int
  ax_grace :: int
  ax_just :: "string option"
  ax_status :: string
  ax_by :: "string option"
  ax_at :: "int option"
  ax_comments :: "string option"
  ax_created :: int

record rules_row =
  ar_id :: string
  ar_name :: string
  ar_web :: bool
  ar_ip :: bool
  ar_geo :: bool
  ar_bio :: bool
  ar_grace :: int
  ar_half :: rat

record ip_row =
  ip_id :: string
  ip_address :: string
  ip_desc :: "string option"
  ip_active :: bool
  ip_created :: int

record geo_row =
  gl_id :: string
  gl_name :: string
  gl_lat :: rat
  gl_lon :: rat
  gl_radius :: int
  gl_active :: bool
  gl_created :: int

text \<open>\<open>json_in\<close>: whether the server takes a text as a \<^verbatim>\<open>JSONB\<close> value.\<close>

record att_world = hr_world +
  json_in :: "string \<Rightarrow> bool"
  raw_punches :: "raw_punch_row list"
  att_logs :: "att_log_row list"
  shifts :: "(string \<times> string) list"
  exceptions :: "exception_row list"
  att_rules :: "rules_row list"
  ip_allowlists :: "ip_row list"
  geofences :: "geo_row list"

definition empty_att :: att_world where
  "empty_att = hr_world.extend empty_hr (att_world.fields (\<lambda>_. True) [] [] [] [] [] [] [])"

section \<open>People\<close>

record personal_row =
  pd_emp :: string
  pd_birth :: "int option"
  pd_gender :: "string option"
  pd_marital :: "string option"
  pd_blood :: "string option"
  pd_email :: "string option"
  pd_phone :: "string option"
  pd_contact :: "string option"
  pd_contact_no :: "string option"
  pd_current :: "string option"
  pd_permanent :: "string option"

record statutory_row =
  sd_emp :: string
  sd_pan :: "string option"
  sd_aadhaar :: "string option"
  sd_uan :: "string option"
  sd_pf :: "string option"
  sd_esic :: "string option"
  sd_account :: "string option"
  sd_ifsc :: "string option"
  sd_bank :: "string option"
  sd_pt :: "bool option"

record import_batch_row =
  ib_id :: string
  ib_type :: string
  ib_total :: int
  ib_valid :: int
  ib_errors :: int
  ib_status :: string
  ib_created :: int

text \<open>The JSON object \<^verbatim>\<open>raw_data\<close> is the list of its fields, each name once.\<close>

record import_row =
  ir_id :: string
  ir_batch :: string
  ir_number :: int
  ir_data :: "(string \<times> string) list"
  ir_status :: string
  ir_error :: "string option"
  ir_emp :: "string option"

record location_row =
  lc_id :: string
  lc_org :: string
  lc_name :: string
  lc_address :: "string option"
  lc_city :: "string option"
  lc_state :: "string option"
  lc_country :: "string option"
  lc_zip :: "string option"

record people_world = att_world +
  locations :: "location_row list"
  personals :: "personal_row list"
  statutories :: "statutory_row list"
  import_batches :: "import_batch_row list"
  import_rows :: "import_row list"

definition location_names :: "'a people_world_scheme \<Rightarrow> (string \<times> string) list" where
  "location_names w = map (\<lambda>l. (lc_id l, lc_name l)) (locations w)"

definition empty_people :: people_world where
  "empty_people = att_world.extend empty_att (people_world.fields [] [] [] [] [])"

section \<open>Offices\<close>

text \<open>A column with a default may still be NULL, as in \<^verbatim>\<open>document_types\<close>.\<close>

record doc_type_row =
  dt_id :: string
  dt_name :: string
  dt_mandatory :: "bool option"
  dt_expires :: "bool option"
  dt_verified :: "bool option"
  dt_access :: "string option"

record life_event_row =
  lf_id :: string
  lf_emp :: string
  lf_type :: string
  lf_date :: int
  lf_old :: "json option"
  lf_new :: "json option"
  lf_reason :: "string option"
  lf_by :: "string option"
  lf_created :: int

record template_row =
  ot_id :: string
  ot_org :: string
  ot_name :: string
  ot_desc :: "string option"

record config_row =
  cf_key :: string
  cf_value :: json
  cf_from :: "int option"

record office_world = people_world +
  doc_types :: "doc_type_row list"
  life_events :: "life_event_row list"
  templates :: "template_row list"
  configs :: "config_row list"

definition empty_office :: office_world where
  "empty_office = people_world.extend empty_people (office_world.fields [] [] [] [])"

end
