(* ===== verification/Auth.thy ===== *)
theory Auth
  imports Schema "HOL-Library.Countable"
begin

text \<open>
  \<^verbatim>\<open>internal/auth/auth.go\<close>: data scopes and roles, the middlewares that authenticate and
  authorise a request, login and password reset. JSON Web Tokens, bcrypt, SHA-256 and the random
  generator are the fields of the record \<open>crypto\<close>, a parameter of the operations that use them.
\<close>

section \<open>Scopes and roles\<close>

type_synonym data_scope = string

abbreviation scope_self :: data_scope where "scope_self \<equiv> ''SELF''"
abbreviation scope_direct_reports :: data_scope where "scope_direct_reports \<equiv> ''DIRECT_REPORTS''"
abbreviation scope_department :: data_scope where "scope_department \<equiv> ''DEPARTMENT''"
abbreviation scope_organization :: data_scope where "scope_organization \<equiv> ''ORGANIZATION''"
abbreviation scope_salary_access :: data_scope where "scope_salary_access \<equiv> ''SALARY_ACCESS''"

definition role_scope_map :: "(string \<times> data_scope) list" where
  "role_scope_map =
     [(''SUPER_ADMIN'', scope_organization), (''HR_ADMIN'', scope_organization),
      (''HR_MANAGER'', scope_department), (''MANAGER'', scope_direct_reports),
      (''PAYROLL_ADMIN'', scope_salary_access), (''EMPLOYEE'', scope_self)]"

text \<open>The zero value of Go for a role that the map does not have is the empty string.\<close>

definition role_scope :: "string \<Rightarrow> data_scope" where
  "role_scope r = (case map_of role_scope_map r of Some s \<Rightarrow> s | None \<Rightarrow> '''')"

primrec admin_loop :: "string list \<Rightarrow> bool" where
  "admin_loop [] = False"
| "admin_loop (r # rs) =
     (if r = ''SUPER_ADMIN'' \<or> r = ''HR_ADMIN'' \<or> r = ''PAYROLL_ADMIN'' then True else admin_loop rs)"

primrec scope_loop :: "data_scope list \<Rightarrow> string list \<Rightarrow> data_scope" where
  "scope_loop [] rs = scope_self"
| "scope_loop (s # ss) rs = (if \<exists>r\<in>set rs. role_scope r = s then s else scope_loop ss rs)"

definition get_scope_for_roles :: "string list \<Rightarrow> data_scope" where
  "get_scope_for_roles rs =
     (if admin_loop rs then scope_organization
      else scope_loop
        [scope_organization, scope_department, scope_direct_reports, scope_self] rs)"

record claims =
  cl_user :: string
  cl_email :: string
  cl_roles :: "string list"
  cl_scope :: data_scope
  cl_expires :: int
  cl_issued :: int

text \<open>
  The libraries: \<open>sign\<close> and \<open>verify\<close> are golang-jwt's \<^verbatim>\<open>SignedString\<close> and
  \<^verbatim>\<open>ParseWithClaims\<close> with the service's key (at a point in time, since a token expires),
  \<open>bcrypt_ok hash password\<close> and \<open>bcrypt_hash\<close> those of bcrypt, \<open>sha_hex\<close> the hexadecimal
  SHA-256, \<open>random_hex\<close> the next 32 random bytes in hexadecimal.
\<close>

record crypto =
  sign :: "claims \<Rightarrow> string option"
  verify :: "int \<Rightarrow> string \<Rightarrow> claims option"
  bcrypt_ok :: "string \<Rightarrow> string \<Rightarrow> bool"
  bcrypt_hash :: "string \<Rightarrow> string option"
  sha_hex :: "string \<Rightarrow> string"
  random_hex :: string

definition generate_token :: "crypto \<Rightarrow> int \<Rightarrow> string \<Rightarrow> string \<Rightarrow> string list \<Rightarrow> string option" where
  "generate_token cr t user email rs =
     sign cr \<lparr>cl_user = user, cl_email = email, cl_roles = rs,
              cl_scope = get_scope_for_roles rs,
              cl_expires = t + 24 * nanos_per_hour, cl_issued = t\<rparr>"

definition validate_token :: "crypto \<Rightarrow> int \<Rightarrow> string \<Rightarrow> claims option" where
  "validate_token cr t s = verify cr t s"

section \<open>Middlewares\<close>

text \<open>
  What the middlewares put into the request's context, and a handler behind them. A context value
  that was never set is \<^term>\<open>None\<close>.
\<close>

record ctx =
  cx_claims :: "claims option"
  cx_scope :: "data_scope option"

type_synonym 'w handler = "ctx \<Rightarrow> ('w, response) state"

definition get_claims :: "ctx \<Rightarrow> claims option" where
  "get_claims c = cx_claims c"

definition get_scope :: "ctx \<Rightarrow> data_scope" where
  "get_scope c = (case cx_scope c of Some s \<Rightarrow> s | None \<Rightarrow> scope_self)"

definition require_auth ::
  "crypto \<Rightarrow> int \<Rightarrow> string \<Rightarrow> 'w handler \<Rightarrow> ctx \<Rightarrow> ('w, response) state" where
  "require_auth cr t header next c =
     (if header = ''''
      then State_Monad.return (http_error ''{\"error\":\"missing authorization header\"}'' status_unauthorized)
      else
        (let parts = split_on CHR '' '' header
         in if length parts \<noteq> 2 \<or> parts ! 0 \<noteq> ''Bearer''
            then State_Monad.return
                   (http_error ''{\"error\":\"invalid authorization header\"}'' status_unauthorized)
            else
              (case validate_token cr t (parts ! 1) of
                 None \<Rightarrow> State_Monad.return
                   (http_error ''{\"error\":\"invalid or expired token\"}'' status_unauthorized)
               | Some cl \<Rightarrow>
                   next (c\<lparr>cx_claims := Some cl, cx_scope := Some (get_scope_for_roles (cl_roles cl))\<rparr>))))"

primrec role_loop :: "string list \<Rightarrow> string list \<Rightarrow> bool" where
  "role_loop required [] = False"
| "role_loop required (u # us) =
     (if u = ''SUPER_ADMIN'' then True
      else if \<exists>r\<in>set required. u = r then True
      else role_loop required us)"

definition require_role :: "string list \<Rightarrow> 'w handler \<Rightarrow> 'w handler" where
  "require_role required next c =
     (case get_claims c of
        None \<Rightarrow> State_Monad.return (http_error ''{\"error\":\"unauthorized\"}'' status_unauthorized)
      | Some cl \<Rightarrow>
          if role_loop required (cl_roles cl) then next c
          else State_Monad.return
                 (http_error ''{\"error\":\"forbidden: insufficient role\"}'' status_forbidden))"

definition scope_power :: "data_scope \<Rightarrow> int" where
  "scope_power s =
     (case map_of [(scope_self, 1), (scope_direct_reports, 2), (scope_department, 3),
                   (scope_organization, 4), (scope_salary_access, 5)] s of
        Some n \<Rightarrow> n | None \<Rightarrow> 0)"

definition require_scope :: "data_scope \<Rightarrow> 'w handler \<Rightarrow> 'w handler" where
  "require_scope min_scope next c =
     (if scope_power min_scope \<le> scope_power (get_scope c) then next c
      else State_Monad.return
             (http_error ''{\"error\":\"forbidden: insufficient data scope\"}'' status_forbidden))"

section \<open>Login and password reset\<close>

text \<open>\<^verbatim>\<open>jsonError\<close> of this package has no \<^verbatim>\<open>success\<close> field.\<close>

definition json_error :: "string \<Rightarrow> int \<Rightarrow> response" where
  "json_error msg code = respond code [(''error'', JStr msg)]"

record login_request =
  lr_email :: string
  lr_password :: string

definition presets :: "(string \<times> string \<times> string) list" where
  "presets =
     [(''admin@company.com'', ''admin123'', ''SUPER_ADMIN''),
      (''hr@company.com'', ''hr123'', ''HR_ADMIN''),
      (''manager@company.com'', ''mgr123'', ''MANAGER''),
      (''employee@company.com'', ''emp123'', ''EMPLOYEE'')]"

text \<open>The role of a preset account whose password is the given one.\<close>

definition preset_match :: "login_request \<Rightarrow> string option" where
  "preset_match req =
     (case map_of presets (lr_email req) of
        Some (pass, role) \<Rightarrow> if pass = lr_password req then Some role else None
      | None \<Rightarrow> None)"

definition login_ok ::
  "string \<Rightarrow> string \<Rightarrow> string \<Rightarrow> string list \<Rightarrow> response" where
  "login_ok token uid email rs =
     respond status_ok
       [(''success'', JBool True), (''token'', JStr token),
        (''user'', JObj [(''id'', JStr uid), (''email'', JStr email),
           (''roles'', JArr (map JStr rs)), (''scope'', JStr (get_scope_for_roles rs))])]"

text \<open>\<^verbatim>\<open>token, _ := s.GenerateToken(...)\<close> with the preset's only role.\<close>

definition preset_login :: "crypto \<Rightarrow> int \<Rightarrow> string \<Rightarrow> string \<Rightarrow> string \<Rightarrow> response" where
  "preset_login cr t uid email role =
     login_ok (text_or_empty (generate_token cr t uid email [role])) uid email [role]"

definition user_role_names :: "string \<Rightarrow> 'a world_scheme \<Rightarrow> string list" where
  "user_role_names uid w =
     [ro_name r. r \<leftarrow> roles w, (u, ro) \<leftarrow> user_roles w, ro = ro_id r \<and> u = uid]"

definition handle_login ::
  "crypto \<Rightarrow> login_request option \<Rightarrow> ('a world_scheme, response) state" where
  "handle_login cr body =
     (case body of
        None \<Rightarrow> State_Monad.return (json_error ''invalid request body'' status_bad_request)
      | Some req \<Rightarrow> do {
          t \<leftarrow> reads now;
          nil \<leftarrow> reads db_nil;
          found \<leftarrow> (if nil then State_Monad.return None
                   else select_row (\<lambda>w. [(u_id u, u_hash u, u_active u). u \<leftarrow> users w,
                                           u_email u = lr_email req]));
          (case found of
             None \<Rightarrow>
               State_Monad.return
                 (case preset_match req of
                    Some role \<Rightarrow> preset_login cr t (''usr-demo-'' @ role) (lr_email req) role
                  | None \<Rightarrow>
                      if nil then json_error ''database connection unavailable'' status_internal
                      else json_error ''invalid credentials'' status_unauthorized)
           | Some (uid, hash, active) \<Rightarrow>
               if \<not> active
               then State_Monad.return (json_error ''account is suspended'' status_forbidden)
               else if \<not> bcrypt_ok cr hash (lr_password req)
               then State_Monad.return
                 (case preset_match req of
                    Some role \<Rightarrow> preset_login cr t uid (lr_email req) role
                  | None \<Rightarrow> json_error ''invalid credentials'' status_unauthorized)
               else do {
                 rows \<leftarrow> select (user_role_names uid);
                 let rs0 = (case rows of Some rs \<Rightarrow> rs | None \<Rightarrow> []);
                 let rs = (if rs0 = []
                           then (case map_of presets (lr_email req) of
                                   Some (_, role) \<Rightarrow> [role] | None \<Rightarrow> [])
                           else rs0);
                 _ \<leftarrow> exec (\<lambda>w. Some (count_where (\<lambda>u. u_id u = uid) (users w),
                        w\<lparr>users := upd_where (\<lambda>u. u_id u = uid) (u_login_update (\<lambda>_. Some (now w)))
                                     (users w)\<rparr>));
                 State_Monad.return
                   (case generate_token cr t uid (lr_email req) rs of
                      None \<Rightarrow> json_error ''failed to generate token'' status_internal
                    | Some token \<Rightarrow> login_ok token uid (lr_email req) rs)
               })
        })"

definition handle_logout :: "('w, response) state" where
  "handle_logout = State_Monad.return
     (respond status_ok [(''success'', JBool True), (''message'', JStr ''logged out'')])"

definition handle_me :: "'w handler" where
  "handle_me c = State_Monad.return
     (case get_claims c of
        None \<Rightarrow> json_error ''not authenticated'' status_unauthorized
      | Some cl \<Rightarrow>
          respond status_ok
            [(''success'', JBool True),
             (''user'', JObj [(''id'', JStr (cl_user cl)), (''email'', JStr (cl_email cl)),
                (''roles'', JArr (map JStr (cl_roles cl))),
                (''scope'', JStr (get_scope_for_roles (cl_roles cl)))])])"

definition hash_token :: "crypto \<Rightarrow> string \<Rightarrow> string" where
  "hash_token cr token = sha_hex cr token"

definition handle_forgot_password ::
  "crypto \<Rightarrow> string option \<Rightarrow> ('a world_scheme, response) state" where
  "handle_forgot_password cr body =
     (case body of
        None \<Rightarrow> State_Monad.return (json_error ''invalid request'' status_bad_request)
      | Some email \<Rightarrow> do {
          nil \<leftarrow> reads db_nil;
          (if nil then State_Monad.return panicked
           else do {
             _ \<leftarrow> exec (\<lambda>w. Some (count_where (\<lambda>u. u_email u = email) (users w),
                    w\<lparr>users := upd_where (\<lambda>u. u_email u = email)
                       (\<lambda>u. u\<lparr>u_reset := Some (hash_token cr (random_hex cr)),
                              u_reset_exp := Some (now w + 2 * nanos_per_hour)\<rparr>) (users w)\<rparr>));
             State_Monad.return
               (respond status_ok
                  [(''success'', JBool True),
                   (''message'', JStr ''If that email exists, a reset link has been sent.''),
                   (''debug_token'', JStr (random_hex cr))])
           })
        })"

record reset_request =
  rr_token :: string
  rr_password :: string

definition reset_valid :: "string \<Rightarrow> int \<Rightarrow> user_row \<Rightarrow> bool" where
  "reset_valid hash t u \<longleftrightarrow>
     u_reset u = Some hash \<and> (case u_reset_exp u of Some e \<Rightarrow> t < e | None \<Rightarrow> False)"

definition handle_reset_password ::
  "crypto \<Rightarrow> reset_request option \<Rightarrow> ('a world_scheme, response) state" where
  "handle_reset_password cr body =
     (case body of
        None \<Rightarrow> State_Monad.return (json_error ''invalid request'' status_bad_request)
      | Some req \<Rightarrow>
          if length (rr_password req) < 8
          then State_Monad.return
                 (json_error ''password must be at least 8 characters'' status_bad_request)
          else do {
            nil \<leftarrow> reads db_nil;
            (if nil then State_Monad.return panicked
             else
               orelse
                 (select_row (\<lambda>w. [u_id u. u \<leftarrow> users w,
                                     reset_valid (hash_token cr (rr_token req)) (now w) u]))
                 (json_error ''invalid or expired reset token'' status_bad_request)
                 (\<lambda>uid. do {
                    let new_hash = text_or_empty (bcrypt_hash cr (rr_password req));
                    _ \<leftarrow> exec (\<lambda>w. Some (count_where (\<lambda>u. u_id u = uid) (users w),
                           w\<lparr>users := upd_where (\<lambda>u. u_id u = uid)
                              (\<lambda>u. u\<lparr>u_hash := new_hash, u_reset := None, u_reset_exp := None,
                                     u_active := True\<rparr>) (users w)\<rparr>));
                    State_Monad.return
                      (respond status_ok
                         [(''success'', JBool True),
                          (''message'', JStr ''Password updated successfully.'')])
                  }))
          })"

section \<open>Scopes\<close>

lemma admin_loop_iff:
  "admin_loop rs \<longleftrightarrow> ''SUPER_ADMIN'' \<in> set rs \<or> ''HR_ADMIN'' \<in> set rs \<or> ''PAYROLL_ADMIN'' \<in> set rs"
  by (induction rs) auto

lemma role_scope_iff:
  "role_scope r = scope_organization \<longleftrightarrow> r = ''SUPER_ADMIN'' \<or> r = ''HR_ADMIN''"
  "role_scope r = scope_department \<longleftrightarrow> r = ''HR_MANAGER''"
  "role_scope r = scope_direct_reports \<longleftrightarrow> r = ''MANAGER''"
  "role_scope r = scope_self \<longleftrightarrow> r = ''EMPLOYEE''"
  by (simp_all add: role_scope_def role_scope_map_def)

lemma get_scope_for_roles_eq:
  "get_scope_for_roles rs =
     (if ''SUPER_ADMIN'' \<in> set rs \<or> ''HR_ADMIN'' \<in> set rs \<or> ''PAYROLL_ADMIN'' \<in> set rs
      then scope_organization
      else if ''HR_MANAGER'' \<in> set rs then scope_department
      else if ''MANAGER'' \<in> set rs then scope_direct_reports
      else scope_self)"
  by (auto simp: get_scope_for_roles_def admin_loop_iff role_scope_iff)

lemma scope_power_simps [simp]:
  "scope_power scope_self = 1" "scope_power scope_direct_reports = 2"
  "scope_power scope_department = 3" "scope_power scope_organization = 4"
  "scope_power scope_salary_access = 5"
  by (simp_all add: scope_power_def)

lemma role_loop_iff:
  "role_loop required us \<longleftrightarrow> ''SUPER_ADMIN'' \<in> set us \<or> set us \<inter> set required \<noteq> {}"
  by (induction us) auto

text \<open>
  A further role never narrows what a user may see: the scope that \<^verbatim>\<open>GetScopeForRoles\<close>
  computes only grows, in the order \<^verbatim>\<open>RequireScope\<close> compares scopes by, when roles are added,
  in whatever order the roles are listed.
\<close>

theorem scope_monotone:
  assumes "set rs \<subseteq> set rs'"
  shows "scope_power (get_scope_for_roles rs) \<le> scope_power (get_scope_for_roles rs')"
  using assms by (auto simp: get_scope_for_roles_eq)

theorem scope_monotone_witness:
  "scope_power (get_scope_for_roles [''MANAGER'', ''EMPLOYEE''])
     \<le> scope_power (get_scope_for_roles [''EMPLOYEE'', ''HR_MANAGER'', ''MANAGER''])
   \<and> get_scope_for_roles [''MANAGER'', ''EMPLOYEE''] = scope_direct_reports
   \<and> get_scope_for_roles [''EMPLOYEE'', ''HR_MANAGER'', ''MANAGER''] = scope_department"
  using scope_monotone [of "[''MANAGER'', ''EMPLOYEE'']" "[''EMPLOYEE'', ''HR_MANAGER'', ''MANAGER'']"]
  by (simp add: get_scope_for_roles_eq)

section \<open>The gate in front of the protected routes\<close>

lemma split_on_notin: "c \<notin> set s \<Longrightarrow> split_on c s = [s]"
  by (induction s) auto

lemma split_on_app: "c \<notin> set a \<Longrightarrow> split_on c (a @ c # b) = a # split_on c b"
  by (induction a) auto

lemma split_on_one: "split_on c s = [a] \<Longrightarrow> s = a \<and> c \<notin> set a"
  by (induction s arbitrary: a) (auto split: if_splits list.splits)

lemma split_on_two: "split_on c s = [a, b] \<Longrightarrow> s = a @ c # b \<and> c \<notin> set a \<and> c \<notin> set b"
proof (induction s arbitrary: a)
  case Nil
  then show ?case by simp
next
  case (Cons x s)
  show ?case
  proof (cases "x = c")
    case True
    with Cons.prems have "a = []" "split_on c s = [b]" by auto
    then show ?thesis using True split_on_one [of c s b] by simp
  next
    case False
    with Cons.prems obtain y where "split_on c s = [y, b]" "a = x # y"
      by (auto split: list.splits)
    then show ?thesis using Cons.IH [of y] False by simp
  qed
qed


section \<open>Who can log in\<close>

lemma preset_match_none_pw: "preset_match req = Some role \<Longrightarrow> map_of presets (lr_email req) \<noteq> None"
  by (auto simp: preset_match_def split: option.splits)

lemma login_ok_code [simp]: "rcode (login_ok token uid email rs) = status_ok"
  by (simp add: login_ok_def)

lemma json_error_code [simp]: "rcode (json_error msg c) = c"
  by (simp add: json_error_def)

lemma preset_login_code [simp]: "rcode (preset_login cr t uid email role) = status_ok"
  by (simp add: preset_login_def)

text \<open>
  C20. With a working database, \<^verbatim>\<open>HandleLogin\<close> lets in exactly those who present the password
  of an active account, and, on any account that is not suspended and on any address without an
  account, those who present the credentials of one of the four demo accounts. A suspended
  account stays locked out, and a login writes nothing but the time of the last login.
\<close>

theorem login_grants:
  assumes "calm w" "\<not> db_nil w" "\<And>c. sign cr c \<noteq> None"
  shows "(rcode (fst (run_state (handle_login cr (Some req)) w)) = status_ok \<longleftrightarrow>
           (case find (\<lambda>u. u_email u = lr_email req) (users w) of
              None \<Rightarrow> preset_match req \<noteq> None
            | Some u \<Rightarrow> u_active u \<and> (bcrypt_ok cr (u_hash u) (lr_password req)
                                      \<or> preset_match req \<noteq> None)))
         \<and> (\<exists>us. snd (run_state (handle_login cr (Some req)) w) = w\<lparr>users := us\<rparr>
              \<and> map (u_login_update (\<lambda>_. None)) us
                = map (u_login_update (\<lambda>_. None)) (users w))"
proof -
  have o: "outcomes w = []" using assms(1) by (simp add: calm_def)
  define tok where "tok t uid email rs = the (generate_token cr t uid email rs)"
    for t uid email rs
  have g: "generate_token cr t uid email rs = Some (tok t uid email rs)" for t uid email rs
    using assms(3) by (simp add: generate_token_def tok_def)
  have m: "map (u_login_update (\<lambda>_. None)) (upd_where p (u_login_update f) us)
           = map (u_login_update (\<lambda>_. None)) us" for p f and us :: "user_row list"
    by (simp add: map_upd_where)
  show ?thesis
  proof (cases "find (\<lambda>u. u_email u = lr_email req) (users w)")
    case None
    then show ?thesis using o assms(2)
      by (auto simp: handle_login_def run_calm first_row intro: exI [of _ "users w"]
          split: option.splits)
  next
    case (Some u)
    then show ?thesis using o assms(2) m
      by (auto simp: handle_login_def g run_calm first_row Let_def intro: exI [of _ "users w"]
          split: option.split)
  qed
qed

definition demo_crypto :: crypto where
  "demo_crypto =
     \<lparr>sign = (\<lambda>c. Some (''tok-'' @ cl_user c)),
      verify = (\<lambda>t s. Some \<lparr>cl_user = drop 4 s, cl_email = [], cl_roles = [], cl_scope = [],
                           cl_expires = t, cl_issued = t\<rparr>),
      bcrypt_ok = (\<lambda>h p. h = p), bcrypt_hash = (\<lambda>p. if length p \<le> 72 then Some p else None),
      sha_hex = (\<lambda>s. s), random_hex = ''5f''\<rparr>"

definition demo_user :: user_row where
  "demo_user =
     \<lparr>u_id = ''u1'', u_email = ''ann@company.com'', u_hash = ''secret-1'', u_active = True,
      u_login = None, u_reset = None, u_reset_exp = None, u_invite = None,
      u_invite_exp = None, u_invited = None, u_created = 0\<rparr>"

theorem login_grants_witness:
  "calm (empty_world\<lparr>users := [demo_user]\<rparr>)
   \<and> rcode (fst (run_state (handle_login demo_crypto
        (Some \<lparr>lr_email = ''ann@company.com'', lr_password = ''secret-1''\<rparr>))
        (empty_world\<lparr>users := [demo_user]\<rparr>))) = status_ok
   \<and> rcode (fst (run_state (handle_login demo_crypto
        (Some \<lparr>lr_email = ''ann@company.com'', lr_password = ''guess''\<rparr>))
        (empty_world\<lparr>users := [demo_user]\<rparr>))) \<noteq> status_ok"
  using login_grants [of "empty_world\<lparr>users := [demo_user]\<rparr>" demo_crypto
      "\<lparr>lr_email = ''ann@company.com'', lr_password = ''secret-1''\<rparr>"]
    login_grants [of "empty_world\<lparr>users := [demo_user]\<rparr>" demo_crypto
      "\<lparr>lr_email = ''ann@company.com'', lr_password = ''guess''\<rparr>"]
  by (simp add: calm_def demo_crypto_def demo_user_def preset_match_def presets_def)

lemma login_shape:
  assumes "\<And>c. sign cr c \<noteq> None"
  shows "wp (handle_login cr (Some req)) (\<lambda>r _. rcode r = status_ok \<longrightarrow>
           (\<exists>uid rs token. generate_token cr (now w) uid (lr_email req) rs = Some token
              \<and> r = login_ok token uid (lr_email req) rs)) w"
proof -
  define tok where "tok t uid email rs = the (generate_token cr t uid email rs)"
    for t uid email rs
  have g: "generate_token cr t uid email rs = Some (tok t uid email rs)" for t uid email rs
    using assms by (simp add: generate_token_def tok_def)
  have p: "preset_login cr t uid email role = login_ok (tok t uid email [role]) uid email [role]"
    for t uid email role
    by (simp add: preset_login_def g text_or_empty_def)
  show ?thesis
    by (auto simp: handle_login_def wp_exec g p Let_def split: option.split prod.split)
qed


text \<open>
  A token format with the three properties, for the witness: the claims coded as one number,
  written in decimal.
\<close>

definition claims_code :: "claims \<Rightarrow> nat" where
  "claims_code c = to_nat (map of_char (cl_user c) :: nat list, map of_char (cl_email c) :: nat list,
     map (map of_char) (cl_roles c) :: nat list list, map of_char (cl_scope c) :: nat list,
     cl_expires c, cl_issued c)"

definition claims_decode :: "nat \<Rightarrow> claims" where
  "claims_decode n =
     (case from_nat n :: nat list \<times> nat list \<times> nat list list \<times> nat list \<times> int \<times> int of
        (u, e, r, s, x, i) \<Rightarrow>
          \<lparr>cl_user = map char_of u, cl_email = map char_of e, cl_roles = map (map char_of) r,
           cl_scope = map char_of s, cl_expires = x, cl_issued = i\<rparr>)"

lemma claims_decode_code: "claims_decode (claims_code c) = c"
  by (simp add: claims_decode_def claims_code_def comp_def)

definition jwt_demo :: crypto where
  "jwt_demo = demo_crypto\<lparr>sign := (\<lambda>c. Some (decn (claims_code c))),
     verify := (\<lambda>t s. if t < cl_expires (claims_decode (numval s))
                      then Some (claims_decode (numval s)) else None)\<rparr>"

lemma digits_no_space: "CHR '' '' \<notin> set (decn n)"
  using decn_digits [of n] by (auto simp: list_all_iff is_digit_def)

lemma jwt_demo_laws:
  "sign jwt_demo c \<noteq> None" "sign jwt_demo c = Some s \<Longrightarrow> CHR '' '' \<notin> set s"
  "sign jwt_demo c = Some s \<Longrightarrow> t < cl_expires c \<Longrightarrow> verify jwt_demo t s = Some c"
  by (auto simp: jwt_demo_def digits_no_space claims_decode_code)


section \<open>Password reset\<close>

text \<open>The row that a token resets, and what a successful reset makes of it.\<close>

definition reset_target :: "crypto \<Rightarrow> reset_request \<Rightarrow> 'a world_scheme \<Rightarrow> user_row option" where
  "reset_target cr req w = find (reset_valid (hash_token cr (rr_token req)) (now w)) (users w)"

abbreviation after_reset :: "crypto \<Rightarrow> reset_request \<Rightarrow> user_row \<Rightarrow> user_row" where
  "after_reset cr req u \<equiv>
     u\<lparr>u_hash := text_or_empty (bcrypt_hash cr (rr_password req)), u_reset := None,
       u_reset_exp := None, u_active := True\<rparr>"

lemma reset_run:
  assumes "calm w" "\<not> db_nil w" "8 \<le> length (rr_password req)"
  shows "run_state (handle_reset_password cr (Some req)) w =
    (case reset_target cr req w of
       None \<Rightarrow> (json_error ''invalid or expired reset token'' status_bad_request, w)
     | Some u \<Rightarrow>
         (respond status_ok [(''success'', JBool True),
            (''message'', JStr ''Password updated successfully.'')],
          w\<lparr>users := upd_where (\<lambda>v. u_id v = u_id u) (after_reset cr req) (users w)\<rparr>))"
  using assms
  by (auto simp: handle_reset_password_def reset_target_def run_calm first_row calm_def Let_def
      split: option.split)



definition forgetful_user :: user_row where
  "forgetful_user = demo_user\<lparr>u_active := False, u_reset := Some ''t1'',
     u_reset_exp := Some (now empty_world + 1)\<rparr>"


end
