(* ===== verification/Authz.thy ===== *)
theory Authz
  imports Auth
begin

text \<open>
  \<^verbatim>\<open>internal/authz/authz.go\<close>: the error responses, the check against approving one's own
  request, the role policies, and the SQL condition that scopes a query on employees. The condition
  is built as a value of \<open>scond\<close> and rendered to the text the code builds; \<open>cond_holds\<close> is what
  PostgreSQL makes of it on a row.
\<close>

section \<open>Responses\<close>

record error_details =
  ed_code :: string
  ed_message :: string

record error_response =
  er_success :: bool
  er_error :: error_details

definition error_json :: "error_response \<Rightarrow> json" where
  "error_json e =
     JObj [(''success'', JBool (er_success e)),
           (''error'', JObj [(''code'', JStr (ed_code (er_error e))),
                             (''message'', JStr (ed_message (er_error e)))])]"

definition forbidden_response :: "string \<Rightarrow> string \<Rightarrow> response" where
  "forbidden_response code message =
     \<lparr>rcode = status_forbidden,
      rbody = Json (error_json \<lparr>er_success = False,
                      er_error = \<lparr>ed_code = code, ed_message = message\<rparr>\<rparr>)\<rparr>"

definition self_approval_error :: response where
  "self_approval_error =
     forbidden_response ''SELF_APPROVAL_NOT_ALLOWED'' ''You cannot approve your own request.''"

definition unauthorized_response :: response where
  "unauthorized_response =
     \<lparr>rcode = status_unauthorized,
      rbody = Json (error_json \<lparr>er_success = False,
                      er_error = \<lparr>ed_code = ''UNAUTHORIZED'',
                                  ed_message = ''Authentication required.''\<rparr>\<rparr>)\<rparr>"

lemma authz_codes [simp]:
  "rcode (forbidden_response c m) = status_forbidden"
  "rcode self_approval_error = status_forbidden"
  "rcode unauthorized_response = status_unauthorized"
  by (simp_all add: forbidden_response_def self_approval_error_def unauthorized_response_def)

section \<open>Policies\<close>

definition can_approve_task :: "string \<Rightarrow> string \<Rightarrow> bool" where
  "can_approve_task requester approver =
     (if requester = '''' \<or> approver = '''' then False
      else if trim_space requester = trim_space approver then False
      else True)"

definition has_role :: "claims option \<Rightarrow> string list \<Rightarrow> bool" where
  "has_role cl required =
     (case cl of None \<Rightarrow> False | Some c \<Rightarrow> role_loop required (cl_roles c))"

definition can_manage_users :: "claims option \<Rightarrow> bool" where
  "can_manage_users cl = has_role cl [''SUPER_ADMIN'', ''HR_ADMIN'']"

definition can_manage_payroll :: "claims option \<Rightarrow> bool" where
  "can_manage_payroll cl = has_role cl [''SUPER_ADMIN'', ''HR_ADMIN'', ''PAYROLL_ADMIN'']"

definition can_export_reports :: "claims option \<Rightarrow> bool" where
  "can_export_reports cl = has_role cl [''SUPER_ADMIN'', ''HR_ADMIN'', ''PAYROLL_ADMIN'']"

definition can_view_statutory :: "claims option \<Rightarrow> string \<Rightarrow> string \<Rightarrow> bool" where
  "can_view_statutory cl target current =
     (if cl = None then False
      else if has_role cl [''SUPER_ADMIN'', ''HR_ADMIN'', ''PAYROLL_ADMIN''] then True
      else if target \<noteq> '''' \<and> current \<noteq> '''' \<and> target = current then True
      else False)"

definition can_view_document :: "claims option \<Rightarrow> string \<Rightarrow> string \<Rightarrow> bool" where
  "can_view_document cl owner current =
     (if cl = None then False
      else if has_role cl [''SUPER_ADMIN'', ''HR_ADMIN''] then True
      else if owner \<noteq> '''' \<and> current \<noteq> '''' \<and> owner = current then True
      else False)"

lemma has_role_Some:
  "has_role (Some c) required \<longleftrightarrow>
     ''SUPER_ADMIN'' \<in> set (cl_roles c) \<or> set (cl_roles c) \<inter> set required \<noteq> {}"
  by (simp add: has_role_def role_loop_iff)

lemma has_role_None [simp]: "\<not> has_role None required"
  by (simp add: has_role_def)

lemma can_approve_task_not_same: "can_approve_task a b \<Longrightarrow> a \<noteq> b \<and> a \<noteq> '''' \<and> b \<noteq> ''''"
  by (auto simp: can_approve_task_def split: if_splits)

section \<open>The scope condition\<close>

text \<open>
  \<open>COr p cs\<close>: the disjunction of \<^verbatim>\<open><column>::text = $n\<close> for the pairs of \<open>cs\<close>, inside
  parentheses or not.
\<close>

datatype scond = CTrue | CFalse | COr bool "(string \<times> int) list"

definition render_atom :: "string \<Rightarrow> string \<times> int \<Rightarrow> string" where
  "render_atom alias a = alias @ fst a @ ''::text = $'' @ dec (snd a)"

fun join_with :: "string \<Rightarrow> string list \<Rightarrow> string" where
  "join_with sep [] = ''''"
| "join_with sep [s] = s"
| "join_with sep (s # t # ss) = s @ sep @ join_with sep (t # ss)"

definition render_cond :: "string \<Rightarrow> scond \<Rightarrow> string" where
  "render_cond alias c =
     (case c of
        CTrue \<Rightarrow> ''1=1'' | CFalse \<Rightarrow> ''1=0''
      | COr p as \<Rightarrow>
          (let t = join_with '' OR '' (map (render_atom alias) as)
           in if p then ''('' @ t @ '')'' else t))"

definition scope_where ::
  "claims option \<Rightarrow> string \<Rightarrow> string \<Rightarrow> int \<Rightarrow> scond \<times> string list \<times> int" where
  "scope_where cl emp dept i =
     (case cl of
        None \<Rightarrow> (CFalse, [], i)
      | Some c \<Rightarrow>
          if has_role cl [''SUPER_ADMIN'', ''HR_ADMIN''] then (CTrue, [], i)
          else if cl_scope c = scope_organization then (CTrue, [], i)
          else if cl_scope c = scope_department then
            (if dept = ''''
             then (COr False [(''id'', i), (''user_id'', i + 1)], [emp, cl_user c], i + 2)
             else (COr False [(''department_id'', i)], [dept], i + 1))
          else if cl_scope c = scope_direct_reports then
            (if emp = '''' then (COr False [(''user_id'', i)], [cl_user c], i + 1)
             else (COr True [(''manager_id'', i), (''id'', i + 1), (''user_id'', i + 2)],
                   [emp, emp, cl_user c], i + 3))
          else
            (if emp \<noteq> '''' then (COr True [(''id'', i), (''user_id'', i + 1)], [emp, cl_user c], i + 2)
             else (COr False [(''user_id'', i)], [cl_user c], i + 1)))"

text \<open>\<^verbatim>\<open>BuildScopeWhereClause\<close>: the text of the condition, its arguments, the next index.\<close>

definition build_scope_where_clause ::
  "claims option \<Rightarrow> string \<Rightarrow> string \<Rightarrow> int \<Rightarrow> string \<Rightarrow> string \<times> string list \<times> int" where
  "build_scope_where_clause cl emp dept i table_alias =
     (let alias = (if table_alias \<noteq> '''' then table_alias @ ''.'' else '''')
      in case scope_where cl emp dept i of (c, args, n) \<Rightarrow> (render_cond alias c, args, n))"

text \<open>
  The meaning of a condition on a row: \<open>col\<close> gives the columns as text, NULL being
  \<^term>\<open>None\<close>, and \<open>arg n\<close> the argument \<^verbatim>\<open>$n\<close>.
\<close>

definition cond_holds :: "(string \<Rightarrow> string option) \<Rightarrow> (int \<Rightarrow> string) \<Rightarrow> scond \<Rightarrow> bool" where
  "cond_holds col arg c =
     (case c of CTrue \<Rightarrow> True | CFalse \<Rightarrow> False
      | COr p as \<Rightarrow> list_ex (\<lambda>(k, n). col k = Some (arg n)) as)"

definition employee_col :: "employee_row \<Rightarrow> string \<Rightarrow> string option" where
  "employee_col e k =
     (if k = ''id'' then Some (e_id e) else if k = ''user_id'' then e_user e
      else if k = ''department_id'' then e_dept e
      else if k = ''manager_id'' then e_manager e else None)"

text \<open>What the scopes promise: the employees a caller may see.\<close>

definition is_self :: "claims \<Rightarrow> string \<Rightarrow> employee_row \<Rightarrow> bool" where
  "is_self c emp e \<longleftrightarrow> e_id e = emp \<or> e_user e = Some (cl_user c)"

definition in_scope :: "claims option \<Rightarrow> string \<Rightarrow> string \<Rightarrow> employee_row \<Rightarrow> bool" where
  "in_scope cl emp dept e \<longleftrightarrow>
     (case cl of None \<Rightarrow> False
      | Some c \<Rightarrow>
          has_role cl [''SUPER_ADMIN'', ''HR_ADMIN''] \<or> cl_scope c = scope_organization
          \<or> (cl_scope c = scope_department \<and> dept \<noteq> '''' \<and> e_dept e = Some dept)
          \<or> ((cl_scope c \<noteq> scope_department \<or> dept = '''') \<and> is_self c emp e)
          \<or> (cl_scope c = scope_direct_reports \<and> emp \<noteq> '''' \<and> e_manager e = Some emp))"

text \<open>
  C9. The condition of \<^verbatim>\<open>BuildScopeWhereClause\<close> selects exactly the employees in the caller's
  scope: everyone for an administrator or the scope ORGANIZATION, the department for DEPARTMENT,
  the direct reports and the caller for DIRECT\_REPORTS, the caller alone otherwise, and no one
  without claims. It uses the placeholders from the start index up to the index returned, one for
  each argument. Employee ids are not empty.
\<close>

theorem scope_clause_exact:
  assumes "scope_where cl emp dept i = (c, args, n)" "e_id e \<noteq> ''''"
  shows "(cond_holds (employee_col e) (\<lambda>k. args ! nat (k - i)) c \<longleftrightarrow> in_scope cl emp dept e)
         \<and> n = i + int (length args)
         \<and> (\<forall>p as. c = COr p as \<longrightarrow> map snd as = map (\<lambda>k. i + int k) [0..<length args])"
proof (cases "cl = None \<or> has_role cl [''SUPER_ADMIN'', ''HR_ADMIN'']")
  case True
  then show ?thesis using assms
    by (cases cl) (simp_all add: scope_where_def in_scope_def cond_holds_def)
next
  case False
  then obtain d where d: "cl = Some d" "\<not> has_role (Some d) [''SUPER_ADMIN'', ''HR_ADMIN'']"
    by auto
  consider "cl_scope d = scope_organization" | "cl_scope d = scope_department"
    | "cl_scope d = scope_direct_reports"
    | "cl_scope d \<notin> {scope_organization, scope_department, scope_direct_reports}" by auto
  then show ?thesis
  proof cases
    case 1
    then show ?thesis using assms d
      by (auto simp: scope_where_def in_scope_def cond_holds_def)
  next
    case 2
    then show ?thesis using assms d
      by (auto simp: scope_where_def in_scope_def is_self_def cond_holds_def employee_col_def
          split: if_splits)
  next
    case 3
    then show ?thesis using assms d
      by (auto simp: scope_where_def in_scope_def is_self_def cond_holds_def employee_col_def
          split: if_splits)
  next
    case 4
    then show ?thesis using assms d
      by (auto simp: scope_where_def in_scope_def is_self_def cond_holds_def employee_col_def
          split: if_splits)
  qed
qed

theorem scope_clause_exact_witness:
  "let e = \<lparr>e_id = ''e2'', e_user = Some ''u2'', e_code = ''EMP-2'', e_first = ''Bo'',
            e_last = ''Li'', e_dept = Some ''d1'', e_manager = Some ''e1'', e_desig = None, e_status = ''ACTIVE'',
            e_deleted = False, e_type = Some ''PERMANENT'',
            e_joined = 19000, e_probation = None, e_confirmed = None, e_notice = Some 30,
            e_nation = Some ''Indian'', e_location = None, e_phone = None, e_reports = None, e_created = 0\<rparr>;
       m = \<lparr>cl_user = ''u1'', cl_email = ''m@company.com'', cl_roles = [''MANAGER''],
            cl_scope = scope_direct_reports, cl_expires = 0, cl_issued = 0\<rparr>
   in build_scope_where_clause (Some m) ''e1'' '''' 1 ''e''
        = (''(e.manager_id::text = $1 OR e.id::text = $2 OR e.user_id::text = $3)'',
           [''e1'', ''e1'', ''u1''], 4)
      \<and> in_scope (Some m) ''e1'' '''' e"
  using scope_clause_exact [of "Some \<lparr>cl_user = ''u1'', cl_email = ''m@company.com'',
      cl_roles = [''MANAGER''], cl_scope = scope_direct_reports, cl_expires = 0, cl_issued = 0\<rparr>"
      "''e1''" "''''" 1 "COr True [(''manager_id'', 1), (''id'', 2), (''user_id'', 3)]"
      "[''e1'', ''e1'', ''u1'']" 4
      "\<lparr>e_id = ''e2'', e_user = Some ''u2'', e_code = ''EMP-2'', e_first = ''Bo'',
        e_last = ''Li'', e_dept = Some ''d1'', e_manager = Some ''e1'', e_desig = None, e_status = ''ACTIVE'',
        e_deleted = False, e_type = Some ''PERMANENT'',
            e_joined = 19000, e_probation = None, e_confirmed = None, e_notice = Some 30,
            e_nation = Some ''Indian'', e_location = None, e_phone = None, e_reports = None, e_created = 0\<rparr>"]
  by (simp add: scope_where_def has_role_Some cond_holds_def employee_col_def
      build_scope_where_clause_def render_cond_def render_atom_def dec_def decn.simps)

text \<open>The claims of an administrator, for the witnesses.\<close>

definition admin_claims :: claims where
  "admin_claims = \<lparr>cl_user = ''u9'', cl_email = ''hr@company.com'', cl_roles = [''HR_ADMIN''],
     cl_scope = scope_organization, cl_expires = 0, cl_issued = 0\<rparr>"

lemma admin_claims_roles [simp]:
  "has_role (Some admin_claims) rs \<longleftrightarrow> ''HR_ADMIN'' \<in> set rs"
  by (auto simp: has_role_Some admin_claims_def)

end
