(* ===== verification/Audit_Log.thy ===== *)
theory Audit_Log
  imports Schema
begin

text \<open>
  \<^verbatim>\<open>internal/audit/audit.go\<close>: one row per audited action. The columns \<^verbatim>\<open>user_id\<close> and
  \<^verbatim>\<open>entity_id\<close> are UUIDs, so that an entry whose ids are not is refused by the server; the
  services that write entries ignore the error.
\<close>

record log_entry =
  le_user :: string
  le_action :: string
  le_module :: string
  le_entity :: string
  le_entity_id :: string
  le_reason :: string

definition log_action :: "log_entry \<Rightarrow> ('a world_scheme, nat option) state" where
  "log_action e = exec (\<lambda>w.
     case (uuid_in w (le_user e), uuid_in w (le_entity_id e)) of
       (Some u, Some i) \<Rightarrow>
         Some (1, w\<lparr>audit_logs := audit_logs w @
           [\<lparr>au_user = u, au_action = le_action e, au_module = le_module e,
             au_entity = le_entity e, au_entity_id = i, au_reason = le_reason e,
             au_time = now w\<rparr>]\<rparr>)
     | _ \<Rightarrow> None)"

text \<open>An audit entry touches no other table.\<close>

lemma keeps_log_action [keeps_rules]:
  assumes "stable I" "\<And>w rs. I w \<Longrightarrow> I (w\<lparr>audit_logs := rs\<rparr>)"
  shows "keeps I (log_action e)"
  unfolding log_action_def
  by (rule keeps_exec) (use assms in \<open>auto split: option.splits\<close>)

text \<open>In a calm run it succeeds or not, and leaves a list of entries.\<close>

definition audit_result :: "log_entry \<Rightarrow> 'a world_scheme \<Rightarrow> nat option" where
  "audit_result e w = fst (run_state (log_action e) w)"

definition audited :: "log_entry \<Rightarrow> 'a world_scheme \<Rightarrow> audit_row list" where
  "audited e w = audit_logs (snd (run_state (log_action e) w))"

lemma run_log_action:
  assumes "outcomes w = []"
  shows "run_state (log_action e) w = (audit_result e w, w\<lparr>audit_logs := audited e w\<rparr>)"
proof (cases "uuid_in w (le_user e) = None \<or> uuid_in w (le_entity_id e) = None")
  case True
  then have "run_state (log_action e) w = (None, w)"
    using assms by (auto simp: log_action_def run_exec_calm split: option.split)
  then show ?thesis by (simp add: audit_result_def audited_def)
next
  case False
  then obtain u i where "uuid_in w (le_user e) = Some u" "uuid_in w (le_entity_id e) = Some i"
    by auto
  then show ?thesis
    using assms by (simp add: log_action_def run_exec_calm audit_result_def audited_def)
qed

end
