(* ===== verification/Pagination.thy ===== *)
theory Pagination
  imports Float64 Schema
begin

text \<open>
  \<^verbatim>\<open>internal/common\<close>: the error object and the pagination of lists. A URL query is a
  function from parameter names to their first value, empty when absent, as
  \<^verbatim>\<open>url.Values.Get\<close> gives it.
\<close>

type_synonym url_query = "string \<Rightarrow> string"

definition common_json_error :: "string \<Rightarrow> int \<Rightarrow> response" where
  "common_json_error msg code = fail_json code msg"

lemma common_json_error_code [simp]: "rcode (common_json_error m c) = c"
  by (simp add: common_json_error_def)

record pagination_params =
  pp_page :: int
  pp_limit :: int
  pp_offset :: int
  pp_search :: string
  pp_sort_by :: string
  pp_sort_order :: string

record pagination_meta =
  pm_page :: int
  pm_limit :: int
  pm_total :: int
  pm_total_pages :: int
  pm_has_next :: bool
  pm_has_prev :: bool

definition parse_pagination_params :: "url_query \<Rightarrow> pagination_params" where
  "parse_pagination_params q =
     (let page = (case atoi (q ''page'') of Some p \<Rightarrow> if p < 1 then 1 else p | None \<Rightarrow> 1);
          limit = (case atoi (q ''limit'') of
                     Some l \<Rightarrow> if l < 1 then 10 else if l > 100 then 100 else l
                   | None \<Rightarrow> 10);
          offset = wrap64 ((page - 1) * limit);
          order = q ''sort_order''
      in \<lparr>pp_page = page, pp_limit = limit, pp_offset = offset, pp_search = q ''search'',
          pp_sort_by = q ''sort_by'',
          pp_sort_order = (if order \<noteq> ''ASC'' \<and> order \<noteq> ''asc'' then ''DESC'' else order)\<rparr>)"

definition build_pagination_meta :: "int \<Rightarrow> int \<Rightarrow> int \<Rightarrow> pagination_meta" where
  "build_pagination_meta tot page limit0 =
     (let limit = (if limit0 < 1 then 10 else limit0);
          pages0 = \<lceil>fdiv (f_of_int tot) (f_of_int limit)\<rceil>;
          pages = (if pages0 < 1 then 1 else pages0)
      in \<lparr>pm_page = page, pm_limit = limit, pm_total = tot, pm_total_pages = pages,
          pm_has_next = page < pages, pm_has_prev = 1 < page\<rparr>)"

definition meta_json :: "pagination_meta \<Rightarrow> json" where
  "meta_json m =
     JObj [(''page'', JInt (pm_page m)), (''limit'', JInt (pm_limit m)),
           (''total'', JInt (pm_total m)), (''total_pages'', JInt (pm_total_pages m)),
           (''has_next'', JBool (pm_has_next m)), (''has_prev'', JBool (pm_has_prev m))]"

text \<open>\<^verbatim>\<open>LIMIT $1 OFFSET $2\<close>; a negative offset is an error of the server.\<close>

definition page_of :: "pagination_params \<Rightarrow> 'r list \<Rightarrow> 'r list option" where
  "page_of pg rows =
     (if pp_offset pg < 0 then None
      else Some (take (nat (pp_limit pg)) (drop (nat (pp_offset pg)) rows)))"

text \<open>The body of a paginated answer.\<close>

definition page_response :: "json list \<Rightarrow> int \<Rightarrow> pagination_params \<Rightarrow> response" where
  "page_response rows tot pg =
     respond status_ok
       [(''success'', JBool True), (''data'', JArr rows), (''total'', JInt tot),
        (''pagination'', meta_json (build_pagination_meta tot (pp_page pg) (pp_limit pg)))]"

section \<open>Parameters\<close>

lemma parse_bounds:
  "1 \<le> pp_page (parse_pagination_params q) \<and> int64 (pp_page (parse_pagination_params q))"
  "1 \<le> pp_limit (parse_pagination_params q) \<and> pp_limit (parse_pagination_params q) \<le> 100"
  using atoi_int64 [of "q ''page''"]
  by (auto simp: parse_pagination_params_def Let_def int64_def split: option.split)

lemma parse_offset:
  assumes "pp_page (parse_pagination_params q) \<le> 92233720368547759"
  shows "pp_offset (parse_pagination_params q)
         = (pp_page (parse_pagination_params q) - 1) * pp_limit (parse_pagination_params q)"
proof -
  let ?p = "pp_page (parse_pagination_params q)" and ?l = "pp_limit (parse_pagination_params q)"
  have "(?p - 1) * ?l \<le> 92233720368547758 * 100"
    by (rule mult_mono) (use parse_bounds [of q] assms in auto)
  moreover have "0 \<le> (?p - 1) * ?l" using parse_bounds [of q] by simp
  ultimately have "int64 ((?p - 1) * ?l)" by (simp add: int64_def)
  then show ?thesis by (simp add: parse_pagination_params_def Let_def)
qed

section \<open>The number of pages\<close>

text \<open>
  A quotient of integers that is not whole is at least \<open>1/128\<close> above the whole number below it
  when the divisor is at most 128, and a float64 resolves that.
\<close>

lemma ceil_quotient:
  assumes "0 \<le> t" "t < 2 ^ 46" "1 \<le> l" "l \<le> 100"
  shows "\<lceil>fdiv (f_of_int t) (f_of_int l)\<rceil> = (t + l - 1) div l"
proof -
  define k where "k = t div l"
  let ?q = "of_int t / of_int l :: rat"
  have f: "fdiv (f_of_int t) (f_of_int l) = fl ?q"
    using assms by (simp add: fdiv_def f_of_int_exact)
  have tl: "t = k * l + t mod l" by (simp add: k_def)
  have k0: "0 \<le> k" using assms by (simp add: k_def pos_imp_zdiv_nonneg_iff)
  then have "k \<le> k * l" using assms mult_left_mono [of 1 l k] by simp
  then have k: "0 \<le> k" "k \<le> t" using k0 tl assms by (simp_all, smt pos_mod_sign)
  show ?thesis
  proof (cases "t mod l = 0")
    case True
    then have "t = k * l" using tl by simp
    moreover from this have "?q = of_int k" using assms by simp
    moreover have "(k * l + l - 1) div l = k + (l - 1) div l"
      using assms by (metis add_diff_eq div_mult_self3 less_le_trans not_less zero_less_one)
    ultimately show ?thesis
      unfolding f using assms k by (simp add: b64.of_int [of k] div_pos_pos_trivial)
  next
    case False
    then have r: "1 \<le> t mod l" "t mod l < l"
      using assms pos_mod_sign [of l t] pos_mod_bound [of l t] by linarith+
    have "?q = of_int (k * l + t mod l) / of_int l" using tl by simp
    then have q: "?q = of_int k + of_int (t mod l) / of_int l"
      using assms by (simp add: add_divide_distrib)
    have "of_int l \<le> (128 :: rat)" using assms by simp
    then have "1 / 128 \<le> (1 / of_int l :: rat)"
      using assms by (intro divide_left_mono) auto
    also have "\<dots> \<le> of_int (t mod l) / of_int l"
      using r assms by (intro divide_right_mono) auto
    finally have lo: "of_int (128 * k + 1) / 2 ^ 7 \<le> ?q" using q by (simp add: field_simps)
    have "is_f64 (of_int (128 * k + 1) / 2 ^ 7)"
      using k assms by (intro f64_shift) auto
    then have "of_int k < fl ?q" using b64.ge_bound [OF lo] by (simp add: field_simps)
    moreover have "?q \<le> of_int (k + 1)" using q r by (simp add: divide_le_eq)
    then have "fl ?q \<le> of_int (k + 1)"
      using k assms by (intro b64.le_bound f64_int) auto
    ultimately have "\<lceil>fl ?q\<rceil> = k + 1" by (simp add: ceiling_eq_iff)
    moreover have "(t + l - 1) div l = k + 1"
    proof -
      have "t + l - 1 = (t mod l - 1) + (k + 1) * l" by (subst tl) (simp add: algebra_simps)
      then show ?thesis using r by (simp only: div_mult_self1) (simp add: div_pos_pos_trivial)
    qed
    ultimately show ?thesis by (simp add: f)
  qed
qed

lemma concat_pages: "concat (map (\<lambda>p. take l (drop (p * l) xs)) [0..<n]) = take (n * l) xs"
  by (induction n) (simp_all add: take_add [symmetric] add.commute)



end
