(* ===== verification/Salary.thy ===== *)
theory Salary
  imports Authz Audit_Log Pagination "HOL-Library.Product_Lexorder" "HOL-Library.List_Lexorder"
begin

text \<open>
  \<^verbatim>\<open>internal/payroll/matrix.go\<close>: currencies, the breakdown of a base salary into earnings and
  deductions in floating point, and the employees' salary structures.
\<close>

section \<open>The salary breakdown\<close>

record component_amount =
  ca_code :: string
  ca_name :: string
  ca_amount :: float64

record salary_breakdown =
  sb_base :: float64
  sb_currency :: string
  sb_symbol :: string
  sb_gross :: float64
  sb_deductions :: float64
  sb_net :: float64
  sb_earnings :: "component_amount list"
  sb_deduction_items :: "component_amount list"

text \<open>The constants \<^verbatim>\<open>0.50\<close>, \<^verbatim>\<open>0.40\<close>, \<^verbatim>\<open>0.12\<close> and \<^verbatim>\<open>0.10\<close> as float64.\<close>

definition pct_50 :: float64 where "pct_50 = fl (50 / 100)"
definition pct_40 :: float64 where "pct_40 = fl (40 / 100)"
definition pct_12 :: float64 where "pct_12 = fl (12 / 100)"
definition pct_10 :: float64 where "pct_10 = fl (10 / 100)"

definition convert_currency :: "float64 \<Rightarrow> float64 \<Rightarrow> float64 \<Rightarrow> float64" where
  "convert_currency amount from_rate to_rate =
     (if from_rate \<le> 0 \<or> to_rate \<le> 0 then amount
      else fmul (fdiv amount from_rate) to_rate)"

definition calculate_salary_breakdown :: "float64 \<Rightarrow> string \<Rightarrow> string \<Rightarrow> salary_breakdown" where
  "calculate_salary_breakdown base_salary currency symbol =
     (if base_salary \<le> 0
      then \<lparr>sb_base = 0, sb_currency = currency, sb_symbol = symbol, sb_gross = 0,
            sb_deductions = 0, sb_net = 0, sb_earnings = [], sb_deduction_items = []\<rparr>
      else
        (let basic = fmul base_salary pct_50;
             hra = fmul basic pct_40;
             special0 = fsub base_salary (fadd basic hra);
             special = (if special0 < 0 then 0 else special0);
             gross = fadd (fadd basic hra) special;
             pf = fmul basic pct_12;
             tds = fmul gross pct_10;
             prof_tax = (if gross < 15000 then 0 else 200);
             total_deductions = fadd (fadd pf tds) prof_tax;
             net = fsub gross total_deductions
         in \<lparr>sb_base = base_salary, sb_currency = currency, sb_symbol = symbol,
             sb_gross = gross, sb_deductions = total_deductions, sb_net = net,
             sb_earnings =
               [\<lparr>ca_code = ''BASIC'', ca_name = ''Basic Salary (50%)'', ca_amount = basic\<rparr>,
                \<lparr>ca_code = ''HRA'', ca_name = ''House Rent Allowance (40% Basic)'', ca_amount = hra\<rparr>,
                \<lparr>ca_code = ''SPECIAL_ALLOWANCE'', ca_name = ''Special Allowance'',
                 ca_amount = special\<rparr>],
             sb_deduction_items =
               [\<lparr>ca_code = ''PF_EMP'', ca_name = ''Provident Fund Employee (12% Basic)'',
                 ca_amount = pf\<rparr>,
                \<lparr>ca_code = ''INCOME_TAX'', ca_name = ''TDS / Income Tax (10% Gross)'',
                 ca_amount = tds\<rparr>,
                \<lparr>ca_code = ''PROF_TAX'', ca_name = ''Professional Tax'', ca_amount = prof_tax\<rparr>]\<rparr>))"

text \<open>Rates of the source as float64, between powers of two.\<close>

lemma rates:
  "pct_50 = 1 / 2" "0 \<le> pct_40" "pct_40 \<le> 1" "0 \<le> pct_12" "pct_12 \<le> 1 / 8"
  "0 \<le> pct_10" "pct_10 \<le> 1 / 8"
proof -
  have h: "is_f64 (1 / 2)" "is_f64 (1 / 8)"
    using f64_shift [of 1 1] f64_shift [of 1 3] by simp_all
  show "pct_50 = 1 / 2" using b64.exact [OF h(1)] by (simp add: pct_50_def)
  show "0 \<le> pct_40" "0 \<le> pct_12" "0 \<le> pct_10"
    unfolding pct_40_def pct_12_def pct_10_def by (rule b64.nonneg; simp)+
  show "pct_40 \<le> 1" "pct_12 \<le> 1 / 8" "pct_10 \<le> 1 / 8"
    unfolding pct_40_def pct_12_def pct_10_def by (rule b64.le_bound; simp add: h)+
qed

text \<open>
  The salaries the breakdown is exact on: float64 numbers that can be halved sixty-four times over
  without underflow. Every amount the database stores is one.
\<close>

definition payable :: "float64 \<Rightarrow> bool" where
  "payable b \<longleftrightarrow> is_f64 b \<and> 2 powi (- 1000) \<le> b"

lemma payable_pos: "payable b \<Longrightarrow> 0 < b"
  unfolding payable_def by (meson less_le_trans zero_less_numeral zero_less_power_int)

lemma payable_shift: "payable b \<Longrightarrow> k \<le> 21 \<Longrightarrow> is_f64 (b / 2 ^ k)"
proof -
  assume b: "payable b" "k \<le> 21"
  have "(2 powi (int k - 1021) :: rat) \<le> 2 powi (- 1000)" using b(2) by (intro powi_two_mono) simp
  then show ?thesis using b by (intro f64_div_pow2) (auto simp: payable_def)
qed

lemma payable_fractions:
  assumes "payable b"
  shows "is_f64 b" "is_f64 (b / 2)" "is_f64 (b / 4)" "is_f64 (b / 8)" "is_f64 (b / 16)"
  using payable_shift [OF assms, of 0] payable_shift [OF assms, of 1] payable_shift [OF assms, of 2]
    payable_shift [OF assms, of 3] payable_shift [OF assms, of 4]
  by simp_all

lemma basic_exact: "payable b \<Longrightarrow> fmul b pct_50 = b / 2"
  by (simp add: fmul_def rates payable_fractions b64.exact)

lemma hra_bounds:
  assumes "payable b"
  shows "0 \<le> fmul (b / 2) pct_40" "fmul (b / 2) pct_40 \<le> b / 2"
proof -
  have b: "0 \<le> b / 2" using payable_pos [OF assms] by simp
  then show "0 \<le> fmul (b / 2) pct_40"
    unfolding fmul_def using rates by (intro b64.nonneg mult_nonneg_nonneg) auto
  show "fmul (b / 2) pct_40 \<le> b / 2"
    unfolding fmul_def using b rates mult_left_mono [of "pct_40" 1 "b / 2"]
    by (intro b64.le_bound payable_fractions assms) auto
qed

lemma gross_exact:
  assumes "payable b"
  defines "y \<equiv> fadd (b / 2) (fmul (b / 2) pct_40)"
  shows "0 \<le> fsub b y" "fadd y (fsub b y) = b"
proof -
  have "b / 2 \<le> y" "y \<le> b"
    using b64.between [of "b / 2" "b / 2 + fmul (b / 2) pct_40" b] hra_bounds [OF assms(1)]
      payable_fractions [OF assms(1)]
    by (simp_all add: y_def fadd_def)
  moreover have "is_f64 y" by (simp add: y_def fadd_def b64.repr)
  ultimately show "fadd y (fsub b y) = b" "0 \<le> fsub b y"
    using b64.split_total [of b y] payable_pos [OF assms(1)] payable_fractions [OF assms(1)]
    by (auto simp: fadd_def fsub_def)
qed

lemma deduction_bounds:
  assumes "payable b"
  defines "d \<equiv> fadd (fadd (fmul (b / 2) pct_12) (fmul b pct_10)) (if b < 15000 then 0 else 200)"
  shows "0 \<le> d" "d \<le> b / 2"
proof -
  note f = payable_fractions [OF assms(1)] and pos = payable_pos [OF assms(1)]
  have pf: "0 \<le> fmul (b / 2) pct_12" "fmul (b / 2) pct_12 \<le> b / 16"
    using pos rates mult_left_mono [of "pct_12" "1 / 8" "b / 2"]
      b64.between [of 0 "b / 2 * pct_12" "b / 16"] f
    by (simp_all add: fmul_def)
  have tds: "0 \<le> fmul b pct_10" "fmul b pct_10 \<le> b / 8"
    using pos rates mult_left_mono [of "pct_10" "1 / 8" b]
      b64.between [of 0 "b * pct_10" "b / 8"] f
    by (simp_all add: fmul_def)
  have s: "0 \<le> fadd (fmul (b / 2) pct_12) (fmul b pct_10)"
    "fadd (fmul (b / 2) pct_12) (fmul b pct_10) \<le> b / 4"
    using b64.between [of 0 "fmul (b / 2) pct_12 + fmul b pct_10" "b / 4"] pf tds pos f
    by (simp_all add: fadd_def)
  have t: "(0 :: rat) \<le> (if b < 15000 then 0 else 200)"
    "(if b < 15000 then 0 else 200) \<le> b / 4" using pos by auto
  show "0 \<le> d" unfolding d_def fadd_def [of _ "if b < 15000 then 0 else 200"]
    by (intro b64.nonneg add_nonneg_nonneg s t)
  show "d \<le> b / 2" unfolding d_def fadd_def [of _ "if b < 15000 then 0 else 200"]
    using s t pos by (intro b64.le_bound f) linarith
qed

lemma breakdown_simps:
  assumes "payable b"
  shows "sb_base (calculate_salary_breakdown b c s) = b"
    "sb_gross (calculate_salary_breakdown b c s) = b"
    "sb_deductions (calculate_salary_breakdown b c s)
       = fadd (fadd (fmul (b / 2) pct_12) (fmul b pct_10)) (if b < 15000 then 0 else 200)"
    "sb_net (calculate_salary_breakdown b c s)
       = fsub b (sb_deductions (calculate_salary_breakdown b c s))"
    "map ca_amount (sb_earnings (calculate_salary_breakdown b c s))
       = [b / 2, fmul (b / 2) pct_40, fsub b (fadd (b / 2) (fmul (b / 2) pct_40))]"
  using gross_exact [OF assms] payable_pos [OF assms]
  by (simp_all add: calculate_salary_breakdown_def Let_def basic_exact [OF assms])


lemma payable_int: "1 \<le> n \<Longrightarrow> n \<le> 2 ^ 53 \<Longrightarrow> payable (of_int n)"
proof -
  assume n: "1 \<le> n" "n \<le> 2 ^ 53"
  have "(2 powi (- 1000) :: rat) \<le> 2 powi 0" by (rule powi_two_mono) simp
  also have "\<dots> \<le> of_int n" using n by simp
  finally show ?thesis using n by (auto simp: payable_def intro: f64_int)
qed


section \<open>Currencies and components\<close>

record currency_item =
  ci_code :: string
  ci_name :: string
  ci_symbol :: string
  ci_rate :: float64
  ci_base :: bool

definition currency_json :: "currency_item \<Rightarrow> json" where
  "currency_json c =
     JObj [(''code'', JStr (ci_code c)), (''name'', JStr (ci_name c)),
           (''symbol'', JStr (ci_symbol c)), (''exchange_rate_to_base'', JNum (ci_rate c)),
           (''is_base'', JBool (ci_base c))]"

definition currency_item_of :: "currency_row \<Rightarrow> currency_item" where
  "currency_item_of r =
     \<lparr>ci_code = cu_code r, ci_name = cu_name r, ci_symbol = cu_symbol r,
      ci_rate = fl (cu_rate r), ci_base = cu_base r\<rparr>"

definition handle_get_currencies :: "('a world_scheme, response) state" where
  "handle_get_currencies = do {
     nil \<leftarrow> reads db_nil;
     err \<leftarrow> reads err_text;
     (if nil then State_Monad.return db_unavailable
      else
        orelse
          (select (\<lambda>w. map currency_item_of
             (sort_key (\<lambda>r. (\<not> cu_base r, cu_code r)) (currencies w))))
          (fail_json status_internal err)
          (\<lambda>items. State_Monad.return
             (respond status_ok
                [(''success'', JBool True), (''data'', JArr (map currency_json items))])))
   }"

definition handle_update_currency ::
  "claims option \<Rightarrow> currency_item option \<Rightarrow> ('a world_scheme, response) state" where
  "handle_update_currency cl body =
     (if \<not> has_role cl [''SUPER_ADMIN'', ''HR_ADMIN'']
      then State_Monad.return
        (forbidden_response ''FORBIDDEN_ROLE''
           ''Only HR and Super Admins can update currency exchange rates.'')
      else
        (case body of
           None \<Rightarrow> State_Monad.return (http_error ''invalid currency payload'' status_bad_request)
         | Some req \<Rightarrow>
             if ci_code req = '''' \<or> ci_rate req \<le> 0
             then State_Monad.return (http_error ''invalid currency payload'' status_bad_request)
             else do {
               nil \<leftarrow> reads db_nil;
               err \<leftarrow> reads err_text;
               let ok = respond status_ok
                 [(''success'', JBool True),
                  (''message'', JStr ''Currency exchange rate updated successfully.''),
                  (''data'', currency_json req)];
               (if nil then State_Monad.return ok
                else
                  orelse
                    (exec (\<lambda>w. case to_num w 6 (ci_rate req) of
                       None \<Rightarrow> None
                     | Some rate \<Rightarrow>
                         Some (1, w\<lparr>currencies :=
                           upsert (\<lambda>r. cu_code r = ci_code req)
                             (\<lambda>r. r\<lparr>cu_name := ci_name req, cu_symbol := ci_symbol req,
                                    cu_rate := rate, cu_base := ci_base req\<rparr>)
                             \<lparr>cu_code = ci_code req, cu_name = ci_name req,
                              cu_symbol = ci_symbol req, cu_rate = rate, cu_base = ci_base req\<rparr>
                             (currencies w)\<rparr>)))
                    (fail_json status_internal err)
                    (\<lambda>_. do {
                       _ \<leftarrow> log_action
                         \<lparr>le_user = cl_user (the cl), le_action = ''CURRENCY_RATE_UPDATE'',
                          le_module = ''PAYROLL'', le_entity = ''currencies'',
                          le_entity_id = ci_code req,
                          le_reason = ''Exchange rate updated for '' @ ci_code req @ '' to ''
                            @ show_fixed 6 (ci_rate req)\<rparr>;
                       State_Monad.return ok
                     }))
             }))"

record salary_component_item =
  si_id :: string
  si_code :: string
  si_name :: string
  si_type :: string
  si_calc :: string
  si_value :: float64
  si_taxable :: bool
  si_statutory :: bool

definition component_item_of :: "component_row \<Rightarrow> salary_component_item" where
  "component_item_of r =
     \<lparr>si_id = sc_id r, si_code = text_or_empty (sc_code r), si_name = sc_name r,
      si_type = sc_type r,
      si_calc = (case sc_calc r of None \<Rightarrow> ''FLAT'' | Some c \<Rightarrow> c),
      si_value = (case sc_value r of None \<Rightarrow> 0 | Some v \<Rightarrow> fl v),
      si_taxable = (case sc_taxable r of None \<Rightarrow> True | Some b \<Rightarrow> b),
      si_statutory = (case sc_statutory r of None \<Rightarrow> False | Some b \<Rightarrow> b)\<rparr>"

definition component_json :: "salary_component_item \<Rightarrow> json" where
  "component_json c =
     JObj [(''id'', JStr (si_id c)), (''code'', JStr (si_code c)), (''name'', JStr (si_name c)),
           (''component_type'', JStr (si_type c)), (''calculation_type'', JStr (si_calc c)),
           (''default_value'', JNum (si_value c)), (''is_taxable'', JBool (si_taxable c)),
           (''is_statutory'', JBool (si_statutory c))]"

definition handle_get_components :: "('a world_scheme, response) state" where
  "handle_get_components = do {
     nil \<leftarrow> reads db_nil;
     err \<leftarrow> reads err_text;
     (if nil then State_Monad.return db_unavailable
      else
        orelse
          (select (\<lambda>w. map component_item_of
             (sort_key (\<lambda>r. (sc_type r, sc_name r)) (components w))))
          (fail_json status_internal err)
          (\<lambda>items. State_Monad.return
             (respond status_ok
                [(''success'', JBool True), (''data'', JArr (map component_json items))])))
   }"

section \<open>Preview and salary structures\<close>

text \<open>The rupee, euro and pound signs, in UTF-8.\<close>

definition rupee :: string where "rupee = [CHR 0xE2, CHR 0x82, CHR 0xB9]"
definition euro :: string where "euro = [CHR 0xE2, CHR 0x82, CHR 0xAC]"
definition pound :: string where "pound = [CHR 0xC2, CHR 0xA3]"

definition amount_json :: "component_amount \<Rightarrow> json" where
  "amount_json a =
     JObj [(''code'', JStr (ca_code a)), (''name'', JStr (ca_name a)),
           (''amount'', JNum (ca_amount a))]"

definition breakdown_json :: "salary_breakdown \<Rightarrow> json" where
  "breakdown_json b =
     JObj [(''base_salary'', JNum (sb_base b)), (''currency_code'', JStr (sb_currency b)),
           (''currency_symbol'', JStr (sb_symbol b)), (''gross_earnings'', JNum (sb_gross b)),
           (''total_deductions'', JNum (sb_deductions b)), (''net_pay'', JNum (sb_net b)),
           (''earnings'', JArr (map amount_json (sb_earnings b))),
           (''deductions'', JArr (map amount_json (sb_deduction_items b)))]"

definition handle_calculate_preview :: "(float64 \<times> string) option \<Rightarrow> response" where
  "handle_calculate_preview body =
     (case body of
        None \<Rightarrow> http_error ''invalid salary preview payload'' status_bad_request
      | Some (base_salary, currency) \<Rightarrow>
          if base_salary \<le> 0 then http_error ''invalid salary preview payload'' status_bad_request
          else
            (let symbol = (if currency = ''USD'' then ''$''
                           else if currency = ''EUR'' then euro
                           else if currency = ''GBP'' then pound
                           else if currency = ''AED'' then ''AED ''
                           else rupee)
             in respond status_ok
                  [(''success'', JBool True),
                   (''data'', breakdown_json
                      (calculate_salary_breakdown base_salary currency symbol))]))"

record structure_request =
  sr_employee :: string
  sr_currency :: string
  sr_base :: float64

definition deactivate_structures :: "string \<Rightarrow> ('a world_scheme, nat option) state" where
  "deactivate_structures emp = exec (\<lambda>w.
     case uuid_in w emp of
       None \<Rightarrow> None
     | Some e \<Rightarrow>
         Some (count_where (\<lambda>s. ss_emp s = e) (structures w),
           w\<lparr>structures := upd_where (\<lambda>s. ss_emp s = e) (ss_active_update (\<lambda>_. False))
                (structures w)\<rparr>))"

definition insert_structure :: "structure_request \<Rightarrow> ('a world_scheme, string option) state" where
  "insert_structure req = insert_row (\<lambda>i w.
     case (uuid_in w (sr_employee req), to_num w 2 (sr_base req)) of
       (Some e, Some base) \<Rightarrow>
         Some (w\<lparr>structures := structures w @
           [\<lparr>ss_id = i, ss_emp = e, ss_currency = sr_currency req, ss_base = base,
             ss_active = True, ss_created = now w\<rparr>]\<rparr>)
     | _ \<Rightarrow> None)"

definition handle_save_structure ::
  "claims option \<Rightarrow> structure_request option \<Rightarrow> ('a world_scheme, response) state" where
  "handle_save_structure cl body =
     (if \<not> has_role cl [''SUPER_ADMIN'', ''HR_ADMIN'']
      then State_Monad.return
        (forbidden_response ''FORBIDDEN_ROLE''
           ''Only HR and Super Admins can configure employee salary structures.'')
      else
        (case body of
           None \<Rightarrow> State_Monad.return (http_error ''invalid structure payload'' status_bad_request)
         | Some req0 \<Rightarrow>
             if sr_employee req0 = '''' \<or> sr_base req0 \<le> 0
             then State_Monad.return (http_error ''invalid structure payload'' status_bad_request)
             else do {
               let req = (if sr_currency req0 = '''' then req0\<lparr>sr_currency := ''INR''\<rparr> else req0);
               nil \<leftarrow> reads db_nil;
               err \<leftarrow> reads err_text;
               let ok = respond status_ok
                 [(''success'', JBool True),
                  (''message'', JStr ''Employee salary structure saved successfully.'')];
               (if nil then State_Monad.return ok
                else do {
                  _ \<leftarrow> deactivate_structures (sr_employee req);
                  orelse (insert_structure req) (fail_json status_internal err)
                    (\<lambda>sid. do {
                       _ \<leftarrow> log_action
                         \<lparr>le_user = cl_user (the cl), le_action = ''SALARY_STRUCTURE_ASSIGNMENT'',
                          le_module = ''PAYROLL'', le_entity = ''employee_salary_structures'',
                          le_entity_id = sid,
                          le_reason = ''Assigned base salary '' @ show_fixed 2 (sr_base req) @ '' ''
                            @ sr_currency req @ '' to employee '' @ sr_employee req\<rparr>;
                       State_Monad.return ok
                     })
                })
             }))"

text \<open>The active structures of an employee, latest first.\<close>

definition active_structures :: "string \<Rightarrow> 'a world_scheme \<Rightarrow> structure_row list" where
  "active_structures e w =
     sort_key (\<lambda>s. - ss_created s)
       (filter (\<lambda>s. ss_emp s = e \<and> ss_active s) (structures w))"

definition handle_get_structure :: "string \<Rightarrow> ('a world_scheme, response) state" where
  "handle_get_structure emp =
     (if emp = '''' then State_Monad.return (http_error ''missing employee_id'' status_bad_request)
      else do {
        nil \<leftarrow> reads db_nil;
        (if nil then State_Monad.return db_unavailable
         else do {
           found \<leftarrow> query_row (\<lambda>w. case uuid_in w emp of
               None \<Rightarrow> None
             | Some e \<Rightarrow> Some (map (\<lambda>s. (ss_currency s, fl (ss_base s))) (active_structures e w)));
           let (currency, base_salary) =
             (case found of Some cb \<Rightarrow> cb | None \<Rightarrow> (''INR'', 60000));
           let symbol = (if currency = ''USD'' then ''$'' else rupee);
           State_Monad.return
             (respond status_ok
                [(''success'', JBool True),
                 (''data'', breakdown_json
                    (calculate_salary_breakdown base_salary currency symbol))])
         })
      })"

section \<open>One active structure per employee\<close>

lemma active_after_deactivate:
  "filter (\<lambda>s. ss_emp s = e \<and> ss_active s)
     (upd_where (\<lambda>s. ss_emp s = e) (ss_active_update (\<lambda>_. False)) ss) = []"
  by (induction ss) auto

lemma other_after_deactivate:
  "filter (\<lambda>s. ss_emp s \<noteq> e)
     (upd_where (\<lambda>s. ss_emp s = e) (ss_active_update (\<lambda>_. False)) ss)
   = filter (\<lambda>s. ss_emp s \<noteq> e) ss"
  by (induction ss) auto

text \<open>
  Saving a salary structure replaces the employee's: after a successful
  \<^verbatim>\<open>HandleSaveStructure\<close> the employee has exactly one active structure, the one of the
  request as the database stores it (with INR when no currency is given), and the structures of
  the other employees are untouched. The two statements are not one transaction: when the insertion
  alone fails, the employee is left without an active structure.
\<close>

theorem save_structure_effect:
  assumes "has_role cl [''SUPER_ADMIN'', ''HR_ADMIN'']" "\<not> db_nil w"
    and req: "sr_employee req \<noteq> ''''" "0 < sr_base req"
    and stored: "uuid_in w (sr_employee req) = Some e" "to_num w 2 (sr_base req) = Some base"
  shows "(outcomes w = [] \<longrightarrow>
           (let (r, w') = run_state (handle_save_structure cl (Some req)) w
            in rcode r = status_ok
               \<and> map (\<lambda>s. (ss_currency s, ss_base s)) (active_structures e w')
                 = [(if sr_currency req = '''' then ''INR'' else sr_currency req, base)]
               \<and> filter (\<lambda>s. ss_emp s \<noteq> e) (structures w') = filter (\<lambda>s. ss_emp s \<noteq> e) (structures w)))
         \<and> (outcomes w = [True, False] \<longrightarrow>
           (let (r, w') = run_state (handle_save_structure cl (Some req)) w
            in rcode r = status_internal \<and> active_structures e w' = []))"
proof (intro conjI impI)
  assume o: "outcomes w = []"
  let ?ss = "upd_where (\<lambda>s. ss_emp s = e) (ss_active_update (\<lambda>_. False)) (structures w)"
  define row where "row = \<lparr>ss_id = ids w (issued w), ss_emp = e,
      ss_currency = (if sr_currency req = '''' then ''INR'' else sr_currency req),
      ss_base = base, ss_active = True, ss_created = now w\<rparr>"
  define w1 where "w1 = w\<lparr>structures := ?ss @ [row], issued := issued w + 1\<rparr>"
  have "\<exists>rs. run_state (handle_save_structure cl (Some req)) w
      = (respond status_ok [(''success'', JBool True),
           (''message'', JStr ''Employee salary structure saved successfully.'')],
         w1\<lparr>audit_logs := rs\<rparr>)"
    using assms o
    by (auto simp: handle_save_structure_def Let_def run_calm run_log_action
        deactivate_structures_def insert_structure_def w1_def row_def)
  then show "let (r, w') = run_state (handle_save_structure cl (Some req)) w
      in rcode r = status_ok
         \<and> map (\<lambda>s. (ss_currency s, ss_base s)) (active_structures e w')
           = [(if sr_currency req = '''' then ''INR'' else sr_currency req, base)]
         \<and> filter (\<lambda>s. ss_emp s \<noteq> e) (structures w') = filter (\<lambda>s. ss_emp s \<noteq> e) (structures w)"
    by (auto simp: w1_def row_def active_structures_def active_after_deactivate
        other_after_deactivate)
next
  assume "outcomes w = [True, False]"
  then show "let (r, w') = run_state (handle_save_structure cl (Some req)) w
      in rcode r = status_internal \<and> active_structures e w' = []"
    using assms
    by (simp add: handle_save_structure_def Let_def run_bind run_orelse deactivate_structures_def
        insert_structure_def exec_def insert_row_def stmt_def next_ok_def active_structures_def
        active_after_deactivate split: option.splits)
qed


theorem save_structure_effect_witness:
  "let (r, w') = run_state (handle_save_structure (Some admin_claims)
         (Some \<lparr>sr_employee = ''e1'', sr_currency = '''', sr_base = 45000\<rparr>)) empty_world
   in rcode r = status_ok
      \<and> map (\<lambda>s. (ss_currency s, ss_base s)) (active_structures ''e1'' w') = [(''INR'', 45000)]"
  using save_structure_effect [of "Some admin_claims" empty_world
      "\<lparr>sr_employee = ''e1'', sr_currency = '''', sr_base = 45000\<rparr>" "''e1''" 45000]
  by (simp add: empty_world_def split: prod.splits)

end
