(* ===== verification/Payroll.thy ===== *)
theory Payroll
  imports Salary
begin

text \<open>
  \<^verbatim>\<open>internal/payroll/payroll.go\<close>: the readiness check, payroll runs with their payslips, the
  states of a run, salary advances and the employees' payslips.
\<close>

section \<open>Readiness\<close>

record readiness_response =
  rd_ready :: bool
  rd_month :: int
  rd_year :: int
  rd_errors :: "string list"
  rd_warnings :: "string list"
  rd_stats :: "(string \<times> json) list"
  rd_action :: string

definition readiness_json :: "readiness_response \<Rightarrow> json" where
  "readiness_json r =
     JObj ([(''ready'', JBool (rd_ready r)), (''month'', JInt (rd_month r)),
            (''year'', JInt (rd_year r)), (''errors'', JArr (map JStr (rd_errors r))),
            (''warnings'', JArr (map JStr (rd_warnings r))), (''statistics'', JObj (rd_stats r))]
           @ (if rd_action r = '''' then [] else [(''action_needed'', JStr (rd_action r))]))"

definition in_period :: "int \<Rightarrow> int \<Rightarrow> int \<Rightarrow> bool" where
  "in_period month year d \<longleftrightarrow> month_of d = month \<and> year_of d = year"

definition active_employee :: "employee_row \<Rightarrow> bool" where
  "active_employee e \<longleftrightarrow> e_status e = ''ACTIVE'' \<and> \<not> e_deleted e"

text \<open>The four counts of the attendance of a period.\<close>

definition attendance_counts :: "int \<Rightarrow> int \<Rightarrow> daily_row list \<Rightarrow> int \<times> int \<times> int \<times> int" where
  "attendance_counts month year ds =
     (let rows = filter (\<lambda>d. in_period month year (ad_date d)) ds
      in (int (length rows),
          int (count_where (\<lambda>d. ad_valid d = ''VALIDATED'') rows),
          int (count_where (\<lambda>d. ad_valid d = ''TO_VALIDATE'' \<or> ad_valid d = ''OT_PENDING'') rows),
          int (count_where (\<lambda>d. ad_valid d = ''REJECTED'') rows)))"

definition open_advance :: "int \<Rightarrow> int \<Rightarrow> advance_row \<Rightarrow> bool" where
  "open_advance month year a \<longleftrightarrow>
     pa_month a = month \<and> pa_year a = year \<and> (pa_status a = ''PENDING'' \<or> pa_status a = ''APPROVED'')"

text \<open>
  The query on approved leave reads a table \<^verbatim>\<open>leave_requests\<close> that no migration creates; its
  error is ignored like the others and the count stays 0.
\<close>

definition check_payroll_readiness ::
  "int \<Rightarrow> int \<Rightarrow> ('a world_scheme, readiness_response) state" where
  "check_payroll_readiness month year = do {
     nil \<leftarrow> reads db_nil;
     (if nil
      then State_Monad.return
        \<lparr>rd_ready = False, rd_month = month, rd_year = year,
         rd_errors = [''database connection unavailable''], rd_warnings = [], rd_stats = [],
         rd_action = ''''\<rparr>
      else do {
        active \<leftarrow> or_zero (select (\<lambda>w. int (count_where active_employee (employees w))));
        configured \<leftarrow> or_zero (select (\<lambda>w.
          int (card (ss_emp ` set (filter ss_active (structures w))))));
        let missing = active - configured;
        let warnings1 = (if missing > 0
          then [dec missing @ '' active employees do not have a configured salary structure (default base rate will apply)'']
          else []);
        counts \<leftarrow> select (\<lambda>w. attendance_counts month year (daily w));
        let (recorded, validated, pending, rejected) =
          (case counts of Some c \<Rightarrow> c | None \<Rightarrow> (0, 0, 0, 0));
        let period = dec02 month @ ''/'' @ dec year;
        let warnings2 = (if recorded = 0
          then [''No attendance records found for period '' @ period] else []);
        let blocked = recorded \<noteq> 0 \<and> pending > 0;
        let errors = (if blocked
          then [''PAYROLL_BLOCKED_UNVALIDATED_ATTENDANCE: '' @ dec pending
                @ '' attendance records are pending validation for period '' @ period]
          else []);
        let action = (if blocked
          then ''Validate remaining '' @ dec pending
               @ '' attendance records before proceeding with payroll execution''
          else '''');
        approved_leaves \<leftarrow> or_zero no_such_column;
        adv \<leftarrow> select (\<lambda>w. let as = filter (open_advance month year) (advances w)
                             in (int (length as), fl (sum_list (map pa_amount as))));
        let (adv_count, adv_total) = (case adv of Some a \<Rightarrow> a | None \<Rightarrow> (0, 0));
        State_Monad.return
          \<lparr>rd_ready = (errors = []), rd_month = month, rd_year = year, rd_errors = errors,
           rd_warnings = warnings1 @ warnings2,
           rd_stats =
             [(''active_employees'', JInt active), (''configured_salaries'', JInt configured),
              (''total_attendance_records'', JInt recorded), (''validated_attendance'', JInt validated),
              (''pending_attendance'', JInt pending), (''rejected_attendance'', JInt rejected),
              (''approved_leaves'', JInt approved_leaves), (''active_advances_count'', JInt adv_count),
              (''total_advance_amount'', JNum adv_total)],
           rd_action = action\<rparr>
      })
   }"

definition handle_get_readiness ::
  "claims option \<Rightarrow> url_query \<Rightarrow> ('a world_scheme, response) state" where
  "handle_get_readiness cl q =
     (if \<not> can_manage_payroll cl
      then State_Monad.return (forbidden_response ''FORBIDDEN_ROLE''
             ''Only Payroll Admins can check payroll readiness.'')
      else do {
        t \<leftarrow> reads now;
        let month = (case scan_int (q ''month'') of
                       Some m \<Rightarrow> m | None \<Rightarrow> month_of (date_of t));
        let year = (case scan_int (q ''year'') of Some y \<Rightarrow> y | None \<Rightarrow> year_of (date_of t));
        report \<leftarrow> check_payroll_readiness month year;
        State_Monad.return
          (respond status_ok [(''success'', JBool True), (''data'', readiness_json report)])
      })"

definition handle_get_run_readiness ::
  "claims option \<Rightarrow> string \<Rightarrow> ('a world_scheme, response) state" where
  "handle_get_run_readiness cl rid =
     (if \<not> can_manage_payroll cl
      then State_Monad.return (forbidden_response ''FORBIDDEN_ROLE''
             ''Only Payroll Admins can check payroll readiness.'')
      else do {
        nil \<leftarrow> reads db_nil;
        (if nil then State_Monad.return db_unavailable
         else
           orelse
             (select_row (\<lambda>w. [(pr_month r, pr_year r). r \<leftarrow> runs w, pr_id r = rid]))
             (fail_json status_not_found ''payroll run not found'')
             (\<lambda>(month, year). do {
                report \<leftarrow> check_payroll_readiness month year;
                State_Monad.return
                  (respond status_ok [(''success'', JBool True), (''data'', readiness_json report)])
              }))
      })"

section \<open>Runs\<close>

record payroll_run =
  px_id :: string
  px_month :: int
  px_year :: int
  px_status :: string
  px_employees :: int
  px_gross :: float64
  px_deductions :: float64
  px_net :: float64
  px_lop :: float64
  px_advances :: float64
  px_variance :: float64
  px_created :: int

text \<open>\<^verbatim>\<open>COALESCE(NULLIF(a, 0), b, 0)\<close> with \<open>b\<close> NULL when the run has no payslips.\<close>

definition nz_or :: "'a::zero \<Rightarrow> 'a option \<Rightarrow> 'a" where
  "nz_or a b = (if a \<noteq> 0 then a else case b of Some x \<Rightarrow> x | None \<Rightarrow> 0)"

definition run_view :: "payslip_row list \<Rightarrow> run_row \<Rightarrow> payroll_run" where
  "run_view slips r =
     (let ps = filter (\<lambda>p. ps_run p = pr_id r) slips;
          agg = (\<lambda>f. if ps = [] then None else Some (sum_list (map f ps)))
      in \<lparr>px_id = pr_id r, px_month = pr_month r, px_year = pr_year r, px_status = pr_status r,
          px_employees = nz_or (pr_employees r) (if ps = [] then None else Some (int (length ps))),
          px_gross = fl (nz_or (pr_gross r) (agg ps_earnings)),
          px_deductions = fl (nz_or (pr_deductions r) (agg ps_deductions)),
          px_net = fl (nz_or (pr_net r) (agg ps_net)),
          px_lop = fl (pr_lop r), px_advances = fl (pr_advances r),
          px_variance = fl (pr_variance r), px_created = pr_created r\<rparr>)"

definition run_json :: "payroll_run \<Rightarrow> json" where
  "run_json r =
     JObj [(''id'', JStr (px_id r)), (''month'', JInt (px_month r)), (''year'', JInt (px_year r)),
           (''status'', JStr (px_status r)), (''total_employees'', JInt (px_employees r)),
           (''total_gross'', JNum (px_gross r)), (''total_deductions'', JNum (px_deductions r)),
           (''total_net_pay'', JNum (px_net r)), (''total_lop_days'', JNum (px_lop r)),
           (''total_advances_deducted'', JNum (px_advances r)),
           (''variance_percentage'', JNum (px_variance r)), (''created_at'', JInt (px_created r))]"

definition handle_get_runs ::
  "claims option \<Rightarrow> url_query \<Rightarrow> ('a world_scheme, response) state" where
  "handle_get_runs cl q =
     (if \<not> can_manage_payroll cl
      then State_Monad.return (forbidden_response ''FORBIDDEN_ROLE''
             ''Only Payroll Admins can access payroll runs.'')
      else do {
        let pg = parse_pagination_params q;
        nil \<leftarrow> reads db_nil;
        (if nil then State_Monad.return db_unavailable
         else do {
           tot \<leftarrow> or_zero (select (\<lambda>w. int (length (runs w))));
           orelse
             (query_rows (\<lambda>w. page_of pg (map (run_view (payslips w))
                (sort_key (\<lambda>r. (- pr_year r, - pr_month r)) (runs w)))))
             (page_response [] 0 pg)
             (\<lambda>rs. State_Monad.return (page_response (map run_json rs) tot pg))
         })
      })"

section \<open>Processing a period\<close>

record emp_proc =
  ep_id :: string
  ep_code :: string
  ep_name :: string
  ep_base :: float64
  ep_currency :: string

text \<open>
  Employees left-joined with their active structures: one row per active structure, and one with
  the default salary for an employee without any.
\<close>

definition payroll_rows :: "'a world_scheme \<Rightarrow> emp_proc list" where
  "payroll_rows w =
     concat (map (\<lambda>e.
       (let row = (\<lambda>base cur. \<lparr>ep_id = e_id e, ep_code = e_code e, ep_name = full_name e,
                                ep_base = base, ep_currency = cur\<rparr>)
        in case filter (\<lambda>s. ss_emp s = e_id e \<and> ss_active s) (structures w) of
             [] \<Rightarrow> [row 60000 ''INR'']
           | s # ss \<Rightarrow> map (\<lambda>s. row (fl (ss_base s)) (ss_currency s)) (s # ss)))
       (filter active_employee (employees w)))"

record run_totals =
  rt_gross :: float64
  rt_deductions :: float64
  rt_net :: float64
  rt_lop :: float64
  rt_advances :: float64

definition zero_totals :: run_totals where
  "zero_totals = \<lparr>rt_gross = 0, rt_deductions = 0, rt_net = 0, rt_lop = 0, rt_advances = 0\<rparr>"

definition lop_days :: "string \<Rightarrow> int \<Rightarrow> int \<Rightarrow> ('a world_scheme, float64) state" where
  "lop_days emp month year = do {
     n \<leftarrow> query (\<lambda>w. case uuid_in w emp of
            None \<Rightarrow> None
          | Some e \<Rightarrow> Some (count_where (\<lambda>d. ad_emp d = e \<and> in_period month year (ad_date d)
                       \<and> (ad_status d = ''ABSENT'' \<or> ad_status d = ''LOP'')) (daily w)));
     State_Monad.return (case n of None \<Rightarrow> 0 | Some k \<Rightarrow> f_of_int (int k))
   }"

text \<open>The one advance that \<^verbatim>\<open>LIMIT 1\<close> gives, and its amount.\<close>

definition due_advance ::
  "string \<Rightarrow> int \<Rightarrow> int \<Rightarrow> ('a world_scheme, (string \<times> float64) option) state" where
  "due_advance emp month year = query_row (\<lambda>w. case uuid_in w emp of
       None \<Rightarrow> None
     | Some e \<Rightarrow> Some (map (\<lambda>a. (pa_id a, fl (pa_amount a)))
                   (filter (\<lambda>a. pa_emp a = e \<and> open_advance month year a) (advances w))))"

definition mark_deducted :: "string \<Rightarrow> ('a world_scheme, nat option) state" where
  "mark_deducted aid = exec (\<lambda>w. Some (count_where (\<lambda>a. pa_id a = aid) (advances w),
     w\<lparr>advances := upd_where (\<lambda>a. pa_id a = aid) (pa_status_update (\<lambda>_. ''DEDUCTED''))
          (advances w)\<rparr>))"

definition upsert_payslip ::
  "string \<Rightarrow> string \<Rightarrow> float64 \<Rightarrow> float64 \<Rightarrow> float64 \<Rightarrow> float64 \<Rightarrow> float64 \<Rightarrow>
   ('a world_scheme, nat option) state" where
  "upsert_payslip run emp basic hra gross ded net = exec (\<lambda>w.
     case (uuid_in w run, uuid_in w emp, to_num w 2 basic, to_num w 2 hra, to_num w 2 gross,
           to_num w 2 ded, to_num w 2 net) of
       (Some r, Some e, Some b, Some h, Some g, Some d, Some n) \<Rightarrow>
         Some (1, w\<lparr>payslips :=
           upsert (\<lambda>p. ps_run p = r \<and> ps_emp p = e)
             (\<lambda>p. p\<lparr>ps_basic := b, ps_hra := h, ps_earnings := g, ps_deductions := d,
                    ps_net := n, ps_status := ''GENERATED''\<rparr>)
             \<lparr>ps_id = ids w (issued w), ps_run = r, ps_emp = e, ps_basic = b, ps_hra = h,
              ps_earnings = g, ps_deductions = d, ps_net = n, ps_status = ''GENERATED'',
              ps_created = now w\<rparr>
             (payslips w),
           issued := issued w + 1\<rparr>)
     | _ \<Rightarrow> None)"

text \<open>
  One turn of the loop. \<^verbatim>\<open>breakdown.Earnings[0]\<close> panics when the breakdown is empty, which
  it is for a base salary of zero: then the result is \<^term>\<open>None\<close>.
\<close>

definition process_employee ::
  "string \<Rightarrow> int \<Rightarrow> int \<Rightarrow> emp_proc \<Rightarrow> run_totals \<Rightarrow> ('a world_scheme, run_totals option) state" where
  "process_employee run month year ep tot = do {
     let b = calculate_salary_breakdown (ep_base ep) (ep_currency ep) rupee;
     lop \<leftarrow> lop_days (ep_id ep) month year;
     let lop_deduction = fmul (fdiv (sb_gross b) 30) lop;
     due \<leftarrow> due_advance (ep_id ep) month year;
     let (aid, advance) = (case due of None \<Rightarrow> ('''', 0) | Some a \<Rightarrow> a);
     (if aid \<noteq> '''' then State_Monad.bind (mark_deducted aid) (\<lambda>_. State_Monad.return ())
      else State_Monad.return ());
     (case sb_earnings b of
        basic # hra # _ \<Rightarrow> do {
          let gross = sb_gross b;
          let ded = fadd (fadd (sb_deductions b) lop_deduction) advance;
          let net0 = fsub gross ded;
          let net = (if net0 < 0 then 0 else net0);
          _ \<leftarrow> upsert_payslip run (ep_id ep) (ca_amount basic) (ca_amount hra) gross ded net;
          State_Monad.return (Some
            \<lparr>rt_gross = fadd (rt_gross tot) gross, rt_deductions = fadd (rt_deductions tot) ded,
             rt_net = fadd (rt_net tot) net, rt_lop = fadd (rt_lop tot) lop,
             rt_advances = fadd (rt_advances tot) advance\<rparr>)
        }
      | _ \<Rightarrow> State_Monad.return None)
   }"

primrec process_employees ::
  "string \<Rightarrow> int \<Rightarrow> int \<Rightarrow> emp_proc list \<Rightarrow> run_totals \<Rightarrow>
   ('a world_scheme, run_totals option) state" where
  "process_employees run month year [] tot = State_Monad.return (Some tot)"
| "process_employees run month year (ep # eps) tot = do {
     r \<leftarrow> process_employee run month year ep tot;
     (case r of None \<Rightarrow> State_Monad.return None
      | Some tot' \<Rightarrow> process_employees run month year eps tot')
   }"

definition insert_run ::
  "string \<Rightarrow> int \<Rightarrow> int \<Rightarrow> string \<Rightarrow> ('a world_scheme, string option) state" where
  "insert_run org month year user = insert_row (\<lambda>i w.
     case (uuid_in w org, uuid_in w user) of
       (Some ou, Some us) \<Rightarrow>
         if (\<exists>r\<in>set (runs w). pr_id r = i
               \<or> (pr_org r = ou \<and> pr_month r = month \<and> pr_year r = year))
         then None
         else Some (w\<lparr>runs := runs w @
           [\<lparr>pr_id = i, pr_org = ou, pr_month = month, pr_year = year, pr_status = ''PROCESSING'',
             pr_employees = 0, pr_gross = 0, pr_deductions = 0, pr_net = 0, pr_lop = 0,
             pr_advances = 0, pr_variance = 0, pr_processed_by = Some us, pr_approved_by = None,
             pr_approved_at = None, pr_locked_at = None, pr_created = now w\<rparr>]\<rparr>)
     | _ \<Rightarrow> None)"

definition finish_run ::
  "string \<Rightarrow> int \<Rightarrow> run_totals \<Rightarrow> string \<Rightarrow> ('a world_scheme, nat option) state" where
  "finish_run rid n tot user = exec (\<lambda>w.
     case (uuid_in w user, to_num w 2 (rt_gross tot), to_num w 2 (rt_deductions tot),
           to_num w 2 (rt_net tot), to_num w 2 (rt_lop tot), to_num w 2 (rt_advances tot)) of
       (Some us, Some g, Some d, Some t, Some l, Some a) \<Rightarrow>
         Some (count_where (\<lambda>r. pr_id r = rid) (runs w),
           w\<lparr>runs := upd_where (\<lambda>r. pr_id r = rid)
              (\<lambda>r. r\<lparr>pr_status := ''VALIDATED'', pr_employees := n, pr_gross := g,
                     pr_deductions := d, pr_net := t, pr_lop := l, pr_advances := a,
                     pr_processed_by := Some us\<rparr>) (runs w)\<rparr>)
     | _ \<Rightarrow> None)"

definition process_message :: "int \<Rightarrow> int \<Rightarrow> int \<Rightarrow> string" where
  "process_message month year n =
     ''Payroll processed successfully for period '' @ dec02 month @ ''/'' @ dec year
     @ '' across '' @ dec n @ '' employees.''"

text \<open>The employees are paid and the run is finished: the part after the run is chosen.\<close>

definition process_run ::
  "claims option \<Rightarrow> string \<Rightarrow> int \<Rightarrow> int \<Rightarrow> readiness_response \<Rightarrow> ('a world_scheme, response) state"
  where
  "process_run cl rid month year readiness = do {
     err \<leftarrow> reads err_text;
     orelse (select payroll_rows)
       (fail_json status_internal (''failed to query employees: '' @ err))
       (\<lambda>emps. do {
          done \<leftarrow> process_employees rid month year emps zero_totals;
          (case done of
             None \<Rightarrow> State_Monad.return panicked
           | Some tot \<Rightarrow> do {
               _ \<leftarrow> finish_run rid (int (length emps)) tot (cl_user (the cl));
               State_Monad.return
                 (respond status_ok
                    [(''success'', JBool True),
                     (''message'', JStr (process_message month year (int (length emps)))),
                     (''data'', JObj
                        [(''payroll_run_id'', JStr rid), (''month'', JInt month),
                         (''year'', JInt year), (''status'', JStr ''VALIDATED''),
                         (''total_employees'', JInt (int (length emps))),
                         (''total_gross'', JNum (rt_gross tot)),
                         (''total_deductions'', JNum (rt_deductions tot)),
                         (''total_net_pay'', JNum (rt_net tot)),
                         (''total_lop_days'', JNum (rt_lop tot)),
                         (''total_advances_deducted'', JNum (rt_advances tot))]),
                     (''readiness'', readiness_json readiness)])
             })
        })
   }"

definition handle_process_payroll ::
  "claims option \<Rightarrow> (int \<times> int) option \<Rightarrow> ('a world_scheme, response) state" where
  "handle_process_payroll cl body =
     (if \<not> can_manage_payroll cl
      then State_Monad.return (forbidden_response ''FORBIDDEN_ROLE''
             ''Only Payroll Admins can process payroll runs.'')
      else
        (case body of
           None \<Rightarrow> State_Monad.return (http_error ''invalid payload'' status_bad_request)
         | Some (month, year) \<Rightarrow>
             if month < 1 \<or> month > 12 \<or> year < 2000
             then State_Monad.return (http_error ''invalid payload'' status_bad_request)
             else do {
               nil \<leftarrow> reads db_nil;
               (if nil then State_Monad.return db_unavailable
                else do {
                  readiness \<leftarrow> check_payroll_readiness month year;
                  (if \<not> rd_ready readiness
                   then State_Monad.return
                     (respond status_bad_request
                        [(''success'', JBool False), (''error'', JStr (hd (rd_errors readiness))),
                         (''readiness'', readiness_json readiness)])
                   else do {
                     org \<leftarrow> select_row orgs;
                     err \<leftarrow> reads err_text;
                     found \<leftarrow> select_row (\<lambda>w. [(pr_id r, pr_status r). r \<leftarrow> runs w,
                                pr_month r = month \<and> pr_year r = year]);
                     (case found of
                        Some (rid, current_status) \<Rightarrow>
                          if current_status = ''LOCKED'' \<or> current_status = ''PUBLISHED''
                          then State_Monad.return (fail_json status_bad_request
                            ''payroll run for period is LOCKED or PUBLISHED and cannot be re-processed'')
                          else process_run cl rid month year readiness
                      | None \<Rightarrow>
                          orelse (insert_run (text_or_empty org) month year (cl_user (the cl)))
                            (fail_json status_internal
                               (''failed to initialize payroll run: '' @ err))
                            (\<lambda>rid. process_run cl rid month year readiness))
                   })
                })
             }))"

section \<open>The states of a run\<close>

definition set_run :: "string \<Rightarrow> ('a world_scheme \<Rightarrow> run_row \<Rightarrow> run_row) \<Rightarrow> ('a world_scheme, nat option) state"
  where
  "set_run rid f = exec (\<lambda>w. Some (count_where (\<lambda>r. pr_id r = rid) (runs w),
     w\<lparr>runs := upd_where (\<lambda>r. pr_id r = rid) (f w) (runs w)\<rparr>))"

definition approve_run :: "string \<Rightarrow> string \<Rightarrow> ('a world_scheme, nat option) state" where
  "approve_run rid user = exec (\<lambda>w. case uuid_in w user of
       None \<Rightarrow> None
     | Some u \<Rightarrow> Some (count_where (\<lambda>r. pr_id r = rid) (runs w),
         w\<lparr>runs := upd_where (\<lambda>r. pr_id r = rid)
            (\<lambda>r. r\<lparr>pr_status := ''APPROVED'', pr_approved_by := Some u,
                   pr_approved_at := Some (now w)\<rparr>) (runs w)\<rparr>))"

definition publish_payslips :: "string \<Rightarrow> ('a world_scheme, nat option) state" where
  "publish_payslips rid = exec (\<lambda>w. Some (count_where (\<lambda>p. ps_run p = rid) (payslips w),
     w\<lparr>payslips := upd_where (\<lambda>p. ps_run p = rid) (ps_status_update (\<lambda>_. ''PUBLISHED''))
        (payslips w)\<rparr>))"

text \<open>The statements of an action and the status the answer names; \<^term>\<open>None\<close> for no action.\<close>

definition transition_action ::
  "string \<Rightarrow> string \<Rightarrow> string \<Rightarrow> ('a world_scheme, string option) state" where
  "transition_action rid user action =
     (if action = ''VALIDATE'' then do {
        _ \<leftarrow> set_run rid (\<lambda>_. pr_status_update (\<lambda>_. ''VALIDATED''));
        State_Monad.return (Some ''VALIDATED'') }
      else if action = ''APPROVE'' then do {
        _ \<leftarrow> approve_run rid user;
        State_Monad.return (Some ''APPROVED'') }
      else if action = ''LOCK'' then do {
        _ \<leftarrow> set_run rid (\<lambda>w r. r\<lparr>pr_status := ''LOCKED'', pr_locked_at := Some (now w)\<rparr>);
        State_Monad.return (Some ''LOCKED'') }
      else if action = ''PUBLISH'' then do {
        _ \<leftarrow> set_run rid (\<lambda>_. pr_status_update (\<lambda>_. ''PUBLISHED''));
        _ \<leftarrow> publish_payslips rid;
        State_Monad.return (Some ''PUBLISHED'') }
      else State_Monad.return None)"

definition handle_transition_state ::
  "claims option \<Rightarrow> string \<Rightarrow> string option \<Rightarrow> ('a world_scheme, response) state" where
  "handle_transition_state cl rid body =
     (if \<not> can_manage_payroll cl
      then State_Monad.return (forbidden_response ''FORBIDDEN_ROLE''
             ''Only Payroll Admins can transition payroll run state.'')
      else
        (case body of
           None \<Rightarrow> State_Monad.return (http_error ''invalid request'' status_bad_request)
         | Some action \<Rightarrow> do {
             nil \<leftarrow> reads db_nil;
             (if nil then State_Monad.return db_unavailable
              else
                orelse
                  (select_row (\<lambda>w. [pr_status r. r \<leftarrow> runs w, pr_id r = rid]))
                  (fail_json status_not_found ''payroll run not found'')
                  (\<lambda>current_status.
                     if current_status = ''LOCKED'' \<and> action \<noteq> ''PUBLISH''
                     then State_Monad.return (fail_json status_bad_request
                            ''payroll run is LOCKED and can only be PUBLISHED'')
                     else if current_status = ''PUBLISHED''
                     then State_Monad.return (fail_json status_bad_request
                            ''payroll run is PUBLISHED and state cannot be mutated'')
                     else do {
                       next_status \<leftarrow> transition_action rid (cl_user (the cl)) action;
                       State_Monad.return
                         (case next_status of
                            None \<Rightarrow> fail_json status_bad_request
                              (''invalid transition action: '' @ action)
                          | Some s \<Rightarrow>
                              respond status_ok
                                [(''success'', JBool True),
                                 (''message'', JStr (''Payroll status transitioned to '' @ s)),
                                 (''id'', JStr rid), (''status'', JStr s)])
                     }))
           }))"

section \<open>Salary advances\<close>

record payroll_advance =
  av_id :: string
  av_code :: string
  av_name :: string
  av_amount :: float64
  av_reason :: string
  av_month :: int
  av_year :: int
  av_status :: string
  av_created :: int

definition advance_json :: "payroll_advance \<Rightarrow> json" where
  "advance_json a =
     JObj [(''id'', JStr (av_id a)), (''employee_id'', JStr (av_code a)),
           (''employee_name'', JStr (av_name a)), (''amount'', JNum (av_amount a)),
           (''reason'', JStr (av_reason a)), (''deduct_from_month'', JInt (av_month a)),
           (''deduct_from_year'', JInt (av_year a)), (''status'', JStr (av_status a)),
           (''created_at'', JInt (av_created a))]"

definition advance_views :: "'a world_scheme \<Rightarrow> payroll_advance list" where
  "advance_views w =
     [\<lparr>av_id = pa_id a, av_code = e_code e, av_name = full_name e, av_amount = fl (pa_amount a),
       av_reason = pa_reason a, av_month = pa_month a, av_year = pa_year a,
       av_status = pa_status a, av_created = pa_created a\<rparr>.
      a \<leftarrow> sort_key (\<lambda>a. - pa_created a) (advances w), e \<leftarrow> employees w, pa_emp a = e_id e]"

definition handle_get_advances :: "url_query \<Rightarrow> ('a world_scheme, response) state" where
  "handle_get_advances q = do {
     let pg = parse_pagination_params q;
     nil \<leftarrow> reads db_nil;
     (if nil then State_Monad.return db_unavailable
      else do {
        tot \<leftarrow> or_zero (select (\<lambda>w. int (length (advances w))));
        orelse
          (query_rows (\<lambda>w. page_of pg (advance_views w)))
          (page_response [] 0 pg)
          (\<lambda>rs. State_Monad.return (page_response (map advance_json rs) tot pg))
      })
   }"

record advance_request =
  aq_employee :: string
  aq_amount :: float64
  aq_reason :: string
  aq_month :: int
  aq_year :: int

definition insert_advance ::
  "string \<Rightarrow> advance_request \<Rightarrow> ('a world_scheme, string option) state" where
  "insert_advance emp req = insert_row (\<lambda>i w.
     case (uuid_in w emp, to_num w 2 (aq_amount req)) of
       (Some e, Some a) \<Rightarrow>
         Some (w\<lparr>advances := advances w @
           [\<lparr>pa_id = i, pa_emp = e, pa_amount = a, pa_months = 1, pa_reason = aq_reason req,
             pa_month = aq_month req, pa_year = aq_year req, pa_status = ''APPROVED'',
             pa_approved_by = None, pa_created = now w\<rparr>]\<rparr>)
     | _ \<Rightarrow> None)"

definition handle_create_advance ::
  "claims option \<Rightarrow> advance_request option \<Rightarrow> ('a world_scheme, response) state" where
  "handle_create_advance cl body =
     (case cl of
        None \<Rightarrow> State_Monad.return unauthorized_response
      | Some c \<Rightarrow>
        (case body of
           None \<Rightarrow> State_Monad.return (http_error ''invalid request payload'' status_bad_request)
         | Some req \<Rightarrow>
             if aq_amount req \<le> 0 \<or> aq_month req < 1 \<or> aq_month req > 12
             then State_Monad.return (http_error ''invalid request payload'' status_bad_request)
             else do {
               nil \<leftarrow> reads db_nil;
               err \<leftarrow> reads err_text;
               (if nil then State_Monad.return db_unavailable
                else do {
                  emp1 \<leftarrow> (if aq_employee req \<noteq> ''''
                    then select_row (\<lambda>w. [e_id e. e \<leftarrow> employees w,
                           e_id e = aq_employee req \<or> e_code e = aq_employee req])
                    else State_Monad.return None);
                  emp2 \<leftarrow> (if text_or_empty emp1 = ''''
                    then select_row (\<lambda>w. [e_id e. e \<leftarrow> employees w,
                           user_is (cl_user c) e \<or> e_id e = cl_user c])
                    else State_Monad.return emp1);
                  let emp = text_or_empty emp2;
                  (if emp = ''''
                   then State_Monad.return (fail_json status_bad_request ''employee record not found'')
                   else
                     orelse (insert_advance emp req)
                       (fail_json status_internal (''failed to create advance: '' @ err))
                       (\<lambda>aid. State_Monad.return
                          (respond status_ok
                             [(''success'', JBool True),
                              (''message'', JStr ''Salary advance request created successfully.''),
                              (''id'', JStr aid)])))
                })
             }))"

definition handle_approve_advance ::
  "claims option \<Rightarrow> string \<Rightarrow> ('a world_scheme, response) state" where
  "handle_approve_advance cl aid =
     (if \<not> can_manage_payroll cl
      then State_Monad.return (forbidden_response ''FORBIDDEN_ROLE''
             ''Only Payroll Admins can approve salary advances.'')
      else do {
        nil \<leftarrow> reads db_nil;
        err \<leftarrow> reads err_text;
        (if nil then State_Monad.return db_unavailable
         else
           orelse
             (exec (\<lambda>w. case uuid_in w (cl_user (the cl)) of
                None \<Rightarrow> None
              | Some u \<Rightarrow> Some (count_where (\<lambda>a. pa_id a = aid) (advances w),
                  w\<lparr>advances := upd_where (\<lambda>a. pa_id a = aid)
                     (\<lambda>a. a\<lparr>pa_status := ''APPROVED'', pa_approved_by := Some u\<rparr>)
                     (advances w)\<rparr>)))
             (fail_json status_internal err)
             (\<lambda>_. State_Monad.return
                (respond status_ok
                   [(''success'', JBool True),
                    (''message'', JStr (''Advance request '' @ aid @ '' approved.''))])))
      })"

section \<open>Payslips\<close>

record payslip_view =
  sv_id :: string
  sv_code :: string
  sv_name :: string
  sv_designation :: string
  sv_department :: string
  sv_month :: string
  sv_year :: int
  sv_basic :: float64
  sv_hra :: float64
  sv_special :: float64
  sv_lop :: float64
  sv_advance :: float64
  sv_pf :: float64
  sv_tds :: float64
  sv_ptax :: float64
  sv_earnings :: float64
  sv_deductions :: float64
  sv_net :: float64
  sv_status :: string

definition payslip_json :: "payslip_view \<Rightarrow> json" where
  "payslip_json p =
     JObj [(''id'', JStr (sv_id p)), (''employee_id'', JStr (sv_code p)),
           (''employee_name'', JStr (sv_name p)), (''designation'', JStr (sv_designation p)),
           (''department'', JStr (sv_department p)), (''month'', JStr (sv_month p)),
           (''year'', JInt (sv_year p)), (''basic_pay'', JNum (sv_basic p)),
           (''hra'', JNum (sv_hra p)), (''special_allowance'', JNum (sv_special p)),
           (''lop_deduction'', JNum (sv_lop p)), (''advance_deduction'', JNum (sv_advance p)),
           (''pf'', JNum (sv_pf p)), (''tds'', JNum (sv_tds p)), (''ptax'', JNum (sv_ptax p)),
           (''total_earnings'', JNum (sv_earnings p)), (''total_deductions'', JNum (sv_deductions p)),
           (''net_pay'', JNum (sv_net p)), (''status'', JStr (sv_status p))]"

definition month_name :: "int \<Rightarrow> string" where
  "month_name m =
     [''January'', ''February'', ''March'', ''April'', ''May'', ''June'', ''July'', ''August'',
      ''September'', ''October'', ''November'', ''December''] ! nat (m - 1)"

text \<open>
  The columns both queries share; \<open>full\<close> is the list's query, which computes the allowance, the
  provident fund and the tax that the query of one payslip leaves at 0.
\<close>

definition payslip_view_of ::
  "bool \<Rightarrow> 'a world_scheme \<Rightarrow> payslip_row \<Rightarrow> employee_row \<Rightarrow> string option \<Rightarrow> payslip_view" where
  "payslip_view_of full w p e desig =
     (let run = find (\<lambda>r. pr_id r = ps_run p) (runs w)
      in \<lparr>sv_id = ps_id p, sv_code = e_code e, sv_name = full_name e,
          sv_designation = name_in (designation_names w) desig ''Engineer'',
          sv_department = name_in (departments w) (e_dept e) ''Engineering'',
          sv_month = (case run of None \<Rightarrow> ''September'' | Some r \<Rightarrow> month_name (pr_month r)),
          sv_year = (case run of None \<Rightarrow> 2026 | Some r \<Rightarrow> pr_year r),
          sv_basic = fl (ps_basic p), sv_hra = fl (ps_hra p),
          sv_special = (if full then fl (ps_earnings p - ps_basic p - ps_hra p) else 0),
          sv_lop = 0, sv_advance = 0,
          sv_pf = (if full then fl (ps_basic p * (12 / 100)) else 0),
          sv_tds = (if full then fl (ps_earnings p * (10 / 100)) else 0),
          sv_ptax = 200,
          sv_earnings = fl (ps_earnings p), sv_deductions = fl (ps_deductions p),
          sv_net = fl (ps_net p), sv_status = ps_status p\<rparr>)"

text \<open>
  The rows a caller sees: all of them with a payroll role, otherwise those of the employee linked
  to the caller's user or found by the caller's id; then the search.
\<close>

definition payslip_visible ::
  "claims option \<Rightarrow> string \<Rightarrow> string \<Rightarrow> 'a world_scheme \<Rightarrow> employee_row \<Rightarrow> bool" where
  "payslip_visible cl caller search w e \<longleftrightarrow>
     (can_manage_payroll cl \<or> user_is (cl_user (the cl)) e \<or> e_id e = caller)
     \<and> (search = '''' \<or> (let p = ''%'' @ search @ ''%''
          in ilike w (e_first e) p \<or> ilike w (e_last e) p \<or> ilike w (e_code e) p))"

definition payslip_rows ::
  "claims option \<Rightarrow> string \<Rightarrow> string \<Rightarrow> 'a world_scheme \<Rightarrow> (payslip_row \<times> employee_row) list" where
  "payslip_rows cl caller search w =
     [(p, e). p \<leftarrow> payslips w, e \<leftarrow> employees w,
              ps_emp p = e_id e \<and> payslip_visible cl caller search w e]"

definition handle_get_payslips ::
  "claims option \<Rightarrow> url_query \<Rightarrow> ('a world_scheme, response) state" where
  "handle_get_payslips cl q =
     (case cl of
        None \<Rightarrow> State_Monad.return unauthorized_response
      | Some c \<Rightarrow> do {
          let pg = parse_pagination_params q;
          nil \<leftarrow> reads db_nil;
          (if nil then State_Monad.return db_unavailable
           else do {
             found \<leftarrow> select_row (\<lambda>w. [e_id e. e \<leftarrow> employees w,
                        user_is (cl_user c) e \<or> e_id e = cl_user c]);
             let caller = text_or_empty found;
             tot \<leftarrow> or_zero (select (\<lambda>w. int (length (payslip_rows cl caller (pp_search pg) w))));
             orelse
               (query_rows (\<lambda>w. page_of pg
                  (map (\<lambda>(p, e). payslip_view_of True w p e (e_desig e))
                    (sort_key (\<lambda>(p, e). e_code e) (payslip_rows cl caller (pp_search pg) w)))))
               (page_response [] 0 pg)
               (\<lambda>ps. State_Monad.return (page_response (map payslip_json ps) tot pg))
           })
        })"

definition handle_get_payslip_details ::
  "claims option \<Rightarrow> string \<Rightarrow> ('a world_scheme, response) state" where
  "handle_get_payslip_details cl pid = do {
     nil \<leftarrow> reads db_nil;
     err \<leftarrow> reads err_text;
     (if nil then State_Monad.return db_unavailable
      else
        (case cl of
           None \<Rightarrow> State_Monad.return unauthorized_response
         | Some c \<Rightarrow>
             orelse
               (select_row (\<lambda>w. [payslip_view_of False w p e (e_desig e).
                  p \<leftarrow> payslips w, e \<leftarrow> employees w,
                  ps_emp p = e_id e \<and> (ps_id p = pid \<or> e_code e = pid)
                  \<and> (has_role cl [''SUPER_ADMIN'', ''HR_ADMIN'', ''PAYROLL_ADMIN'']
                      \<or> user_is (cl_user c) e \<or> e_id e = cl_user c)]))
               (fail_json status_not_found (''payslip not found: '' @ err))
               (\<lambda>p. State_Monad.return
                  (respond status_ok [(''success'', JBool True), (''data'', payslip_json p)]))))
   }"

end
