(* ===== verification/Payroll_Runs.thy ===== *)
theory Payroll_Runs
  imports Payroll
begin

text \<open>
  What the payroll handlers guarantee: a locked or published run is final, the payslips of a run
  are complete and unique, unvalidated attendance blocks a run, and what happens to advances.
\<close>

section \<open>Final runs\<close>

definition final_status :: "string \<Rightarrow> bool" where
  "final_status s \<longleftrightarrow> s = ''LOCKED'' \<or> s = ''PUBLISHED''"

text \<open>Run ids are unique and, like every id the server issues, in the server's own spelling.\<close>

definition run_ids_ok :: "'a world_scheme \<Rightarrow> bool" where
  "run_ids_ok w \<longleftrightarrow> distinct (map pr_id (runs w))
     \<and> (\<forall>r\<in>set (runs w). uuid_in w (pr_id r) = Some (pr_id r))
     \<and> (\<forall>n. uuid_in w (ids w n) = Some (ids w n))"

definition slip_figures :: "string \<Rightarrow> 'a world_scheme \<Rightarrow> payslip_row list" where
  "slip_figures rid w =
     map (ps_status_update (\<lambda>_. '''')) (filter (\<lambda>p. ps_run p = rid) (payslips w))"

text \<open>The run \<open>r\<close> stands as it is or published, and its payslips have the figures \<open>ps\<close>.\<close>

definition run_frozen :: "run_row \<Rightarrow> payslip_row list \<Rightarrow> 'a world_scheme \<Rightarrow> bool" where
  "run_frozen r ps w \<longleftrightarrow> final_status (pr_status r) \<and> run_ids_ok w
     \<and> (r \<in> set (runs w) \<or> r\<lparr>pr_status := ''PUBLISHED''\<rparr> \<in> set (runs w))
     \<and> slip_figures (pr_id r) w = ps"

lemma run_frozen_stable [simp]: "stable (run_frozen r ps)"
  by (simp add: stable_def run_frozen_def run_ids_ok_def slip_figures_def)

lemma frozen_row:
  assumes "run_frozen r ps w" "x \<in> set (runs w)" "pr_id x = pr_id r"
  shows "final_status (pr_status x) \<and> (pr_status r = ''PUBLISHED'' \<longrightarrow> pr_status x = ''PUBLISHED'')"
proof -
  obtain y where y: "y \<in> set (runs w)" "pr_id y = pr_id r"
    "y = r \<or> y = r\<lparr>pr_status := ''PUBLISHED''\<rparr>"
    using assms(1) by (auto simp: run_frozen_def)
  have "x = y" using assms y by (auto simp: run_frozen_def run_ids_ok_def distinct_map inj_on_def)
  then show ?thesis using y assms(1) by (auto simp: run_frozen_def final_status_def)
qed

lemma frozen_id:
  assumes "run_frozen r ps w"
  shows "pr_id r \<in> pr_id ` set (runs w)"
proof -
  obtain y where "y \<in> set (runs w)" "pr_id r = pr_id y"
    using assms by (auto simp: run_frozen_def)
  then show ?thesis by simp
qed

lemma ids_ok_upd:
  assumes "run_ids_ok w" "\<And>x. pr_id (f x) = pr_id x"
  shows "run_ids_ok (w\<lparr>runs := upd_where p f (runs w)\<rparr>)"
proof -
  have m: "map pr_id (upd_where p f (runs w)) = map pr_id (runs w)"
    by (rule map_upd_where) (rule assms(2))
  have "(\<forall>r\<in>set rs. uuid_in w (pr_id r) = Some (pr_id r))
      \<longleftrightarrow> (\<forall>i\<in>set (map pr_id rs). uuid_in w i = Some i)" for rs :: "run_row list"
    by simp
  then show ?thesis using assms(1) m by (simp add: run_ids_ok_def del: set_map)
qed

text \<open>A change to another run, or to the payslips of another run.\<close>

lemma frozen_upd_run:
  assumes "run_frozen r ps w" "rid \<noteq> pr_id r" "\<And>x. pr_id (f x) = pr_id x"
  shows "run_frozen r ps (w\<lparr>runs := upd_where (\<lambda>x. pr_id x = rid) f (runs w)\<rparr>)"
proof -
  have "x \<in> set (upd_where (\<lambda>x. pr_id x = rid) f (runs w))"
    if "x \<in> set (runs w)" "pr_id x \<noteq> rid" for x
    using that by (auto simp: in_upd_where)
  moreover have "run_ids_ok (w\<lparr>runs := upd_where (\<lambda>x. pr_id x = rid) f (runs w)\<rparr>)"
    using assms by (intro ids_ok_upd) (simp_all add: run_frozen_def)
  ultimately show ?thesis
    using assms(1,2) by (auto simp: run_frozen_def slip_figures_def)
qed

lemma filter_upsert_other:
  assumes "\<And>x. p x \<Longrightarrow> \<not> q x" "\<And>x. q (f x) = q x" "\<not> q r"
  shows "filter q (upsert p f r xs) = filter q xs"
proof -
  have "filter q (upd_where p f xs) = filter q xs"
    using assms(1,2) by (induction xs) auto
  then show ?thesis using assms(3) by (simp add: upsert_def)
qed

lemma frozen_upsert_slip:
  assumes "run_frozen r ps w" "rid \<noteq> pr_id r" "\<And>p. ps_run (f p) = ps_run p" "ps_run row = rid"
  shows "run_frozen r ps
    (w\<lparr>payslips := upsert (\<lambda>p. ps_run p = rid \<and> c p) f row (payslips w), issued := n\<rparr>)"
proof -
  have "filter (\<lambda>p. ps_run p = pr_id r) (upsert (\<lambda>p. ps_run p = rid \<and> c p) f row (payslips w))
      = filter (\<lambda>p. ps_run p = pr_id r) (payslips w)"
    using assms by (intro filter_upsert_other) auto
  then show ?thesis
    using assms(1) by (simp add: run_frozen_def run_ids_ok_def slip_figures_def)
qed

lemma frozen_publish_slips:
  assumes "run_frozen r ps w"
  shows "run_frozen r ps
    (w\<lparr>payslips := upd_where p (ps_status_update (\<lambda>_. s)) (payslips w)\<rparr>)"
proof -
  have "map (ps_status_update (\<lambda>_. ''''))
          (filter (\<lambda>p. ps_run p = x) (upd_where p (ps_status_update (\<lambda>_. s)) xs))
      = map (ps_status_update (\<lambda>_. '''')) (filter (\<lambda>p. ps_run p = x) xs)" for x xs
    by (induction xs) auto
  then show ?thesis
    using assms by (simp add: run_frozen_def run_ids_ok_def slip_figures_def)
qed

lemma frozen_advances: "run_frozen r ps w \<Longrightarrow> run_frozen r ps (w\<lparr>advances := as\<rparr>)"
  by (simp add: run_frozen_def run_ids_ok_def slip_figures_def)

text \<open>While another run is processed, its id stays another one and in the server's spelling.\<close>

definition other_run :: "run_row \<Rightarrow> payslip_row list \<Rightarrow> string \<Rightarrow> 'a world_scheme \<Rightarrow> bool" where
  "other_run r ps rid w \<longleftrightarrow> run_frozen r ps w \<and> rid \<noteq> pr_id r \<and> uuid_in w rid = Some rid"

lemma other_run_stable [simp]: "stable (other_run r ps rid)"
  unfolding stable_def other_run_def
  by (simp add: run_frozen_stable [unfolded stable_def, rule_format])

lemma keeps_or_zero [keeps_rules]: "keeps I m \<Longrightarrow> keeps I (or_zero m)"
  unfolding or_zero_def by (intro keeps_rules)

lemma keeps_readiness [keeps_rules]:
  "stable I \<Longrightarrow> keeps I (check_payroll_readiness month year)"
  unfolding check_payroll_readiness_def by (intro keeps_rules)

lemma keeps_process_employee [keeps_rules]:
  "keeps (other_run r ps rid) (process_employee rid month year ep tot)"
proof -
  have "keeps (other_run r ps rid) (mark_deducted a)" for a
    unfolding mark_deducted_def
    by (rule keeps_exec) (auto simp: other_run_def frozen_advances)
  moreover have "keeps (other_run r ps rid) (upsert_payslip rid emp b h g d n)" for emp b h g d n
    unfolding upsert_payslip_def
    by (rule keeps_exec)
      (auto simp: other_run_def intro!: frozen_upsert_slip split: option.splits)
  ultimately show ?thesis
    unfolding process_employee_def lop_days_def due_advance_def
    by (intro keeps_rules other_run_stable)
qed

lemma keeps_process_employees [keeps_rules]:
  "keeps (other_run r ps rid) (process_employees rid month year eps tot)"
  by (induction eps arbitrary: tot) (auto intro!: keeps_rules)

lemma keeps_process_run: "keeps (other_run r ps rid) (process_run cl rid month year rd)"
proof -
  have "keeps (other_run r ps rid) (finish_run rid n tot user)" for n tot user
    unfolding finish_run_def
    by (rule keeps_exec) (auto simp: other_run_def intro!: frozen_upd_run split: option.splits)
  then show ?thesis
    unfolding process_run_def by (intro keeps_rules other_run_stable)
qed

lemma wp_process_run:
  "other_run r ps rid w \<Longrightarrow> wp (process_run cl rid month year rd) (\<lambda>_. run_frozen r ps) w"
proof -
  assume "other_run r ps rid w"
  then have "wp (process_run cl rid month year rd) (\<lambda>_. other_run r ps rid) w"
    by (rule keeps_process_run [unfolded keeps_def, rule_format])
  then show ?thesis by (rule wp_mono) (simp add: other_run_def)
qed

lemma frozen_insert_run:
  assumes "run_frozen r ps w" "pr_id x \<notin> pr_id ` set (runs w)" "uuid_in w (pr_id x) = Some (pr_id x)"
  shows "run_frozen r ps (w\<lparr>runs := runs w @ [x], issued := n\<rparr>)"
  using assms by (auto simp: run_frozen_def run_ids_ok_def slip_figures_def)

lemma keeps_process_payroll: "keeps (run_frozen r ps) (handle_process_payroll cl body)"
proof -
  have found: "wp (process_run cl rid month year rd) (\<lambda>_. run_frozen r ps) w"
    if "run_frozen r ps w" "[(pr_id r, pr_status r). r \<leftarrow> runs w, P r] = (rid, st) # xs"
      "\<not> (st = ''LOCKED'' \<or> st = ''PUBLISHED'')" for w rid st xs month year rd P
  proof -
    from that(2) have "(rid, st) \<in> set [(pr_id r, pr_status r). r \<leftarrow> runs w, P r]" by simp
    then obtain x where x: "x \<in> set (runs w)" "rid = pr_id x" "st = pr_status x"
      by (auto split: if_splits)
    then have "rid \<noteq> pr_id r"
      using frozen_row [OF that(1)] that(3) by (auto simp: final_status_def)
    then show ?thesis
      using that(1) x by (intro wp_process_run) (auto simp: other_run_def run_frozen_def run_ids_ok_def)
  qed
  have new: "keeps (run_frozen r ps)
      (orelse (insert_run org month year user) e (\<lambda>rid. process_run cl rid month year rd))"
    for org month year user e rd
    unfolding insert_run_def
  proof (rule keeps_insert_row_orelse, simp, goal_cases)
    case (1 v w')
    note v = 1(1)
    from 1(2)
    obtain x where x: "w' = v\<lparr>runs := runs v @ [x]\<rparr>" "pr_id x = ids v (issued v)"
        "pr_id x \<notin> pr_id ` set (runs v)"
      by (force split: option.splits if_splits)
    have u: "uuid_in v (pr_id x) = Some (pr_id x)"
      using v x(2) by (auto simp: run_frozen_def run_ids_ok_def)
    have "pr_id x \<noteq> pr_id r" using frozen_id [OF v] x(3) by auto
    then have "other_run r ps (pr_id x) (w'\<lparr>issued := issued v + 1\<rparr>)"
      using frozen_insert_run [OF v x(3) u, of "issued v + 1"] u x(1) by (simp add: other_run_def)
    then show ?case
      unfolding x(2) [symmetric] by (rule wp_process_run)
  qed
  have choose: "keeps (run_frozen r ps)
      (State_Monad.bind (select_row (\<lambda>w. [(pr_id r, pr_status r). r \<leftarrow> runs w, P r]))
         (\<lambda>found. case found of
            Some (rid, st) \<Rightarrow>
              if st = ''LOCKED'' \<or> st = ''PUBLISHED'' then State_Monad.return e
              else process_run cl rid month year rd
          | None \<Rightarrow> orelse (insert_run org month year user) e'
                      (\<lambda>rid. process_run cl rid month year rd)))"
    for P e month year rd org user e'
  proof (rule keeps_select_row_bind, goal_cases)
    case 1
    then show ?case by simp
  next
    case (2 w)
    then show ?case using new [unfolded keeps_def, rule_format] by simp
  next
    case (3 w x xs)
    then show ?case using found [of w P "fst x" "snd x" xs] by (cases x) simp
  qed
  show ?thesis
    unfolding handle_process_payroll_def
    by (intro keeps_rules choose run_frozen_stable)
qed

lemma frozen_publish_run:
  assumes "run_frozen r ps w"
  shows "run_frozen r ps (w\<lparr>runs := upd_where (\<lambda>x. pr_id x = pr_id r)
           (pr_status_update (\<lambda>_. ''PUBLISHED'')) (runs w)\<rparr>)"
proof -
  let ?us = "upd_where (\<lambda>x. pr_id x = pr_id r) (pr_status_update (\<lambda>_. ''PUBLISHED'')) (runs w)"
  have "run_ids_ok (w\<lparr>runs := ?us\<rparr>)"
    using assms by (intro ids_ok_upd) (simp_all add: run_frozen_def)
  moreover obtain y where "y \<in> set (runs w)" "y = r \<or> y = r\<lparr>pr_status := ''PUBLISHED''\<rparr>"
    using assms by (auto simp: run_frozen_def)
  then have "r\<lparr>pr_status := ''PUBLISHED''\<rparr> \<in> set ?us"
    by (auto simp: in_upd_where intro!: bexI [of _ y])
  ultimately show ?thesis
    using assms by (simp add: run_frozen_def slip_figures_def)
qed

lemma keeps_transition_action:
  assumes "rid \<noteq> pr_id r \<or> action = ''PUBLISH''"
  shows "keeps (run_frozen r ps) (transition_action rid user action)"
proof -
  have pub: "keeps (run_frozen r ps) (set_run rid (\<lambda>_. pr_status_update (\<lambda>_. ''PUBLISHED'')))"
  proof (cases "rid = pr_id r")
    case True
    show ?thesis unfolding True set_run_def
      by (rule keeps_exec) (auto intro: frozen_publish_run)
  next
    case False
    then show ?thesis unfolding set_run_def
      by (intro keeps_exec) (auto intro: frozen_upd_run)
  qed
  have slips: "keeps (run_frozen r ps) (publish_payslips rid)"
    unfolding publish_payslips_def by (rule keeps_exec) (auto intro: frozen_publish_slips)
  have other: "keeps (run_frozen r ps) (set_run rid f)"
    if "rid \<noteq> pr_id r" "\<And>w x. pr_id (f w x) = pr_id x" for f
    unfolding set_run_def using that by (intro keeps_exec) (auto intro: frozen_upd_run)
  have approve: "keeps (run_frozen r ps) (approve_run rid user)" if "rid \<noteq> pr_id r"
    unfolding approve_run_def using that
    by (intro keeps_exec) (auto intro!: frozen_upd_run split: option.splits)
  show ?thesis
    unfolding transition_action_def using assms
    by (intro keeps_rules pub slips) (auto intro!: other approve)
qed

lemma keeps_transition_state: "keeps (run_frozen r ps) (handle_transition_state cl rid body)"
proof -
  have step: "keeps (run_frozen r ps)
      (orelse (select_row (\<lambda>w. [pr_status r. r \<leftarrow> runs w, pr_id r = rid])) e
        (\<lambda>st. if st = ''LOCKED'' \<and> action \<noteq> ''PUBLISH'' then State_Monad.return a
              else if st = ''PUBLISHED'' then State_Monad.return b
              else State_Monad.bind (transition_action rid user action)
                     (\<lambda>n. State_Monad.return (c n))))"
    for e action a b c user
  proof (rule keeps_select_row_orelse, goal_cases)
    case 1
    then show ?case by simp
  next
    case (2 w st xs)
    then have "st \<in> set [pr_status r. r \<leftarrow> runs w, pr_id r = rid]" by simp
    then obtain x where x: "x \<in> set (runs w)" "pr_id x = rid" "st = pr_status x"
      by (auto split: if_splits)
    show ?case
    proof (cases "rid \<noteq> pr_id r \<or> action = ''PUBLISH''")
      case True
      then show ?thesis
        using keeps_transition_action [OF True, of ps user, unfolded keeps_def, rule_format, OF 2(1)]
          2(1) by simp
    next
      case False
      then have "final_status st" using frozen_row [OF 2(1) x(1)] x by simp
      then show ?thesis using False 2(1) by (auto simp: final_status_def)
    qed
  qed
  show ?thesis
    unfolding handle_transition_state_def by (intro keeps_rules step run_frozen_stable)
qed

lemma keeps_create_advance: "keeps (run_frozen r ps) (handle_create_advance cl body)"
proof -
  have "keeps (run_frozen r ps) (insert_advance emp req)" for emp req
    unfolding insert_advance_def
    by (rule keeps_insert_row)
      (auto simp: run_frozen_def run_ids_ok_def slip_figures_def split: option.splits)
  then show ?thesis
    unfolding handle_create_advance_def by (intro keeps_rules run_frozen_stable)
qed

lemma keeps_approve_advance: "keeps (run_frozen r ps) (handle_approve_advance cl aid)"
  unfolding handle_approve_advance_def
  by (intro keeps_rules run_frozen_stable keeps_exec)
    (auto simp: frozen_advances split: option.splits)

text \<open>
  One request to the payroll routes that write, or anything else that leaves the runs, the payslips
  and the spelling of ids alone: time passes, statements begin to fail or to succeed, other tables
  change.
\<close>

inductive payroll_step :: "world \<Rightarrow> world \<Rightarrow> bool" where
  process: "payroll_step w (snd (run_state (handle_process_payroll cl body) w))"
| transition: "payroll_step w (snd (run_state (handle_transition_state cl rid action) w))"
| create_advance: "payroll_step w (snd (run_state (handle_create_advance cl req) w))"
| approve_advance: "payroll_step w (snd (run_state (handle_approve_advance cl aid) w))"
| elsewhere: "runs w' = runs w \<Longrightarrow> payslips w' = payslips w \<Longrightarrow> uuid_in w' = uuid_in w
    \<Longrightarrow> ids w' = ids w \<Longrightarrow> payroll_step w w'"

inductive_cases payroll_stepE: "payroll_step w w'"

lemma step_frozen: "payroll_step w w' \<Longrightarrow> run_frozen r ps w \<Longrightarrow> run_frozen r ps w'"
proof (induction rule: payroll_step.induct)
  case (elsewhere w' w)
  then show ?case by (simp add: run_frozen_def run_ids_ok_def slip_figures_def)
qed (auto intro: keepsD keeps_process_payroll keeps_transition_state keeps_create_advance
      keeps_approve_advance)

text \<open>
  A locked run is final. Once a run is LOCKED or PUBLISHED, no sequence of requests to the
  payroll routes changes its row or the figures of its payslips, whoever sends them, whatever they
  ask, and whichever statements fail on the way: processing the period again, transitions of this
  or other runs and advances leave it as it is, except that a locked run may become published.
\<close>

theorem locked_run_final:
  assumes "payroll_step\<^sup>*\<^sup>* w w'" "run_ids_ok w" "r \<in> set (runs w)"
    "pr_status r = ''LOCKED'' \<or> pr_status r = ''PUBLISHED''"
  shows "(r \<in> set (runs w') \<or> r\<lparr>pr_status := ''PUBLISHED''\<rparr> \<in> set (runs w'))
         \<and> slip_figures (pr_id r) w' = slip_figures (pr_id r) w"
proof -
  have "run_frozen r (slip_figures (pr_id r) w) w"
    using assms(2-4) by (simp add: run_frozen_def final_status_def)
  with assms(1) have "run_frozen r (slip_figures (pr_id r) w) w'"
    by (induction rule: rtranclp_induct) (auto intro: step_frozen)
  then show ?thesis by (simp add: run_frozen_def)
qed

definition locked_run :: run_row where
  "locked_run = \<lparr>pr_id = ''r1'', pr_org = ''o1'', pr_month = 7, pr_year = 2026,
     pr_status = ''LOCKED'', pr_employees = 1, pr_gross = 60000, pr_deductions = 9800,
     pr_net = 50200, pr_lop = 0, pr_advances = 0, pr_variance = 0, pr_processed_by = None,
     pr_approved_by = None, pr_approved_at = None, pr_locked_at = None, pr_created = 0\<rparr>"

theorem locked_run_final_witness:
  "let w = empty_world\<lparr>runs := [locked_run]\<rparr>;
       w' = snd (run_state (handle_transition_state (Some admin_claims) ''r1'' (Some ''VALIDATE'')) w)
   in locked_run \<in> set (runs w') \<or> locked_run\<lparr>pr_status := ''PUBLISHED''\<rparr> \<in> set (runs w')"
proof -
  let ?w = "empty_world\<lparr>runs := [locked_run]\<rparr>"
  have "payroll_step\<^sup>*\<^sup>* ?w
      (snd (run_state (handle_transition_state (Some admin_claims) ''r1'' (Some ''VALIDATE'')) ?w))"
    by (rule r_into_rtranclp) (rule payroll_step.transition)
  moreover have "run_ids_ok ?w" "locked_run \<in> set (runs ?w)"
    "pr_status locked_run = ''LOCKED'' \<or> pr_status locked_run = ''PUBLISHED''"
    by (simp_all add: run_ids_ok_def empty_world_def locked_run_def)
  ultimately show ?thesis using locked_run_final unfolding Let_def by blast
qed

section \<open>Readiness blocks a run\<close>

lemma run_or_zero: "run_state (or_zero m) w =
    (case run_state m w of (None, w') \<Rightarrow> (0, w') | (Some n, w') \<Rightarrow> (n, w'))"
  by (simp add: or_zero_def run_bind split: prod.splits option.splits)

lemma readiness_calm:
  assumes "outcomes w = []" "\<not> db_nil w"
  shows "\<exists>rd. run_state (check_payroll_readiness month year) w = (rd, w)
           \<and> (rd_ready rd \<longleftrightarrow> rd_errors rd = [])
           \<and> (rd_ready rd \<longleftrightarrow>
                (\<forall>d\<in>set (daily w). in_period month year (ad_date d) \<longrightarrow>
                   ad_valid d \<noteq> ''TO_VALIDATE'' \<and> ad_valid d \<noteq> ''OT_PENDING''))"
  using assms
  by (auto simp: check_payroll_readiness_def run_calm run_or_zero Let_def attendance_counts_def
      count_where_def filter_empty_conv)

text \<open>
  Unvalidated attendance blocks a payroll run: with a working database, a request to process a
  period in which some attendance record waits for validation or for an overtime decision is
  refused with status 400, and no table changes.
\<close>

theorem unvalidated_attendance_blocks:
  assumes "calm w" "\<not> db_nil w" "can_manage_payroll cl" "1 \<le> month" "month \<le> 12" "2000 \<le> year"
    "d \<in> set (daily w)" "in_period month year (ad_date d)"
    "ad_valid d = ''TO_VALIDATE'' \<or> ad_valid d = ''OT_PENDING''"
  shows "rcode (fst (run_state (handle_process_payroll cl (Some (month, year))) w)) = status_bad_request
         \<and> snd (run_state (handle_process_payroll cl (Some (month, year))) w) = w"
proof -
  have o: "outcomes w = []" using assms(1) by (simp add: calm_def)
  obtain rd where "run_state (check_payroll_readiness month year) w = (rd, w)" "\<not> rd_ready rd"
    using readiness_calm [OF o assms(2), of month year] assms(7-9) by blast
  then show ?thesis
    using assms(2-6) by (simp add: handle_process_payroll_def run_bind)
qed

definition pending_day :: daily_row where
  "pending_day = \<lparr>ad_id = ''d1'', ad_emp = ''e1'', ad_date = 20640, ad_in = None, ad_out = None,
     ad_status = ''PRESENT'', ad_late = 0, ad_valid = ''TO_VALIDATE'', ad_worked = Some 8,
     ad_expected = Some 8, ad_ot = Some 0, ad_shift = None, ad_by = None, ad_at = None,
     ad_comment = None\<rparr>"

theorem unvalidated_attendance_blocks_witness:
  "rcode (fst (run_state (handle_process_payroll (Some admin_claims) (Some (7, 2026)))
     (empty_world\<lparr>daily := [pending_day]\<rparr>))) = status_bad_request"
proof -
  have "in_period 7 2026 (ad_date pending_day)"
    by code_simp
  then show ?thesis
    using unvalidated_attendance_blocks [of "empty_world\<lparr>daily := [pending_day]\<rparr>"
        "Some admin_claims" 7 2026 pending_day]
    by (simp add: calm_def can_manage_payroll_def) (simp add: pending_day_def)
qed

section \<open>One employee\<close>

text \<open>The row the loop deducts, in a calm world.\<close>

definition first_due :: "string \<Rightarrow> int \<Rightarrow> int \<Rightarrow> advance_row list \<Rightarrow> advance_row option" where
  "first_due emp month year as = find (\<lambda>a. pa_emp a = emp \<and> open_advance month year a) as"

definition lop_count :: "string \<Rightarrow> int \<Rightarrow> int \<Rightarrow> daily_row list \<Rightarrow> int" where
  "lop_count emp month year ds =
     int (count_where (\<lambda>d. ad_emp d = emp \<and> in_period month year (ad_date d)
            \<and> (ad_status d = ''ABSENT'' \<or> ad_status d = ''LOP'')) ds)"

definition employee_deduction ::
  "emp_proc \<Rightarrow> int \<Rightarrow> int \<Rightarrow> advance_row list \<Rightarrow> daily_row list \<Rightarrow> float64" where
  "employee_deduction ep month year as ds =
     (let b = calculate_salary_breakdown (ep_base ep) (ep_currency ep) rupee
      in fadd (fadd (sb_deductions b)
                (fmul (fdiv (sb_gross b) 30) (f_of_int (lop_count (ep_id ep) month year ds))))
           (case first_due (ep_id ep) month year as of None \<Rightarrow> 0 | Some a \<Rightarrow> fl (pa_amount a)))"

definition employee_net ::
  "emp_proc \<Rightarrow> int \<Rightarrow> int \<Rightarrow> advance_row list \<Rightarrow> daily_row list \<Rightarrow> float64" where
  "employee_net ep month year as ds =
     (let net = fsub (sb_gross (calculate_salary_breakdown (ep_base ep) (ep_currency ep) rupee))
                  (employee_deduction ep month year as ds)
      in if net < 0 then 0 else net)"

definition after_deduction :: "string \<Rightarrow> int \<Rightarrow> int \<Rightarrow> advance_row list \<Rightarrow> advance_row list" where
  "after_deduction emp month year as =
     (case first_due emp month year as of None \<Rightarrow> as
      | Some a \<Rightarrow> upd_where (\<lambda>b. pa_id b = pa_id a) (pa_status_update (\<lambda>_. ''DEDUCTED'')) as)"

text \<open>A calm server on which every number can be stored and ids are in its own spelling.\<close>

definition plain_server :: "'a world_scheme \<Rightarrow> bool" where
  "plain_server w \<longleftrightarrow> outcomes w = [] \<and> \<not> db_nil w \<and> uuid_in w = Some
     \<and> (\<forall>k x. to_num w k x \<noteq> None) \<and> (\<forall>a\<in>set (advances w). pa_id a \<noteq> '''')"

lemma earnings_nonempty:
  "0 < b \<Longrightarrow> \<exists>x y zs. sb_earnings (calculate_salary_breakdown b c s) = x # y # zs"
  by (simp add: calculate_salary_breakdown_def Let_def)

lemma find_in: "find p xs = Some x \<Longrightarrow> x \<in> set xs \<and> p x"
  by (auto simp: find_Some_iff)

lemma run_lop_days:
  "plain_server w \<Longrightarrow>
   run_state (lop_days emp month year) w = (f_of_int (lop_count emp month year (daily w)), w)"
  by (simp add: plain_server_def lop_days_def run_calm lop_count_def)

lemma run_due_advance:
  "plain_server w \<Longrightarrow>
   run_state (due_advance emp month year) w
     = (map_option (\<lambda>a. (pa_id a, fl (pa_amount a))) (first_due emp month year (advances w)), w)"
  by (simp add: plain_server_def due_advance_def run_calm first_filter first_due_def)

lemma run_mark_deducted:
  "plain_server w \<Longrightarrow> \<exists>n. run_state (mark_deducted aid) w
     = (n, w\<lparr>advances := upd_where (\<lambda>a. pa_id a = aid) (pa_status_update (\<lambda>_. ''DEDUCTED''))
               (advances w)\<rparr>)"
  by (simp add: plain_server_def mark_deducted_def run_calm)

abbreviation slip_keys :: "payslip_row list \<Rightarrow> (string \<times> string) set" where
  "slip_keys ps \<equiv> (\<lambda>p. (ps_run p, ps_emp p)) ` set ps"

lemma run_upsert_payslip:
  assumes "plain_server w"
  shows "\<exists>ps n. run_state (upsert_payslip rid emp b h g d t) w
           = (Some 1, w\<lparr>payslips := ps, issued := n\<rparr>)
         \<and> (\<exists>p\<in>set ps. ps_run p = rid \<and> ps_emp p = emp \<and> to_num w 2 d = Some (ps_deductions p)
               \<and> to_num w 2 t = Some (ps_net p))
         \<and> slip_keys ps = insert (rid, emp) (slip_keys (payslips w))"
proof -
  obtain b' h' g' d' t' where "to_num w 2 b = Some b'" "to_num w 2 h = Some h'"
      "to_num w 2 g = Some g'" "to_num w 2 d = Some d'" "to_num w 2 t = Some t'"
    using assms unfolding plain_server_def by (metis option.exhaust)
  note num = this
  define row where "row = \<lparr>ps_id = ids w (issued w), ps_run = rid, ps_emp = emp, ps_basic = b',
    ps_hra = h', ps_earnings = g', ps_deductions = d', ps_net = t', ps_status = ''GENERATED'',
    ps_created = now w\<rparr>"
  define f where "f p = (p\<lparr>ps_basic := b', ps_hra := h', ps_earnings := g',
    ps_deductions := d', ps_net := t', ps_status := ''GENERATED''\<rparr>)" for p :: payslip_row
  let ?q = "\<lambda>p :: payslip_row. ps_run p = rid \<and> ps_emp p = emp"
  let ?ps = "upsert ?q f row (payslips w)"
  have run: "run_state (upsert_payslip rid emp b h g d t) w
      = (Some 1, w\<lparr>payslips := ?ps, issued := issued w + 1\<rparr>)"
    using assms num
    by (simp add: plain_server_def upsert_payslip_def run_calm row_def f_def [abs_def])
  have keys: "slip_keys (upd_where ?q f xs) = slip_keys xs" for xs
    by (induction xs) (auto simp: f_def)
  have "\<exists>p\<in>set ?ps. ?q p \<and> d' = ps_deductions p \<and> t' = ps_net p"
  proof (cases "\<exists>x\<in>set (payslips w). ?q x")
    case True
    then obtain x where x: "x \<in> set (payslips w)" "?q x" by blast
    then have "f x \<in> set ?ps" by (auto simp: upsert_def in_upd_where)
    then show ?thesis using x by (intro bexI [of _ "f x"]) (simp_all add: f_def)
  next
    case False
    then show ?thesis by (auto simp: upsert_def row_def)
  qed
  then have "\<exists>p\<in>set ?ps. ?q p \<and> to_num w 2 d = Some (ps_deductions p) \<and> to_num w 2 t = Some (ps_net p)"
    using num by simp
  moreover have "slip_keys ?ps = insert (rid, emp) (slip_keys (payslips w))"
  proof (cases "\<exists>x\<in>set (payslips w). ?q x")
    case True
    then have "(rid, emp) \<in> slip_keys (payslips w)" by force
    then show ?thesis using True keys [of "payslips w"] by (simp add: upsert_def insert_absorb)
  next
    case False
    then show ?thesis by (auto simp: upsert_def row_def)
  qed
  ultimately show ?thesis using run by auto
qed

lemma process_employee_calm:
  assumes w: "plain_server w" and base: "0 < ep_base ep"
  shows "\<exists>tot' ps n p. run_state (process_employee rid month year ep tot) w
      = (Some tot', w\<lparr>advances := after_deduction (ep_id ep) month year (advances w),
                      payslips := ps, issued := n\<rparr>)
    \<and> p \<in> set ps \<and> ps_run p = rid \<and> ps_emp p = ep_id ep
    \<and> to_num w 2 (employee_deduction ep month year (advances w) (daily w)) = Some (ps_deductions p)
    \<and> to_num w 2 (employee_net ep month year (advances w) (daily w)) = Some (ps_net p)
    \<and> slip_keys ps = insert (rid, ep_id ep) (slip_keys (payslips w))"
proof -
  let ?b = "calculate_salary_breakdown (ep_base ep) (ep_currency ep) rupee"
  let ?due = "first_due (ep_id ep) month year (advances w)"
  obtain x y zs where e: "sb_earnings ?b = x # y # zs"
    using earnings_nonempty [OF base] by blast
  define w1 where "w1 = w\<lparr>advances := after_deduction (ep_id ep) month year (advances w)\<rparr>"
  have w1: "plain_server w1"
    using w by (auto simp: w1_def plain_server_def after_deduction_def in_upd_where
        split: option.splits if_splits)
  define ded where "ded = employee_deduction ep month year (advances w) (daily w)"
  define net where "net = employee_net ep month year (advances w) (daily w)"
  obtain ps n where up: "run_state (upsert_payslip rid (ep_id ep) (ca_amount x) (ca_amount y)
        (sb_gross ?b) ded net) w1 = (Some 1, w1\<lparr>payslips := ps, issued := n\<rparr>)"
      "\<exists>p\<in>set ps. ps_run p = rid \<and> ps_emp p = ep_id ep \<and> to_num w1 2 ded = Some (ps_deductions p)
         \<and> to_num w1 2 net = Some (ps_net p)"
      "slip_keys ps = insert (rid, ep_id ep) (slip_keys (payslips w1))"
    using run_upsert_payslip [OF w1, of rid "ep_id ep" "ca_amount x" "ca_amount y" "sb_gross ?b"
        ded net] by blast
  have "\<exists>tot'. run_state (process_employee rid month year ep tot) w
      = (Some tot', w1\<lparr>payslips := ps, issued := n\<rparr>)"
  proof (cases ?due)
    case None
    then have "w1 = w" by (simp add: w1_def after_deduction_def)
    then show ?thesis
      using None up(1)
      by (simp add: process_employee_def run_bind run_lop_days [OF w] run_due_advance [OF w] Let_def e
          ded_def net_def employee_deduction_def employee_net_def)
  next
    case (Some a)
    then have "a \<in> set (advances w)" by (auto simp: first_due_def find_Some_iff)
    then have "pa_id a \<noteq> ''''" using w by (simp add: plain_server_def)
    moreover obtain k where "run_state (mark_deducted (pa_id a)) w = (k, w1)"
      using run_mark_deducted [OF w, of "pa_id a"] Some by (auto simp: w1_def after_deduction_def)
    ultimately show ?thesis
      using Some up(1)
      by (simp add: process_employee_def run_bind run_lop_days [OF w] run_due_advance [OF w] Let_def e
          ded_def net_def employee_deduction_def employee_net_def)
  qed
  then show ?thesis
    using up(2,3) by (auto simp: w1_def ded_def net_def)
qed

lemma process_employees_calm:
  assumes "plain_server w" "\<forall>ep\<in>set eps. 0 < ep_base ep"
  shows "\<exists>tot' as ps n. run_state (process_employees rid month year eps tot) w
      = (Some tot', w\<lparr>advances := as, payslips := ps, issued := n\<rparr>)
    \<and> slip_keys ps = slip_keys (payslips w) \<union> {rid} \<times> ep_id ` set eps"
  using assms
proof (induction eps arbitrary: w tot)
  case Nil
  have "w = w\<lparr>advances := advances w, payslips := payslips w, issued := issued w\<rparr>" by simp
  then show ?case by (metis Sigma_empty2 Un_empty_right image_empty list.set(1) process_employees.simps(1) run_return)
next
  case (Cons ep eps)
  let ?as = "after_deduction (ep_id ep) month year (advances w)"
  obtain t1 ps1 n1 where 1: "run_state (process_employee rid month year ep tot) w
      = (Some t1, w\<lparr>advances := ?as, payslips := ps1, issued := n1\<rparr>)"
    "slip_keys ps1 = insert (rid, ep_id ep) (slip_keys (payslips w))"
    using process_employee_calm [OF Cons.prems(1), of ep rid month year tot] Cons.prems(2)
    by auto
  let ?w = "w\<lparr>advances := ?as, payslips := ps1, issued := n1\<rparr>"
  have "plain_server ?w"
    using Cons.prems(1) by (auto simp: plain_server_def after_deduction_def in_upd_where
        split: option.splits if_splits)
  then obtain t2 as2 ps2 n2 where 2: "run_state (process_employees rid month year eps t1) ?w
      = (Some t2, ?w\<lparr>advances := as2, payslips := ps2, issued := n2\<rparr>)"
    "slip_keys ps2 = slip_keys ps1 \<union> {rid} \<times> ep_id ` set eps"
    using Cons.IH [of ?w t1] Cons.prems(2) by auto
  have "run_state (process_employees rid month year (ep # eps) tot) w
      = (Some t2, w\<lparr>advances := as2, payslips := ps2, issued := n2\<rparr>)"
    using 1(1) 2(1) by (simp add: run_bind)
  moreover have "slip_keys ps2 = slip_keys (payslips w) \<union> {rid} \<times> ep_id ` set (ep # eps)"
    using 1(2) 2(2) by auto
  ultimately show ?case by blast
qed

lemma payroll_rows_ids:
  "ep_id ` set (payroll_rows w) = e_id ` {e \<in> set (employees w). active_employee e}"
proof -
  have one: "ep_id ` set (case fs of [] \<Rightarrow> [\<lparr>ep_id = i, ep_code = c, ep_name = n, ep_base = b, ep_currency = u\<rparr>]
      | s # ss \<Rightarrow> map (\<lambda>s. \<lparr>ep_id = i, ep_code = c, ep_name = n, ep_base = f s, ep_currency = g s\<rparr>)
                     (s # ss)) = {i}" for fs i c n b u f g
    by (cases fs) (auto simp: image_image)
  show ?thesis
    by (auto simp: payroll_rows_def Let_def image_UN one)
qed

text \<open>What a request to process a period needs in order to get as far as the loop.\<close>

definition processable :: "claims option \<Rightarrow> int \<Rightarrow> int \<Rightarrow> 'a world_scheme \<Rightarrow> bool" where
  "processable cl month year w \<longleftrightarrow>
     plain_server w \<and> can_manage_payroll cl \<and> 1 \<le> month \<and> month \<le> 12 \<and> 2000 \<le> year
     \<and> (\<forall>d\<in>set (daily w). in_period month year (ad_date d) \<longrightarrow>
          ad_valid d \<noteq> ''TO_VALIDATE'' \<and> ad_valid d \<noteq> ''OT_PENDING'')
     \<and> orgs w \<noteq> []
     \<and> (\<forall>r\<in>set (runs w). pr_month r = month \<and> pr_year r = year \<longrightarrow> \<not> final_status (pr_status r))
     \<and> ids w (issued w) \<notin> pr_id ` set (runs w)"

lemma find_row_Some:
  assumes "find p xs = Some x"
  shows "x \<in> set xs" "p x"
  using assms by (auto simp: find_Some_iff)

lemma process_reaches_loop:
  assumes "processable cl month year w"
  obtains rid rs n rd where
    "run_state (handle_process_payroll cl (Some (month, year))) w
       = run_state (process_run cl rid month year rd) (w\<lparr>runs := rs, issued := n\<rparr>)"
    "plain_server (w\<lparr>runs := rs, issued := n\<rparr>)"
    "\<exists>r\<in>set rs. pr_id r = rid \<and> pr_month r = month \<and> pr_year r = year"
proof -
  have w: "plain_server w" using assms by (simp add: processable_def)
  then have o: "outcomes w = []" "\<not> db_nil w" "uuid_in w = Some" by (simp_all add: plain_server_def)
  obtain rd where rd: "run_state (check_payroll_readiness month year) w = (rd, w)" "rd_ready rd"
    using readiness_calm [OF o(1,2), of month year] assms unfolding processable_def by blast
  obtain org os where org: "orgs w = org # os" using assms by (cases "orgs w") (auto simp: processable_def)
  let ?p = "\<lambda>r. pr_month r = month \<and> pr_year r = year"
  show thesis
  proof (cases "find ?p (runs w)")
    case (Some r)
    note r = find_row_Some [OF this]
    have "run_state (handle_process_payroll cl (Some (month, year))) w
        = run_state (process_run cl (pr_id r) month year rd) (w\<lparr>runs := runs w, issued := issued w\<rparr>)"
      using assms rd o org Some r
      by (auto simp: handle_process_payroll_def processable_def run_calm first_row final_status_def)
    then show thesis by (rule that) (use w r in auto)
  next
    case None
    define x where "x = \<lparr>pr_id = ids w (issued w), pr_org = org, pr_month = month, pr_year = year,
      pr_status = ''PROCESSING'', pr_employees = 0, pr_gross = 0, pr_deductions = 0, pr_net = 0,
      pr_lop = 0, pr_advances = 0, pr_variance = 0, pr_processed_by = Some (cl_user (the cl)),
      pr_approved_by = None, pr_approved_at = None, pr_locked_at = None, pr_created = now w\<rparr>"
    have "\<not> (\<exists>r\<in>set (runs w). pr_id r = ids w (issued w)
              \<or> pr_org r = org \<and> pr_month r = month \<and> pr_year r = year)"
      using assms None by (auto simp: processable_def find_None_iff image_iff)
    then have "run_state (insert_run org month year (cl_user (the cl))) w
        = (Some (ids w (issued w)), w\<lparr>runs := runs w @ [x], issued := issued w + 1\<rparr>)"
      unfolding insert_run_def run_insert_calm [OF o(1)] o(3)
      by (simp only: option.case prod.case if_False x_def)
    then have "run_state (handle_process_payroll cl (Some (month, year))) w
        = run_state (process_run cl (ids w (issued w)) month year rd)
            (w\<lparr>runs := runs w @ [x], issued := issued w + 1\<rparr>)"
      using assms rd o org None
      by (simp add: handle_process_payroll_def processable_def run_bind run_orelse
          run_select_row_calm first_row text_or_empty_def)
    then show thesis
      by (rule that) (use w in \<open>auto simp: plain_server_def x_def\<close>)
  qed
qed


definition payroll_world :: world where
  "payroll_world = empty_world\<lparr>orgs := [''o1''], employees := [demo_employee]\<rparr>"

lemma payroll_world_processable: "processable (Some admin_claims) 7 2026 payroll_world"
  by (simp add: processable_def plain_server_def can_manage_payroll_def payroll_world_def
      empty_world_def)

lemma payroll_world_rows:
  "payroll_rows payroll_world = [\<lparr>ep_id = ''e1'', ep_code = ''EMP-1'', ep_name = ''Ann Lee'',
     ep_base = 60000, ep_currency = ''INR''\<rparr>]"
  by (simp add: payroll_rows_def payroll_world_def empty_world_def demo_employee_def
      active_employee_def full_name_def)


section \<open>Advances\<close>


definition demo_advance :: advance_row where
  "demo_advance = \<lparr>pa_id = ''a1'', pa_emp = ''e1'', pa_amount = 5000, pa_months = 1,
     pa_reason = '''', pa_month = 7, pa_year = 2026, pa_status = ''APPROVED'',
     pa_approved_by = None, pa_created = 0\<rparr>"


text \<open>
  Approving is not guarded by the state of the advance: a payroll administrator's request to
  approve an advance that a run has already deducted succeeds and makes it due again for the same
  period, so that the next processing of the period deducts it a second time.
\<close>

theorem approval_reopens_deducted:
  assumes "calm w" "\<not> db_nil w" "can_manage_payroll (Some c)" "uuid_in w (cl_user c) = Some u"
    "a \<in> set (advances w)" "pa_status a = ''DEDUCTED''"
  shows "let (resp, w') = run_state (handle_approve_advance (Some c) (pa_id a)) w
         in rcode resp = status_ok
            \<and> (\<exists>b\<in>set (advances w'). pa_id b = pa_id a \<and> pa_amount b = pa_amount a
                 \<and> open_advance (pa_month a) (pa_year a) b)"
proof -
  let ?as = "upd_where (\<lambda>b. pa_id b = pa_id a)
    (\<lambda>b. b\<lparr>pa_status := ''APPROVED'', pa_approved_by := Some u\<rparr>) (advances w)"
  obtain resp where "run_state (handle_approve_advance (Some c) (pa_id a)) w
      = (resp, w\<lparr>advances := ?as\<rparr>)" "rcode resp = status_ok"
    using assms by (simp add: handle_approve_advance_def calm_def run_calm)
  moreover have "a\<lparr>pa_status := ''APPROVED'', pa_approved_by := Some u\<rparr> \<in> set ?as"
    using assms(5) by (auto simp: in_upd_where)
  ultimately show ?thesis
    by (auto simp: open_advance_def
        intro!: bexI [of _ "a\<lparr>pa_status := ''APPROVED'', pa_approved_by := Some u\<rparr>"])
qed

theorem approval_reopens_deducted_witness:
  "let w = payroll_world\<lparr>advances := [demo_advance\<lparr>pa_status := ''DEDUCTED''\<rparr>]\<rparr>;
       (resp, w') = run_state (handle_approve_advance (Some admin_claims) ''a1'') w
   in rcode resp = status_ok \<and> (\<exists>b\<in>set (advances w'). open_advance 7 2026 b)"
  using approval_reopens_deducted [of "payroll_world\<lparr>advances :=
        [demo_advance\<lparr>pa_status := ''DEDUCTED''\<rparr>]\<rparr>" admin_claims "cl_user admin_claims"
      "demo_advance\<lparr>pa_status := ''DEDUCTED''\<rparr>"]
  by (auto simp: calm_def payroll_world_def empty_world_def can_manage_payroll_def
      demo_advance_def split: prod.splits)

section \<open>A salary of zero\<close>

lemma keeps_runs_process_employees:
  "keeps (\<lambda>v. runs v = rs) (process_employees rid month year eps tot)"
proof -
  have st: "stable (\<lambda>v. runs v = rs)" by (simp add: stable_def)
  have "keeps (\<lambda>v. runs v = rs) (process_employee rid month year ep tot)" for ep tot
    unfolding process_employee_def lop_days_def due_advance_def mark_deducted_def upsert_payslip_def
    by (intro keeps_rules st keeps_exec) (auto split: option.splits)
  then show ?thesis
    by (induction eps arbitrary: tot) (auto intro!: keeps_rules)
qed

lemma process_employees_panic:
  fixes w :: "'a world_scheme"
  shows "\<exists>ep\<in>set eps. ep_base ep \<le> 0 \<Longrightarrow>
   wp (process_employees rid month year eps tot) (\<lambda>r _. r = None) w"
proof (induction eps arbitrary: tot w)
  case Nil
  then show ?case by simp
next
  case (Cons ep eps tot w)
  show ?case
  proof (cases "ep_base ep \<le> 0")
    case True
    then have "sb_earnings (calculate_salary_breakdown (ep_base ep) c s) = []" for c s
      by (simp add: calculate_salary_breakdown_def)
    then have "wp (process_employee rid month year ep tot) (\<lambda>r _. r = None) w"
      by (auto simp: process_employee_def wp_def run_bind split: prod.splits)
    then show ?thesis by simp (erule wp_mono, simp)
  next
    case False
    then have "\<exists>ep\<in>set eps. ep_base ep \<le> 0" using Cons.prems by auto
    then have "wp (process_employees rid month year eps t) (\<lambda>r _. r = None) v"
      for t and v :: "'a world_scheme"
      by (rule Cons.IH)
    then have "wp (process_employee rid month year ep tot)
        (\<lambda>r. wp (case r of None \<Rightarrow> State_Monad.return None
                  | Some t \<Rightarrow> process_employees rid month year eps t) (\<lambda>r _. r = None)) w"
      by - (rule wp_any, auto split: option.split)
    then show ?thesis by simp
  qed
qed

text \<open>
  One salary of zero stops the payroll. When some active employee's salary is stored as zero,
  which a positive amount below half a cent becomes in a column of two decimals, the breakdown has
  no components, indexing it panics, and processing the period answers with a bare status 500: the
  run is left behind unfinished, with the status it had or PROCESSING.
\<close>

theorem zero_salary_panics:
  assumes "processable cl month year w" "ep \<in> set (payroll_rows w)" "ep_base ep \<le> 0"
  shows "fst (run_state (handle_process_payroll cl (Some (month, year))) w) = panicked
         \<and> (\<exists>r\<in>set (runs (snd (run_state (handle_process_payroll cl (Some (month, year))) w))).
              pr_month r = month \<and> pr_year r = year)"
proof -
  obtain rid rs n rd where reach:
    "run_state (handle_process_payroll cl (Some (month, year))) w
       = run_state (process_run cl rid month year rd) (w\<lparr>runs := rs, issued := n\<rparr>)"
    and w1: "plain_server (w\<lparr>runs := rs, issued := n\<rparr>)"
    and r: "\<exists>r\<in>set rs. pr_id r = rid \<and> pr_month r = month \<and> pr_year r = year"
    using process_reaches_loop [OF assms(1)] .
  let ?w1 = "w\<lparr>runs := rs, issued := n\<rparr>"
  have rows: "payroll_rows ?w1 = payroll_rows w" by (simp add: payroll_rows_def)
  have "wp (process_employees rid month year (payroll_rows w) zero_totals) (\<lambda>r _. r = None) ?w1"
    using assms(2,3) by (intro process_employees_panic) blast
  moreover have "wp (process_employees rid month year (payroll_rows w) zero_totals)
      (\<lambda>_ v. runs v = rs) ?w1"
    using keeps_runs_process_employees by (rule keeps_def [THEN iffD1, rule_format]) simp
  ultimately have "wp (process_employees rid month year (payroll_rows w) zero_totals)
      (\<lambda>r v. r = None \<and> runs v = rs) ?w1"
    unfolding wp_conj by blast
  then have "wp (process_run cl rid month year rd) (\<lambda>resp v. resp = panicked \<and> runs v = rs) ?w1"
    using w1 unfolding process_run_def
    by (simp add: plain_server_def next_ok_def rows) (erule wp_mono, auto)
  then show ?thesis
    using r unfolding reach by (auto simp: wp_def split: prod.splits)
qed

theorem zero_salary_panics_witness:
  "let w = payroll_world\<lparr>structures := [\<lparr>ss_id = ''s1'', ss_emp = ''e1'', ss_currency = ''INR'',
             ss_base = 0, ss_active = True, ss_created = 0\<rparr>]\<rparr>
   in fst (run_state (handle_process_payroll (Some admin_claims) (Some (7, 2026))) w) = panicked"
proof -
  let ?w = "payroll_world\<lparr>structures := [\<lparr>ss_id = ''s1'', ss_emp = ''e1'', ss_currency = ''INR'',
             ss_base = 0, ss_active = True, ss_created = 0\<rparr>]\<rparr>"
  have p: "processable (Some admin_claims) 7 2026 ?w"
    using payroll_world_processable by (simp add: processable_def plain_server_def)
  have "\<lparr>ep_id = ''e1'', ep_code = ''EMP-1'', ep_name = ''Ann Lee'', ep_base = 0,
      ep_currency = ''INR''\<rparr> \<in> set (payroll_rows ?w)"
    by (simp add: payroll_rows_def payroll_world_def empty_world_def demo_employee_def
        active_employee_def full_name_def)
  from zero_salary_panics [OF p this] show ?thesis by simp
qed

text \<open>
  The code enforces no order on the states before LOCKED: one PUBLISH request takes a run that
  has only been created, and never validated, approved or locked, to PUBLISHED, together with its
  payslips.
\<close>

theorem publish_skips_approval:
  assumes "calm w" "\<not> db_nil w" "can_manage_payroll (Some c)" "r \<in> set (runs w)"
    "distinct (map pr_id (runs w))" "\<not> final_status (pr_status r)"
  shows "let (resp, w') = run_state (handle_transition_state (Some c) (pr_id r) (Some ''PUBLISH'')) w
         in rcode resp = status_ok
            \<and> r\<lparr>pr_status := ''PUBLISHED''\<rparr> \<in> set (runs w')
            \<and> (\<forall>p\<in>set (payslips w'). ps_run p = pr_id r \<longrightarrow> ps_status p = ''PUBLISHED'')"
proof -
  have "find (\<lambda>x. pr_id x = pr_id r) (runs w) = Some r"
    using assms(4,5) by (intro find_unique)
  then obtain resp where
    "run_state (handle_transition_state (Some c) (pr_id r) (Some ''PUBLISH'')) w
      = (resp, w\<lparr>runs := upd_where (\<lambda>x. pr_id x = pr_id r) (pr_status_update (\<lambda>_. ''PUBLISHED''))
                   (runs w),
               payslips := upd_where (\<lambda>p. ps_run p = pr_id r)
                   (ps_status_update (\<lambda>_. ''PUBLISHED'')) (payslips w)\<rparr>)"
    "rcode resp = status_ok"
    using assms(1-3,6)
    by (simp add: handle_transition_state_def calm_def run_calm first_row final_status_def
        transition_action_def set_run_def publish_payslips_def)
  moreover have "r\<lparr>pr_status := ''PUBLISHED''\<rparr>
      \<in> set (upd_where (\<lambda>x. pr_id x = pr_id r) (pr_status_update (\<lambda>_. ''PUBLISHED'')) (runs w))"
    using assms(4) by (auto simp: in_upd_where)
  ultimately show ?thesis by (auto simp: in_upd_where)
qed

theorem publish_skips_approval_witness:
  "let w = empty_world\<lparr>runs := [locked_run\<lparr>pr_status := ''PROCESSING''\<rparr>]\<rparr>;
       (resp, w') = run_state (handle_transition_state (Some admin_claims) ''r1'' (Some ''PUBLISH'')) w
   in rcode resp = status_ok \<and> locked_run\<lparr>pr_status := ''PUBLISHED''\<rparr> \<in> set (runs w')"
  using publish_skips_approval [of
      "empty_world\<lparr>runs := [locked_run\<lparr>pr_status := ''PROCESSING''\<rparr>]\<rparr>" admin_claims
      "locked_run\<lparr>pr_status := ''PROCESSING''\<rparr>"]
  by (simp add: calm_def can_manage_payroll_def final_status_def locked_run_def
      split: prod.splits)

end
