(* ===== verification/Workflow.thy ===== *)
theory Workflow
  imports Authz Pagination
begin

text \<open>
  \<^verbatim>\<open>internal/workflow/workflow.go\<close>: the inbox of pending requests over the view
  \<^verbatim>\<open>v_universal_approvals\<close> and the decisions on them. Requests live in six tables, which the
  code updates one after the other; the locale \<open>task_table\<close> is what they have in common.
\<close>

section \<open>The view of all requests\<close>

record task_view =
  vw_id :: string
  vw_module :: string
  vw_type :: string
  vw_emp :: string
  vw_date :: string
  vw_reason :: string
  vw_priority :: string
  vw_status :: string
  vw_created :: int

definition request_view :: "string \<Rightarrow> string \<Rightarrow> request_row \<Rightarrow> task_view" where
  "request_view modul type r =
     \<lparr>vw_id = rq_id r, vw_module = modul, vw_type = type, vw_emp = rq_emp r,
      vw_date = (case rq_date r of None \<Rightarrow> '''' | Some d \<Rightarrow> show_date d),
      vw_reason = rq_reason r, vw_priority = ''NORMAL'', vw_status = rq_status r,
      vw_created = rq_created r\<rparr>"

definition leave_view :: "leave_row \<Rightarrow> task_view" where
  "leave_view r =
     \<lparr>vw_id = la_id r, vw_module = ''LEAVE'', vw_type = ''Leave Request'', vw_emp = la_emp r,
      vw_date = show_date (la_start r) @ '' to '' @ show_date (la_end r),
      vw_reason = la_reason r, vw_priority = ''NORMAL'', vw_status = la_status r,
      vw_created = la_created r\<rparr>"

definition advance_view :: "advance_row \<Rightarrow> task_view" where
  "advance_view r =
     \<lparr>vw_id = pa_id r, vw_module = ''ADVANCE'', vw_type = ''Salary Advance'', vw_emp = pa_emp r,
      vw_date = ''Recovery Months: '' @ dec (pa_months r),
      vw_reason = pa_reason r, vw_priority = ''URGENT'', vw_status = pa_status r,
      vw_created = pa_created r\<rparr>"

text \<open>\<^verbatim>\<open>create_view.sql\<close>.\<close>

definition universal_approvals :: "'a world_scheme \<Rightarrow> task_view list" where
  "universal_approvals w =
     map leave_view (leaves w)
     @ map (request_view ''ATTENDANCE'' ''Regularization'') (regularizations w)
     @ map (request_view ''ATTENDANCE'' ''On Duty'') (ods w)
     @ map (request_view ''ATTENDANCE'' ''WFH'') (wfhs w)
     @ map advance_view (advances w)
     @ map (request_view ''OFFBOARDING'' ''Exit Request'') (exits w)"

definition requested_by :: "task_view \<Rightarrow> employee_row \<Rightarrow> bool" where
  "requested_by v e \<longleftrightarrow> e_id e = vw_emp v \<or> e_user e = Some (vw_emp v)"

section \<open>Who asks and who decides\<close>

text \<open>The rows of the left join: the requester's employee id and user id as text.\<close>

definition task_requesters :: "string \<Rightarrow> 'a world_scheme \<Rightarrow> (string \<times> string) list" where
  "task_requesters tid w =
     concat (map (\<lambda>v. case filter (requested_by v) (employees w) of
                         [] \<Rightarrow> [(vw_emp v, '''')]
                       | e # es \<Rightarrow> map (\<lambda>e. (vw_emp v, text_or_empty (e_user e))) (e # es))
       (filter (\<lambda>v. vw_id v = tid) (universal_approvals w)))"

definition get_task_requester_ids :: "string \<Rightarrow> ('a world_scheme, string \<times> string) state" where
  "get_task_requester_ids tid = do {
     r \<leftarrow> select_row (task_requesters tid);
     State_Monad.return (case r of None \<Rightarrow> ('''', '''') | Some p \<Rightarrow> p)
   }"

definition get_caller_ids :: "string \<Rightarrow> ('a world_scheme, string \<times> string) state" where
  "get_caller_ids uid = do {
     r \<leftarrow> select_row (\<lambda>w. [(e_id e, text_or_empty (e_user e)). e \<leftarrow> employees w,
            user_is uid e \<or> e_id e = uid]);
     State_Monad.return (case r of None \<Rightarrow> ('''', uid) | Some p \<Rightarrow> p)
   }"

definition is_self_approval :: "claims option \<Rightarrow> string \<Rightarrow> ('a world_scheme, bool) state" where
  "is_self_approval cl tid =
     (case cl of
        None \<Rightarrow> State_Monad.return True
      | Some c \<Rightarrow> do {
          (req_emp, req_user) \<leftarrow> get_task_requester_ids tid;
          (caller_emp, caller_user) \<leftarrow> get_caller_ids (cl_user c);
          State_Monad.return
            (if req_emp \<noteq> '''' \<and> (req_emp = caller_emp \<or> req_emp = cl_user c) then True
             else if req_user \<noteq> '''' \<and> (req_user = caller_user \<or> req_user = cl_user c) then True
             else if \<not> can_approve_task req_emp caller_emp then True
             else False)
        })"

definition is_authorized_to_approve :: "claims option \<Rightarrow> string \<Rightarrow> ('a world_scheme, bool) state"
  where
  "is_authorized_to_approve cl tid =
     (case cl of
        None \<Rightarrow> State_Monad.return False
      | Some c \<Rightarrow>
          if has_role cl [''SUPER_ADMIN'', ''HR_ADMIN'', ''PAYROLL_ADMIN'']
          then State_Monad.return True
          else do {
            (req_emp, req_user) \<leftarrow> get_task_requester_ids tid;
            (caller_emp, _) \<leftarrow> get_caller_ids (cl_user c);
            mgr \<leftarrow> select_row (\<lambda>w. [text_or_empty (e_manager e). e \<leftarrow> employees w,
                     e_id e = req_emp \<or> user_is req_user e]);
            State_Monad.return
              (case mgr of
                 Some m \<Rightarrow> if m \<noteq> '''' \<and> m = caller_emp then True else False
               | None \<Rightarrow> False)
          })"

section \<open>Decisions\<close>

text \<open>\<^verbatim>\<open>UPDATE <table> SET status = $1 WHERE id = $2 AND status = 'PENDING'\<close>.\<close>

definition update_pending ::
  "('w \<Rightarrow> 'r list) \<Rightarrow> (('r list \<Rightarrow> 'r list) \<Rightarrow> 'w \<Rightarrow> 'w) \<Rightarrow> ('r \<Rightarrow> string) \<Rightarrow> ('r \<Rightarrow> string) \<Rightarrow>
   ((string \<Rightarrow> string) \<Rightarrow> 'r \<Rightarrow> 'r) \<Rightarrow> ('w \<Rightarrow> string \<Rightarrow> string option) \<Rightarrow> string \<Rightarrow> string \<Rightarrow>
   'w \<Rightarrow> (nat \<times> 'w) option" where
  "update_pending rows upd key status set_status uuid st tid w =
     (case uuid w tid of
        None \<Rightarrow> None
      | Some i \<Rightarrow>
          (let p = (\<lambda>r. key r = i \<and> status r = ''PENDING'')
           in Some (count_where p (rows w), upd (upd_where p (set_status (\<lambda>_. st))) w)))"

definition task_updates ::
  "string \<Rightarrow> string \<Rightarrow> ('a world_scheme \<Rightarrow> (nat \<times> 'a world_scheme) option) list" where
  "task_updates st tid =
     [update_pending leaves leaves_update la_id la_status la_status_update uuid_in st tid,
      update_pending regularizations regularizations_update rq_id rq_status rq_status_update
        uuid_in st tid,
      update_pending ods ods_update rq_id rq_status rq_status_update uuid_in st tid,
      update_pending wfhs wfhs_update rq_id rq_status rq_status_update uuid_in st tid,
      update_pending advances advances_update pa_id pa_status pa_status_update uuid_in st tid,
      update_pending exits exits_update rq_id rq_status rq_status_update uuid_in st tid]"

text \<open>The loop over the statements: it ends at the first error and at the first row found.\<close>

primrec first_update ::
  "('a world_scheme \<Rightarrow> (nat \<times> 'a world_scheme) option) list \<Rightarrow>
   ('a world_scheme, string option) state" where
  "first_update [] = State_Monad.return (Some ''task not found or already processed'')"
| "first_update (u # us) = do {
     res \<leftarrow> exec u;
     err \<leftarrow> reads err_text;
     (case res of
        None \<Rightarrow> State_Monad.return (Some err)
      | Some n \<Rightarrow> if n > 0 then State_Monad.return None else first_update us)
   }"

text \<open>The result is the error, \<^term>\<open>None\<close> for success.\<close>

definition update_task_status :: "string \<Rightarrow> string \<Rightarrow> ('a world_scheme, string option) state" where
  "update_task_status tid st = first_update (task_updates st tid)"

abbreviation approver_roles :: "string list" where
  "approver_roles \<equiv>
     [''SUPER_ADMIN'', ''HR_ADMIN'', ''HR_MANAGER'', ''MANAGER'', ''DEPT_HEAD'', ''PAYROLL_ADMIN'']"

text \<open>
  \<^verbatim>\<open>HandleApproveTask\<close> and \<^verbatim>\<open>HandleRejectTask\<close> differ in the status and in the texts.
\<close>

definition decide_task ::
  "string \<Rightarrow> string \<Rightarrow> string \<Rightarrow> string \<Rightarrow> claims option \<Rightarrow> string \<Rightarrow>
   ('a world_scheme, response) state" where
  "decide_task st role_msg scope_msg ok_msg cl tid = do {
     nil \<leftarrow> reads db_nil;
     (if nil
      then State_Monad.return (common_json_error ''Database connection unavailable'' status_internal)
      else if cl = None then State_Monad.return unauthorized_response
      else if \<not> has_role cl approver_roles
      then State_Monad.return (forbidden_response ''FORBIDDEN_ROLE'' role_msg)
      else do {
        self \<leftarrow> is_self_approval cl tid;
        (if self then State_Monad.return self_approval_error
         else do {
           allowed \<leftarrow> is_authorized_to_approve cl tid;
           (if \<not> allowed
            then State_Monad.return (forbidden_response ''FORBIDDEN_RESOURCE'' scope_msg)
            else do {
              err \<leftarrow> update_task_status tid st;
              State_Monad.return
                (case err of
                   Some msg \<Rightarrow> common_json_error msg status_bad_request
                 | None \<Rightarrow> respond status_ok [(''success'', JBool True), (''message'', JStr ok_msg)])
            })
         })
      })
   }"

definition handle_approve_task :: "claims option \<Rightarrow> string \<Rightarrow> ('a world_scheme, response) state" where
  "handle_approve_task =
     decide_task ''APPROVED''
       ''Only managers and HR administrators can approve workflow tasks.''
       ''You can only approve tasks for your direct reports.''
       ''Task approved successfully''"

definition handle_reject_task :: "claims option \<Rightarrow> string \<Rightarrow> ('a world_scheme, response) state" where
  "handle_reject_task =
     decide_task ''REJECTED''
       ''Only managers and HR administrators can reject workflow tasks.''
       ''You can only reject tasks for your direct reports.''
       ''Task rejected successfully''"

text \<open>\<^term>\<open>None\<close> is the nil slice of a body without \<^verbatim>\<open>task_ids\<close>.\<close>

record bulk_action_request =
  ba_ids :: "string list option"
  ba_action :: string
  ba_comments :: string

text \<open>The loop over the tasks; the answer that ends it early, or \<^term>\<open>None\<close>.\<close>

primrec bulk_loop ::
  "claims option \<Rightarrow> string \<Rightarrow> string list \<Rightarrow> ('a world_scheme, response option) state" where
  "bulk_loop cl action [] = State_Monad.return None"
| "bulk_loop cl action (tid # tids) = do {
     self \<leftarrow> is_self_approval cl tid;
     (if self then State_Monad.return (Some self_approval_error)
      else do {
        allowed \<leftarrow> is_authorized_to_approve cl tid;
        (if \<not> allowed
         then State_Monad.return (Some (forbidden_response ''FORBIDDEN_RESOURCE''
                ''You can only approve tasks for your direct reports.''))
         else do {
           err \<leftarrow> update_task_status tid action;
           (case err of
              Some msg \<Rightarrow> State_Monad.return (Some (common_json_error
                (''Failed to process task '' @ tid @ '': '' @ msg) status_bad_request))
            | None \<Rightarrow> bulk_loop cl action tids)
         })
      })
   }"

definition handle_bulk_action ::
  "claims option \<Rightarrow> bulk_action_request option \<Rightarrow> ('a world_scheme, response) state" where
  "handle_bulk_action cl body =
     (if cl = None then State_Monad.return unauthorized_response
      else if \<not> has_role cl approver_roles
      then State_Monad.return (forbidden_response ''FORBIDDEN_ROLE''
             ''Only managers and HR administrators can approve or reject requests.'')
      else
        (case body of
           None \<Rightarrow> State_Monad.return (common_json_error ''invalid request payload'' status_bad_request)
         | Some req \<Rightarrow> do {
             nil \<leftarrow> reads db_nil;
             (if nil
              then State_Monad.return
                (common_json_error ''Database connection unavailable'' status_internal)
              else do {
                early \<leftarrow> bulk_loop cl (ba_action req)
                  (case ba_ids req of None \<Rightarrow> [] | Some tids \<Rightarrow> tids);
                State_Monad.return
                  (case early of
                     Some r \<Rightarrow> r
                   | None \<Rightarrow> respond status_ok
                       [(''success'', JBool True),
                        (''message'', JStr ''Bulk action executed successfully''),
                        (''task_ids'', (case ba_ids req of None \<Rightarrow> JNull
                           | Some tids \<Rightarrow> JArr (map JStr tids))),
                        (''action'', JStr (ba_action req))])
              })
           }))"

section \<open>The inbox\<close>

record universal_task =
  ut_view :: task_view
  ut_code :: string
  ut_name :: string
  ut_dept :: string
  ut_self :: bool

definition universal_task_json :: "universal_task \<Rightarrow> json" where
  "universal_task_json t =
     (let v = ut_view t
      in JObj [(''id'', JStr (vw_id v)), (''module'', JStr (vw_module v)),
               (''type'', JStr (vw_type v)), (''employee_id'', JStr (ut_code t)),
               (''employee_name'', JStr (ut_name t)), (''department'', JStr (ut_dept t)),
               (''requested_date'', JStr (vw_date v)), (''reason'', JStr (vw_reason v)),
               (''priority'', JStr (vw_priority v)), (''status'', JStr (vw_status v)),
               (''is_self_request'', JBool (ut_self t)), (''created_at'', JInt (vw_created v))])"

definition inbox_visible :: "claims option \<Rightarrow> string \<Rightarrow> employee_row \<Rightarrow> bool" where
  "inbox_visible cl caller_emp e \<longleftrightarrow>
     (if has_role cl [''SUPER_ADMIN'', ''HR_ADMIN'', ''PAYROLL_ADMIN''] then True
      else if has_role cl [''MANAGER'', ''DEPT_HEAD''] \<and> caller_emp \<noteq> ''''
      then e_manager e = Some caller_emp
      else False)"

definition is_own_request :: "claims \<Rightarrow> string \<Rightarrow> string \<Rightarrow> employee_row \<Rightarrow> bool" where
  "is_own_request c caller_emp caller_user e \<longleftrightarrow>
     (let emp = e_id e; user = text_or_empty (e_user e); code = e_code e
      in (emp \<noteq> '''' \<and> emp = caller_emp) \<or> (user \<noteq> '''' \<and> user = caller_user)
         \<or> (emp \<noteq> '''' \<and> emp = cl_user c) \<or> (user \<noteq> '''' \<and> user = cl_user c)
         \<or> (code \<noteq> '''' \<and> code = caller_emp))"

definition inbox_rows ::
  "claims \<Rightarrow> string \<Rightarrow> string \<Rightarrow> 'a world_scheme \<Rightarrow> universal_task list" where
  "inbox_rows c caller_emp caller_user w =
     sort_key (\<lambda>t. - vw_created (ut_view t))
       [\<lparr>ut_view = v, ut_code = e_code e, ut_name = full_name e,
         ut_dept = (case e_dept e of None \<Rightarrow> ''General''
                    | Some d \<Rightarrow> (case map_of (departments w) d of None \<Rightarrow> ''General'' | Some n \<Rightarrow> n)),
         ut_self = is_own_request c caller_emp caller_user e\<rparr>.
        v \<leftarrow> universal_approvals w, e \<leftarrow> employees w,
        requested_by v e \<and> vw_status v = ''PENDING'' \<and> inbox_visible (Some c) caller_emp e]"

definition handle_get_universal_approvals ::
  "claims option \<Rightarrow> ('a world_scheme, response) state" where
  "handle_get_universal_approvals cl =
     (case cl of
        None \<Rightarrow> State_Monad.return unauthorized_response
      | Some c \<Rightarrow> do {
          nil \<leftarrow> reads db_nil;
          err \<leftarrow> reads err_text;
          (if nil
           then State_Monad.return
             (common_json_error ''Database connection unavailable'' status_internal)
           else do {
             (caller_emp, caller_user) \<leftarrow> get_caller_ids (cl_user c);
             orelse (select (inbox_rows c caller_emp caller_user))
               (common_json_error (''Failed to fetch approvals: '' @ err) status_internal)
               (\<lambda>ts. State_Monad.return
                  (respond status_ok
                     [(''success'', JBool True), (''data'', JArr (map universal_task_json ts))]))
           })
        })"

section \<open>The fixed answers\<close>

definition item_json :: "(string \<times> string) list \<Rightarrow> json" where
  "item_json fs = JObj (map (\<lambda>(k, v). (k, JStr v)) fs)"

definition handle_get_hr_tasks :: response where
  "handle_get_hr_tasks =
     respond status_ok
       [(''success'', JBool True),
        (''data'', JObj
           [(''probation_due_count'', JInt 3), (''pending_docs_count'', JInt 5),
            (''unresolved_anomalies'', JInt 4), (''pending_payroll_locks'', JInt 1),
            (''probation_employees'', JArr (map item_json
              [[(''employee_id'', ''EMP-1024''), (''name'', ''Alice Walker''),
                (''due_date'', ''2026-08-30''), (''department'', ''Engineering'')],
               [(''employee_id'', ''EMP-1088''), (''name'', ''Bob Smith''),
                (''due_date'', ''2026-09-05''), (''department'', ''Design'')],
               [(''employee_id'', ''EMP-1090''), (''name'', ''Carol Danvers''),
                (''due_date'', ''2026-09-12''), (''department'', ''Product'')]])),
            (''pending_document_items'', JArr (map item_json
              [[(''employee_id'', ''EMP-1024''), (''name'', ''Alice Walker''),
                (''doc_type'', ''PAN Card Copy''), (''status'', ''PENDING_VERIFICATION'')],
               [(''employee_id'', ''EMP-1088''), (''name'', ''Bob Smith''),
                (''doc_type'', ''Relieving Letter''), (''status'', ''PENDING_VERIFICATION'')],
               [(''employee_id'', ''EMP-1090''), (''name'', ''Carol Danvers''),
                (''doc_type'', ''Form 16 Prior Employer''), (''status'', ''PENDING_VERIFICATION'')]]))])]"

definition notification_json ::
  "string \<Rightarrow> string \<Rightarrow> string \<Rightarrow> string \<Rightarrow> string \<Rightarrow> bool \<Rightarrow> string \<Rightarrow> int \<Rightarrow> json" where
  "notification_json i title message type modul read link created =
     JObj [(''id'', JStr i), (''title'', JStr title), (''message'', JStr message),
           (''type'', JStr type), (''module'', JStr modul), (''is_read'', JBool read),
           (''link'', JStr link), (''created_at'', JInt created)]"

definition handle_get_notifications :: "int \<Rightarrow> response" where
  "handle_get_notifications t =
     respond status_ok
       [(''success'', JBool True),
        (''data'', JArr
           [notification_json ''notif-1'' ''Probation Confirmation Due''
              ''Alice Walker (EMP-1024) probation review is due in 2 days.'' ''ACTION_REQUIRED''
              ''PROBATION'' False ''/probation'' (t - 30 * nanos_per_minute),
            notification_json ''notif-2'' ''August Payroll Validated''
              ''August 2026 payroll cycle passed automated validation checks.'' ''SUCCESS''
              ''PAYROLL'' False ''/payroll'' (t - 2 * nanos_per_hour),
            notification_json ''notif-3'' ''Pending Document Verification''
              ''5 employee compliance documents require HR sign-off.'' ''WARNING''
              ''DOCS'' True ''/users'' (t - 6 * nanos_per_hour)])]"

definition handle_mark_notifications_read :: response where
  "handle_mark_notifications_read =
     respond status_ok
       [(''success'', JBool True), (''message'', JStr ''All notifications marked as read.'')]"

end
