(* ===== verification/Workflow_Safety.thy ===== *)
theory Workflow_Safety
  imports Workflow
begin

text \<open>
  What the decisions of the workflow guarantee: only pending requests change, only to the status
  asked for, and only on the word of someone with the authority, who is not the requester.
\<close>

section \<open>The interface of the six request tables\<close>

text \<open>A row of such a table before and after: unchanged, or pending and now decided.\<close>

definition decided_row :: "('r \<Rightarrow> string) \<Rightarrow> ((string \<Rightarrow> string) \<Rightarrow> 'r \<Rightarrow> 'r) \<Rightarrow> string \<Rightarrow> 'r \<Rightarrow> 'r \<Rightarrow> bool"
  where
  "decided_row status set_status st r r' \<longleftrightarrow>
     r' = r \<or> status r = ''PENDING'' \<and> r' = set_status (\<lambda>_. st) r"

locale task_table =
  fixes rows :: "'w \<Rightarrow> 'r list"
    and upd :: "('r list \<Rightarrow> 'r list) \<Rightarrow> 'w \<Rightarrow> 'w"
    and key :: "'r \<Rightarrow> string"
    and status :: "'r \<Rightarrow> string"
    and set_status :: "(string \<Rightarrow> string) \<Rightarrow> 'r \<Rightarrow> 'r"
    and uuid :: "'w \<Rightarrow> string \<Rightarrow> string option"
  assumes rows_upd: "rows (upd f w) = f (rows w)"
    and upd_id: "upd (\<lambda>_. rows w) w = w"
    and upd_cong: "f (rows w) = f' (rows w) \<Longrightarrow> upd f w = upd f' w"
    and status_set: "status (set_status g r) = g (status r)"
    and set_set: "set_status g (set_status h r) = set_status (\<lambda>s. g (h s)) r"
begin

lemma only_pending:
  assumes "update_pending rows upd key status set_status uuid st tid w = Some (n, w')"
  shows "list_all2 (decided_row status set_status st) (rows w) (rows w')"
proof -
  have "list_all2 (decided_row status set_status st) rs (upd_where p (set_status (\<lambda>_. st)) rs)"
    if "\<And>r. p r \<Longrightarrow> status r = ''PENDING''" for p rs
    using that by (induction rs) (auto simp: decided_row_def)
  note step = this
  obtain i where "w' = upd (upd_where (\<lambda>r. key r = i \<and> status r = ''PENDING'')
      (set_status (\<lambda>_. st))) w"
    using assms by (auto simp: update_pending_def Let_def split: option.splits)
  then have eq: "rows w' = upd_where (\<lambda>r. key r = i \<and> status r = ''PENDING'')
      (set_status (\<lambda>_. st)) (rows w)"
    by (simp add: rows_upd)
  show ?thesis unfolding eq by (rule step) simp
qed

lemma none_found:
  assumes "update_pending rows upd key status set_status uuid st tid w = Some (0, w')"
  shows "w' = w"
proof -
  obtain p where p: "count_where p (rows w) = 0" "w' = upd (upd_where p (set_status (\<lambda>_. st))) w"
    using assms by (auto simp: update_pending_def Let_def split: option.splits)
  have "upd (upd_where p (set_status (\<lambda>_. st))) w = upd (\<lambda>_. rows w) w"
    using upd_where_count_0 [OF p(1)] by (intro upd_cong)
  then show ?thesis by (simp add: p(2) upd_id)
qed

lemma upd_shape:
  "update_pending rows upd key status set_status uuid st tid w = Some (n, w') \<Longrightarrow> \<exists>F. w' = upd F w"
  by (auto simp: update_pending_def Let_def split: option.splits)

lemma decides_trans: "decided_row status set_status st r s \<Longrightarrow> decided_row status set_status st s t \<Longrightarrow>
    decided_row status set_status st r t"
  by (auto simp: set_set decided_row_def)

lemma decides_list_trans:
  "list_all2 (decided_row status set_status st) xs ys \<Longrightarrow> list_all2 (decided_row status set_status st) ys zs \<Longrightarrow> list_all2 (decided_row status set_status st) xs zs"
  by (rule list_all2_trans) (auto intro: decides_trans)

lemma decides_list_refl: "list_all2 (decided_row status set_status st) xs xs"
  by (simp add: list.rel_refl decided_row_def)

end

interpretation leave_tasks: task_table leaves leaves_update la_id la_status la_status_update uuid_in
  by unfold_locales (simp_all add: comp_def)

interpretation regularization_tasks: task_table regularizations regularizations_update rq_id rq_status
    rq_status_update uuid_in
  by unfold_locales (simp_all add: comp_def)

interpretation od_tasks: task_table ods ods_update rq_id rq_status rq_status_update uuid_in
  by unfold_locales (simp_all add: comp_def)

interpretation wfh_tasks: task_table wfhs wfhs_update rq_id rq_status rq_status_update uuid_in
  by unfold_locales (simp_all add: comp_def)

interpretation advance_tasks: task_table advances advances_update pa_id pa_status pa_status_update uuid_in
  by unfold_locales (simp_all add: comp_def)

interpretation exit_tasks: task_table exits exits_update rq_id rq_status rq_status_update uuid_in
  by unfold_locales (simp_all add: comp_def)

section \<open>What a decision may change\<close>

text \<open>
  The rows of the six tables correspond one to one, each unchanged or decided, and nothing else in
  the database differs.
\<close>

definition only_decided :: "string \<Rightarrow> 'a world_scheme \<Rightarrow> 'a world_scheme \<Rightarrow> bool" where
  "only_decided st w w' \<longleftrightarrow>
     list_all2 (decided_row la_status la_status_update st) (leaves w) (leaves w')
     \<and> list_all2 (decided_row rq_status rq_status_update st) (regularizations w) (regularizations w')
     \<and> list_all2 (decided_row rq_status rq_status_update st) (ods w) (ods w')
     \<and> list_all2 (decided_row rq_status rq_status_update st) (wfhs w) (wfhs w')
     \<and> list_all2 (decided_row pa_status pa_status_update st) (advances w) (advances w')
     \<and> list_all2 (decided_row rq_status rq_status_update st) (exits w) (exits w')
     \<and> w' = w\<lparr>outcomes := outcomes w', leaves := leaves w', regularizations := regularizations w',
             ods := ods w', wfhs := wfhs w', advances := advances w', exits := exits w'\<rparr>"

lemma only_decided_refl: "same_tables w w' \<Longrightarrow> only_decided st w w'"
  by (elim same_tablesD) (simp add: only_decided_def list.rel_refl decided_row_def)


lemma task_update_decides:
  assumes "u \<in> set (task_updates st tid)" "u w = Some (n, w')"
  shows "only_decided st w w' \<and> (n = 0 \<longrightarrow> w' = w)"
proof -
  have refl: "list_all2 (decided_row s f st) xs xs" for s f and xs :: "'x list"
    by (simp add: list.rel_refl decided_row_def)
  consider
      (1) "u = update_pending leaves leaves_update la_id la_status la_status_update uuid_in st tid"
    | (2) "u = update_pending regularizations regularizations_update rq_id rq_status rq_status_update
                 uuid_in st tid"
    | (3) "u = update_pending ods ods_update rq_id rq_status rq_status_update uuid_in st tid"
    | (4) "u = update_pending wfhs wfhs_update rq_id rq_status rq_status_update uuid_in st tid"
    | (5) "u = update_pending advances advances_update pa_id pa_status pa_status_update uuid_in st tid"
    | (6) "u = update_pending exits exits_update rq_id rq_status rq_status_update uuid_in st tid"
    using assms(1) by (auto simp: task_updates_def)
  then show ?thesis
  proof cases
    case 1
    note u = assms(2) [unfolded 1]
    obtain F where "w' = leaves_update F w" using leave_tasks.upd_shape [OF u] by blast
    then show ?thesis
      using leave_tasks.only_pending [OF u] leave_tasks.none_found u
      by (auto simp: only_decided_def refl)
  next
    case 2
    note u = assms(2) [unfolded 2]
    obtain F where "w' = regularizations_update F w"
      using regularization_tasks.upd_shape [OF u] by blast
    then show ?thesis
      using regularization_tasks.only_pending [OF u] regularization_tasks.none_found u
      by (auto simp: only_decided_def refl)
  next
    case 3
    note u = assms(2) [unfolded 3]
    obtain F where "w' = ods_update F w" using od_tasks.upd_shape [OF u] by blast
    then show ?thesis
      using od_tasks.only_pending [OF u] od_tasks.none_found u
      by (auto simp: only_decided_def refl)
  next
    case 4
    note u = assms(2) [unfolded 4]
    obtain F where "w' = wfhs_update F w" using wfh_tasks.upd_shape [OF u] by blast
    then show ?thesis
      using wfh_tasks.only_pending [OF u] wfh_tasks.none_found u
      by (auto simp: only_decided_def refl)
  next
    case 5
    note u = assms(2) [unfolded 5]
    obtain F where "w' = advances_update F w" using advance_tasks.upd_shape [OF u] by blast
    then show ?thesis
      using advance_tasks.only_pending [OF u] advance_tasks.none_found u
      by (auto simp: only_decided_def refl)
  next
    case 6
    note u = assms(2) [unfolded 6]
    obtain F where "w' = exits_update F w" using exit_tasks.upd_shape [OF u] by blast
    then show ?thesis
      using exit_tasks.only_pending [OF u] exit_tasks.none_found u
      by (auto simp: only_decided_def refl)
  qed
qed

lemma world_frame_trans:
  assumes "v = u\<lparr>outcomes := a, leaves := b, regularizations := c, ods := d, wfhs := e,
      advances := f, exits := g\<rparr>"
    "w = v\<lparr>outcomes := a', leaves := b', regularizations := c', ods := d', wfhs := e',
      advances := f', exits := g'\<rparr>"
  shows "w = u\<lparr>outcomes := a', leaves := b', regularizations := c', ods := d', wfhs := e',
      advances := f', exits := g'\<rparr>"
  unfolding assms(2) unfolding assms(1) by simp

lemma only_decided_trans:
  assumes "only_decided st u v" "only_decided st v w"
  shows "only_decided st u w"
proof -
  note d = assms [unfolded only_decided_def]
  have v: "v = u\<lparr>outcomes := outcomes v, leaves := leaves v, regularizations := regularizations v,
      ods := ods v, wfhs := wfhs v, advances := advances v, exits := exits v\<rparr>"
    using d(1) by (elim conjE)
  have w: "w = v\<lparr>outcomes := outcomes w, leaves := leaves w, regularizations := regularizations w,
      ods := ods w, wfhs := wfhs w, advances := advances w, exits := exits w\<rparr>"
    using d(2) by (elim conjE)
  have "w = u\<lparr>outcomes := outcomes w, leaves := leaves w, regularizations := regularizations w,
      ods := ods w, wfhs := wfhs w, advances := advances w, exits := exits w\<rparr>"
    by (rule world_frame_trans [OF v w])
  note frame = this
  show ?thesis
    unfolding only_decided_def
  proof (intro conjI frame)
    show "list_all2 (decided_row la_status la_status_update st) (leaves u) (leaves w)"
      using d by (elim conjE) (rule leave_tasks.decides_list_trans [where ys = "leaves v"]; assumption)
    show "list_all2 (decided_row rq_status rq_status_update st) (regularizations u) (regularizations w)"
      using d by (elim conjE) (rule regularization_tasks.decides_list_trans [where ys = "regularizations v"]; assumption)
    show "list_all2 (decided_row rq_status rq_status_update st) (ods u) (ods w)"
      using d by (elim conjE) (rule od_tasks.decides_list_trans [where ys = "ods v"]; assumption)
    show "list_all2 (decided_row rq_status rq_status_update st) (wfhs u) (wfhs w)"
      using d by (elim conjE) (rule wfh_tasks.decides_list_trans [where ys = "wfhs v"]; assumption)
    show "list_all2 (decided_row pa_status pa_status_update st) (advances u) (advances w)"
      using d by (elim conjE) (rule advance_tasks.decides_list_trans [where ys = "advances v"]; assumption)
    show "list_all2 (decided_row rq_status rq_status_update st) (exits u) (exits w)"
      using d by (elim conjE) (rule exit_tasks.decides_list_trans [where ys = "exits v"]; assumption)
  qed
qed

text \<open>A failing statement and one that finds no row leave the tables as they are.\<close>

lemma wp_first_update:
  assumes "\<And>u v n v'. u \<in> set us \<Longrightarrow> u v = Some (n, v') \<Longrightarrow> only_decided st v v' \<and> (n = 0 \<longrightarrow> v' = v)"
  shows "wp (first_update us) (\<lambda>_. only_decided st w) w"
proof -
  have "wp (first_update us) (\<lambda>_. only_decided st w) v" if "same_tables w v" for v
    using assms that
  proof (induction us arbitrary: v)
    case Nil
    then show ?case by (simp add: only_decided_refl)
  next
    case (Cons u us v)
    have p: "same_tables w (popped v)"
      using Cons.prems(2) by (simp add: stable_popped)
    show ?case
    proof (cases "next_ok v \<and> u (popped v) \<noteq> None")
      case False
      then have "wp (exec u) (\<lambda>res v'. res = None \<and> same_tables w v') v"
        using p by (cases "u (popped v)") (auto simp: wp_exec)
      then show ?thesis
        unfolding first_update.simps wp_bind
        by (rule wp_mono) (auto simp: only_decided_refl)
    next
      case True
      then obtain n v' where u: "u (popped v) = Some (n, v')" by auto
      have d: "only_decided st (popped v) v'" "n = 0 \<longrightarrow> v' = popped v"
        using Cons.prems(1) [of u "popped v" n v'] u by auto
      have "only_decided st w v'"
        using only_decided_trans [OF only_decided_refl [OF p] d(1)] .
      have rest: "only_decided st v v' \<and> (n = 0 \<longrightarrow> v' = v)"
        if "u \<in> set us" "u v = Some (n, v')" for u v n v'
        using Cons.prems(1) [of u v n v'] that by simp
      have "wp (first_update us) (\<lambda>_. only_decided st w) (popped v)"
        by (rule Cons.IH) (fact rest, fact p)
      then have "n = 0 \<Longrightarrow> wp (first_update us) (\<lambda>_. only_decided st w) v'"
        using d(2) by simp
      then show ?thesis using \<open>only_decided st w v'\<close> True u by (simp add: wp_exec)
    qed
  qed
  then show ?thesis by simp
qed

lemma wp_update_task_status: "wp (update_task_status tid st) (\<lambda>_. only_decided st w) w"
  unfolding update_task_status_def
  by (rule wp_first_update) (rule task_update_decides)

section \<open>Who may decide\<close>

definition caller_rows :: "string \<Rightarrow> 'a world_scheme \<Rightarrow> (string \<times> string) list" where
  "caller_rows uid w = [(e_id e, text_or_empty (e_user e)). e \<leftarrow> employees w,
     user_is uid e \<or> e_id e = uid]"

definition manager_rows :: "string \<Rightarrow> string \<Rightarrow> 'a world_scheme \<Rightarrow> string list" where
  "manager_rows emp user w =
     [text_or_empty (e_manager e). e \<leftarrow> employees w, e_id e = emp \<or> user_is user e]"

text \<open>The caller is an employee and another person than the requester.\<close>

definition other_person :: "claims \<Rightarrow> string \<Rightarrow> 'a world_scheme \<Rightarrow> bool" where
  "other_person c tid w \<longleftrightarrow>
     (case (task_requesters tid w, caller_rows (cl_user c) w) of
        ((emp, user) # _, (cemp, cuser) # _) \<Rightarrow>
          emp \<noteq> '''' \<and> trim_space emp \<noteq> trim_space cemp \<and> emp \<noteq> cl_user c
          \<and> (user \<noteq> '''' \<longrightarrow> user \<noteq> cuser \<and> user \<noteq> cl_user c)
      | _ \<Rightarrow> False)"

text \<open>The caller administers all requests or is the requester's manager.\<close>

definition in_charge :: "claims \<Rightarrow> string \<Rightarrow> 'a world_scheme \<Rightarrow> bool" where
  "in_charge c tid w \<longleftrightarrow>
     has_role (Some c) [''SUPER_ADMIN'', ''HR_ADMIN'', ''PAYROLL_ADMIN'']
     \<or> (case (task_requesters tid w, caller_rows (cl_user c) w) of
          ((emp, user) # _, (cemp, _) # _) \<Rightarrow>
            (case manager_rows emp user w of m # _ \<Rightarrow> m \<noteq> '''' \<and> m = cemp | [] \<Rightarrow> False)
        | _ \<Rightarrow> False)"

definition ids_present :: "'a world_scheme \<Rightarrow> bool" where
  "ids_present w \<longleftrightarrow> (\<forall>e\<in>set (employees w). e_id e \<noteq> '''' \<and> e_user e \<noteq> Some '''')"

lemma same_tables_rows:
  "same_tables w v \<Longrightarrow> task_requesters tid (popped v) = task_requesters tid w
     \<and> caller_rows uid (popped v) = caller_rows uid w
     \<and> manager_rows emp user (popped v) = manager_rows emp user w"
  by (elim same_tablesD)
    (simp add: task_requesters_def caller_rows_def manager_rows_def universal_approvals_def)

lemma get_caller_ids_alt:
  "get_caller_ids uid = do {
     r \<leftarrow> select_row (caller_rows uid);
     State_Monad.return (case r of None \<Rightarrow> ('''', uid) | Some p \<Rightarrow> p)
   }"
  by (simp add: get_caller_ids_def caller_rows_def [abs_def])

text \<open>What the two identity queries give: the first row, or the default after an error.\<close>

lemma wp_requester:
  assumes "same_tables w v"
    "\<And>v'. same_tables w v' \<Longrightarrow> Q ('''', '''') v'"
    "\<And>v' emp user xs. same_tables w v' \<Longrightarrow> task_requesters tid w = (emp, user) # xs \<Longrightarrow>
       Q (emp, user) v'"
  shows "wp (get_task_requester_ids tid) Q v"
  unfolding get_task_requester_ids_def wp_bind
  by (rule wp_select_row_same [OF assms(1)])
    (use assms(2,3) same_tables_rows [OF assms(1)] in auto)

lemma wp_caller:
  assumes "same_tables w v"
    "\<And>v'. same_tables w v' \<Longrightarrow> Q ('''', uid) v'"
    "\<And>v' emp user xs. same_tables w v' \<Longrightarrow> caller_rows uid w = (emp, user) # xs \<Longrightarrow>
       Q (emp, user) v'"
  shows "wp (get_caller_ids uid) Q v"
  unfolding get_caller_ids_alt wp_bind
  by (rule wp_select_row_same [OF assms(1)])
    (use assms(2,3) same_tables_rows [OF assms(1)] in auto)

lemma wp_is_self_approval:
  assumes "same_tables w v"
    "\<And>v'. same_tables w v' \<Longrightarrow> Q True v'"
    "\<And>v'. same_tables w v' \<Longrightarrow> other_person c tid w \<Longrightarrow> Q False v'"
  shows "wp (is_self_approval (Some c) tid) Q v"
  unfolding is_self_approval_def option.case wp_bind
  apply (rule wp_requester [OF assms(1)])
   apply simp
   apply (rule wp_caller, assumption)
    apply (simp add: can_approve_task_def assms(2))
   apply (simp add: can_approve_task_def assms(2))
  apply simp
  apply (rule wp_caller, assumption)
   apply (simp add: can_approve_task_def assms(2))
  apply (simp add: can_approve_task_def assms(2))
  apply (intro impI conjI assms(3))
   apply (auto simp: other_person_def)
  done

lemma wp_is_authorized:
  assumes "same_tables w v" "ids_present w"
    "\<And>v'. same_tables w v' \<Longrightarrow> Q False v'"
    "\<And>v'. same_tables w v' \<Longrightarrow> in_charge c tid w \<Longrightarrow> Q True v'"
  shows "wp (is_authorized_to_approve (Some c) tid) Q v"
proof -
  have none: "manager_rows '''' '''' w = []"
    using assms(2) by (auto simp: manager_rows_def ids_present_def user_is_def)
  show ?thesis
  proof (cases "has_role (Some c) [''SUPER_ADMIN'', ''HR_ADMIN'', ''PAYROLL_ADMIN'']")
    case True
    then show ?thesis using assms by (simp add: is_authorized_to_approve_def in_charge_def)
  next
    case False
    have mgr: "wp (select_row (manager_rows emp user)) (\<lambda>r v'.
        Q (case r of Some m \<Rightarrow> if m \<noteq> '''' \<and> m = cemp then True else False | None \<Rightarrow> False) v') u"
      if u: "same_tables w u" and
        ok: "\<And>m ms. manager_rows emp user w = m # ms \<Longrightarrow> m \<noteq> '''' \<Longrightarrow> m = cemp \<Longrightarrow> in_charge c tid w"
      for emp user cemp u
      by (rule wp_select_row_same [OF u])
        (use same_tables_rows [OF u] ok assms(3,4) in auto)
    show ?thesis
      using False
      unfolding is_authorized_to_approve_def option.case if_not_P [OF False] wp_bind
        manager_rows_def [symmetric, abs_def]
      apply -
      apply (rule wp_requester [OF assms(1)])
       apply (simp only: prod.case wp_bind wp_bind_eta wp_return_eta wp_return)
       apply (rule wp_caller, assumption)
        apply (simp only: prod.case wp_bind wp_bind_eta wp_return_eta wp_return)
        apply (rule mgr, assumption, simp add: none)
       apply (simp only: prod.case wp_bind wp_bind_eta wp_return_eta wp_return)
       apply (rule mgr, assumption, simp add: none)
      apply (simp only: prod.case wp_bind wp_bind_eta wp_return_eta wp_return)
      apply (rule wp_caller, assumption)
       apply (simp only: prod.case wp_bind wp_bind_eta wp_return_eta wp_return)
       apply (rule mgr, assumption, simp)
      apply (simp only: prod.case wp_bind wp_bind_eta wp_return_eta wp_return)
      apply (rule mgr, assumption, simp add: in_charge_def)
      done
  qed
qed

section \<open>The decisions\<close>

lemma same_is_self: "keeps (same_tables w) (is_self_approval cl tid)"
  by (cases cl) (auto simp: is_self_approval_def get_task_requester_ids_def get_caller_ids_def
      intro!: keeps_rules)

lemma same_is_authorized: "keeps (same_tables w) (is_authorized_to_approve cl tid)"
  by (cases cl) (auto simp: is_authorized_to_approve_def get_task_requester_ids_def
      get_caller_ids_def intro!: keeps_rules)

text \<open>From a state with the same tables, a decision only decides.\<close>

lemma wp_update_same:
  assumes "same_tables w v" "\<And>a v'. only_decided st w v' \<Longrightarrow> Q a v'"
  shows "wp (update_task_status tid st) Q v"
  by (rule wp_mono [OF wp_update_task_status])
    (use assms only_decided_trans [OF only_decided_refl [OF assms(1)]] in blast)

lemma decide_task_only_decides:
  "wp (decide_task st m1 m2 m3 cl tid) (\<lambda>_. only_decided st w) w"
  unfolding decide_task_def
  by (auto simp: only_decided_refl 
      intro!: wp_same [OF same_is_self [where w = w]] wp_same [OF same_is_authorized [where w = w]]
        wp_update_same [where w = w])

lemma bulk_loop_only_decides:
  "wp (bulk_loop cl st tids) (\<lambda>_. only_decided st w) w"
proof (induction tids arbitrary: w)
  case Nil
  then show ?case by (simp add: only_decided_refl)
next
  case (Cons tid tids w)
  have "wp (bulk_loop cl st tids) (\<lambda>_. only_decided st w) v" if "only_decided st w v" for v
    by (rule wp_mono [OF Cons.IH]) (rule only_decided_trans [OF that])
  then show ?case
    by (auto simp: only_decided_refl 
        intro!: wp_same [OF same_is_self [where w = w]] wp_same [OF same_is_authorized [where w = w]]
          wp_update_same [where w = w] split: option.split)
qed

text \<open>
  C12. A decided request stays decided. Whatever statements fail, approving or rejecting a task,
  one by one or in bulk, changes nothing but the status of requests, and only of requests that
  were PENDING, to the status asked for; every other row and table is left as it was. In bulk the
  status stored is the text of the action.
\<close>

theorem decided_requests_final:
  "only_decided ''APPROVED'' w (snd (run_state (handle_approve_task cl tid) w))
   \<and> only_decided ''REJECTED'' w (snd (run_state (handle_reject_task cl tid) w))
   \<and> only_decided (ba_action req) w (snd (run_state (handle_bulk_action cl (Some req)) w))"
proof (intro conjI)
  show "only_decided ''APPROVED'' w (snd (run_state (handle_approve_task cl tid) w))"
    unfolding handle_approve_task_def by (rule wp_snd) (rule decide_task_only_decides)
  show "only_decided ''REJECTED'' w (snd (run_state (handle_reject_task cl tid) w))"
    unfolding handle_reject_task_def by (rule wp_snd) (rule decide_task_only_decides)
  have "wp (handle_bulk_action cl (Some req)) (\<lambda>_. only_decided (ba_action req) w) w"
    using bulk_loop_only_decides by (auto simp: handle_bulk_action_def only_decided_refl)
  then show "only_decided (ba_action req) w (snd (run_state (handle_bulk_action cl (Some req)) w))"
    by (rule wp_snd)
qed

lemma decide_task_authority:
  assumes "ids_present w"
  shows "wp (decide_task st m1 m2 m3 cl tid) (\<lambda>_ w'. same_tables w w' \<or>
    (\<exists>c. cl = Some c \<and> has_role cl approver_roles \<and> other_person c tid w \<and> in_charge c tid w)) w"
proof (cases cl)
  case None
  then show ?thesis by (simp add: decide_task_def)
next
  case (Some c)
  have writes: "wp m (\<lambda>_ w'. same_tables w w' \<or> (\<exists>c'. Some c = Some c' \<and> has_role (Some c) approver_roles
      \<and> other_person c' tid w \<and> in_charge c' tid w)) v"
    if "has_role (Some c) approver_roles" "other_person c tid w" "in_charge c tid w"
    for m :: "('a world_scheme, 'b) state" and v
    by (rule wp_any) (use that in simp)
  show ?thesis
    unfolding decide_task_def Some
    by (auto intro!: wp_is_self_approval [where w = w] wp_is_authorized [OF _ assms] writes)
qed


section \<open>A manager approves a leave\<close>

definition demo_leave :: leave_row where
  "demo_leave = \<lparr>la_id = ''t1'', la_emp = ''e1'', la_type = ''CL'', la_start = 20650, la_end = 20651,
     la_days = 2, la_reason = ''travel'', la_status = ''PENDING'', la_half = False,
     la_half_type = '''', la_from = '''', la_to = '''', la_duration = '''', la_attachment = '''',
     la_created = 0\<rparr>"

definition team_world :: world where
  "team_world = empty_world\<lparr>
     employees := [demo_employee\<lparr>e_id := ''e1'', e_user := Some ''u1'', e_manager := Some ''e2''\<rparr>,
                   demo_employee\<lparr>e_id := ''e2'', e_user := Some ''u2'', e_manager := None\<rparr>],
     leaves := [demo_leave]\<rparr>"

definition manager_claims :: claims where
  "manager_claims = admin_claims\<lparr>cl_user := ''u2'', cl_roles := [''MANAGER'']\<rparr>"

lemma manager_approves:
  "map la_status (leaves (snd (run_state (handle_approve_task (Some manager_claims) ''t1'') team_world)))
     = [''APPROVED'']"
  by code_simp

lemma team_ids_present: "ids_present team_world"
  by (simp add: ids_present_def team_world_def demo_employee_def)


end
