(* ===== verification/Leave.thy ===== *)
theory Leave
  imports Authz Audit_Log Pagination "HOL-Library.List_Lexorder"
begin

text \<open>
  \<^verbatim>\<open>internal/leave\<close>: leave types, balances and applications (\<^verbatim>\<open>leave.go\<close>), policies,
  the sandwich rule and the accrual batch (\<^verbatim>\<open>policy.go\<close>), encashment and multi-level approval
  (\<^verbatim>\<open>encashment.go\<close>). Dates given to the rule are instants in UTC, where adding a day adds 24
  hours. A \<^verbatim>\<open>NUMERIC\<close> column read into an integer must hold a whole number: the row is
  and those after it are left out otherwise.
\<close>

section \<open>Leave types, balances and applications\<close>

definition int_of_num :: "rat \<Rightarrow> int option" where
  "int_of_num x = (if of_int \<lfloor>x\<rfloor> = x then Some \<lfloor>x\<rfloor> else None)"

definition num_or_0 :: "rat option \<Rightarrow> rat" where
  "num_or_0 x = (case x of None \<Rightarrow> 0 | Some r \<Rightarrow> r)"

definition leave_type_json :: "leave_type_row \<Rightarrow> json" where
  "leave_type_json t =
     JObj [(''id'', JStr (lt_id t)), (''name'', JStr (lt_name t)),
           (''code'', JStr (text_or_empty (lt_code t))),
           (''accrual_frequency'', JStr (case lt_freq t of None \<Rightarrow> ''N/A'' | Some f \<Rightarrow> f)),
           (''accrual_days'', JNum (fl (num_or_0 (lt_days t)))),
           (''max_carry_forward'', JNum (fl (num_or_0 (lt_carry t)))),
           (''sandwich_rule'', JBool (lt_sandwich t = Some True)),
           (''allow_half_day'', JBool (lt_half t = Some True)),
           (''encashable'', JBool (lt_encash t = Some True))]"

definition handle_get_types :: "('a hr_world_scheme, response) state" where
  "handle_get_types = do {
     nil \<leftarrow> reads db_nil;
     (if nil
      then State_Monad.return (common_json_error ''Database connection unavailable'' status_internal)
      else
        orelse (select (\<lambda>w. sort_key lt_name (leave_types w)))
          (common_json_error ''Failed to query leave types'' status_internal)
          (\<lambda>ts. State_Monad.return (data_response (map leave_type_json ts))))
   }"

record leave_balance =
  bv_id :: string
  bv_type_id :: string
  bv_type :: string
  bv_code :: string
  bv_accrued :: int
  bv_used :: int
  bv_balance :: int
  bv_year :: int

definition leave_balance_json :: "leave_balance \<Rightarrow> json" where
  "leave_balance_json b =
     JObj [(''id'', JStr (bv_id b)), (''leave_type_id'', JStr (bv_type_id b)),
           (''leave_type'', JStr (bv_type b)), (''code'', JStr (bv_code b)),
           (''total_accrued'', JInt (bv_accrued b)), (''total_used'', JInt (bv_used b)),
           (''balance'', JInt (bv_balance b)), (''year'', JInt (bv_year b))]"

text \<open>The scan of a row: every column must be present, and the three amounts whole numbers.\<close>

definition scan_balance :: "leave_type_row \<Rightarrow> leave_balance_row \<Rightarrow> leave_balance option" where
  "scan_balance t b =
     (case (lt_code t, Option.bind (lb_accrued b) int_of_num, Option.bind (lb_used b) int_of_num,
            Option.bind (lb_balance b) int_of_num) of
        (Some c, Some a, Some u, Some r) \<Rightarrow>
          Some \<lparr>bv_id = lb_id b, bv_type_id = lt_id t, bv_type = lt_name t, bv_code = c,
                bv_accrued = a, bv_used = u, bv_balance = r, bv_year = lb_year b\<rparr>
      | _ \<Rightarrow> None)"

definition own_employee :: "string \<Rightarrow> employee_row \<Rightarrow> bool" where
  "own_employee uid e \<longleftrightarrow> user_is uid e \<or> e_id e = uid"

definition balance_rows ::
  "string \<Rightarrow> 'a hr_world_scheme \<Rightarrow> (leave_type_row \<times> leave_balance_row) list" where
  "balance_rows uid w =
     sort_key (\<lambda>(t, b). lt_name t)
       [(t, b). b \<leftarrow> leave_balances w, t \<leftarrow> leave_types w, lb_type b = lt_id t,
                e \<leftarrow> employees w, lb_emp b = e_id e \<and> own_employee uid e]"

definition handle_get_balances :: "claims option \<Rightarrow> ('a hr_world_scheme, response) state" where
  "handle_get_balances cl = do {
     nil \<leftarrow> reads db_nil;
     (if nil
      then State_Monad.return (common_json_error ''Database connection unavailable'' status_internal)
      else
        (case cl of
           None \<Rightarrow> State_Monad.return (common_json_error ''Unauthorized'' status_unauthorized)
         | Some c \<Rightarrow>
             orelse (select (balance_rows (cl_user c)))
               (common_json_error ''Failed to query balances'' status_internal)
               (\<lambda>rs. State_Monad.return
                  (data_response (map leave_balance_json
                     (scan_rows (\<lambda>(t, b). scan_balance t b) rs))))))
   }"

record leave_application =
  ap_id :: string
  ap_type :: string
  ap_code :: string
  ap_start :: string
  ap_end :: string
  ap_days :: int
  ap_status :: string
  ap_reason :: string
  ap_applied :: string

definition leave_application_json :: "leave_application \<Rightarrow> json" where
  "leave_application_json a =
     JObj [(''id'', JStr (ap_id a)), (''leave_type'', JStr (ap_type a)),
           (''code'', JStr (ap_code a)), (''start_date'', JStr (ap_start a)),
           (''end_date'', JStr (ap_end a)), (''total_days'', JInt (ap_days a)),
           (''status'', JStr (ap_status a)), (''reason'', JStr (ap_reason a)),
           (''applied_on'', JStr (ap_applied a))]"

definition scan_application :: "leave_row \<Rightarrow> leave_type_row \<Rightarrow> leave_application option" where
  "scan_application a t =
     (case (lt_code t, int_of_num (la_days a)) of
        (Some c, Some d) \<Rightarrow>
          Some \<lparr>ap_id = la_id a, ap_type = lt_name t, ap_code = c,
                ap_start = show_date (la_start a), ap_end = show_date (la_end a), ap_days = d,
                ap_status = la_status a, ap_reason = la_reason a,
                ap_applied = show_date (date_of (la_created a))\<rparr>
      | _ \<Rightarrow> None)"

definition application_rows ::
  "string \<Rightarrow> string \<Rightarrow> string \<Rightarrow> 'a hr_world_scheme \<Rightarrow> (leave_row \<times> leave_type_row) list" where
  "application_rows uid status search w =
     [(a, t). a \<leftarrow> leaves w, t \<leftarrow> leave_types w, la_type a = lt_id t,
        e \<leftarrow> employees w, la_emp a = e_id e \<and> own_employee uid e
          \<and> (status \<noteq> '''' \<longrightarrow> la_status a = status)
          \<and> (search \<noteq> '''' \<longrightarrow>
               (let pat = ''%'' @ search @ ''%'' in ilike w (la_reason a) pat \<or> ilike w (lt_name t) pat))]"

definition handle_get_applications ::
  "claims option \<Rightarrow> url_query \<Rightarrow> ('a hr_world_scheme, response) state" where
  "handle_get_applications cl q = do {
     nil \<leftarrow> reads db_nil;
     (if nil
      then State_Monad.return (common_json_error ''Database connection unavailable'' status_internal)
      else
        (let pg = parse_pagination_params q; status = q ''status''
         in case cl of
              None \<Rightarrow> State_Monad.return (common_json_error ''Unauthorized'' status_unauthorized)
            | Some c \<Rightarrow> do {
                tot \<leftarrow> or_zero (select (\<lambda>w.
                  int (length (application_rows (cl_user c) status (pp_search pg) w))));
                orelse
                  (query_rows (\<lambda>w. page_of pg
                     (sort_key (\<lambda>(a, t). - la_created a)
                        (application_rows (cl_user c) status (pp_search pg) w))))
                  (common_json_error ''Failed to query applications'' status_internal)
                  (\<lambda>rs. State_Monad.return
                     (page_response (map leave_application_json
                        (scan_rows (\<lambda>(a, t). scan_application a t) rs)) tot pg))
              }))
   }"
record application_request =
  qa_type_id :: string
  qa_type :: string
  qa_start :: string
  qa_end :: string
  qa_days :: int
  qa_reason :: string

definition insert_application ::
  "string \<Rightarrow> application_request \<Rightarrow> string \<Rightarrow> ('a hr_world_scheme, string option) state" where
  "insert_application emp req type_id = insert_row (\<lambda>i w.
     case (uuid_in w emp, uuid_in w type_id, date_in w (qa_start req), date_in w (qa_end req),
           to_num w 2 (of_int (qa_days req))) of
       (Some e, Some t, Some s, Some d, Some n) \<Rightarrow>
         Some (w\<lparr>leaves := leaves w @
           [\<lparr>la_id = i, la_emp = e, la_type = t, la_start = s, la_end = d, la_days = n,
             la_reason = qa_reason req, la_status = ''PENDING'', la_half = False,
             la_half_type = '''', la_from = '''', la_to = '''', la_duration = ''FULL_DAY'',
             la_attachment = '''', la_created = now w\<rparr>]\<rparr>)
     | _ \<Rightarrow> None)"

text \<open>
  The employee of the session; the second lookup names the column \<^verbatim>\<open>work_email\<close>, which the
  table does not have.
\<close>

definition session_employee :: "claims \<Rightarrow> ('a hr_world_scheme, string option) state" where
  "session_employee c = do {
     r \<leftarrow> select_row (\<lambda>w. [e_id e. e \<leftarrow> employees w, own_employee (cl_user c) e]);
     (case r of
        Some e \<Rightarrow> State_Monad.return (Some e)
      | None \<Rightarrow> no_such_column)
   }"

text \<open>The leave type given, or else the first one of that name or code.\<close>

definition requested_type :: "application_request \<Rightarrow> ('a hr_world_scheme, string) state" where
  "requested_type req =
     (if qa_type_id req = [] \<and> qa_type req \<noteq> []
      then do {
        t \<leftarrow> select_row (\<lambda>w. [lt_id t. t \<leftarrow> leave_types w,
               lt_name t = qa_type req \<or> lt_code t = Some (qa_type req)]);
        State_Monad.return (case t of None \<Rightarrow> [] | Some i \<Rightarrow> i)
      }
      else State_Monad.return (qa_type_id req))"

definition handle_create_application ::
  "claims option \<Rightarrow> application_request option \<Rightarrow> ('a hr_world_scheme, response) state" where
  "handle_create_application cl body = do {
     nil \<leftarrow> reads db_nil;
     (if nil
      then State_Monad.return (common_json_error ''Database connection unavailable'' status_internal)
      else
        (case (cl, body) of
           (None, _) \<Rightarrow> State_Monad.return (common_json_error ''Unauthorized'' status_unauthorized)
         | (_, None) \<Rightarrow>
             State_Monad.return (common_json_error ''invalid request payload'' status_bad_request)
         | (Some c, Some req) \<Rightarrow>
             if qa_start req = '''' \<or> qa_end req = ''''
             then State_Monad.return
               (common_json_error ''Start date and end date are required'' status_bad_request)
             else if qa_days req \<le> 0
             then State_Monad.return
               (common_json_error ''Total days must be greater than zero'' status_bad_request)
             else if qa_reason req = ''''
             then State_Monad.return (common_json_error ''Reason is required'' status_bad_request)
             else do {
               type_id \<leftarrow> requested_type req;
               orelse (session_employee c)
                 (common_json_error ''Employee record not found for active user session''
                    status_bad_request)
                 (\<lambda>emp.
                    orelse (insert_application emp req type_id)
                      (common_json_error ''Failed to create leave application'' status_internal)
                      (\<lambda>i. State_Monad.return
                         (respond status_created
                            [(''success'', JBool True),
                             (''message'', JStr
                                ''Leave application submitted successfully for manager approval.''),
                             (''data'', JObj [(''id'', JStr i), (''status'', JStr ''PENDING'')])])))
             }))
   }"

section \<open>The sandwich rule\<close>

definition is_weekend :: "int \<Rightarrow> bool" where
  "is_weekend n \<longleftrightarrow> weekday n = 6 \<or> weekday n = 0"

text \<open>\<^verbatim>\<open>for !cur.After(endDate)\<close>.\<close>

function sandwich_loop :: "int \<Rightarrow> int \<Rightarrow> bool \<Rightarrow> float64 \<Rightarrow> float64" where
  "sandwich_loop cur end_date sandwich days =
     (if cur > end_date then days
      else sandwich_loop (cur + nanos_per_day) end_date sandwich
             (if \<not> is_weekend (date_of cur) then fadd days 1
              else if sandwich then fadd days 1
              else days))"
  by pat_completeness auto
termination
  by (relation "measure (\<lambda>(cur, end_date, _, _). nat (end_date + 1 - cur))")
    (simp_all add: nanos_per_day_def)

declare sandwich_loop.simps [simp del]

definition evaluate_sandwich_rule :: "int \<Rightarrow> int \<Rightarrow> bool \<Rightarrow> float64" where
  "evaluate_sandwich_rule start_date end_date sandwich =
     (if end_date < start_date then 0 else sandwich_loop start_date end_date sandwich 0)"

section \<open>Policies and accruals\<close>

record leave_policy_item =
  po_id :: string
  po_type :: string
  po_type_name :: string
  po_type_code :: string
  po_name :: string
  po_freq :: string
  po_rate :: float64
  po_carry :: int
  po_sandwich :: bool
  po_encash :: bool

definition policy_json :: "leave_policy_item \<Rightarrow> json" where
  "policy_json p =
     JObj ([(''id'', JStr (po_id p)), (''leave_type_id'', JStr (po_type p))]
           @ nonempty_field ''leave_type_name'' (po_type_name p)
           @ nonempty_field ''leave_type_code'' (po_type_code p)
           @ [(''policy_name'', JStr (po_name p)), (''accrual_frequency'', JStr (po_freq p)),
              (''accrual_rate'', JNum (po_rate p)),
              (''max_carry_forward_days'', JInt (po_carry p)),
              (''sandwich_rule_enabled'', JBool (po_sandwich p)),
              (''is_encashable'', JBool (po_encash p))])"

definition scan_policy :: "leave_policy_row \<Rightarrow> leave_type_row \<Rightarrow> leave_policy_item option" where
  "scan_policy p t =
     (case lt_code t of
        None \<Rightarrow> None
      | Some c \<Rightarrow>
          Some \<lparr>po_id = lp_id p, po_type = lp_type p, po_type_name = lt_name t, po_type_code = c,
                po_name = lp_name p, po_freq = lp_freq p, po_rate = fl (lp_rate p),
                po_carry = lp_carry p, po_sandwich = lp_sandwich p, po_encash = lp_encash p\<rparr>)"

definition handle_get_policies :: "('a hr_world_scheme, response) state" where
  "handle_get_policies = do {
     nil \<leftarrow> reads db_nil;
     err \<leftarrow> reads err_text;
     (if nil then State_Monad.return db_unavailable
      else
        orelse
          (select (\<lambda>w. sort_key (\<lambda>(p, t). lt_name t)
             [(p, t). p \<leftarrow> leave_policies w, t \<leftarrow> leave_types w, lp_type p = lt_id t]))
          (fail_json status_internal err)
          (\<lambda>rs. State_Monad.return
             (data_response (map policy_json (scan_rows (\<lambda>(p, t). scan_policy p t) rs)))))
   }"

text \<open>\<^verbatim>\<open>INSERT INTO leave_policies ... ON CONFLICT (leave_type_id) DO UPDATE\<close>.\<close>

definition upsert_policy :: "leave_policy_item \<Rightarrow> ('a hr_world_scheme, string option) state" where
  "upsert_policy req = stmt (\<lambda>w.
     case (uuid_in w (po_type req), to_num w 2 (po_rate req)) of
       (Some t, Some r) \<Rightarrow>
         (case find (\<lambda>p. lp_type p = t) (leave_policies w) of
            Some p \<Rightarrow>
              Some (lp_id p, w\<lparr>leave_policies := upd_where (\<lambda>p. lp_type p = t)
                (\<lambda>p. p\<lparr>lp_name := po_name req, lp_freq := po_freq req, lp_rate := r,
                       lp_carry := po_carry req, lp_sandwich := po_sandwich req,
                       lp_encash := po_encash req\<rparr>) (leave_policies w)\<rparr>)
          | None \<Rightarrow>
              Some (ids w (issued w), w\<lparr>issued := issued w + 1, leave_policies := leave_policies w @
                [\<lparr>lp_id = ids w (issued w), lp_type = t, lp_name = po_name req,
                  lp_freq = po_freq req, lp_rate = r, lp_carry = po_carry req,
                  lp_sandwich = po_sandwich req, lp_encash = po_encash req\<rparr>]\<rparr>))
     | _ \<Rightarrow> None)"

definition policy_defaults :: "leave_policy_item \<Rightarrow> leave_policy_item" where
  "policy_defaults req =
     req\<lparr>po_name := (if po_name req = [] then ''Standard Policy'' else po_name req),
         po_freq := (if po_freq req = [] then ''MONTHLY'' else po_freq req)\<rparr>"

definition handle_upsert_policy ::
  "claims option \<Rightarrow> leave_policy_item option \<Rightarrow> ('a hr_world_scheme, response) state" where
  "handle_upsert_policy cl body =
     (case cl of
        Some c \<Rightarrow>
          if \<not> has_role cl [''SUPER_ADMIN'', ''HR_ADMIN'']
          then State_Monad.return (forbidden_response ''FORBIDDEN_ROLE''
                 ''Only HR and Super Admins can update leave policies.'')
          else
            (case body of
               Some req0 \<Rightarrow>
                 if po_type req0 = ''''
                 then State_Monad.return (http_error ''invalid policy payload'' status_bad_request)
                 else do {
                   let req = policy_defaults req0;
                   let answer = (\<lambda>r. respond status_ok
                     [(''success'', JBool True),
                      (''message'', JStr ''Leave policy configured successfully.''),
                      (''data'', policy_json r)]);
                   nil \<leftarrow> reads db_nil;
                   err \<leftarrow> reads err_text;
                   (if nil then State_Monad.return (answer req)
                    else
                      orelse (upsert_policy req)
                        (fail_json status_internal (''failed to save policy: '' @ err))
                        (\<lambda>i. do {
                           log_action \<lparr>le_user = cl_user c, le_action = ''LEAVE_POLICY_UPDATE'',
                             le_module = ''LEAVE'', le_entity = ''leave_policies'',
                             le_entity_id = i, le_reason = ''''\<rparr>;
                           State_Monad.return (answer (req\<lparr>po_id := i\<rparr>))
                         }))
                 }
             | None \<Rightarrow> State_Monad.return (http_error ''invalid policy payload'' status_bad_request))
      | None \<Rightarrow> State_Monad.return (forbidden_response ''FORBIDDEN_ROLE''
                  ''Only HR and Super Admins can update leave policies.''))"

definition accrual_reason :: string where
  "accrual_reason = ''Monthly Automated Accrual Run''"

definition insert_accrual ::
  "string \<Rightarrow> string \<Rightarrow> float64 \<Rightarrow> ('a hr_world_scheme, string option) state" where
  "insert_accrual emp type rate = insert_row (\<lambda>i w.
     case (uuid_in w emp, uuid_in w type, to_num w 2 rate) of
       (Some e, Some t, Some r) \<Rightarrow>
         Some (w\<lparr>accruals := accruals w @
           [\<lparr>al_id = i, al_emp = e, al_type = t, al_date = date_of (now w), al_days = r,
             al_reason = Some accrual_reason, al_created = now w\<rparr>]\<rparr>)
     | _ \<Rightarrow> None)"

text \<open>
  One employee and one policy: the first statement names the columns \<^verbatim>\<open>total_allocated\<close>,
  \<^verbatim>\<open>used\<close> and \<^verbatim>\<open>pending\<close>, which the table \<^verbatim>\<open>leave_balances\<close> does not have. Both errors
  are ignored.
\<close>

definition accrue_one ::
  "string \<Rightarrow> string \<times> float64 \<Rightarrow> int \<Rightarrow> ('a hr_world_scheme, int) state" where
  "accrue_one emp pol n = do {
     (_ :: unit option) \<leftarrow> no_such_column;
     _ \<leftarrow> insert_accrual emp (fst pol) (snd pol);
     State_Monad.return (n + 1)
   }"

definition accrue_employee ::
  "(string \<times> float64) list \<Rightarrow> string \<Rightarrow> int \<Rightarrow> ('a hr_world_scheme, int) state" where
  "accrue_employee pols emp n = fold_loop (accrue_one emp) pols n"

definition accrual_policies :: "'a hr_world_scheme \<Rightarrow> (string \<times> float64) list" where
  "accrual_policies w = [(lp_type p, fl (lp_rate p)). p \<leftarrow> leave_policies w, 0 < lp_rate p]"

definition accrual_employees :: "'a hr_world_scheme \<Rightarrow> string list" where
  "accrual_employees w = [e_id e. e \<leftarrow> employees w, e_status e = ''ACTIVE'']"

definition handle_process_batch_accruals ::
  "claims option \<Rightarrow> ('a hr_world_scheme, response) state" where
  "handle_process_batch_accruals cl =
     (case cl of
        None \<Rightarrow> State_Monad.return (forbidden_response ''FORBIDDEN_ROLE''
                  ''Only HR and Super Admins can execute batch leave accruals.'')
      | Some c \<Rightarrow>
          if \<not> has_role cl [''SUPER_ADMIN'', ''HR_ADMIN'']
          then State_Monad.return (forbidden_response ''FORBIDDEN_ROLE''
                 ''Only HR and Super Admins can execute batch leave accruals.'')
          else do {
            nil \<leftarrow> reads db_nil;
            err \<leftarrow> reads err_text;
            (if nil then State_Monad.return db_unavailable
             else
               orelse (select accrual_policies) (fail_json status_internal err)
                 (\<lambda>pols.
                    orelse (select accrual_employees) (fail_json status_internal err)
                      (\<lambda>emps. do {
                         n \<leftarrow> fold_loop (accrue_employee pols) emps 0;
                         _ \<leftarrow> log_action \<lparr>le_user = cl_user c, le_action = ''LEAVE_BATCH_ACCRUAL'',
                                le_module = ''LEAVE'', le_entity = '''', le_entity_id = '''',
                                le_reason = ''Executed batch leave accruals for '' @ dec n
                                  @ '' employee-leave records.''\<rparr>;
                         State_Monad.return
                           (respond status_ok
                              [(''success'', JBool True),
                               (''message'', JStr (''Batch leave accrual complete. Updated '' @ dec n
                                  @ '' leave balances.'')),
                               (''count'', JInt n)])
                       })))
          })"

definition accrual_log_json :: "accrual_row \<times> employee_row \<times> leave_type_row \<Rightarrow> json" where
  "accrual_log_json = (\<lambda>(l, e, t).
     JObj [(''id'', JStr (al_id l)), (''employee_id'', JStr (al_emp l)),
           (''employee_code'', JStr (e_code e)), (''employee_name'', JStr (full_name e)),
           (''leave_type_name'', JStr (lt_name t)), (''accrual_date'', JStr (show_date (al_date l))),
           (''days_added'', JNum (fl (al_days l))),
           (''reason'', JStr (text_or_empty (al_reason l)))])"

definition accrual_log_rows ::
  "'a hr_world_scheme \<Rightarrow> (accrual_row \<times> employee_row \<times> leave_type_row) list" where
  "accrual_log_rows w =
     take 100 (sort_key (\<lambda>(l, e, t). - al_created l)
       [(l, e, t). l \<leftarrow> accruals w, e \<leftarrow> employees w, al_emp l = e_id e,
                   t \<leftarrow> leave_types w, al_type l = lt_id t])"

definition handle_get_accrual_logs :: "('a hr_world_scheme, response) state" where
  "handle_get_accrual_logs = do {
     nil \<leftarrow> reads db_nil;
     err \<leftarrow> reads err_text;
     (if nil then State_Monad.return db_unavailable
      else
        orelse (select accrual_log_rows) (fail_json status_internal err)
          (\<lambda>rs. State_Monad.return (data_response (map accrual_log_json rs))))
   }"

section \<open>Encashment and approval levels\<close>

record encashment_item =
  ec_id :: string
  ec_emp :: string
  ec_code :: string
  ec_name :: string
  ec_type :: string
  ec_type_name :: string
  ec_days :: float64
  ec_rate :: float64
  ec_total :: float64
  ec_status :: string
  ec_reason :: string
  ec_by :: string
  ec_at :: string
  ec_created :: string

definition encashment_json :: "encashment_item \<Rightarrow> json" where
  "encashment_json e =
     JObj ([(''id'', JStr (ec_id e)), (''employee_id'', JStr (ec_emp e))]
           @ nonempty_field ''employee_code'' (ec_code e) @ nonempty_field ''employee_name'' (ec_name e)
           @ [(''leave_type_id'', JStr (ec_type e))]
           @ nonempty_field ''leave_type_name'' (ec_type_name e)
           @ [(''days_to_encash'', JNum (ec_days e)), (''per_day_rate'', JNum (ec_rate e)),
              (''total_amount'', JNum (ec_total e)), (''status'', JStr (ec_status e)),
              (''reason'', JStr (ec_reason e))]
           @ nonempty_field ''approved_by'' (ec_by e) @ nonempty_field ''approved_at'' (ec_at e)
           @ nonempty_field ''created_at'' (ec_created e))"

definition calculate_encashment_amount :: "float64 \<Rightarrow> float64 \<Rightarrow> float64 \<times> float64" where
  "calculate_encashment_amount days monthly_gross =
     (if days \<le> 0 \<or> monthly_gross \<le> 0 then (0, 0)
      else
        (let per_day_rate = fdiv monthly_gross 30;
             total_amount = fmul days per_day_rate
         in (per_day_rate, total_amount)))"

definition process_multi_level_approval :: "int \<Rightarrow> int \<Rightarrow> string \<Rightarrow> int \<times> string" where
  "process_multi_level_approval level max_levels action =
     (if action = ''REJECT'' then (level, ''REJECTED'')
      else if action = ''APPROVE''
      then (if level < max_levels then (level + 1, ''PENDING'') else (level, ''APPROVED''))
      else (level, ''PENDING''))"

definition encashment_view ::
  "encashment_row \<times> employee_row \<times> leave_type_row \<Rightarrow> encashment_item" where
  "encashment_view = (\<lambda>(r, e, t).
     \<lparr>ec_id = en_id r, ec_emp = en_emp r, ec_code = e_code e, ec_name = full_name e,
      ec_type = en_type r, ec_type_name = lt_name t, ec_days = fl (en_days r),
      ec_rate = fl (en_rate r), ec_total = fl (en_total r), ec_status = en_status r,
      ec_reason = text_or_empty (en_reason r), ec_by = '''', ec_at = '''',
      ec_created = show_time (en_created r)\<rparr>)"

definition handle_get_encashments :: "('a hr_world_scheme, response) state" where
  "handle_get_encashments = do {
     nil \<leftarrow> reads db_nil;
     err \<leftarrow> reads err_text;
     (if nil then State_Monad.return db_unavailable
      else
        orelse
          (select (\<lambda>w. sort_key (\<lambda>(r, e, t). - en_created r)
             [(r, e, t). r \<leftarrow> encashments w, e \<leftarrow> employees w, en_emp r = e_id e,
                         t \<leftarrow> leave_types w, en_type r = lt_id t]))
          (fail_json status_internal err)
          (\<lambda>rs. State_Monad.return (data_response (map (encashment_json \<circ> encashment_view) rs))))
   }"

text \<open>The employee of the caller, and the first employee of the table when there is none.\<close>

definition employee_or_first :: "string \<Rightarrow> ('a hr_world_scheme, string) state" where
  "employee_or_first uid = do {
     own \<leftarrow> select_row (\<lambda>w. [e_id e. e \<leftarrow> employees w, user_is uid e]);
     (case own of
        Some e \<Rightarrow> if e \<noteq> '''' then State_Monad.return e
                  else do {
                    f \<leftarrow> select_row (\<lambda>w. map e_id (employees w));
                    State_Monad.return (case f of None \<Rightarrow> '''' | Some i \<Rightarrow> i)
                  }
      | None \<Rightarrow> do {
          f \<leftarrow> select_row (\<lambda>w. map e_id (employees w));
          State_Monad.return (case f of None \<Rightarrow> '''' | Some i \<Rightarrow> i)
        })
   }"

definition insert_encashment ::
  "string \<Rightarrow> encashment_item \<Rightarrow> float64 \<Rightarrow> float64 \<Rightarrow> ('a hr_world_scheme, string option) state"
  where
  "insert_encashment emp req rate tot = insert_row (\<lambda>i w.
     case (uuid_in w emp, uuid_in w (ec_type req), to_num w 2 (ec_days req), to_num w 2 rate,
           to_num w 2 tot) of
       (Some e, Some t, Some d, Some r, Some a) \<Rightarrow>
         Some (w\<lparr>encashments := encashments w @
           [\<lparr>en_id = i, en_emp = e, en_type = t, en_days = d, en_rate = r, en_total = a,
             en_status = ''PENDING'', en_reason = Some (ec_reason req), en_by = None,
             en_at = None, en_created = now w\<rparr>]\<rparr>)
     | _ \<Rightarrow> None)"

definition handle_submit_encashment ::
  "claims option \<Rightarrow> encashment_item option \<Rightarrow> ('a hr_world_scheme, response) state" where
  "handle_submit_encashment cl body =
     (case cl of
        None \<Rightarrow> State_Monad.return (http_error ''unauthorized'' status_unauthorized)
      | Some c \<Rightarrow>
          (case body of
             None \<Rightarrow> State_Monad.return
               (http_error ''invalid encashment request payload'' status_bad_request)
           | Some req \<Rightarrow>
               if ec_type req = '''' \<or> ec_days req \<le> 0
               then State_Monad.return
                 (http_error ''invalid encashment request payload'' status_bad_request)
               else do {
                 nil \<leftarrow> reads db_nil;
                 err \<leftarrow> reads err_text;
                 (if nil then State_Monad.return db_unavailable
                  else do {
                    emp \<leftarrow> employee_or_first (cl_user c);
                    let (rate, tot) = calculate_encashment_amount (ec_days req) 60000;
                    orelse (insert_encashment emp req rate tot)
                      (fail_json status_internal err)
                      (\<lambda>i. State_Monad.return
                         (respond status_ok
                            [(''success'', JBool True),
                             (''message'', JStr ''Leave encashment request submitted for HR approval.''),
                             (''data'', encashment_json
                                (req\<lparr>ec_id := i, ec_emp := emp, ec_rate := rate, ec_total := tot,
                                     ec_status := ''PENDING''\<rparr>))]))
                  })
               }))"

record review_request =
  rv_id :: string
  rv_action :: string

definition update_encashment ::
  "string \<Rightarrow> string \<Rightarrow> string \<Rightarrow> ('a hr_world_scheme, nat option) state" where
  "update_encashment st by i = exec (\<lambda>w.
     case (uuid_in w by, uuid_in w i) of
       (Some u, Some k) \<Rightarrow>
         Some (count_where (\<lambda>r. en_id r = k) (encashments w),
               w\<lparr>encashments := upd_where (\<lambda>r. en_id r = k)
                  (\<lambda>r. r\<lparr>en_status := st, en_by := Some u, en_at := Some (now w)\<rparr>) (encashments w)\<rparr>)
     | _ \<Rightarrow> None)"

definition handle_review_encashment ::
  "claims option \<Rightarrow> review_request option \<Rightarrow> ('a hr_world_scheme, response) state" where
  "handle_review_encashment cl body =
     (case cl of
        None \<Rightarrow> State_Monad.return (forbidden_response ''FORBIDDEN_ROLE''
                  ''Only HR and Super Admins can review leave encashment requests.'')
      | Some c \<Rightarrow>
          if \<not> has_role cl [''SUPER_ADMIN'', ''HR_ADMIN'']
          then State_Monad.return (forbidden_response ''FORBIDDEN_ROLE''
                 ''Only HR and Super Admins can review leave encashment requests.'')
          else
            (case body of
               None \<Rightarrow> State_Monad.return (http_error ''invalid review payload'' status_bad_request)
             | Some req \<Rightarrow>
                 if rv_id req = ''''
                 then State_Monad.return (http_error ''invalid review payload'' status_bad_request)
                 else do {
                   let st = (if rv_action req = ''APPROVE'' then ''APPROVED'' else ''REJECTED'');
                   let answer = respond status_ok
                     [(''success'', JBool True),
                      (''message'', JStr (''Leave encashment request marked as '' @ st @ ''.'')),
                      (''status'', JStr st)];
                   nil \<leftarrow> reads db_nil;
                   err \<leftarrow> reads err_text;
                   (if nil then State_Monad.return answer
                    else
                      orelse (update_encashment st (cl_user c) (rv_id req))
                        (fail_json status_internal err)
                        (\<lambda>_. do {
                           _ \<leftarrow> log_action \<lparr>le_user = cl_user c, le_action = ''LEAVE_ENCASHMENT_REVIEW'',
                                  le_module = ''LEAVE'', le_entity = ''leave_encashment_requests'',
                                  le_entity_id = rv_id req,
                                  le_reason = ''Encashment request status updated to '' @ st\<rparr>;
                           State_Monad.return answer
                         }))
                 }))"

end
