(* ===== verification/Leave_Rules.thy ===== *)
theory Leave_Rules
  imports Leave
begin

text \<open>
  What the leave module guarantees: the two countings of the sandwich rule, the chain of approval
  levels, one policy per leave type, applications and encashments that are booked on an employee
  of the caller, and a batch accrual that writes its log and no balance.
\<close>

section \<open>The sandwich rule counts days\<close>

text \<open>The days of \<open>n\<close> consecutive dates from \<open>d\<close> on that the rule counts.\<close>

primrec counted_days :: "nat \<Rightarrow> int \<Rightarrow> bool \<Rightarrow> nat" where
  "counted_days 0 d sandwich = 0"
| "counted_days (Suc n) d sandwich =
     (if is_weekend d \<and> \<not> sandwich then 0 else 1) + counted_days n (d + 1) sandwich"

definition span_days :: "int \<Rightarrow> int \<Rightarrow> nat" where
  "span_days s e = (if e < s then 0 else nat ((e - s) div nanos_per_day + 1))"

lemma counted_le: "counted_days n d sandwich \<le> n"
  by (induction n arbitrary: d) (auto intro: le_SucI)

lemma counted_all: "counted_days n d True = n"
  by (induction n arbitrary: d) auto

lemma counted_card:
  "counted_days n d False = card {k. k < n \<and> \<not> is_weekend (d + int k)}"
proof (induction n arbitrary: d)
  case 0
  then show ?case by simp
next
  case (Suc n)
  let ?A = "{k. k < n \<and> \<not> is_weekend (d + 1 + int k)}"
  have "{k. k < Suc n \<and> \<not> is_weekend (d + int k)}
      = (if is_weekend d then {} else {0}) \<union> Suc ` ?A" (is "?L = ?R")
  proof (rule set_eqI)
    fix k
    show "k \<in> ?L \<longleftrightarrow> k \<in> ?R" by (cases k) (auto simp: add.assoc)
  qed
  moreover have "card (Suc ` ?A) = card ?A" by (rule card_image) simp
  ultimately show ?case using Suc.IH [of "d + 1"] by (auto simp: card_insert_if)
qed

lemma date_of_next: "date_of (t + nanos_per_day) = date_of t + 1"
  by (simp add: date_of_def nanos_per_day_def)

lemma span_days_step:
  assumes "s \<le> e" shows "span_days s e = Suc (span_days (s + nanos_per_day) e)"
proof -
  have p: "0 < nanos_per_day" by (simp add: nanos_per_day_def)
  have q: "(e - (s + nanos_per_day)) div nanos_per_day = (e - s) div nanos_per_day - 1"
    using div_add_self2 [of nanos_per_day "e - s - nanos_per_day"] p
    by (simp add: algebra_simps)
  show ?thesis
  proof (cases "e < s + nanos_per_day")
    case True
    then have "(e - s) div nanos_per_day = 0" using assms by (intro div_pos_pos_trivial) auto
    then show ?thesis using True assms by (simp add: span_days_def)
  next
    case False
    then have "0 \<le> (e - (s + nanos_per_day)) div nanos_per_day"
      using p by (intro pos_imp_zdiv_nonneg_iff [THEN iffD2]) auto
    then show ?thesis using False assms by (auto simp: span_days_def q nat_add_distrib)
  qed
qed

lemma sandwich_loop_counts:
  "c + span_days s e \<le> 2 ^ 53 \<Longrightarrow>
   sandwich_loop s e sandwich (of_nat c)
   = of_nat (c + counted_days (span_days s e) (date_of s) sandwich)"
proof (induction "span_days s e" arbitrary: s c)
  case 0
  then have "e < s" using span_days_step [of s e] by (cases "s \<le> e") auto
  then show ?case by (simp add: sandwich_loop.simps [of s] span_days_def)
next
  case (Suc n)
  then have le: "s \<le> e" by (cases "e < s") (auto simp: span_days_def)
  note n = span_days_step [OF le]
  then have rec: "sandwich_loop (s + nanos_per_day) e sandwich (of_nat c')
      = of_nat (c' + counted_days n (date_of s + 1) sandwich)" if "c' \<le> Suc c" for c'
    using Suc.hyps(1) [of "s + nanos_per_day" c'] Suc.hyps(2) Suc.prems that
    by (simp add: date_of_next)
  have "fadd (of_nat c) 1 = of_nat (Suc c)"
    using b64.count_up [of c] Suc.prems n by (simp add: fadd_def)
  then show ?case
    using le rec [of c] rec [of "Suc c"]
    by (cases sandwich) (simp_all add: sandwich_loop.simps [of s] Suc.hyps(2) [symmetric])
qed

text \<open>A week has five working days, wherever it starts.\<close>


lemma counted_add: "counted_days (m + n) d s = counted_days m d s + counted_days n (d + int m) s"
  by (induction m arbitrary: d) (auto simp: algebra_simps)

lemma counted_seven: "counted_days 7 d False = 5"
proof -
  have "d mod 7 \<in> {0..<7}" by simp
  then have "d mod 7 \<in> {0, 1, 2, 3, 4, 5, 6}" by auto
  moreover have eq: "is_weekend (d + k) \<longleftrightarrow> (d mod 7 + k + 4) mod 7 \<in> {0, 6}" for k
    unfolding is_weekend_def weekday_def by (auto simp: mod_simps add.assoc)
  moreover have "counted_days 7 d False
      = (\<Sum>k\<leftarrow>[0, 1, 2, 3, 4, 5, 6]. if is_weekend (d + k) then 0 else 1)"
    by (simp add: eval_nat_numeral add.assoc)
  ultimately show ?thesis unfolding eq by (elim insertE) simp_all
qed

lemma counted_weeks: "counted_days (7 * m) d False = 5 * m"
proof (induction m arbitrary: d)
  case (Suc m)
  then show ?case using counted_add [of 7 "7 * m" d False] by (simp add: counted_seven)
qed simp

lemma counted_weeks_bounds:
  "5 * (n div 7) \<le> counted_days n d False \<and> counted_days n d False \<le> 5 * (n div 7) + n mod 7"
proof -
  have "n = 7 * (n div 7) + n mod 7" by simp
  then have "counted_days n d False
      = 5 * (n div 7) + counted_days (n mod 7) (d + int (7 * (n div 7))) False"
    by (metis counted_add counted_weeks)
  then show ?thesis using counted_le by simp
qed

text \<open>
  C32. The sandwich rule counts days. For a leave from \<open>s\<close> to \<open>e\<close> over \<open>n\<close> dates the loop gives
  exactly \<open>n\<close> with the rule switched on, and exactly the dates that are not a Saturday or Sunday
  with it off, five for each full week; the floating-point counter loses nothing.
\<close>

theorem sandwich_counts:
  assumes "s \<le> e" "span_days s e \<le> 2 ^ 53"
  defines "n \<equiv> span_days s e"
    and "workdays \<equiv> card {k. k < span_days s e \<and> \<not> is_weekend (date_of s + int k)}"
  shows "evaluate_sandwich_rule s e True = of_nat n
         \<and> evaluate_sandwich_rule s e False = of_nat workdays
         \<and> 5 * (n div 7) \<le> workdays \<and> workdays \<le> 5 * (n div 7) + n mod 7"
  using sandwich_loop_counts [of 0 s e] counted_weeks_bounds [of n "date_of s"] assms(1,2)
  by (simp add: evaluate_sandwich_rule_def counted_all counted_card n_def workdays_def)

theorem sandwich_counts_witness:
  "let s = 20650 * nanos_per_day; e = 20656 * nanos_per_day
   in span_days s e = 7 \<and> evaluate_sandwich_rule s e True = 7
      \<and> 5 \<le> card {k. k < span_days s e \<and> \<not> is_weekend (date_of s + int k)}"
  using sandwich_counts [of "20650 * nanos_per_day" "20656 * nanos_per_day"]
  by (simp add: span_days_def nanos_per_day_def)

section \<open>The approval levels\<close>

text \<open>A sequence of actions on a request, up to the decision.\<close>

primrec approval_run :: "int \<Rightarrow> int \<Rightarrow> string list \<Rightarrow> int \<times> string" where
  "approval_run m level [] = (level, ''PENDING'')"
| "approval_run m level (a # as) =
     (let (level', st) = process_multi_level_approval level m a
      in if st = ''PENDING'' then approval_run m level' as else (level', st))"

definition approvals :: "string list \<Rightarrow> int" where
  "approvals as = int (count_list (takeWhile (\<lambda>a. a \<noteq> ''REJECT'') as) ''APPROVE'')"

lemma approvals_simps [simp]:
  "approvals [] = 0" "approvals (''REJECT'' # as) = 0"
  "approvals (''APPROVE'' # as) = approvals as + 1"
  "a \<noteq> ''REJECT'' \<Longrightarrow> a \<noteq> ''APPROVE'' \<Longrightarrow> approvals (a # as) = approvals as"
  by (simp_all add: approvals_def)

lemma approvals_nonneg: "0 \<le> approvals as"
  by (simp add: approvals_def)

text \<open>
  C33. Every level has to approve. Starting at a level not above the last, a sequence of actions
  ends APPROVED exactly when it has one approval for each of the levels left before any rejection,
  is REJECTED when a rejection comes first, and is PENDING otherwise, with the level moved up by
  one per approval; no level is skipped and none beyond the last is reached.
\<close>

theorem approval_levels:
  assumes "level \<le> m"
  shows "approval_run m level as =
    (if m - level + 1 \<le> approvals as then (m, ''APPROVED'')
     else (level + approvals as,
           if ''REJECT'' \<in> set as then ''REJECTED'' else ''PENDING''))"
  using assms
proof (induction as arbitrary: level)
  case Nil
  then show ?case by simp
next
  case (Cons a as)
  consider "a = ''REJECT''" | "a = ''APPROVE''" | "a \<noteq> ''REJECT''" "a \<noteq> ''APPROVE''" by blast
  then show ?case
  proof cases
    case 1
    then show ?thesis using Cons.prems by (simp add: process_multi_level_approval_def)
  next
    case 2
    show ?thesis
    proof (cases "level < m")
      case True
      then show ?thesis
        using Cons.IH [of "level + 1"] 2 by (simp add: process_multi_level_approval_def algebra_simps)
    next
      case False
      then have "level = m" using Cons.prems by simp
      then show ?thesis
        using 2 approvals_nonneg [of as] by (simp add: process_multi_level_approval_def)
    qed
  next
    case 3
    then show ?thesis
      using Cons.IH [OF Cons.prems] by (simp add: process_multi_level_approval_def)
  qed
qed

theorem approval_levels_witness:
  "approval_run 2 1 [''APPROVE'', ''COMMENT'', ''APPROVE''] = (2, ''APPROVED'')"
  by (subst approval_levels) (simp_all add: approvals_def)

section \<open>Applications\<close>

text \<open>The row that an application of \<open>c\<close> with the body \<open>req\<close> adds.\<close>

definition application_row ::
  "claims \<Rightarrow> application_request \<Rightarrow> 'a hr_world_scheme \<Rightarrow> leave_row \<Rightarrow> bool" where
  "application_row c req w r \<longleftrightarrow>
     (\<exists>e\<in>set (employees w). own_employee (cl_user c) e \<and> uuid_in w (e_id e) = Some (la_emp r))
     \<and> la_status r = ''PENDING'' \<and> la_reason r = qa_reason req \<and> qa_reason req \<noteq> ''''
     \<and> date_in w (qa_start req) = Some (la_start r) \<and> date_in w (qa_end req) = Some (la_end r)
     \<and> 0 < qa_days req \<and> to_num w 2 (of_int (qa_days req)) = Some (la_days r)"

definition application_effect ::
  "claims option \<Rightarrow> application_request option \<Rightarrow> 'a hr_world_scheme \<Rightarrow> response \<Rightarrow>
   'a hr_world_scheme \<Rightarrow> bool" where
  "application_effect cl body w resp w' \<longleftrightarrow>
     (if rcode resp = status_created
      then \<exists>c req r. cl = Some c \<and> body = Some req \<and> leaves w' = leaves w @ [r]
             \<and> application_row c req w r
      else same_tables w w')"

lemma insert_application_effect:
  assumes "same_tables w v" "uuid_in w emp = uuid_in w (e_id e)" "e \<in> set (employees w)"
    "own_employee (cl_user c) e" "qa_reason req \<noteq> ''''" "0 < qa_days req"
    "\<And>v'. same_tables w v' \<Longrightarrow> Q None v'"
    "\<And>i v' r. leaves v' = leaves w @ [r] \<Longrightarrow> application_row c req w r \<Longrightarrow> Q (Some i) v'"
  shows "wp (insert_application emp req t) Q v"
  unfolding insert_application_def
proof (rule wp_insert_row_same [OF assms(1)])
  show "Q None v'" if "same_tables w v'" for v' using that by (rule assms(7))
next
  fix os w'
  assume "(case (uuid_in (w\<lparr>outcomes := os\<rparr>) emp, uuid_in (w\<lparr>outcomes := os\<rparr>) t,
      date_in (w\<lparr>outcomes := os\<rparr>) (qa_start req), date_in (w\<lparr>outcomes := os\<rparr>) (qa_end req),
      to_num (w\<lparr>outcomes := os\<rparr>) 2 (of_int (qa_days req))) of
       (Some e, Some t, Some s, Some d, Some n) \<Rightarrow>
         Some (w\<lparr>outcomes := os,
           leaves := leaves (w\<lparr>outcomes := os\<rparr>) @
           [\<lparr>la_id = ids w (issued w), la_emp = e, la_type = t, la_start = s, la_end = d, la_days = n,
             la_reason = qa_reason req, la_status = ''PENDING'', la_half = False,
             la_half_type = '''', la_from = '''', la_to = '''', la_duration = ''FULL_DAY'',
             la_attachment = '''', la_created = now (w\<lparr>outcomes := os\<rparr>)\<rparr>]\<rparr>)
     | _ \<Rightarrow> None) = Some w'"
  moreover define r where "r = last (leaves w')"
  ultimately have r: "leaves w' = leaves w @ [r]" "uuid_in w emp = Some (la_emp r)"
    "la_status r = ''PENDING''" "la_reason r = qa_reason req"
    "date_in w (qa_start req) = Some (la_start r)" "date_in w (qa_end req) = Some (la_end r)"
    "to_num w 2 (of_int (qa_days req)) = Some (la_days r)"
    by (auto split: option.splits)
  moreover have "application_row c req w r"
    unfolding application_row_def using r assms(2-6) by (intro conjI bexI [of _ e]) simp_all
  ultimately show "Q (Some (ids w (issued w))) (w'\<lparr>issued := issued w + 1\<rparr>)"
    by (intro assms(8)) auto
qed

lemma wp_session_employee:
  assumes "same_tables w v" "\<And>v'. same_tables w v' \<Longrightarrow> Q None v'"
    "\<And>v' e. same_tables w v' \<Longrightarrow> e \<in> set (employees w) \<Longrightarrow> own_employee (cl_user c) e \<Longrightarrow>
       Q (Some (e_id e)) v'"
  shows "wp (session_employee c) Q v"
proof -
  obtain os where v: "v = w\<lparr>outcomes := os\<rparr>" using assms(1) by (rule same_tablesD)
  show ?thesis
    unfolding session_employee_def wp_bind
  proof (rule wp_select_row_same [OF assms(1)])
    fix v'
    assume "same_tables w v'"
    then show "wp (case None of None \<Rightarrow> no_such_column | Some e \<Rightarrow> State_Monad.return (Some e)) Q v'"
      using assms(2) by (auto intro: wp_no_such_same)
  next
    fix v' x xs
    assume s: "same_tables w v'" and
      "concat (map (\<lambda>e. if own_employee (cl_user c) e then [e_id e] else []) (employees w)) = x # xs"
    then have "x \<in> set (concat (map (\<lambda>e. if own_employee (cl_user c) e then [e_id e] else [])
        (employees w)))" by simp
    then obtain e where "e \<in> set (employees w)" "own_employee (cl_user c) e" "x = e_id e"
      by (auto split: if_splits)
    then show "wp (case Some x of None \<Rightarrow> no_such_column | Some e \<Rightarrow> State_Monad.return (Some e)) Q v'"
      using s assms(3) by simp
  qed (simp add: v)
qed

lemma application_fail:
  "same_tables w v \<Longrightarrow> k \<noteq> status_created \<Longrightarrow> application_effect cl body w (common_json_error m k) v"
  by (simp add: application_effect_def)

lemma wp_requested_type:
  assumes "\<And>t v. same_tables w v \<Longrightarrow> Q t v"
  shows "wp (requested_type req) Q w"
  unfolding requested_type_def using assms by (auto simp: stable_popped)

lemma create_application_effect:
  "wp (handle_create_application cl body) (application_effect cl body w) w"
proof -
  have rest: "wp (orelse (session_employee c) (common_json_error m status_bad_request)
      (\<lambda>emp. orelse (insert_application emp req t) (common_json_error m' status_internal)
        (\<lambda>i. State_Monad.return (respond status_created (fs i))))) (application_effect cl body w) v"
    if "cl = Some c" "body = Some req" "qa_reason req \<noteq> ''''" "0 < qa_days req" "same_tables w v"
    for c req m m' t fs v
    unfolding wp_orelse [of "session_employee c"]
  proof (rule wp_session_employee [OF that(5)])
    fix v' e
    assume e: "same_tables w v'" "e \<in> set (employees w)" "own_employee (cl_user c) e"
    show "(case Some (e_id e) of None \<Rightarrow> application_effect cl body w (common_json_error m status_bad_request)
        | Some emp \<Rightarrow> wp (orelse (insert_application emp req t) (common_json_error m' status_internal)
            (\<lambda>i. State_Monad.return (respond status_created (fs i)))) (application_effect cl body w)) v'"
      unfolding option.case wp_orelse
      by (rule insert_application_effect [OF e(1) refl e(2,3) that(3,4)])
        (use that application_fail in \<open>auto simp: application_effect_def\<close>)
  qed (simp add: application_fail)
  have main: "wp (handle_create_application (Some c) (Some req)) (application_effect cl body w) w"
    if "cl = Some c" "body = Some req" for c req
    unfolding handle_create_application_def
    by (auto simp: application_fail intro!: wp_requested_type [where w = w] rest that)
  show ?thesis
  proof (cases "cl = None \<or> body = None")
    case True
    then show ?thesis
      by (auto simp: handle_create_application_def application_fail split: option.split)
  next
    case False
    then show ?thesis using main by auto
  qed
qed


section \<open>Policies\<close>

text \<open>The policy that a request stands for, and what saving it may change.\<close>

definition stored_policy :: "leave_policy_item \<Rightarrow> 'a hr_world_scheme \<Rightarrow> leave_policy_row \<Rightarrow> bool" where
  "stored_policy req w p \<longleftrightarrow>
     lp_name p = (if po_name req = '''' then ''Standard Policy'' else po_name req)
     \<and> lp_freq p = (if po_freq req = '''' then ''MONTHLY'' else po_freq req)
     \<and> to_num w 2 (po_rate req) = Some (lp_rate p) \<and> lp_carry p = po_carry req
     \<and> lp_sandwich p = po_sandwich req \<and> lp_encash p = po_encash req"

definition policy_effect ::
  "leave_policy_item \<Rightarrow> 'a hr_world_scheme \<Rightarrow> 'a hr_world_scheme \<Rightarrow> bool" where
  "policy_effect req w w' \<longleftrightarrow>
     leave_policies w' = leave_policies w
     \<or> (\<exists>t p. uuid_in w (po_type req) = Some t
          \<and> filter (\<lambda>p. lp_type p = t) (leave_policies w') = [p] \<and> stored_policy req w p
          \<and> filter (\<lambda>p. lp_type p \<noteq> t) (leave_policies w')
            = filter (\<lambda>p. lp_type p \<noteq> t) (leave_policies w))"

lemma filter_key_single:
  "distinct (map k xs) \<Longrightarrow> x \<in> set xs \<Longrightarrow> filter (\<lambda>y. k y = k x) xs = [x]"
proof (induction xs)
  case (Cons y xs)
  show ?case
  proof (cases "y = x")
    case True
    then have "filter (\<lambda>z. k z = k x) xs = []"
      using Cons.prems(1) by (auto simp: filter_empty_conv image_iff)
    then show ?thesis using True by simp
  next
    case False
    then show ?thesis using Cons by (auto simp: image_iff)
  qed
qed simp

lemma filter_upd_same:
  "(\<And>r. k (f r) = k r) \<Longrightarrow>
   filter (\<lambda>r. k r = t) (upd_where (\<lambda>r. k r = t) f rs) = map f (filter (\<lambda>r. k r = t) rs)"
  by (induction rs) auto

lemma filter_upd_other:
  "(\<And>r. k (f r) = k r) \<Longrightarrow>
   filter (\<lambda>r. k r \<noteq> t) (upd_where (\<lambda>r. k r = t) f rs) = filter (\<lambda>r. k r \<noteq> t) rs"
  by (induction rs) auto

abbreviation distinct_policies :: "'a hr_world_scheme \<Rightarrow> bool" where
  "distinct_policies w \<equiv> distinct (map lp_type (leave_policies w))"

lemma wp_upsert_policy:
  assumes "distinct_policies w"
  shows "wp (upsert_policy (policy_defaults req))
    (\<lambda>_ w'. distinct_policies w' \<and> policy_effect req w w') w"
proof (cases "next_ok w \<and> uuid_in w (po_type req) \<noteq> None \<and> to_num w 2 (po_rate req) \<noteq> None")
  case False
  then show ?thesis
    using assms by (auto simp: upsert_policy_def policy_defaults_def wp_stmt policy_effect_def
        split: option.split)
next
  case True
  then obtain t r where t: "uuid_in w (po_type req) = Some t" "to_num w 2 (po_rate req) = Some r"
    by auto
  let ?req = "policy_defaults req"
  have same: "po_type ?req = po_type req" "po_rate ?req = po_rate req"
    by (simp_all add: policy_defaults_def)
  show ?thesis
  proof (cases "find (\<lambda>p. lp_type p = t) (leave_policies w)")
    case None
    then have none: "filter (\<lambda>p. lp_type p = t) (leave_policies w) = []"
      "t \<notin> lp_type ` set (leave_policies w)"
      by (auto simp: find_None_iff filter_empty_conv)
    let ?p = "\<lparr>lp_id = ids w (issued w), lp_type = t, lp_name = po_name ?req,
      lp_freq = po_freq ?req, lp_rate = r, lp_carry = po_carry ?req,
      lp_sandwich = po_sandwich ?req, lp_encash = po_encash ?req\<rparr>"
    have "stored_policy req w ?p" using t by (simp add: stored_policy_def policy_defaults_def)
    then have "policy_effect req w (w\<lparr>outcomes := os, issued := n,
        leave_policies := leave_policies w @ [?p]\<rparr>)" for os n
      using t none by (auto simp: policy_effect_def)
    then show ?thesis
      using True t None none assms by (simp add: upsert_policy_def wp_stmt same)
  next
    case (Some p)
    then have p: "p \<in> set (leave_policies w)" "lp_type p = t" by (auto simp: find_Some_iff)
    then have single: "filter (\<lambda>p. lp_type p = t) (leave_policies w) = [p]"
      using filter_key_single [OF assms p(1)] by simp
    let ?f = "\<lambda>p. p\<lparr>lp_name := po_name ?req, lp_freq := po_freq ?req, lp_rate := r,
                       lp_carry := po_carry ?req, lp_sandwich := po_sandwich ?req,
                       lp_encash := po_encash ?req\<rparr>"
    have "stored_policy req w (?f p)" using t by (simp add: stored_policy_def policy_defaults_def)
    then have "policy_effect req w (w\<lparr>outcomes := os, leave_policies :=
        upd_where (\<lambda>p. lp_type p = t) ?f (leave_policies w)\<rparr>)" for os
      using t single by (auto simp: policy_effect_def filter_upd_same filter_upd_other)
    then show ?thesis
      using True t Some assms by (simp add: upsert_policy_def wp_stmt same map_upd_where)
  qed
qed

text \<open>
  One policy per leave type. Whatever statements fail, saving a policy keeps the types of the
  policies distinct; the table is unchanged, or the one policy of the type now has the values of the
  request, with the defaults for an empty name and frequency, and the policies of other types are
  as before.
\<close>

theorem one_policy_per_type:
  assumes "distinct_policies w"
  shows "let w' = snd (run_state (handle_upsert_policy cl (Some req)) w)
         in distinct_policies w' \<and> policy_effect req w w'"
proof -
  have unchanged: "policy_effect req w w" by (simp add: policy_effect_def)
  have log: "wp (log_action e) (\<lambda>_ w'. distinct_policies w' \<and> policy_effect req w w') v"
    if "distinct_policies v \<and> policy_effect req w v" for e v
  proof -
    have "keeps (\<lambda>v. distinct_policies v \<and> policy_effect req w v) (log_action e)"
      by (rule keeps_log_action) (simp_all add: stable_def policy_effect_def)
    then show ?thesis using that by (simp add: keeps_def)
  qed
  have "wp (handle_upsert_policy cl (Some req)) (\<lambda>_ w'. distinct_policies w' \<and> policy_effect req w w') w"
    unfolding handle_upsert_policy_def
    using assms unchanged
    by (auto simp: Let_def split: option.split 
        intro!: wp_mono [OF wp_upsert_policy [OF assms]] log)
  then show ?thesis by (auto simp: Let_def dest: wp_snd)
qed

definition demo_policy :: leave_policy_item where
  "demo_policy = \<lparr>po_id = '''', po_type = ''CL'', po_type_name = '''', po_type_code = '''',
     po_name = '''', po_freq = '''', po_rate = 1, po_carry = 5, po_sandwich = True,
     po_encash = False\<rparr>"

theorem one_policy_per_type_witness:
  "let w' = snd (run_state (handle_upsert_policy (Some admin_claims) (Some demo_policy)) empty_hr)
   in distinct_policies w' \<and> policy_effect demo_policy empty_hr w'"
  by (rule one_policy_per_type) (simp add: empty_hr_def world.defs hr_world.defs)

section \<open>Batch accruals\<close>

text \<open>The log of an accrual for the employees \<open>emps\<close> and the policies \<open>pols\<close>, in order.\<close>

definition accrual_targets ::
  "string list \<Rightarrow> (string \<times> float64) list \<Rightarrow> (string \<times> string \<times> float64) list" where
  "accrual_targets emps pols = [(e, p). e \<leftarrow> emps, p \<leftarrow> pols]"

definition log_target :: "accrual_row \<Rightarrow> string \<times> string \<times> rat" where
  "log_target l = (al_emp l, al_type l, al_days l)"

text \<open>A server on which no statement fails and that stores ids and amounts as they are.\<close>

definition plain_db :: "'a hr_world_scheme \<Rightarrow> bool" where
  "plain_db w \<longleftrightarrow> outcomes w = [] \<and> \<not> db_nil w \<and> uuid_in w = Some \<and> to_num w = (\<lambda>_. Some)"

lemma run_accrue_one:
  assumes "plain_db w"
  shows "\<exists>l. run_state (accrue_one emp pol n) w
      = (n + 1, w\<lparr>accruals := accruals w @ [l], issued := issued w + 1\<rparr>)
    \<and> log_target l = (emp, pol)"
  by (rule exI [of _ "\<lparr>al_id = ids w (issued w), al_emp = emp, al_type = fst pol,
        al_date = date_of (now w), al_days = snd pol, al_reason = Some accrual_reason,
        al_created = now w\<rparr>"])
    (use assms in \<open>simp add: accrue_one_def run_bind run_no_such_calm insert_accrual_def
      run_insert_calm plain_db_def log_target_def\<close>)

lemma run_accrue_employee:
  assumes "plain_db w"
  shows "\<exists>ls k. run_state (accrue_employee pols emp n) w
      = (n + int (length pols), w\<lparr>accruals := accruals w @ ls, issued := k\<rparr>)
    \<and> map log_target ls = map (Pair emp) pols"
  using assms unfolding accrue_employee_def
proof (induction pols arbitrary: n w)
  case Nil
  show ?case by (rule exI [of _ "[]"], rule exI [of _ "issued w"]) simp
next
  case (Cons p pols)
  obtain l where l: "run_state (accrue_one emp p n) w
      = (n + 1, w\<lparr>accruals := accruals w @ [l], issued := issued w + 1\<rparr>)" "log_target l = (emp, p)"
    using run_accrue_one [OF Cons.prems] by blast
  let ?w1 = "w\<lparr>accruals := accruals w @ [l], issued := issued w + 1\<rparr>"
  have "plain_db ?w1" using Cons.prems by (simp add: plain_db_def)
  from Cons.IH [OF this, of "n + 1"] obtain ls k where ls:
    "run_state (fold_loop (accrue_one emp) pols (n + 1)) ?w1
      = (n + 1 + int (length pols), ?w1\<lparr>accruals := accruals ?w1 @ ls, issued := k\<rparr>)"
    "map log_target ls = map (Pair emp) pols" by blast
  show ?case
    by (rule exI [of _ "l # ls"], rule exI [of _ k])
      (use ls l in \<open>simp add: run_bind algebra_simps\<close>)
qed

lemma run_accruals:
  assumes "plain_db w"
  shows "\<exists>ls k. run_state (fold_loop (accrue_employee pols) emps n) w
      = (n + int (length emps * length pols), w\<lparr>accruals := accruals w @ ls, issued := k\<rparr>)
    \<and> map log_target ls = accrual_targets emps pols"
  using assms
proof (induction emps arbitrary: n w)
  case Nil
  show ?case
    by (rule exI [of _ "[]"], rule exI [of _ "issued w"]) (simp add: accrual_targets_def)
next
  case (Cons e emps)
  obtain ls k where ls: "run_state (accrue_employee pols e n) w
      = (n + int (length pols), w\<lparr>accruals := accruals w @ ls, issued := k\<rparr>)"
    "map log_target ls = map (Pair e) pols"
    using run_accrue_employee [OF Cons.prems] by blast
  let ?w1 = "w\<lparr>accruals := accruals w @ ls, issued := k\<rparr>"
  have "plain_db ?w1" using Cons.prems by (simp add: plain_db_def)
  from Cons.IH [OF this, of "n + int (length pols)"] obtain ls' k' where ls':
    "run_state (fold_loop (accrue_employee pols) emps (n + int (length pols))) ?w1
      = (n + int (length pols) + int (length emps * length pols),
         ?w1\<lparr>accruals := accruals ?w1 @ ls', issued := k'\<rparr>)"
    "map log_target ls' = accrual_targets emps pols" by blast
  show ?case
    by (rule exI [of _ "ls @ ls'"], rule exI [of _ k'])
      (use ls ls' in \<open>simp add: run_bind accrual_targets_def algebra_simps\<close>)
qed

text \<open>
  An accrual run credits nothing. On a server where no statement fails for an outside reason,
  the batch answers that it updated a balance for each active employee and policy and logs one
  accrual for each, with the rate of the policy, but leaves every leave balance as it was: the
  statement for the balances names columns that do not exist.
\<close>

theorem accrual_credits_nothing:
  assumes "plain_db w" "has_role (Some c) [''SUPER_ADMIN'', ''HR_ADMIN'']"
  shows "let (resp, w') = run_state (handle_process_batch_accruals (Some c)) w;
             targets = accrual_targets (accrual_employees w) (accrual_policies w)
         in rcode resp = status_ok
            \<and> rfield resp ''count'' = Some (JInt (int (length targets)))
            \<and> leave_balances w' = leave_balances w
            \<and> (\<exists>ls. accruals w' = accruals w @ ls \<and> map log_target ls = targets)"
proof -
  let ?pols = "accrual_policies w" and ?emps = "accrual_employees w"
  obtain ls k where run: "run_state (fold_loop (accrue_employee ?pols) ?emps 0) w
      = (int (length ?emps * length ?pols), w\<lparr>accruals := accruals w @ ls, issued := k\<rparr>)"
    "map log_target ls = accrual_targets ?emps ?pols"
    using run_accruals [OF assms(1), of ?pols ?emps 0] by auto
  have len: "length (accrual_targets ?emps ?pols) = length ?emps * length ?pols"
    by (simp add: accrual_targets_def length_concat comp_def sum_list_triv)
  have p: "outcomes w = []" "\<not> db_nil w" using assms(1) by (simp_all add: plain_db_def)
  show ?thesis
    using assms(2) run p
    by (simp add: handle_process_batch_accruals_def run_bind run_orelse run_select_calm run_log_action
        len rfield_def)
qed

definition accrual_world :: hr_world where
  "accrual_world = empty_hr\<lparr>employees := [demo_employee],
     leave_policies := [\<lparr>lp_id = ''p1'', lp_type = ''CL'', lp_name = ''x'', lp_freq = ''MONTHLY'',
        lp_rate = 1, lp_carry = 5, lp_sandwich = False, lp_encash = True\<rparr>]\<rparr>"

lemma accrual_world_plain: "plain_db accrual_world"
  by (simp add: plain_db_def accrual_world_def empty_hr_def empty_world_def world.defs hr_world.defs)

theorem accrual_credits_nothing_witness:
  "let (resp, w') = run_state (handle_process_batch_accruals (Some admin_claims)) accrual_world
   in rcode resp = status_ok \<and> leave_balances w' = leave_balances accrual_world"
  using accrual_credits_nothing [OF accrual_world_plain, of admin_claims]
  by (simp add: Let_def case_prod_unfold)

section \<open>Encashment\<close>

definition booked_employee :: "string \<Rightarrow> 'a hr_world_scheme \<Rightarrow> string" where
  "booked_employee uid w =
     (case find (user_is uid) (employees w) of
        Some e \<Rightarrow> e_id e
      | None \<Rightarrow> (case employees w of [] \<Rightarrow> '''' | e # _ \<Rightarrow> e_id e))"

lemma run_employee_or_first:
  assumes "outcomes w = []" "\<forall>e\<in>set (employees w). e_id e \<noteq> ''''"
  shows "run_state (employee_or_first uid) w = (booked_employee uid w, w)"
proof (cases "find (user_is uid) (employees w)")
  case None
  then show ?thesis
    using assms by (simp add: employee_or_first_def run_bind run_select_row_calm first_row
        booked_employee_def split: list.split)
next
  case (Some e)
  then have "e \<in> set (employees w)" by (auto simp: find_Some_iff)
  then show ?thesis
    using assms Some by (simp add: employee_or_first_def run_bind run_select_row_calm first_row
        booked_employee_def)
qed

lemma encashment_rate: "0 < d \<Longrightarrow> calculate_encashment_amount d 60000 = (2000, fl (d * 2000))"
  by (simp add: calculate_encashment_amount_def fdiv_def fmul_def b64.exact)

text \<open>
  What an encashment is worth and whose it is. On a server where no statement fails, a request
  for a positive number of days adds one PENDING row, at 2000 a day whatever the salary, for the
  caller's employee record, and for the first employee of the table when the caller has none.
\<close>

theorem encashment_booked:
  assumes "plain_db w" "\<forall>e\<in>set (employees w). e_id e \<noteq> ''''" "ec_type req \<noteq> ''''" "0 < ec_days req"
  shows "let (resp, w') = run_state (handle_submit_encashment (Some c) (Some req)) w
         in rcode resp = status_ok
            \<and> w' = w\<lparr>issued := issued w + 1, encashments := encashments w @
                [\<lparr>en_id = ids w (issued w), en_emp = booked_employee (cl_user c) w,
                  en_type = ec_type req, en_days = ec_days req, en_rate = 2000,
                  en_total = fl (ec_days req * 2000), en_status = ''PENDING'',
                  en_reason = Some (ec_reason req), en_by = None, en_at = None,
                  en_created = now w\<rparr>]\<rparr>"
  using assms
  by (simp add: handle_submit_encashment_def plain_db_def run_bind run_orelse run_employee_or_first
      encashment_rate insert_encashment_def run_insert_calm)

definition demo_encashment :: encashment_item where
  "demo_encashment = \<lparr>ec_id = '''', ec_emp = '''', ec_code = '''', ec_name = '''', ec_type = ''CL'',
     ec_type_name = '''', ec_days = 2, ec_rate = 0, ec_total = 0, ec_status = '''',
     ec_reason = '''', ec_by = '''', ec_at = '''', ec_created = ''''\<rparr>"

lemma accrual_world_simps:
  "employees accrual_world = [demo_employee]" "encashments accrual_world = []"
  by (simp_all add: accrual_world_def empty_hr_def world.defs hr_world.defs)

theorem encashment_booked_witness:
  "let w' = snd (run_state (handle_submit_encashment (Some admin_claims) (Some demo_encashment))
                  accrual_world)
   in map (\<lambda>r. (en_emp r, en_total r)) (encashments w') = [(''e1'', 4000)]"
proof -
  have "booked_employee (cl_user admin_claims) accrual_world = ''e1''"
    by (simp add: booked_employee_def accrual_world_simps user_is_def admin_claims_def
        demo_employee_def)
  moreover have "\<forall>e\<in>set (employees accrual_world). e_id e \<noteq> ''''"
    by (simp add: accrual_world_simps demo_employee_def)
  ultimately show ?thesis
    using encashment_booked [OF accrual_world_plain, of demo_encashment admin_claims]
    by (auto simp: demo_encashment_def case_prod_unfold Let_def b64.exact accrual_world_simps)
qed

end
