(* ===== verification/Helpdesk.thy ===== *)
theory Helpdesk
  imports Authz Audit_Log Pagination "HOL-Library.List_Lexorder"
begin

text \<open>
  \<^verbatim>\<open>internal/helpdesk/helpdesk.go\<close>: categories with their service level, tickets with their
  numbers and states, and comments. The unique columns (the name of a category, the number of a
  ticket) are part of the statements; \<^verbatim>\<open>time.Duration\<close> is a 64-bit number of nanoseconds and
  wraps around.
\<close>

record helpdesk_category =
  ct_id :: string
  ct_name :: string
  ct_desc :: string
  ct_sla :: int

definition category_json :: "helpdesk_category \<Rightarrow> json" where
  "category_json c =
     JObj [(''id'', JStr (ct_id c)), (''name'', JStr (ct_name c)),
           (''description'', JStr (ct_desc c)), (''sla_hours'', JInt (ct_sla c))]"

record helpdesk_ticket =
  hk_id :: string
  hk_number :: string
  hk_emp :: string
  hk_emp_code :: string
  hk_emp_name :: string
  hk_cat :: string
  hk_cat_name :: string
  hk_subject :: string
  hk_desc :: string
  hk_priority :: string
  hk_status :: string
  hk_assigned :: string
  hk_assigned_name :: string
  hk_sla :: int
  hk_breached :: bool
  hk_resolved :: string
  hk_notes :: string
  hk_created :: string
  hk_comments :: int

definition ticket_json :: "helpdesk_ticket \<Rightarrow> json" where
  "ticket_json t =
     JObj ([(''id'', JStr (hk_id t)), (''ticket_number'', JStr (hk_number t)),
            (''employee_id'', JStr (hk_emp t))]
           @ nonempty_field ''employee_code'' (hk_emp_code t)
           @ nonempty_field ''employee_name'' (hk_emp_name t)
           @ [(''category_id'', JStr (hk_cat t))]
           @ nonempty_field ''category_name'' (hk_cat_name t)
           @ [(''subject'', JStr (hk_subject t)), (''description'', JStr (hk_desc t)),
              (''priority'', JStr (hk_priority t)), (''status'', JStr (hk_status t))]
           @ nonempty_field ''assigned_to'' (hk_assigned t)
           @ nonempty_field ''assigned_to_name'' (hk_assigned_name t)
           @ [(''sla_hours'', JInt (hk_sla t)), (''is_sla_breached'', JBool (hk_breached t))]
           @ nonempty_field ''resolved_at'' (hk_resolved t)
           @ nonempty_field ''resolution_notes'' (hk_notes t)
           @ [(''created_at'', JStr (hk_created t)), (''comments_count'', JInt (hk_comments t))])"

section \<open>Numbers, service level and states\<close>

text \<open>\<^verbatim>\<open>%03d\<close>: the sign counts towards the width.\<close>

definition dec03 :: "int \<Rightarrow> string" where
  "dec03 i = (if i < 0 then CHR ''-'' # decpad 2 (nat (- i)) else decpad 3 (nat i))"

text \<open>\<open>t\<close> is \<^verbatim>\<open>time.Now()\<close>.\<close>

definition generate_ticket_number :: "int \<Rightarrow> int \<Rightarrow> string" where
  "generate_ticket_number t seq = ''TICK-'' @ dec (year_of (date_of t)) @ ''-'' @ dec03 seq"

definition evaluate_sla_breach :: "int \<Rightarrow> int \<Rightarrow> int \<Rightarrow> string \<Rightarrow> bool" where
  "evaluate_sla_breach t created_at sla_hours status =
     (if status = ''RESOLVED'' \<or> status = ''CLOSED'' then False
      else if sla_hours \<le> 0 then False
      else
        (let deadline = created_at + wrap64 (sla_hours * nanos_per_hour)
         in deadline < t))"

definition process_ticket_transition :: "string \<Rightarrow> string \<Rightarrow> string" where
  "process_ticket_transition current action =
     (if action = ''ASSIGN'' \<or> action = ''START_PROGRESS'' then ''IN_PROGRESS''
      else if action = ''RESOLVE'' then ''RESOLVED''
      else if action = ''CLOSE'' then ''CLOSED''
      else if action = ''REOPEN'' then ''OPEN''
      else current)"

section \<open>Categories\<close>

definition handle_get_categories :: "('a hr_world_scheme, response) state" where
  "handle_get_categories = do {
     nil \<leftarrow> reads db_nil;
     err \<leftarrow> reads err_text;
     (if nil then State_Monad.return db_unavailable
      else
        orelse (select (\<lambda>w. sort_key hc_name (categories w))) (fail_json status_internal err)
          (\<lambda>cs. State_Monad.return (data_response (map (\<lambda>c. category_json
             \<lparr>ct_id = hc_id c, ct_name = hc_name c, ct_desc = text_or_empty (hc_desc c),
              ct_sla = hc_sla c\<rparr>) cs))))
   }"

definition insert_category :: "helpdesk_category \<Rightarrow> ('a hr_world_scheme, string option) state" where
  "insert_category c = insert_row (\<lambda>i w.
     if \<exists>x\<in>set (categories w). hc_name x = ct_name c then None
     else Some (w\<lparr>categories := categories w @
            [\<lparr>hc_id = i, hc_name = ct_name c, hc_desc = Some (ct_desc c), hc_sla = ct_sla c\<rparr>]\<rparr>))"

definition handle_create_category ::
  "claims option \<Rightarrow> helpdesk_category option \<Rightarrow> ('a hr_world_scheme, response) state" where
  "handle_create_category cl body =
     (if cl = None \<or> \<not> has_role cl [''SUPER_ADMIN'', ''HR_ADMIN'']
      then State_Monad.return (forbidden_response ''FORBIDDEN_ROLE''
             ''Only HR and Super Admins can manage helpdesk categories.'')
      else
        (case body of
           None \<Rightarrow> State_Monad.return (http_error ''invalid category payload'' status_bad_request)
         | Some req0 \<Rightarrow>
             if ct_name req0 = ''''
             then State_Monad.return (http_error ''invalid category payload'' status_bad_request)
             else do {
               let req = (if ct_sla req0 \<le> 0 then req0\<lparr>ct_sla := 24\<rparr> else req0);
               let answer = (\<lambda>r. respond status_ok
                 [(''success'', JBool True),
                  (''message'', JStr ''Helpdesk category created successfully.''),
                  (''data'', category_json r)]);
               nil \<leftarrow> reads db_nil;
               err \<leftarrow> reads err_text;
               (if nil then State_Monad.return (answer req)
                else
                  orelse (insert_category req) (fail_json status_internal err)
                    (\<lambda>i. State_Monad.return (answer (req\<lparr>ct_id := i\<rparr>))))
             }))"

section \<open>Tickets\<close>

text \<open>A row of the joined query, with the number of comments given.\<close>

definition ticket_view ::
  "'a hr_world_scheme \<Rightarrow> int \<Rightarrow> ticket_row \<Rightarrow> employee_row \<Rightarrow> category_row \<Rightarrow> helpdesk_ticket" where
  "ticket_view w n t e c =
     \<lparr>hk_id = tk_id t, hk_number = tk_number t, hk_emp = tk_emp t, hk_emp_code = e_code e,
      hk_emp_name = full_name e, hk_cat = tk_cat t, hk_cat_name = hc_name c,
      hk_subject = tk_subject t, hk_desc = tk_desc t, hk_priority = tk_priority t,
      hk_status = tk_status t, hk_assigned = text_or_empty (tk_assigned t),
      hk_assigned_name =
        (case find (\<lambda>u. tk_assigned t = Some (u_id u)) (users w) of
           None \<Rightarrow> '''' | Some u \<Rightarrow> u_email u),
      hk_sla = hc_sla c,
      hk_breached = evaluate_sla_breach (now w) (tk_created t) (hc_sla c) (tk_status t),
      hk_resolved = (case tk_resolved t of None \<Rightarrow> '''' | Some s \<Rightarrow> show_time s),
      hk_notes = text_or_empty (tk_notes t), hk_created = show_time (tk_created t),
      hk_comments = n\<rparr>"

definition comments_of :: "'a hr_world_scheme \<Rightarrow> string \<Rightarrow> comment_row list" where
  "comments_of w i = filter (\<lambda>m. cm_ticket m = i) (comments w)"

definition ticket_views :: "'a hr_world_scheme \<Rightarrow> helpdesk_ticket list" where
  "ticket_views w =
     [ticket_view w (int (length (comments_of w (tk_id t)))) t e c.
      t \<leftarrow> sort_key (\<lambda>t. - tk_created t) (tickets w), e \<leftarrow> employees w, tk_emp t = e_id e,
      c \<leftarrow> categories w, tk_cat t = hc_id c]"

definition handle_get_tickets :: "('a hr_world_scheme, response) state" where
  "handle_get_tickets = do {
     nil \<leftarrow> reads db_nil;
     err \<leftarrow> reads err_text;
     (if nil then State_Monad.return db_unavailable
      else
        orelse (select ticket_views) (fail_json status_internal err)
          (\<lambda>ts. State_Monad.return (data_response (map ticket_json ts))))
   }"

text \<open>The caller's employee, and the first one of the table when there is none.\<close>

definition ticket_employee :: "string \<Rightarrow> ('a hr_world_scheme, string) state" where
  "ticket_employee uid = do {
     own \<leftarrow> select_row (\<lambda>w. [e_id e. e \<leftarrow> employees w, user_is uid e]);
     (if (case own of None \<Rightarrow> '''' | Some e \<Rightarrow> e) = ''''
      then do {
        f \<leftarrow> select_row (\<lambda>w. map e_id (employees w));
        State_Monad.return (case f of None \<Rightarrow> '''' | Some e \<Rightarrow> e)
      }
      else State_Monad.return (the own))
   }"

definition insert_ticket ::
  "string \<Rightarrow> string \<Rightarrow> helpdesk_ticket \<Rightarrow> ('a hr_world_scheme, string option) state" where
  "insert_ticket number emp req = insert_row (\<lambda>i w.
     case (uuid_in w emp, uuid_in w (hk_cat req)) of
       (Some e, Some c) \<Rightarrow>
         if \<exists>t\<in>set (tickets w). tk_number t = number then None
         else Some (w\<lparr>tickets := tickets w @
           [\<lparr>tk_id = i, tk_number = number, tk_emp = e, tk_cat = c, tk_subject = hk_subject req,
             tk_desc = hk_desc req, tk_priority = hk_priority req, tk_status = ''OPEN'',
             tk_assigned = None, tk_resolved = None, tk_notes = None, tk_created = now w\<rparr>]\<rparr>)
     | _ \<Rightarrow> None)"

definition ticket_answer :: "helpdesk_ticket \<Rightarrow> response" where
  "ticket_answer t =
     respond status_ok
       [(''success'', JBool True),
        (''message'', JStr (''Helpdesk ticket '' @ hk_number t @ '' submitted successfully.'')),
        (''data'', ticket_json t)]"

definition handle_create_ticket ::
  "claims option \<Rightarrow> helpdesk_ticket option \<Rightarrow> ('a hr_world_scheme, response) state" where
  "handle_create_ticket cl body =
     (case cl of
        None \<Rightarrow> State_Monad.return (http_error ''unauthorized'' status_unauthorized)
      | Some cm \<Rightarrow>
          (case body of
             None \<Rightarrow> State_Monad.return (http_error ''invalid ticket payload'' status_bad_request)
           | Some req0 \<Rightarrow>
               if hk_cat req0 = '''' \<or> hk_subject req0 = '''' \<or> hk_desc req0 = ''''
               then State_Monad.return (http_error ''invalid ticket payload'' status_bad_request)
               else do {
                 let req = (if hk_priority req0 = '''' then req0\<lparr>hk_priority := ''MEDIUM''\<rparr> else req0);
                 nil \<leftarrow> reads db_nil;
                 err \<leftarrow> reads err_text;
                 t \<leftarrow> reads now;
                 (if nil then State_Monad.return (ticket_answer req)
                  else do {
                    emp \<leftarrow> ticket_employee (cl_user cm);
                    n \<leftarrow> or_zero (select (\<lambda>w. int (length (tickets w))));
                    let number = generate_ticket_number t (n + 1);
                    orelse (insert_ticket number emp req) (fail_json status_internal err)
                      (\<lambda>i. do {
                         _ \<leftarrow> log_action \<lparr>le_user = cl_user cm, le_action = ''HELPDESK_TICKET_SUBMITTED'',
                                le_module = ''HELPDESK'', le_entity = ''helpdesk_tickets'',
                                le_entity_id = i,
                                le_reason = ''Submitted helpdesk ticket '' @ number @ '': '' @ hk_subject req\<rparr>;
                         State_Monad.return (ticket_answer
                           (req\<lparr>hk_id := i, hk_number := number, hk_emp := emp, hk_status := ''OPEN'',
                                hk_created := show_time t\<rparr>))
                       })
                  })
               }))"

text \<open>
  The comments are read with \<^verbatim>\<open>u.role\<close>, a column that no migration creates; the error is
  ignored.
\<close>

definition handle_get_ticket_details :: "string \<Rightarrow> ('a hr_world_scheme, response) state" where
  "handle_get_ticket_details tid =
     (if tid = '''' then State_Monad.return (http_error ''missing ticket id'' status_bad_request)
      else do {
        nil \<leftarrow> reads db_nil;
        (if nil then State_Monad.return db_unavailable
         else
           orelse
             (query_row (\<lambda>w. map_option (\<lambda>k.
                [ticket_view w 0 t e c.
                 t \<leftarrow> tickets w, tk_id t = k, e \<leftarrow> employees w, tk_emp t = e_id e,
                 c \<leftarrow> categories w, tk_cat t = hc_id c]) (uuid_in w tid)))
             (fail_json status_not_found ''ticket not found'')
             (\<lambda>t. do {
                (_ :: unit option) \<leftarrow> no_such_column;
                State_Monad.return
                  (respond status_ok
                     [(''success'', JBool True), (''ticket'', ticket_json t), (''comments'', JArr [])])
              }))
      })"

section \<open>Comments and transitions\<close>

definition insert_comment ::
  "string \<Rightarrow> string \<Rightarrow> string \<Rightarrow> ('a hr_world_scheme, string option) state" where
  "insert_comment tid uid txt = insert_row (\<lambda>i w.
     case (uuid_in w tid, uuid_in w uid) of
       (Some t, Some u) \<Rightarrow>
         Some (w\<lparr>comments := comments w @
           [\<lparr>cm_id = i, cm_ticket = t, cm_user = u, cm_text = txt, cm_created = now w\<rparr>]\<rparr>)
     | _ \<Rightarrow> None)"

definition handle_add_comment ::
  "claims option \<Rightarrow> string \<Rightarrow> string option \<Rightarrow> ('a hr_world_scheme, response) state" where
  "handle_add_comment cl tid body =
     (case cl of
        None \<Rightarrow> State_Monad.return (http_error ''unauthorized'' status_unauthorized)
      | Some c \<Rightarrow>
          if body = None \<or> body = Some ''''
          then State_Monad.return (http_error ''invalid comment payload'' status_bad_request)
          else do {
            let answer = respond status_ok
              [(''success'', JBool True), (''message'', JStr ''Comment posted to helpdesk ticket.'')];
            nil \<leftarrow> reads db_nil;
            err \<leftarrow> reads err_text;
            (if nil then State_Monad.return answer
             else
               orelse (insert_comment tid (cl_user c) (the body)) (fail_json status_internal err)
                 (\<lambda>_. State_Monad.return answer))
          })"

record transition_request =
  tr_action :: string
  tr_notes :: string

definition update_ticket ::
  "(int \<Rightarrow> ticket_row \<Rightarrow> ticket_row) \<Rightarrow> string \<Rightarrow> string \<Rightarrow> string \<Rightarrow>
   ('a hr_world_scheme, nat option) state" where
  "update_ticket f st uid tid = exec (\<lambda>w.
     case (uuid_in w uid, uuid_in w tid) of
       (Some u, Some k) \<Rightarrow>
         Some (count_where (\<lambda>t. tk_id t = k) (tickets w),
               w\<lparr>tickets := upd_where (\<lambda>t. tk_id t = k)
                  (\<lambda>t. f (now w) (t\<lparr>tk_status := st, tk_assigned := Some u\<rparr>)) (tickets w)\<rparr>)
     | _ \<Rightarrow> None)"

definition handle_transition_ticket ::
  "claims option \<Rightarrow> string \<Rightarrow> transition_request option \<Rightarrow> ('a hr_world_scheme, response) state"
  where
  "handle_transition_ticket cl tid body =
     (case cl of
        None \<Rightarrow> State_Monad.return (forbidden_response ''FORBIDDEN_ROLE''
                  ''Only HR and Support Admins can update ticket status.'')
      | Some c \<Rightarrow>
          if \<not> has_role cl [''SUPER_ADMIN'', ''HR_ADMIN'']
          then State_Monad.return (forbidden_response ''FORBIDDEN_ROLE''
                 ''Only HR and Support Admins can update ticket status.'')
          else
            (case body of
               None \<Rightarrow> State_Monad.return (http_error ''invalid transition payload'' status_bad_request)
             | Some req \<Rightarrow>
                 if tr_action req = ''''
                 then State_Monad.return (http_error ''invalid transition payload'' status_bad_request)
                 else do {
                   let answer = respond status_ok
                     [(''success'', JBool True), (''message'', JStr ''Ticket status updated.'')];
                   nil \<leftarrow> reads db_nil;
                   (if nil then State_Monad.return answer
                    else do {
                      cur \<leftarrow> query_row (\<lambda>w. map_option (\<lambda>k. [tk_status t. t \<leftarrow> tickets w, tk_id t = k])
                               (uuid_in w tid));
                      let st = process_ticket_transition
                        (case cur of None \<Rightarrow> '''' | Some s \<Rightarrow> s) (tr_action req);
                      _ \<leftarrow>
                        (if tr_action req = ''RESOLVE'' \<or> tr_action req = ''CLOSE''
                         then update_ticket (\<lambda>t r. r\<lparr>tk_resolved := Some t, tk_notes := Some (tr_notes req)\<rparr>)
                                st (cl_user c) tid
                         else update_ticket (\<lambda>_ r. r) st (cl_user c) tid);
                      _ \<leftarrow> log_action \<lparr>le_user = cl_user c, le_action = ''HELPDESK_TICKET_TRANSITION'',
                             le_module = ''HELPDESK'', le_entity = ''helpdesk_tickets'',
                             le_entity_id = tid,
                             le_reason = ''Ticket status transitioned to '' @ st\<rparr>;
                      State_Monad.return answer
                    })
                 }))"

end
