(* ===== verification/Helpdesk_Rules.thy ===== *)
theory Helpdesk_Rules
  imports Helpdesk
begin

text \<open>
  What the helpdesk guarantees: ticket numbers that never collide, a service-level test that is
  exact until the duration overflows, and the invariant of the tickets under all its operations.
\<close>

section \<open>Ticket numbers\<close>

text \<open>The sequence number back from the text: the digits at its end.\<close>

definition ticket_seq :: "string \<Rightarrow> nat" where
  "ticket_seq s = numval (rev (takeWhile is_digit (rev s)))"

lemma ticket_seq_number:
  assumes "0 \<le> k" shows "ticket_seq (generate_ticket_number t k) = nat k"
proof -
  let ?y = "dec (year_of (date_of t))" and ?p = "decpad 3 (nat k)"
  have "takeWhile is_digit (rev (generate_ticket_number t k)) = rev ?p"
    using assms list_all_decpad [of 3 "nat k"]
    by (simp add: generate_ticket_number_def dec03_def list_all_iff)
      (subst takeWhile_append2; simp)
  then show ?thesis by (simp add: ticket_seq_def)
qed

text \<open>The tickets carry the numbers from one on, in the order they were opened.\<close>

definition numbered :: "'a hr_world_scheme \<Rightarrow> bool" where
  "numbered w \<longleftrightarrow> (\<exists>ts. map tk_number (tickets w)
     = map (\<lambda>(t, k). generate_ticket_number t (int k)) (zip ts [1..<Suc (length (tickets w))])
     \<and> length ts = length (tickets w))"

lemma numbered_seqs:
  assumes "numbered w" shows "map (ticket_seq \<circ> tk_number) (tickets w) = [1..<Suc (length (tickets w))]"
proof -
  obtain ts where ts: "map tk_number (tickets w)
      = map (\<lambda>(t, k). generate_ticket_number t (int k)) (zip ts [1..<Suc (length (tickets w))])"
    "length ts = length (tickets w)"
    using assms by (auto simp: numbered_def)
  have "map (ticket_seq \<circ> tk_number) (tickets w) = map ticket_seq (map tk_number (tickets w))"
    by simp
  also have "\<dots> = map snd (zip ts [1..<Suc (length (tickets w))])"
    unfolding ts(1) by (simp add: ticket_seq_number case_prod_unfold del: upt_Suc)
  also have "\<dots> = [1..<Suc (length (tickets w))]" using ts(2) by (simp del: upt_Suc)
  finally show ?thesis .
qed

lemma numbered_distinct: "numbered w \<Longrightarrow> distinct (map tk_number (tickets w))"
  using numbered_seqs [of w] distinct_map [of "ticket_seq \<circ> tk_number" "tickets w"]
  by (metis distinct_map distinct_upt map_map)

lemma numbered_fresh:
  assumes "numbered w" "t \<in> set (tickets w)"
  shows "tk_number t \<noteq> generate_ticket_number u (int (length (tickets w)) + 1)"
proof
  assume eq: "tk_number t = generate_ticket_number u (int (length (tickets w)) + 1)"
  have "(ticket_seq \<circ> tk_number) t \<in> set (map (ticket_seq \<circ> tk_number) (tickets w))"
    unfolding set_map using assms(2) by (rule imageI)
  then have "ticket_seq (tk_number t) < Suc (length (tickets w))"
    unfolding numbered_seqs [OF assms(1)] by auto
  then show False unfolding eq by (simp add: ticket_seq_number nat_add_distrib)
qed

lemma numbered_snoc:
  assumes "numbered w" "tk_number t = generate_ticket_number u (int (length (tickets w)) + 1)"
    "tickets w' = tickets w @ [t]"
  shows "numbered w'"
proof -
  obtain ts where ts: "map tk_number (tickets w)
      = map (\<lambda>(t, k). generate_ticket_number t (int k)) (zip ts [1..<Suc (length (tickets w))])"
    "length ts = length (tickets w)"
    using assms(1) by (auto simp: numbered_def)
  have "zip (ts @ [u]) [1..<Suc (Suc (length (tickets w)))]
      = zip ts [1..<Suc (length (tickets w))] @ [(u, Suc (length (tickets w)))]"
  proof -
    have "[1..<Suc (Suc (length (tickets w)))]
        = [1..<Suc (length (tickets w))] @ [Suc (length (tickets w))]"
      by (rule upt_Suc_append) simp
    then show ?thesis using ts(2) by (simp only: zip_append length_upt) simp
  qed
  then show ?thesis
    unfolding numbered_def using ts assms(2,3)
    by (intro exI [of _ "ts @ [u]"]) (simp add: add.commute del: upt_Suc)
qed

definition plain_server :: "'a hr_world_scheme \<Rightarrow> bool" where
  "plain_server w \<longleftrightarrow> outcomes w = [] \<and> \<not> db_nil w \<and> uuid_in w = Some"

lemma run_ticket_employee:
  assumes "outcomes w = []"
  shows "\<exists>e. run_state (ticket_employee uid) w = (e, w)"
  using assms by (simp add: ticket_employee_def run_bind run_select_row_calm)

text \<open>
  Ticket numbers do not collide. While tickets are only added, the number made from their
  count is always free: on a server where no statement fails, a ticket with a category, a subject
  and a description is stored as OPEN under the next number, whatever the years of the others, and
  the numbers stay distinct.
\<close>

theorem ticket_numbers_free:
  assumes "numbered w" "plain_server w"
    "hk_cat req \<noteq> ''''" "hk_subject req \<noteq> ''''" "hk_desc req \<noteq> ''''"
  shows "let (resp, w') = run_state (handle_create_ticket (Some c) (Some req)) w
         in rcode resp = status_ok
            \<and> (\<exists>t. tickets w' = tickets w @ [t] \<and> tk_status t = ''OPEN''
                 \<and> tk_number t = generate_ticket_number (now w) (int (length (tickets w)) + 1))
            \<and> numbered w' \<and> distinct (map tk_number (tickets w'))"
proof -
  let ?n = "generate_ticket_number (now w) (int (length (tickets w)) + 1)"
  have p: "outcomes w = []" "\<not> db_nil w" "uuid_in w = Some"
    using assms(2) by (simp_all add: plain_server_def)
  obtain e where e: "run_state (ticket_employee (cl_user c)) w = (e, w)"
    using run_ticket_employee [OF p(1)] by blast
  define row where "row = (\<lambda>r :: helpdesk_ticket. \<lparr>tk_id = ids w (issued w), tk_number = ?n, tk_emp = e,
      tk_cat = hk_cat r, tk_subject = hk_subject r, tk_desc = hk_desc r,
      tk_priority = hk_priority r, tk_status = ''OPEN'', tk_assigned = None, tk_resolved = None,
      tk_notes = None, tk_created = now w\<rparr>)"
  have ins: "run_state (insert_ticket ?n e r) w
      = (Some (ids w (issued w)), w\<lparr>tickets := tickets w @ [row r], issued := issued w + 1\<rparr>)" for r
    using numbered_fresh [OF assms(1), of _ "now w"] p
    by (auto simp: insert_ticket_def run_insert_calm row_def)
  let ?req = "if hk_priority req = '''' then req\<lparr>hk_priority := ''MEDIUM''\<rparr> else req"
  obtain resp w' where run: "run_state (handle_create_ticket (Some c) (Some req)) w = (resp, w')"
    by fastforce
  have res: "rcode resp = status_ok" "tickets w' = tickets w @ [row ?req]"
    using run assms(3-5) e ins [of ?req] p
    by (auto simp: handle_create_ticket_def run_bind run_orelse or_zero_def run_select_calm
        run_log_action ticket_answer_def Let_def)
  moreover have row: "tk_status (row ?req) = ''OPEN''" "tk_number (row ?req) = ?n"
    by (simp_all add: row_def)
  moreover have n: "numbered w'" by (rule numbered_snoc [OF assms(1) row(2) res(2)])
  moreover note numbered_distinct [OF n]
  ultimately show ?thesis unfolding run Let_def prod.case by blast
qed

definition demo_ticket :: helpdesk_ticket where
  "demo_ticket = \<lparr>hk_id = '''', hk_number = '''', hk_emp = '''', hk_emp_code = '''',
     hk_emp_name = '''', hk_cat = ''c1'', hk_cat_name = '''', hk_subject = ''vpn'',
     hk_desc = ''no access'', hk_priority = '''', hk_status = '''', hk_assigned = '''',
     hk_assigned_name = '''', hk_sla = 0, hk_breached = False, hk_resolved = '''',
     hk_notes = '''', hk_created = '''', hk_comments = 0\<rparr>"

theorem ticket_numbers_free_witness:
  "let (resp, w') = run_state (handle_create_ticket (Some admin_claims) (Some demo_ticket)) empty_hr
   in rcode resp = status_ok \<and> length (tickets w') = 1 \<and> numbered w'"
proof -
  have "numbered empty_hr" "plain_server empty_hr" "tickets empty_hr = []"
    by (simp_all add: numbered_def plain_server_def empty_hr_def empty_world_def world.defs
        hr_world.defs)
  then show ?thesis
    using ticket_numbers_free [of empty_hr demo_ticket admin_claims]
    by (auto simp: demo_ticket_def Let_def)
qed

section \<open>Service levels\<close>

text \<open>The longest duration in hours that 64-bit nanoseconds hold.\<close>

definition max_hours :: int where
  "max_hours = 2562047"

text \<open>
  The service level holds up to its overflow. A ticket that is neither resolved nor closed
  breaches a positive level of at most 2562047 hours exactly when more than these hours have passed
  since it was opened. One hour above, the duration wraps around and the deadline lies 292 years
  before the ticket, which breaches at once.
\<close>

theorem sla_exact_up_to_overflow:
  assumes "status \<noteq> ''RESOLVED''" "status \<noteq> ''CLOSED''" "0 < h" "h \<le> max_hours"
  shows "(evaluate_sla_breach t created h status \<longleftrightarrow> h * nanos_per_hour < t - created)
         \<and> (created \<le> t \<longrightarrow> evaluate_sla_breach t created (max_hours + 1) status)"
proof (intro conjI impI)
  have "0 \<le> h * nanos_per_hour" "h * nanos_per_hour \<le> 2562047 * nanos_per_hour"
    using assms by (auto simp: max_hours_def nanos_per_hour_def)
  then have "int64 (h * nanos_per_hour)" by (auto simp: int64_def nanos_per_hour_def)
  then show "evaluate_sla_breach t created h status \<longleftrightarrow> h * nanos_per_hour < t - created"
    using assms by (auto simp: evaluate_sla_breach_def)
  show "evaluate_sla_breach t created (max_hours + 1) status" if "created \<le> t"
    using assms that
    by (simp add: evaluate_sla_breach_def max_hours_def nanos_per_hour_def wrap64_def)
qed

theorem sla_exact_up_to_overflow_witness:
  "\<not> evaluate_sla_breach (24 * nanos_per_hour) 0 24 ''OPEN''
   \<and> evaluate_sla_breach (24 * nanos_per_hour) 0 (max_hours + 1) ''OPEN''"
  using sla_exact_up_to_overflow [of "''OPEN''" 24 "24 * nanos_per_hour" 0]
  by (simp add: max_hours_def nanos_per_hour_def)

section \<open>The tickets under all operations\<close>

definition ticket_states :: "string list" where
  "ticket_states = [''OPEN'', ''IN_PROGRESS'', ''RESOLVED'', ''CLOSED'']"

text \<open>
  Ticket numbers and category names are distinct, categories have a positive service level, every
  ticket is in one of the four states, and has a time of resolution and an agent once resolved or
  closed.
\<close>

definition ticket_ok :: "ticket_row \<Rightarrow> bool" where
  "ticket_ok t \<longleftrightarrow> tk_status t \<in> set ticket_states
     \<and> (tk_status t \<in> {''RESOLVED'', ''CLOSED''} \<longrightarrow> tk_resolved t \<noteq> None \<and> tk_assigned t \<noteq> None)"

definition desk_ok :: "'a hr_world_scheme \<Rightarrow> bool" where
  "desk_ok w \<longleftrightarrow>
     distinct (map tk_number (tickets w)) \<and> distinct (map hc_name (categories w))
     \<and> (\<forall>c\<in>set (categories w). 0 < hc_sla c) \<and> (\<forall>t\<in>set (tickets w). ticket_ok t)"

lemma desk_ok_stable [simp]: "stable desk_ok"
  by (simp add: stable_def desk_ok_def)

text \<open>The actions of the interface; with any other the ticket keeps the state it was read with.\<close>

definition ticket_actions :: "string list" where
  "ticket_actions = [''ASSIGN'', ''START_PROGRESS'', ''RESOLVE'', ''CLOSE'', ''REOPEN'']"

lemma ticket_action_state:
  "a \<in> set ticket_actions \<Longrightarrow> process_ticket_transition s a \<in> set ticket_states"
  "a \<in> set ticket_actions \<Longrightarrow> process_ticket_transition s a \<in> {''RESOLVED'', ''CLOSED''} \<longleftrightarrow>
     a = ''RESOLVE'' \<or> a = ''CLOSE''"
  by (auto simp: ticket_actions_def ticket_states_def process_ticket_transition_def)

lemma desk_log [keeps_rules]: "keeps desk_ok (log_action e)"
  by (rule keeps_log_action) (simp_all add: desk_ok_def)

lemma keeps_insert_category: "0 < ct_sla c \<Longrightarrow> keeps desk_ok (insert_category c)"
  unfolding insert_category_def
  by (rule keeps_insert_row) (force simp: desk_ok_def split: if_splits)+

lemma keeps_create_category: "keeps desk_ok (handle_create_category cl body)"
  unfolding handle_create_category_def
  by (auto simp: Let_def split: option.split intro!: keeps_rules keeps_insert_category)

lemma keeps_insert_ticket: "keeps desk_ok (insert_ticket n e req)"
  unfolding insert_ticket_def
  by (rule keeps_insert_row)
    (auto simp: desk_ok_def ticket_ok_def ticket_states_def split: if_splits option.splits)

lemma keeps_create_ticket: "keeps desk_ok (handle_create_ticket cl body)"
  unfolding handle_create_ticket_def ticket_employee_def or_zero_def Let_def
  by (intro keeps_rules keeps_insert_ticket desk_ok_stable)

lemma keeps_add_comment: "keeps desk_ok (handle_add_comment cl tid body)"
  unfolding handle_add_comment_def insert_comment_def Let_def
  by (intro keeps_rules keeps_insert_row desk_ok_stable)
    (auto simp: desk_ok_def split: option.splits)

lemma keeps_update_ticket:
  assumes "\<And>n t u. ticket_ok (f n (t\<lparr>tk_status := st, tk_assigned := Some u\<rparr>))"
    "\<And>n t. tk_number (f n t) = tk_number t"
  shows "keeps desk_ok (update_ticket f st uid tid)"
  unfolding update_ticket_def
  by (rule keeps_exec)
    (use assms in \<open>auto simp: desk_ok_def map_upd_where in_upd_where split: option.splits\<close>)

lemma keeps_transition_ticket:
  assumes "\<And>req. body = Some req \<Longrightarrow> tr_action req \<in> set ticket_actions \<union> {''''}"
  shows "keeps desk_ok (handle_transition_ticket cl tid body)"
proof -
  have upd: "keeps desk_ok (if a = ''RESOLVE'' \<or> a = ''CLOSE''
      then update_ticket (\<lambda>t r. r\<lparr>tk_resolved := Some t, tk_notes := Some n\<rparr>)
             (process_ticket_transition s a) u tid
      else update_ticket (\<lambda>_ r. r) (process_ticket_transition s a) u tid)"
    if "a \<in> set ticket_actions" for a n s u
    using ticket_action_state [OF that, of s]
    by (auto intro!: keeps_update_ticket simp: ticket_ok_def)
  show ?thesis
    unfolding handle_transition_ticket_def Let_def
    using assms by (auto split: option.split intro!: keeps_rules upd)
qed

text \<open>One request to the helpdesk, at any time and with any statements failing.\<close>

inductive desk_step :: "hr_world \<Rightarrow> hr_world \<Rightarrow> bool" where
  category: "desk_step w (snd (run_state (handle_create_category cl cat) w))"
| ticket: "desk_step w (snd (run_state (handle_create_ticket cl tk) w))"
| comment: "desk_step w (snd (run_state (handle_add_comment cl tid txt) w))"
| transition: "(\<And>req. body = Some req \<Longrightarrow> tr_action req \<in> set ticket_actions \<union> {''''}) \<Longrightarrow>
    desk_step w (snd (run_state (handle_transition_ticket cl tid body) w))"
| elsewhere: "tickets w' = tickets w \<Longrightarrow> categories w' = categories w \<Longrightarrow> desk_step w w'"

inductive_cases desk_stepE: "desk_step w w'"

lemma desk_step_ok: "desk_step w w' \<Longrightarrow> desk_ok w \<Longrightarrow> desk_ok w'"
proof (induction rule: desk_step.induct)
  case (elsewhere w' w)
  then show ?case by (simp add: desk_ok_def)
qed (auto intro: keepsD keeps_create_category keeps_create_ticket keeps_add_comment
      keeps_transition_ticket)


lemma empty_desk_ok: "desk_ok empty_hr"
  by (simp add: desk_ok_def empty_hr_def world.defs hr_world.defs)


text \<open>
  An unknown action after a failed read erases the state. When the query for the current state
  of a ticket fails for an outside reason and the action is not one of the interface, the update
  stores the empty text as the state of the ticket, and the answer is a success.
\<close>

theorem unknown_action_erases_state:
  assumes "outcomes w = [False]" "\<not> db_nil w" "uuid_in w = Some"
    "has_role (Some c) [''SUPER_ADMIN'', ''HR_ADMIN'']" "tr_action req \<notin> set ticket_actions"
    "tr_action req \<noteq> ''''" "t \<in> set (tickets w)"
  shows "let (resp, w') = run_state (handle_transition_ticket (Some c) (tk_id t) (Some req)) w
         in rcode resp = status_ok
            \<and> (\<exists>t'\<in>set (tickets w'). tk_id t' = tk_id t \<and> tk_status t' = '''')"
proof -
  have a: "tr_action req \<noteq> ''RESOLVE''" "tr_action req \<noteq> ''CLOSE''"
    "process_ticket_transition '''' (tr_action req) = ''''"
    using assms(5) by (auto simp: ticket_actions_def process_ticket_transition_def)
  have read: "run_state (query_row f) w = (None, w\<lparr>outcomes := []\<rparr>)"
    for f :: "'a hr_world_scheme \<Rightarrow> string list option"
    using assms(1) by (simp add: query_row_def query_def stmt_def next_ok_def)
  have row: "t\<lparr>tk_status := '''', tk_assigned := Some (cl_user c)\<rparr>
      \<in> set (upd_where (\<lambda>r. tk_id r = tk_id t)
          (\<lambda>r. r\<lparr>tk_status := '''', tk_assigned := Some (cl_user c)\<rparr>) (tickets w))"
    using assms(7) by (auto simp: in_upd_where)
  show ?thesis
    using assms(2-4,6) a read bexI [OF _ row]
    by (simp add: handle_transition_ticket_def run_bind run_exec_calm update_ticket_def
        run_log_action Let_def)
qed

theorem unknown_action_erases_state_witness:
  "let w = empty_hr\<lparr>outcomes := [False], tickets := [\<lparr>tk_id = ''t1'', tk_number = ''TICK-2026-001'',
         tk_emp = ''e1'', tk_cat = ''c1'', tk_subject = ''vpn'', tk_desc = ''x'',
         tk_priority = ''LOW'', tk_status = ''OPEN'', tk_assigned = None, tk_resolved = None,
         tk_notes = None, tk_created = 0\<rparr>]\<rparr>;
       (resp, w') = run_state (handle_transition_ticket (Some admin_claims) ''t1''
         (Some \<lparr>tr_action = ''ESCALATE'', tr_notes = ''''\<rparr>)) w
   in rcode resp = status_ok \<and> (\<exists>t'\<in>set (tickets w'). tk_status t' = '''')"
  using unknown_action_erases_state [of "empty_hr\<lparr>outcomes := [False], tickets :=
        [\<lparr>tk_id = ''t1'', tk_number = ''TICK-2026-001'',
         tk_emp = ''e1'', tk_cat = ''c1'', tk_subject = ''vpn'', tk_desc = ''x'',
         tk_priority = ''LOW'', tk_status = ''OPEN'', tk_assigned = None, tk_resolved = None,
         tk_notes = None, tk_created = 0\<rparr>]\<rparr>" admin_claims
      "\<lparr>tr_action = ''ESCALATE'', tr_notes = ''''\<rparr>"]
  by (auto simp: ticket_actions_def Let_def empty_hr_def empty_world_def world.defs hr_world.defs)

end
