(* ===== verification/Jobs.thy ===== *)
theory Jobs
  imports Authz Dates
begin

text \<open>
  \<^verbatim>\<open>internal/jobs/jobs.go\<close>: the service that runs named jobs under idempotency keys. Its state
  is in memory, guarded by a mutex that \<^verbatim>\<open>ExecuteJob\<close> takes twice: \<open>start_job\<close> and
  \<open>finish_job\<close> are the two critical sections, between which other requests may run. Within one
  section the clock is read once.
\<close>

section \<open>State\<close>

record job_execution =
  jx_id :: string
  jx_name :: string
  jx_key :: string
  jx_status :: string
  jx_started :: int
  jx_completed :: int
  jx_duration :: int
  jx_items :: int
  jx_summary :: string
  jx_error :: string

record job_state =
  jb_history :: "job_execution list"
  jb_active :: "string \<Rightarrow> bool"

definition execution_json :: "job_execution \<Rightarrow> json" where
  "execution_json e =
     JObj ([(''id'', JStr (jx_id e)), (''job_name'', JStr (jx_name e)),
            (''idempotency_key'', JStr (jx_key e)), (''status'', JStr (jx_status e)),
            (''started_at'', JInt (jx_started e)), (''completed_at'', JInt (jx_completed e)),
            (''duration_ms'', JInt (jx_duration e)), (''items_processed'', JInt (jx_items e)),
            (''summary'', JStr (jx_summary e))]
           @ nonempty_field ''error_message'' (jx_error e))"

definition nanos_per_milli :: int where "nanos_per_milli = 1000000"

text \<open>\<^verbatim>\<open>Format("2006-01")\<close> and \<^verbatim>\<open>Format("2006-01-02-15-04")\<close>.\<close>

definition show_month :: "int \<Rightarrow> string" where
  "show_month n = decpad 4 (nat (year_of n)) @ ''-'' @ decpad 2 (nat (month_of n))"

definition show_minute :: "int \<Rightarrow> string" where
  "show_minute t =
     (let s = seconds_of_day t
      in show_date (date_of t) @ ''-'' @ decpad 2 (nat (s div 3600)) @ ''-''
           @ decpad 2 (nat (s div 60 mod 60)))"

definition seed_default_history :: "int \<Rightarrow> job_execution list" where
  "seed_default_history t =
     [\<lparr>jx_id = ''job-exec-101'', jx_name = ''ATTENDANCE_NIGHTLY_CALCULATION'',
       jx_key = ''nightly-calc-'' @ show_date (date_of t), jx_status = ''SUCCESS'',
       jx_started = t - 24 * nanos_per_hour,
       jx_completed = t - 24 * nanos_per_hour + 350 * nanos_per_milli, jx_duration = 350,
       jx_items = 169, jx_summary = ''Processed 169 daily attendance punch status records.'',
       jx_error = ''''\<rparr>,
      \<lparr>jx_id = ''job-exec-102'', jx_name = ''MONTHLY_LEAVE_ACCRUAL'',
       jx_key = ''leave-accrual-'' @ show_month (date_of t), jx_status = ''SUCCESS'',
       jx_started = t - 48 * nanos_per_hour,
       jx_completed = t - 48 * nanos_per_hour + 120 * nanos_per_milli, jx_duration = 120,
       jx_items = 169,
       jx_summary = ''Credited monthly leave balance (+1.5 CL, +1.0 EL) for 169 active employees.'',
       jx_error = ''''\<rparr>]"

definition new_service :: "int \<Rightarrow> job_state" where
  "new_service t = \<lparr>jb_history = [] @ seed_default_history t, jb_active = (\<lambda>_. False)\<rparr>"

section \<open>Execution\<close>

text \<open>What the first critical section decides.\<close>

datatype start_result =
    Skipped job_execution
  | Refused string
  | Started job_execution

definition fresh_success :: "int \<Rightarrow> string \<Rightarrow> job_execution \<Rightarrow> bool" where
  "fresh_success t key h \<longleftrightarrow>
     jx_key h = key \<and> jx_status h = ''SUCCESS'' \<and> t - jx_completed h < 5 * nanos_per_minute"

definition start_job :: "int \<Rightarrow> string \<Rightarrow> string \<Rightarrow> job_state \<Rightarrow> start_result \<times> job_state" where
  "start_job t name key s =
     (case find (fresh_success t key) (jb_history s) of
        Some h \<Rightarrow>
          (Skipped (h\<lparr>jx_status := ''SKIPPED'',
             jx_summary := ''Job execution skipped due to active idempotency key deduplication.''\<rparr>), s)
      | None \<Rightarrow>
          if jb_active s key
          then (Refused (''job with idempotency key '' @ key @ '' is already currently running''), s)
          else
            (Started \<lparr>jx_id = ''job-exec-'' @ dec t, jx_name = name, jx_key = key,
               jx_status = ''RUNNING'', jx_started = t, jx_completed = 0, jx_duration = 0,
               jx_items = 0, jx_summary = '''', jx_error = ''''\<rparr>,
             s\<lparr>jb_active := (jb_active s)(key := True)\<rparr>))"

definition rupee_sign :: string where
  "rupee_sign = [char_of (0xE2 :: nat), char_of (0x82 :: nat), char_of (0xB9 :: nat)]"

definition job_logic :: "string \<Rightarrow> int \<times> string" where
  "job_logic name =
     (if name = ''ATTENDANCE_NIGHTLY_CALCULATION''
      then (169, ''Nightly attendance shift calculation completed. 169 employee punch logs processed.'')
      else if name = ''MONTHLY_LEAVE_ACCRUAL''
      then (169, ''Monthly leave accrual credited 1.5 Casual Leave & 1.0 Earned Leave days per active employee.'')
      else if name = ''AUTO_PAYROLL_DRAFT_RUN''
      then (169, ''Pre-generated draft payroll matrix for active cycle. Gross: '' @ rupee_sign
              @ ''1,24,50,000, Deductions: '' @ rupee_sign @ ''18,90,000.'')
      else (1, ''Executed generic background task '' @ name @ '' successfully.''))"

text \<open>The second section; no job fails, since nothing assigns the error.\<close>

definition finish_job :: "int \<Rightarrow> job_execution \<Rightarrow> job_state \<Rightarrow> job_execution \<times> job_state" where
  "finish_job t e s =
     (let (items, summary) = job_logic (jx_name e);
          e' = e\<lparr>jx_completed := t, jx_duration := tdiv (t - jx_started e) nanos_per_milli,
                 jx_items := items, jx_summary := summary, jx_status := ''SUCCESS''\<rparr>
      in (e', s\<lparr>jb_active := (jb_active s)(jx_key e := False), jb_history := e' # jb_history s\<rparr>))"

text \<open>A call that no other one interrupts, from \<open>t\<close> to \<open>t'\<close>.\<close>

definition execute_job ::
  "int \<Rightarrow> int \<Rightarrow> string \<Rightarrow> string \<Rightarrow> job_state \<Rightarrow> (string + job_execution) \<times> job_state" where
  "execute_job t t' name key s =
     (case start_job t name key s of
        (Skipped e, s') \<Rightarrow> (Inr e, s')
      | (Refused msg, s') \<Rightarrow> (Inl msg, s')
      | (Started e, s') \<Rightarrow> (case finish_job t' e s' of (e', s'') \<Rightarrow> (Inr e', s'')))"

section \<open>Requests\<close>

record trigger_request =
  tq_name :: string
  tq_key :: string

definition handle_trigger_job ::
  "int \<Rightarrow> int \<Rightarrow> claims option \<Rightarrow> trigger_request option \<Rightarrow> job_state \<Rightarrow> response \<times> job_state" where
  "handle_trigger_job t t' cl body s =
     (if cl = None \<or> \<not> has_role cl [''SUPER_ADMIN'', ''HR_ADMIN'', ''PAYROLL_ADMIN'']
      then (forbidden_response ''FORBIDDEN_ROLE''
              ''Only administrators can trigger background automation jobs.'', s)
      else
        (case body of
           None \<Rightarrow> (http_error ''invalid job payload'' status_bad_request, s)
         | Some req \<Rightarrow>
             if tq_name req = '''' then (http_error ''invalid job payload'' status_bad_request, s)
             else
               (let key = (if tq_key req = '''' then tq_name req @ ''-'' @ show_minute t
                           else tq_key req)
                in case execute_job t t' (tq_name req) key s of
                     (Inl msg, s') \<Rightarrow> (fail_json status_internal msg, s')
                   | (Inr e, s') \<Rightarrow>
                       (respond status_ok [(''success'', JBool True), (''data'', execution_json e)],
                        s'))))"

definition handle_get_job_history :: "job_state \<Rightarrow> response" where
  "handle_get_job_history s = data_response (map execution_json (jb_history s))"

end
