(* ===== verification/Jobs_Safety.thy ===== *)
theory Jobs_Safety
  imports Jobs
begin

text \<open>
  The job service under interleaved requests: a step is one of the two critical sections of
  \<^verbatim>\<open>ExecuteJob\<close>, and the executions between their sections are carried along. The clock
  does not run backwards.
\<close>

section \<open>Interleaved executions\<close>

type_synonym job_system = "int \<times> job_state \<times> job_execution list"

inductive jobs_step :: "job_system \<Rightarrow> job_system \<Rightarrow> bool" where
  trigger: "clk \<le> t \<Longrightarrow> start_job t name key s = (r, s') \<Longrightarrow>
    rs' = (case r of Started e \<Rightarrow> e # rs | _ \<Rightarrow> rs) \<Longrightarrow> jobs_step (clk, s, rs) (t, s', rs')"
| finish: "clk \<le> t \<Longrightarrow> e \<in> set rs \<Longrightarrow> finish_job t e s = (e', s') \<Longrightarrow>
    jobs_step (clk, s, rs) (t, s', remove1 e rs)"

inductive_cases jobs_stepE: "jobs_step x y"
inductive_simps jobs_step_from: "jobs_step (clk, s, rs) y"

definition dedup_window :: int where
  "dedup_window = 5 * nanos_per_minute"

text \<open>An execution that began after the window of an earlier one of its key.\<close>

definition spaced :: "job_execution \<Rightarrow> job_execution \<Rightarrow> bool" where
  "spaced new old \<longleftrightarrow> (jx_key new = jx_key old \<longrightarrow> jx_completed old + dedup_window \<le> jx_started new)"

definition jobs_ok :: "job_system \<Rightarrow> bool" where
  "jobs_ok = (\<lambda>(clk, s, rs).
     distinct (map jx_key rs)
     \<and> (\<forall>k. jb_active s k \<longleftrightarrow> k \<in> jx_key ` set rs)
     \<and> (\<forall>h\<in>set (jb_history s). jx_completed h \<le> clk \<and> jx_status h = ''SUCCESS'')
     \<and> (\<forall>r\<in>set rs. \<forall>h\<in>set (jb_history s). spaced r h)
     \<and> sorted_wrt spaced (jb_history s))"

lemma new_service_ok: "jobs_ok (t, new_service t, [])"
  by (simp add: jobs_ok_def new_service_def seed_default_history_def spaced_def nanos_per_hour_def
      nanos_per_milli_def)

lemma start_ok:
  assumes "jobs_ok (clk, s, rs)" "clk \<le> t" "start_job t name key s = (r, s')"
  shows "jobs_ok (t, s', case r of Started e \<Rightarrow> e # rs | _ \<Rightarrow> rs)"
proof (cases "find (fresh_success t key) (jb_history s)")
  case (Some h)
  then show ?thesis using assms by (auto simp: start_job_def jobs_ok_def)
next
  case None
  then have old: "jx_key h = key \<Longrightarrow> jx_completed h + dedup_window \<le> t" if "h \<in> set (jb_history s)" for h
    using that assms(1) by (auto simp: find_None_iff fresh_success_def jobs_ok_def dedup_window_def)
  show ?thesis
  proof (cases "jb_active s key")
    case True
    then show ?thesis using assms None by (auto simp: start_job_def jobs_ok_def)
  next
    case False
    have "\<forall>h\<in>set (jb_history s). jx_completed h \<le> t"
      using assms(1,2) by (auto simp: jobs_ok_def intro: order_trans)
    then show ?thesis
      using assms None old False by (auto simp: start_job_def jobs_ok_def spaced_def)
  qed
qed

lemma distinct_key_remove1:
  "distinct (map k xs) \<Longrightarrow> x \<in> set xs \<Longrightarrow>
   distinct (map k (remove1 x xs)) \<and> k ` set (remove1 x xs) = k ` set xs - {k x}"
proof (induction xs)
  case (Cons y xs)
  show ?case
  proof (cases "x = y")
    case True
    then show ?thesis using Cons.prems(1) by auto
  next
    case False
    then have x: "x \<in> set xs" using Cons.prems(2) by simp
    then have "k y \<noteq> k x" using Cons.prems(1) by auto
    then show ?thesis using Cons False x by auto
  qed
qed simp

lemma finish_ok:
  assumes "jobs_ok (clk, s, rs)" "clk \<le> t" "e \<in> set rs" "finish_job t e s = (e', s')"
  shows "jobs_ok (t, s', remove1 e rs)"
proof -
  have d: "distinct (map jx_key rs)" using assms(1) by (simp add: jobs_ok_def)
  note r = distinct_key_remove1 [OF d assms(3)]
  have e': "jx_key e' = jx_key e" "jx_started e' = jx_started e" "jx_status e' = ''SUCCESS''"
    "jx_completed e' = t" "s' = s\<lparr>jb_active := (jb_active s)(jx_key e := False),
       jb_history := e' # jb_history s\<rparr>"
    using assms(4) by (auto simp: finish_job_def Let_def split: prod.splits)
  have "jx_key r \<noteq> jx_key e" if "r \<in> set (remove1 e rs)" for r
    using that r by auto
  moreover have "set (remove1 e rs) \<subseteq> set rs" by (rule set_remove1_subset)
  ultimately show ?thesis
    using assms(1-3) r e' by (auto simp: jobs_ok_def spaced_def)
qed

lemma jobs_step_ok: "jobs_step x y \<Longrightarrow> jobs_ok x \<Longrightarrow> jobs_ok y"
  by (induction rule: jobs_step.induct) (auto intro: start_ok finish_ok)

text \<open>
  C30. A key runs once per window. However requests interleave, from a new service on no two
  executions of the same idempotency key are in progress at once, the active keys are those in
  progress, and of two executions of the same key in the history the later one started at least
  five minutes after the earlier one completed.
\<close>

theorem jobs_deduplicated:
  assumes "jobs_step\<^sup>*\<^sup>* (t, new_service t, []) (clk, s, rs)"
  shows "distinct (map jx_key rs) \<and> (\<forall>k. jb_active s k \<longleftrightarrow> k \<in> jx_key ` set rs)
         \<and> sorted_wrt spaced (jb_history s)"
proof -
  have "jobs_ok (clk, s, rs)"
    using assms new_service_ok [of t] by (induction rule: rtranclp_induct) (auto intro: jobs_step_ok)
  then show ?thesis by (simp add: jobs_ok_def)
qed

theorem jobs_deduplicated_witness:
  "let (r, s) = start_job 0 ''CLEANUP'' ''k1'' (new_service 0)
   in jb_active s ''k1'' \<and> sorted_wrt spaced (jb_history s)"
proof -
  obtain r s where r: "start_job 0 ''CLEANUP'' ''k1'' (new_service 0) = (r, s)" by fastforce
  then have "jobs_step (0, new_service 0, []) (0, s, case r of Started e \<Rightarrow> [e] | _ \<Rightarrow> [])"
    by (intro jobs_step.trigger) auto
  then have "jobs_step\<^sup>*\<^sup>* (0, new_service 0, []) (0, s, case r of Started e \<Rightarrow> [e] | _ \<Rightarrow> [])" by auto
  moreover have "jb_active s ''k1''"
    using r by (auto simp: start_job_def new_service_def seed_default_history_def fresh_success_def)
  ultimately show ?thesis using jobs_deduplicated r by fastforce
qed



text \<open>
  A repeated trigger changes nothing. When a call has succeeded, a call with the same key less
  than five minutes after its completion is answered with the earlier execution marked SKIPPED, its
  items and times included, and leaves the service as it is, whatever job it names.
\<close>

theorem repeated_trigger_skipped:
  assumes "execute_job t t' name key s = (Inr e, s')" "jx_status e = ''SUCCESS''"
    "u - jx_completed e < dedup_window" "find (fresh_success u key) (jb_history s) = None"
  shows "\<exists>e'. execute_job u u' name' key s' = (Inr e', s') \<and> jx_status e' = ''SKIPPED''
           \<and> jx_id e' = jx_id e \<and> jx_items e' = jx_items e \<and> jx_completed e' = jx_completed e"
proof -
  have "jb_history s' = e # jb_history s \<and> jx_key e = key"
    using assms(1,2)
    by (auto simp: execute_job_def start_job_def finish_job_def Let_def
        split: option.splits if_splits prod.splits)
  then have "find (fresh_success u key) (jb_history s') = Some e"
    using assms(2,3) by (simp add: fresh_success_def dedup_window_def)
  then show ?thesis by (simp add: execute_job_def start_job_def)
qed

theorem repeated_trigger_skipped_witness:
  "\<exists>e s' e'. execute_job 0 10 ''CLEANUP'' ''k1'' (new_service 0) = (Inr e, s')
     \<and> execute_job 20 30 ''OTHER'' ''k1'' s' = (Inr e', s') \<and> jx_status e' = ''SKIPPED''"
proof -
  have none: "find (fresh_success u ''k1'') (jb_history (new_service 0)) = None" for u
    by (simp add: new_service_def seed_default_history_def fresh_success_def)
  obtain e s' where e: "execute_job 0 10 ''CLEANUP'' ''k1'' (new_service 0) = (Inr e, s')"
    "jx_status e = ''SUCCESS''" "jx_completed e = 10"
    using none [of 0]
    by (auto simp: execute_job_def start_job_def finish_job_def job_logic_def new_service_def Let_def)
  then show ?thesis
    using repeated_trigger_skipped [OF e(1,2), of 20 30 "''OTHER''"] none
    by (auto simp: dedup_window_def nanos_per_minute_def)
qed

end
