(* ===== verification/Security.thy ===== *)
theory Security
  imports Authz
begin

text \<open>
  \<^verbatim>\<open>internal/security/security.go\<close>: the data scope of a role, the masking of personal fields,
  the log of data accesses and the published access matrix. What the masks disclose is stated as
  non-interference: values that agree on the part shown have the same mask.
\<close>

section \<open>Scopes and masks\<close>

definition evaluate_data_scope :: "string \<Rightarrow> string" where
  "evaluate_data_scope role =
     (let upper = to_upper (trim_space role)
      in if upper = ''SUPER_ADMIN'' \<or> upper = ''HR_ADMIN'' \<or> upper = ''ADMIN'' then ''ALL''
         else if upper = ''MANAGER'' \<or> upper = ''LEAD'' then ''DEPARTMENT''
         else if upper = ''EMPLOYEE'' \<or> upper = ''USER'' then ''SELF''
         else ''SELF'')"

text \<open>\<^verbatim>\<open>strings.Repeat("*", n)\<close>.\<close>

abbreviation stars :: "nat \<Rightarrow> string" where
  "stars n \<equiv> replicate n CHR ''*''"

definition mask_sensitive_field :: "string \<Rightarrow> string \<Rightarrow> string" where
  "mask_sensitive_field value field_type =
     (let v = trim_space value; kind = to_upper field_type
      in if v = '''' then ''''
         else if kind = ''BANK_ACCOUNT''
         then (if length v \<le> 4 then ''****''
               else stars (length v - 4) @ drop (length v - 4) v)
         else if kind = ''TAX_ID'' \<or> kind = ''SSN'' \<or> kind = ''PAN''
         then (if length v \<le> 4 then ''****''
               else take 2 v @ stars (length v - 4) @ drop (length v - 2) v)
         else if kind = ''SALARY'' then ''[RESTRICTED - ADMIN ONLY]''
         else if kind = ''EMAIL''
         then (case split_on CHR ''@'' v of
                 [local, domain] \<Rightarrow>
                   if length local \<le> 2 then ''***@***.com''
                   else take 2 local @ ''***@'' @ domain
               | _ \<Rightarrow> ''***@***.com'')
         else v)"

section \<open>The access log\<close>

definition access_json :: "access_row \<times> user_row \<Rightarrow> json" where
  "access_json = (\<lambda>(l, u).
     JObj ([(''id'', JStr (dl_id l)), (''user_id'', JStr (dl_user l))]
           @ nonempty_field ''user_email'' (u_email u) @ nonempty_field ''user_role'' ''ADMIN''
           @ [(''module'', JStr (dl_module l)), (''action'', JStr (dl_action l))]
           @ nonempty_field ''resource_id'' (text_or_empty (dl_resource l))
           @ nonempty_field ''ip_address'' (text_or_empty (dl_ip l))
           @ nonempty_field ''user_agent'' (text_or_empty (dl_agent l))
           @ [(''accessed_at'', JStr (show_time (dl_at l)))]))"

definition handle_get_access_logs :: "claims option \<Rightarrow> ('a hr_world_scheme, response) state" where
  "handle_get_access_logs cl =
     (if cl = None \<or> \<not> has_role cl [''SUPER_ADMIN'', ''HR_ADMIN'']
      then State_Monad.return (forbidden_response ''FORBIDDEN_ROLE''
             ''Only Security Admins can view access audit logs.'')
      else do {
        nil \<leftarrow> reads db_nil;
        err \<leftarrow> reads err_text;
        (if nil then State_Monad.return db_unavailable
         else
           orelse
             (select (\<lambda>w. take 100 (sort_key (\<lambda>(l, u). - dl_at l)
                [(l, u). l \<leftarrow> access_logs w, u \<leftarrow> users w, dl_user l = u_id u])))
             (fail_json status_internal err)
             (\<lambda>rs. State_Monad.return (data_response (map access_json rs))))
      })"

record access_request =
  lq_module :: string
  lq_action :: string
  lq_resource :: string

text \<open>\<open>ip\<close> and \<open>ua\<close> are the remote address and the user agent of the request.\<close>

definition insert_access ::
  "string \<Rightarrow> access_request \<Rightarrow> string \<Rightarrow> string \<Rightarrow> ('a hr_world_scheme, string option) state" where
  "insert_access uid req ip ua = insert_row (\<lambda>i w.
     case uuid_in w uid of
       None \<Rightarrow> None
     | Some u \<Rightarrow>
         Some (w\<lparr>access_logs := access_logs w @
           [\<lparr>dl_id = i, dl_user = u, dl_module = lq_module req, dl_action = lq_action req,
             dl_resource = Some (lq_resource req), dl_ip = Some ip, dl_agent = Some ua,
             dl_at = now w\<rparr>]\<rparr>))"

definition handle_log_access ::
  "claims option \<Rightarrow> access_request option \<Rightarrow> string \<Rightarrow> string \<Rightarrow> ('a hr_world_scheme, response) state"
  where
  "handle_log_access cl body ip ua =
     (case cl of
        None \<Rightarrow> State_Monad.return (http_error ''unauthorized'' status_unauthorized)
      | Some c \<Rightarrow>
          (case body of
             None \<Rightarrow> State_Monad.return (http_error ''invalid log payload'' status_bad_request)
           | Some req \<Rightarrow>
               if lq_module req = '''' \<or> lq_action req = ''''
               then State_Monad.return (http_error ''invalid log payload'' status_bad_request)
               else do {
                 nil \<leftarrow> reads db_nil;
                 _ \<leftarrow> (if nil then State_Monad.return None
                      else insert_access (cl_user c) req ip ua);
                 State_Monad.return
                   (respond status_ok
                      [(''success'', JBool True), (''message'', JStr ''Data access logged.'')])
               }))"

section \<open>The access matrix\<close>

record rbac_policy =
  rb_role :: string
  rb_module :: string
  rb_scope :: string
  rb_sensitive :: bool
  rb_export :: bool
  rb_actions :: "string list"

definition rbac_matrix :: "rbac_policy list" where
  "rbac_matrix =
     [\<lparr>rb_role = ''SUPER_ADMIN'', rb_module = ''ALL_MODULES'', rb_scope = ''ALL'',
       rb_sensitive = True, rb_export = True,
       rb_actions = [''CREATE'', ''READ'', ''UPDATE'', ''DELETE'', ''EXPORT'', ''AUDIT'']\<rparr>,
      \<lparr>rb_role = ''HR_ADMIN'', rb_module = ''EMPLOYEES_AND_PAYROLL'', rb_scope = ''ALL'',
       rb_sensitive = True, rb_export = True,
       rb_actions = [''CREATE'', ''READ'', ''UPDATE'', ''EXPORT'']\<rparr>,
      \<lparr>rb_role = ''MANAGER'', rb_module = ''ATTENDANCE_LEAVE_PERFORMANCE'', rb_scope = ''DEPARTMENT'',
       rb_sensitive = False, rb_export = False,
       rb_actions = [''READ'', ''APPROVE'', ''REJECT'']\<rparr>,
      \<lparr>rb_role = ''EMPLOYEE'', rb_module = ''ESS_AND_MY_PROFILE'', rb_scope = ''SELF'',
       rb_sensitive = False, rb_export = False,
       rb_actions = [''READ_SELF'', ''SUBMIT_REQUEST'']\<rparr>]"

definition handle_get_rbac_matrix :: response where
  "handle_get_rbac_matrix =
     data_response (map (\<lambda>p.
       JObj [(''role'', JStr (rb_role p)), (''module'', JStr (rb_module p)),
             (''scope'', JStr (rb_scope p)), (''can_read_sensitive'', JBool (rb_sensitive p)),
             (''can_export'', JBool (rb_export p)),
             (''allowed_actions'', JArr (map JStr (rb_actions p)))]) rbac_matrix)"

section \<open>What the masks disclose\<close>

text \<open>
  The part of a trimmed value that each kind of mask may show: its length and its end for an
  account, both ends for a tax number, nothing for a salary.
\<close>

definition disclosed :: "string \<Rightarrow> string \<Rightarrow> nat \<times> string \<times> string" where
  "disclosed kind v =
     (if kind = ''SALARY'' then (if v = '''' then 0 else 1, '''', '''')
      else if length v \<le> 4 then (if v = '''' then 0 else 1, '''', '''')
      else if kind = ''BANK_ACCOUNT'' then (length v, '''', drop (length v - 4) v)
      else (length v, take 2 v, drop (length v - 2) v))"

definition masked_kinds :: "string list" where
  "masked_kinds = [''BANK_ACCOUNT'', ''TAX_ID'', ''SSN'', ''PAN'', ''SALARY'']"

lemma to_upper_kinds: "k \<in> set masked_kinds \<Longrightarrow> to_upper k = k"
  by (auto simp: masked_kinds_def) code_simp+

text \<open>The mask is made of the disclosed part and stars.\<close>

lemma mask_from_disclosed:
  assumes "k \<in> set masked_kinds"
  shows "mask_sensitive_field x k =
    (case disclosed k (trim_space x) of (n, a, b) \<Rightarrow>
       if n = 0 then '''' else if k = ''SALARY'' then ''[RESTRICTED - ADMIN ONLY]''
       else if n \<le> 4 then ''****'' else a @ stars (n - 4) @ b)"
proof -
  note u = to_upper_kinds [OF assms]
  consider "k = ''BANK_ACCOUNT''" | "k = ''TAX_ID'' \<or> k = ''SSN'' \<or> k = ''PAN''" | "k = ''SALARY''"
    using assms by (auto simp: masked_kinds_def)
  then show ?thesis
  proof cases
    case 1
    then show ?thesis using u by (simp add: mask_sensitive_field_def disclosed_def Let_def)
  next
    case 2
    then show ?thesis using u by (elim disjE; simp add: mask_sensitive_field_def disclosed_def Let_def)
  next
    case 3
    then show ?thesis using u by (simp add: mask_sensitive_field_def disclosed_def Let_def)
  qed
qed

lemma mask_long:
  assumes "k \<in> set masked_kinds" "k \<noteq> ''SALARY''" "4 < length (trim_space x)"
  shows "mask_sensitive_field x k =
    (if k = ''BANK_ACCOUNT'' then stars (length (trim_space x) - 4) @ drop (length (trim_space x) - 4) (trim_space x)
     else take 2 (trim_space x) @ stars (length (trim_space x) - 4)
       @ drop (length (trim_space x) - 2) (trim_space x))"
  unfolding mask_from_disclosed [OF assms(1)] using assms(2,3) by (auto simp: disclosed_def)

text \<open>
  Masks hide what they should. For an account number, a tax number or a salary, two values
  that agree on the disclosed part (the length and the last four bytes of an account, the length
  and two bytes at each end of a tax number, nothing of a salary or of a value of four bytes or
  less) have the same mask, and every longer value keeps its length with at least its first or its
  middle bytes replaced by stars.
\<close>

theorem masks_hide:
  assumes "k \<in> set masked_kinds"
    "disclosed k (trim_space x) = disclosed k (trim_space y)"
  shows "mask_sensitive_field x k = mask_sensitive_field y k
         \<and> (k \<noteq> ''SALARY'' \<and> 4 < length (trim_space x) \<longrightarrow>
              length (mask_sensitive_field x k) = length (trim_space x)
              \<and> (\<forall>i. (if k = ''BANK_ACCOUNT'' then 0 else 2) \<le> i
                     \<and> i + (if k = ''BANK_ACCOUNT'' then 4 else 2) < length (trim_space x) \<longrightarrow>
                   mask_sensitive_field x k ! i = CHR ''*''))"
proof (intro conjI impI)
  show "mask_sensitive_field x k = mask_sensitive_field y k"
    unfolding mask_from_disclosed [OF assms(1)] assms(2) ..
next
  assume l: "k \<noteq> ''SALARY'' \<and> 4 < length (trim_space x)"
  note m = mask_long [OF assms(1) conjunct1 [OF l] conjunct2 [OF l]]
  show "length (mask_sensitive_field x k) = length (trim_space x)"
    unfolding m using l by (elim conjE) (simp, arith)
  show "\<forall>i. (if k = ''BANK_ACCOUNT'' then 0 else 2) \<le> i
      \<and> i + (if k = ''BANK_ACCOUNT'' then 4 else 2) < length (trim_space x) \<longrightarrow>
      mask_sensitive_field x k ! i = CHR ''*''"
    unfolding m using l by (auto simp: nth_append)
qed

theorem masks_hide_witness:
  "mask_sensitive_field ''1234567890'' ''BANK_ACCOUNT'' = mask_sensitive_field ''9994447890'' ''BANK_ACCOUNT''"
proof -
  have t: "trim_space ''1234567890'' = ''1234567890''" "trim_space ''9994447890'' = ''9994447890''"
    by code_simp+
  show ?thesis
    using masks_hide [of "''BANK_ACCOUNT''" "''1234567890''" "''9994447890''"]
    by (simp add: t disclosed_def masked_kinds_def)
qed

text \<open>
  The published matrix is the evaluated scope. Every row of the access matrix gives its role
  the scope that the evaluation of this role gives, in any letter case.
\<close>

theorem matrix_matches_scope:
  "\<forall>p\<in>set rbac_matrix. evaluate_data_scope (rb_role p) = rb_scope p
     \<and> evaluate_data_scope (to_lower (rb_role p)) = rb_scope p"
  by code_simp

theorem matrix_matches_scope_witness:
  "evaluate_data_scope ''MANAGER'' = ''DEPARTMENT''"
  using matrix_matches_scope by (simp add: rbac_matrix_def)

end
