(* ===== verification/Attendance.thy ===== *)
theory Attendance
  imports Leave
begin

text \<open>
  \<^verbatim>\<open>internal/attendance/attendance.go\<close>: the punches of a day, the logs, the queue of days to
  validate and the validation of a batch, the punch status and the summaries. The date of today is
  taken from the clock of the request, in UTC, and the punch times are that clock.
\<close>

section \<open>Times of day\<close>

text \<open>\<^verbatim>\<open>to_char(t, 'HH12:MI AM')\<close>.\<close>

definition show_clock12 :: "int \<Rightarrow> string" where
  "show_clock12 t =
     (let s = seconds_of_day t; h = s div 3600; h12 = (if h mod 12 = 0 then 12 else h mod 12)
      in decpad 2 (nat h12) @ '':'' @ decpad 2 (nat (s div 60 mod 60)) @ '' ''
           @ (if h < 12 then ''AM'' else ''PM''))"

text \<open>
  \<^verbatim>\<open>time.Parse("15:04:05", s)\<close> on texts of eight characters, in seconds since midnight; the
  code parses only what \<^verbatim>\<open>to_char(t, 'HH24:MI:SS')\<close> wrote.
\<close>

definition parse_clock :: "string \<Rightarrow> int option" where
  "parse_clock s =
     (if length s = 8 \<and> s ! 2 = CHR '':'' \<and> s ! 5 = CHR '':''
         \<and> list_all is_digit (take 2 s @ take 2 (drop 3 s) @ drop 6 s)
      then let h = int (numval (take 2 s)); m = int (numval (take 2 (drop 3 s)));
               c = int (numval (drop 6 s))
           in if h < 24 \<and> m < 60 \<and> c < 60 then Some (h * 3600 + m * 60 + c) else None
      else None)"

text \<open>\<^verbatim>\<open>d.Seconds()\<close> and \<^verbatim>\<open>d.Minutes()\<close> of a duration: whole units and the rest in floating point.\<close>

definition nanos_per_second :: int where "nanos_per_second = 1000000000"

definition in_units :: "int \<Rightarrow> int \<Rightarrow> float64" where
  "in_units u d = fadd (f_of_int (tdiv d u)) (fdiv (f_of_int (tmod d u)) (of_int u))"

text \<open>\<^verbatim>\<open>t.Sub(u)\<close> stays at the bounds of a duration.\<close>

definition time_sub :: "int \<Rightarrow> int \<Rightarrow> int" where
  "time_sub t u = max (- (2 ^ 63)) (min (2 ^ 63 - 1) (t - u))"

text \<open>\<^verbatim>\<open>EXTRACT(EPOCH FROM (t - u))/3600.0\<close>.\<close>

definition hours_between :: "int \<Rightarrow> int \<Rightarrow> rat" where
  "hours_between u t = of_int (t - u) / of_int nanos_per_hour"

section \<open>The caller and the rows in scope\<close>

text \<open>\<^verbatim>\<open>getCallerIDs\<close>; it panics on a nil pool, which the handlers below show.\<close>

definition att_caller_ids :: "string \<Rightarrow> ('a world_scheme, string) state" where
  "att_caller_ids uid = do {
     r \<leftarrow> query_row (\<lambda>w. map_option
            (\<lambda>u. [e_id e. e \<leftarrow> employees w, user_is u e \<and> \<not> e_deleted e]) (uuid_in w uid));
     State_Monad.return (text_or_empty r)
   }"

text \<open>The condition \<^verbatim>\<open>scopeCond\<close> of the three summaries.\<close>

definition summary_scope :: "claims option \<Rightarrow> string \<Rightarrow> employee_row \<Rightarrow> bool" where
  "summary_scope cl caller e =
     (if has_role cl [''SUPER_ADMIN'', ''HR_ADMIN'', ''PAYROLL_ADMIN''] then True
      else if has_role cl [''MANAGER'', ''DEPT_HEAD''] \<and> caller \<noteq> '''' then e_manager e = Some caller
      else e_id e = caller)"

definition today :: "'t conn_scheme \<Rightarrow> int" where "today w = date_of (now w)"

section \<open>Punches\<close>

record punch_request =
  pq_action :: string
  pq_notes :: string

definition raw_payload :: "string \<Rightarrow> string" where
  "raw_payload notes = ''{\"notes\": \"'' @ notes @ ''\"}''"

definition record_raw_punch ::
  "string \<Rightarrow> string \<Rightarrow> string \<Rightarrow> ('a att_world_scheme, nat option) state" where
  "record_raw_punch emp ty notes = exec (\<lambda>w.
     case uuid_in w emp of
       None \<Rightarrow> None
     | Some e \<Rightarrow>
         if \<not> json_in w (raw_payload notes) then None
         else Some (1, w\<lparr>raw_punches := raw_punches w @
           [\<lparr>rp_id = ids w (issued w), rp_emp = e, rp_provider = ''MANUAL_WEB'', rp_time = now w,
             rp_type = ty, rp_payload = raw_payload notes\<rparr>],
           issued := issued w + 1\<rparr>))"

definition day_key :: "string \<Rightarrow> int \<Rightarrow> daily_row \<Rightarrow> bool" where
  "day_key e d r \<longleftrightarrow> ad_emp r = e \<and> ad_date r = d"

text \<open>The row the defaults of the table make of an employee, a date and a time.\<close>

definition new_day :: "string \<Rightarrow> string \<Rightarrow> int \<Rightarrow> int option \<Rightarrow> string \<Rightarrow> daily_row" where
  "new_day i e d t valid =
     \<lparr>ad_id = i, ad_emp = e, ad_date = d, ad_in = t, ad_out = None, ad_status = ''PRESENT'',
      ad_late = 0, ad_valid = valid, ad_worked = Some 0, ad_expected = Some 8, ad_ot = Some 0,
      ad_shift = None, ad_by = None, ad_at = None, ad_comment = None\<rparr>"

definition punch_in :: "string \<Rightarrow> ('a world_scheme, nat option) state" where
  "punch_in emp = exec (\<lambda>w.
     case uuid_in w emp of
       None \<Rightarrow> None
     | Some e \<Rightarrow>
         Some (1, w\<lparr>daily :=
           upsert (day_key e (today w))
             (\<lambda>r. if ad_in r = None then r\<lparr>ad_in := Some (now w), ad_status := ''PRESENT''\<rparr> else r)
             (new_day (ids w (issued w)) e (today w) (Some (now w)) ''TO_VALIDATE'') (daily w),
           issued := issued w + 1\<rparr>))"

text \<open>An update that meets a NULL \<^verbatim>\<open>first_in\<close> stores NULL hours; hours that do not fit are an error.\<close>

definition worked_hours ::
  "'t conn_scheme \<Rightarrow> int option \<Rightarrow> int option \<Rightarrow> rat option option" where
  "worked_hours w t_in t_out =
     (case (t_in, t_out) of
        (Some a, Some b) \<Rightarrow> map_option Some (to_num w 2 (hours_between a b))
      | _ \<Rightarrow> Some None)"

definition punch_out :: "string \<Rightarrow> ('a world_scheme, nat option) state" where
  "punch_out emp = exec (\<lambda>w.
     case uuid_in w emp of
       None \<Rightarrow> None
     | Some e \<Rightarrow>
         let p = day_key e (today w);
             hours = (\<lambda>r. worked_hours w (ad_in r) (Some (now w)))
         in if \<exists>r\<in>set (daily w). p r \<and> hours r = None then None
            else Some (count_where p (daily w),
              w\<lparr>daily := upd_where p
                 (\<lambda>r. r\<lparr>ad_out := Some (now w), ad_worked := the (hours r)\<rparr>) (daily w)\<rparr>))"

definition handle_punch ::
  "claims option \<Rightarrow> punch_request option \<Rightarrow> ('a att_world_scheme, response) state" where
  "handle_punch cl body =
     (case (body, cl) of
        (None, _) \<Rightarrow> State_Monad.return (http_error ''invalid request'' status_bad_request)
      | (_, None) \<Rightarrow> State_Monad.return unauthorized_response
      | (Some req, Some c) \<Rightarrow> do {
          nil \<leftarrow> reads db_nil;
          (if nil then State_Monad.return
             (common_json_error ''Database connection unavailable'' status_internal)
           else do {
             emp \<leftarrow> att_caller_ids (cl_user c);
             (if emp = ''''
              then State_Monad.return
                (common_json_error ''Employee profile not found'' status_bad_request)
              else do {
                let ty = (if pq_action req = ''CHECK_OUT'' then ''OUT'' else ''IN'');
                orelse (record_raw_punch emp ty (pq_notes req))
                  (common_json_error ''Failed to record raw punch'' status_internal)
                  (\<lambda>_.
                     orelse (if ty = ''IN'' then punch_in emp else punch_out emp)
                       (common_json_error ''Failed to update daily status'' status_internal)
                       (\<lambda>_. State_Monad.return
                          (respond status_created
                             [(''success'', JBool True),
                              (''message'', JStr ''Punch recorded successfully'')])))
              })
           })
        })"

text \<open>The three stubs.\<close>

definition handle_check_in :: response where
  "handle_check_in =
     respond status_created
       [(''success'', JBool True), (''message'', JStr ''Checked in successfully.''),
        (''time'', JStr ''09:00 AM'')]"

definition handle_check_out :: response where
  "handle_check_out =
     respond status_ok
       [(''success'', JBool True), (''message'', JStr ''Checked out successfully.''),
        (''time'', JStr ''06:00 PM'')]"

record regularize_request =
  gq_log :: string
  gq_in :: string
  gq_out :: string
  gq_reason :: string

definition handle_regularize :: "regularize_request option \<Rightarrow> response" where
  "handle_regularize body =
     (case body of
        None \<Rightarrow> http_error ''invalid request'' status_bad_request
      | Some _ \<Rightarrow>
          respond status_created
            [(''success'', JBool True),
             (''message'', JStr ''Regularization request submitted and workflow triggered.'')])"

section \<open>Logs and the status of a day\<close>

definition attendance_log_json :: "att_log_row \<Rightarrow> int \<Rightarrow> json" where
  "attendance_log_json l t =
     JObj [(''id'', JStr (lg_id l)), (''date'', JStr (show_date (lg_date l))),
           (''check_in_time'', JStr (show_clock12 t)),
           (''check_out_time'',
            JStr (case lg_out l of None \<Rightarrow> ''--:-- --'' | Some u \<Rightarrow> show_clock12 u)),
           (''status'', JStr (lg_status l)), (''shift_name'', JStr ''General Shift'')]"

text \<open>A row without a check-in does not scan into the text and is skipped.\<close>

definition handle_get_logs :: "url_query \<Rightarrow> ('a att_world_scheme, response) state" where
  "handle_get_logs q = do {
     nil \<leftarrow> reads db_nil;
     err \<leftarrow> reads err_text;
     (if nil then State_Monad.return db_unavailable
      else
        orelse
          (query_rows (\<lambda>w.
             let last30 = (\<lambda>ls. take 30 (sort_key (\<lambda>l. - lg_date l) ls))
             in if q ''employee_id'' = '''' then Some (last30 (att_logs w))
                else map_option (\<lambda>e. last30 (filter (\<lambda>l. lg_emp l = e) (att_logs w)))
                       (uuid_in w (q ''employee_id''))))
          (fail_json status_internal (''database query failed: '' @ err))
          (\<lambda>ls. State_Monad.return (data_response
             (scan_rows (\<lambda>l. map_option (attendance_log_json l) (lg_in l)) ls))))
   }"

definition daily_status_json ::
  "'a att_world_scheme \<Rightarrow> att_log_row \<times> employee_row \<Rightarrow> json option" where
  "daily_status_json w le =
     (case le of (l, e) \<Rightarrow> map_option (\<lambda>t.
        JObj [(''id'', JStr (lg_id l)), (''employee_id'', JStr (e_code e)),
              (''employee_name'', JStr (full_name e)),
              (''department'', JStr (name_in (departments w) (e_dept e) ''Unassigned'')),
              (''date'', JStr (show_date (lg_date l))), (''first_in'', JStr (show_clock12 t)),
              (''last_out'', JStr (case lg_out l of None \<Rightarrow> ''--:--'' | Some u \<Rightarrow> show_clock12 u)),
              (''status'', JStr (lg_status l)), (''late_by_minutes'', JInt 0)])
        (lg_in l))"

text \<open>The conditions of the query: a date that parses, a search, a status.\<close>

definition daily_status_rows ::
  "string \<Rightarrow> string \<Rightarrow> string \<Rightarrow> 'a att_world_scheme \<Rightarrow> (att_log_row \<times> employee_row) list" where
  "daily_status_rows date search status w =
     [(l, e). l \<leftarrow> att_logs w, e \<leftarrow> employees w, lg_emp l = e_id e
        \<and> (case parse_date date of None \<Rightarrow> True | Some d \<Rightarrow> lg_date l = d)
        \<and> (search \<noteq> '''' \<longrightarrow> (let p = ''%'' @ search @ ''%''
             in ilike w (e_first e) p \<or> ilike w (e_last e) p \<or> ilike w (e_code e) p))
        \<and> (status \<noteq> '''' \<longrightarrow> lg_status l = status)]"

definition handle_daily_status :: "url_query \<Rightarrow> ('a att_world_scheme, response) state" where
  "handle_daily_status q = do {
     nil \<leftarrow> reads db_nil;
     (if nil then State_Monad.return db_unavailable
      else do {
        let pg = parse_pagination_params q;
        let rows = daily_status_rows (q ''date'') (pp_search pg) (q ''status'');
        tot \<leftarrow> or_zero (select (\<lambda>w. int (length (rows w))));
        orelse
          (query_rows (\<lambda>w. map_option (scan_rows (daily_status_json w))
             (page_of pg (sort_key (\<lambda>(l, e). e_code e) (rows w)))))
          (page_response [] 0 pg)
          (\<lambda>js. State_Monad.return (page_response js tot pg))
      })
   }"

section \<open>The validation of days\<close>

record validation_item =
  vi_id :: string
  vi_emp :: string
  vi_code :: string
  vi_name :: string
  vi_dept :: string
  vi_date :: string
  vi_shift :: string
  vi_in :: string
  vi_out :: string
  vi_worked :: float64
  vi_expected :: float64
  vi_ot :: float64
  vi_status :: string
  vi_comments :: string
  vi_by :: string
  vi_at :: string

definition clock_or :: "string \<Rightarrow> (int \<Rightarrow> string) \<Rightarrow> int option \<Rightarrow> string" where
  "clock_or dflt f t = (case t of None \<Rightarrow> dflt | Some u \<Rightarrow> f u)"

definition validation_item_of ::
  "'a att_world_scheme \<Rightarrow> daily_row \<times> employee_row \<Rightarrow> validation_item" where
  "validation_item_of w de =
     (case de of (d, e) \<Rightarrow>
        \<lparr>vi_id = ad_id d, vi_emp = e_id e, vi_code = e_code e, vi_name = full_name e,
         vi_dept = name_in (departments w) (e_dept e) ''General'', vi_date = show_date (ad_date d),
         vi_shift = name_in (shifts w) (ad_shift d) ''Regular Shift'',
         vi_in = clock_or ''--:--'' show_clock12 (ad_in d),
         vi_out = clock_or ''--:--'' show_clock12 (ad_out d),
         vi_worked = fl (num_or_0 (ad_worked d)),
         vi_expected = fl (case ad_expected d of None \<Rightarrow> 8 | Some x \<Rightarrow> x),
         vi_ot = fl (num_or_0 (ad_ot d)), vi_status = ad_valid d,
         vi_comments = text_or_empty (ad_comment d), vi_by = text_or_empty (ad_by d),
         vi_at = clock_or '''' show_time (ad_at d)\<rparr>)"

definition validation_item_json :: "validation_item \<Rightarrow> json" where
  "validation_item_json v =
     JObj ([(''id'', JStr (vi_id v)), (''employee_id'', JStr (vi_emp v)),
            (''employee_code'', JStr (vi_code v)), (''employee_name'', JStr (vi_name v)),
            (''department'', JStr (vi_dept v)), (''date'', JStr (vi_date v)),
            (''shift_name'', JStr (vi_shift v)), (''check_in_time'', JStr (vi_in v)),
            (''check_out_time'', JStr (vi_out v)), (''worked_hours'', JNum (vi_worked v)),
            (''expected_hours'', JNum (vi_expected v)), (''ot_hours'', JNum (vi_ot v)),
            (''validation_status'', JStr (vi_status v)),
            (''validation_comments'', JStr (vi_comments v))]
           @ nonempty_field ''validated_by'' (vi_by v) @ nonempty_field ''validated_at'' (vi_at v))"

abbreviation validator_roles :: "string list" where
  "validator_roles \<equiv> [''SUPER_ADMIN'', ''HR_ADMIN'', ''MANAGER'', ''PAYROLL_ADMIN'']"

definition queue_status :: "url_query \<Rightarrow> string" where
  "queue_status q =
     (if q ''validation_status'' = '''' then ''TO_VALIDATE'' else q ''validation_status'')"

text \<open>Newest date first and then by code: two stable sorts.\<close>

definition queue_rows :: "string \<Rightarrow> 'a att_world_scheme \<Rightarrow> (daily_row \<times> employee_row) list" where
  "queue_rows status w =
     sort_key (\<lambda>(d, e). - ad_date d) (sort_key (\<lambda>(d, e). e_code e)
       [(d, e). d \<leftarrow> daily w, e \<leftarrow> employees w, ad_emp d = e_id e \<and> ad_valid d = status])"

definition handle_get_validation_queue ::
  "claims option \<Rightarrow> url_query \<Rightarrow> ('a att_world_scheme, response) state" where
  "handle_get_validation_queue cl q =
     (if \<not> has_role cl validator_roles
      then State_Monad.return (forbidden_response ''FORBIDDEN_ROLE''
             ''Only managers and HR admins can access validation queues.'')
      else do {
        let pg = parse_pagination_params q;
        nil \<leftarrow> reads db_nil;
        (if nil then State_Monad.return db_unavailable
         else
           orelse
             (query_rows (\<lambda>w. map_option (map (validation_item_of w))
                (page_of pg (queue_rows (queue_status q) w))))
             (page_response [] 0 pg)
             (\<lambda>vs. State_Monad.return
                (page_response (map validation_item_json vs) (int (length vs)) pg)))
      })"

record batch_validation =
  bq_ids :: "string list"
  bq_action :: string
  bq_comments :: string

definition validation_target :: "string \<Rightarrow> string" where
  "validation_target action =
     (if action = ''REJECT'' \<or> action = ''REJECT_OT'' then ''REJECTED''
      else if action = ''APPROVE_OT'' \<or> action = ''VALIDATE'' then ''VALIDATED''
      else ''VALIDATED'')"

text \<open>The two updates: with the validator when the caller's id is that of a user, else without.\<close>

definition validate_day ::
  "string \<Rightarrow> string \<Rightarrow> string \<Rightarrow> string \<Rightarrow> ('a world_scheme, nat option) state" where
  "validate_day st by remark i = exec (\<lambda>w.
     let p = (\<lambda>d. ad_id d = i);
         mark = (\<lambda>d. d\<lparr>ad_valid := st, ad_at := Some (now w), ad_comment := Some remark\<rparr>)
     in if by \<noteq> ''''
        then (case uuid_in w by of
                None \<Rightarrow> None
              | Some u \<Rightarrow> Some (count_where p (daily w),
                  w\<lparr>daily := upd_where p (\<lambda>d. (mark d)\<lparr>ad_by := Some u\<rparr>) (daily w)\<rparr>))
        else Some (count_where p (daily w), w\<lparr>daily := upd_where p mark (daily w)\<rparr>))"

definition validate_one ::
  "claims \<Rightarrow> batch_validation \<Rightarrow> string \<Rightarrow> int \<Rightarrow> ('a world_scheme, int) state" where
  "validate_one c req i n = do {
     by \<leftarrow> select_row (\<lambda>w. [u_id u. u \<leftarrow> users w, u_id u = cl_user c]);
     orelse (validate_day (validation_target (bq_action req)) (text_or_empty by) (bq_comments req) i)
       n
       (\<lambda>_. do {
          _ \<leftarrow> log_action \<lparr>le_user = cl_user c,
                 le_action = ''ATTENDANCE_VALIDATION_'' @ bq_action req,
                 le_module = ''ATTENDANCE'', le_entity = ''attendance_daily_status'',
                 le_entity_id = i, le_reason = bq_comments req\<rparr>;
          State_Monad.return (n + 1)
        })
   }"

definition handle_batch_validation ::
  "claims option \<Rightarrow> batch_validation option \<Rightarrow> ('a world_scheme, response) state" where
  "handle_batch_validation cl body =
     (case cl of
        None \<Rightarrow> State_Monad.return (forbidden_response ''FORBIDDEN_ROLE''
                  ''Only managers and HR admins can validate attendance records.'')
      | Some c \<Rightarrow>
          if \<not> has_role cl validator_roles
          then State_Monad.return (forbidden_response ''FORBIDDEN_ROLE''
                 ''Only managers and HR admins can validate attendance records.'')
          else
            (case body of
               None \<Rightarrow> State_Monad.return
                 (http_error ''invalid request: select at least one record'' status_bad_request)
             | Some req \<Rightarrow>
                 if bq_ids req = []
                 then State_Monad.return
                   (http_error ''invalid request: select at least one record'' status_bad_request)
                 else do {
                   nil \<leftarrow> reads db_nil;
                   (if nil then State_Monad.return db_unavailable
                    else do {
                      n \<leftarrow> fold_loop (validate_one c req) (bq_ids req) 0;
                      let st = validation_target (bq_action req);
                      State_Monad.return (respond status_ok
                        [(''success'', JBool True),
                         (''message'', JStr (''Successfully processed '' @ dec n
                            @ '' attendance records to status '' @ st @ ''.'')),
                         (''count'', JInt n), (''status'', JStr st)])
                    })
                 }))"

section \<open>Punch status\<close>

definition punch_status_json ::
  "bool \<Rightarrow> string \<Rightarrow> string \<Rightarrow> int \<Rightarrow> string \<Rightarrow> response" where
  "punch_status_json active t_in t_out elapsed uid =
     respond status_ok
       [(''success'', JBool True), (''is_checked_in'', JBool active),
        (''check_in_time'', JStr t_in), (''check_out_time'', JStr t_out),
        (''elapsed_seconds'', JInt elapsed), (''user_id'', JStr uid)]"

text \<open>The seconds since the check-in of today, from the two texts of the row.\<close>

definition is_checked_in :: "string \<Rightarrow> string \<Rightarrow> bool" where
  "is_checked_in t_in t_out \<longleftrightarrow> t_in \<noteq> '''' \<and> t_out = ''''"

definition elapsed_seconds :: "int \<Rightarrow> string \<Rightarrow> string \<Rightarrow> int" where
  "elapsed_seconds t t_in t_out =
     (if is_checked_in t_in t_out
      then (case parse_clock t_in of
              None \<Rightarrow> 0
            | Some s \<Rightarrow>
                let start = date_of t * nanos_per_day + s * nanos_per_second;
                    n = int_of_f (in_units nanos_per_second (time_sub t start))
                in if n < 0 then 0 else n)
      else 0)"

definition handle_punch_status :: "claims option \<Rightarrow> ('a world_scheme, response) state" where
  "handle_punch_status cl =
     (case cl of
        None \<Rightarrow> State_Monad.return unauthorized_response
      | Some c \<Rightarrow> do {
          nil \<leftarrow> reads db_nil;
          (if nil then State_Monad.return panicked
           else do {
             emp \<leftarrow> att_caller_ids (cl_user c);
             (if emp = '''' then State_Monad.return (punch_status_json False '''' '''' 0 (cl_user c))
              else do {
                row \<leftarrow> query_row (\<lambda>w. map_option (\<lambda>e.
                  [(clock_or '''' show_clock (ad_in d), clock_or '''' show_clock (ad_out d)).
                     d \<leftarrow> daily w, day_key e (today w) d]) (uuid_in w emp));
                t \<leftarrow> reads now;
                let (t_in, t_out) = (case row of None \<Rightarrow> ('''', '''') | Some x \<Rightarrow> x);
                State_Monad.return (punch_status_json (is_checked_in t_in t_out) t_in t_out
                  (elapsed_seconds t t_in t_out) (cl_user c))
              })
           })
        })"

section \<open>Summaries\<close>

text \<open>
  An active employee with its rows of a day or month, or with none (the left join). The status of
  the deletion is not looked at.
\<close>

definition left_rows ::
  "(daily_row \<Rightarrow> bool) \<Rightarrow> daily_row list \<Rightarrow> employee_row \<Rightarrow> (employee_row \<times> daily_row option) list"
  where
  "left_rows p ds e =
     (let rows = filter (\<lambda>d. ad_emp d = e_id e \<and> p d) ds
      in if rows = [] then [(e, None)] else map (\<lambda>d. (e, Some d)) rows)"

definition summary_rows ::
  "(daily_row \<Rightarrow> bool) \<Rightarrow> (employee_row \<Rightarrow> bool) \<Rightarrow> 'a world_scheme \<Rightarrow>
   (employee_row \<times> daily_row option) list" where
  "summary_rows p vis w =
     concat (map (left_rows p (daily w))
       (filter (\<lambda>e. e_status e = ''ACTIVE'' \<and> vis e) (employees w)))"

text \<open>\<^verbatim>\<open>COUNT(a.id) FILTER (WHERE ...)\<close>.\<close>

definition count_days :: "(daily_row \<Rightarrow> bool) \<Rightarrow> (employee_row \<times> daily_row option) list \<Rightarrow> int" where
  "count_days p rows =
     int (count_where (\<lambda>(e, d). case d of None \<Rightarrow> False | Some r \<Rightarrow> p r) rows)"

definition is_present :: "daily_row \<Rightarrow> bool" where
  "is_present d \<longleftrightarrow> ad_status d = ''PRESENT'' \<or> ad_status d = ''LATE''"

text \<open>\<^verbatim>\<open>math.Round(x*10) / 10\<close>: halves away from zero.\<close>

definition round_away :: "float64 \<Rightarrow> float64" where
  "round_away x = (if 0 \<le> x then of_int \<lfloor>x + 1 / 2\<rfloor> else - of_int \<lfloor>1 / 2 - x\<rfloor>)"

definition round_tenth :: "float64 \<Rightarrow> float64" where
  "round_tenth x = fdiv (round_away (fmul x 10)) 10"

text \<open>A group of a \<^verbatim>\<open>GROUP BY\<close>: the rows with the same key, groups in order of appearance.\<close>

definition groups_by :: "('r \<Rightarrow> 'k) \<Rightarrow> 'r list \<Rightarrow> ('k \<times> 'r list) list" where
  "groups_by key rows = map (\<lambda>k. (k, filter (\<lambda>r. key r = k) rows)) (remdups (map key rows))"

definition dept_name :: "'a world_scheme \<Rightarrow> employee_row \<Rightarrow> string option" where
  "dept_name w e = Option.bind (e_dept e) (map_of (departments w))"

definition or_general :: "string option \<Rightarrow> string" where
  "or_general n = (case n of None \<Rightarrow> ''General'' | Some s \<Rightarrow> s)"

definition dept_rates ::
  "(employee_row \<Rightarrow> bool) \<Rightarrow> 'a world_scheme \<Rightarrow> (string \<times> float64) list" where
  "dept_rates vis w =
     map (\<lambda>(n, rows). (or_general n,
            round_tenth (fl (of_int (count_days is_present rows) * 100 / of_nat (length rows)))))
       (groups_by (\<lambda>(e, d). dept_name w e)
          (summary_rows (\<lambda>d. ad_date d = today w) vis w))"

definition top_absentees ::
  "(employee_row \<Rightarrow> bool) \<Rightarrow> 'a world_scheme \<Rightarrow> (string \<times> string \<times> int) list" where
  "top_absentees vis w =
     take 5 (sort_key (\<lambda>(n, d, c). - c)
       (map (\<lambda>((k, dept), rows).
               (full_name (fst (hd rows)), or_general dept, int (length rows)))
         (groups_by (\<lambda>(e, d). (e_id e, dept_name w e))
            [(e, d). e \<leftarrow> employees w, d \<leftarrow> daily w, ad_emp d = e_id e \<and> ad_status d = ''ABSENT''
               \<and> month_of (ad_date d) = month_of (today w) \<and> year_of (ad_date d) = year_of (today w)
               \<and> vis e])))"

definition arr_or_null :: "json list \<Rightarrow> json" where
  "arr_or_null js = (if js = [] then JNull else JArr js)"

definition day_counts ::
  "(employee_row \<Rightarrow> bool) \<Rightarrow> 'a world_scheme \<Rightarrow> int \<times> int \<times> int \<times> int \<times> int" where
  "day_counts vis w =
     (let rows = summary_rows (\<lambda>d. ad_date d = today w) vis w
      in (int (length rows), count_days is_present rows,
          count_days (\<lambda>d. ad_status d = ''LATE'' \<or> ad_late d > 0) rows,
          count_days (\<lambda>d. ad_valid d = ''TO_VALIDATE'') rows,
          count_days (\<lambda>d. case ad_ot d of None \<Rightarrow> False | Some x \<Rightarrow> x > 0) rows))"

definition handle_dashboard_metrics :: "claims option \<Rightarrow> ('a world_scheme, response) state" where
  "handle_dashboard_metrics cl =
     (case cl of
        None \<Rightarrow> State_Monad.return unauthorized_response
      | Some c \<Rightarrow> do {
          nil \<leftarrow> reads db_nil;
          (if nil then State_Monad.return panicked
           else do {
             emp \<leftarrow> att_caller_ids (cl_user c);
             let vis = summary_scope cl emp;
             orelse (select (day_counts vis))
               (common_json_error ''Failed to load dashboard metrics'' status_internal)
               (\<lambda>(tot, present, late, pending, ot). do {
                  let on_time = (if present - late < 0 then 0 else present - late);
                  let pct = (if tot > 0 then fmul (fdiv (f_of_int present) (f_of_int tot)) 100 else 0);
                  rates \<leftarrow> select (dept_rates vis);
                  absent \<leftarrow> select (top_absentees vis);
                  State_Monad.return (respond status_ok
                    [(''success'', JBool True),
                     (''data'', JObj
                        [(''total_employees'', JInt tot), (''present_today'', JInt present),
                         (''present_percentage'', JNum (round_tenth pct)), (''on_leave'', JInt 0),
                         (''on_time'', JInt on_time), (''late_arrivals'', JInt late),
                         (''early_departures'', JInt 0), (''pending_validation'', JInt pending),
                         (''ot_pending'', JInt ot),
                         (''clock_in_distribution'', JArr (map (\<lambda>(h, n).
                            JObj [(''hour'', JStr h), (''count'', JInt n)])
                            [(''08:00'', present div 4), (''08:30'', present div 2),
                             (''09:00'', present div 4)])),
                         (''dept_attendance_rate'', arr_or_null (map (\<lambda>(n, r).
                            JObj [(''department'', JStr n), (''rate'', JNum r)])
                            (case rates of None \<Rightarrow> [] | Some rs \<Rightarrow> rs))),
                         (''top_absentees'', arr_or_null (map (\<lambda>(n, d, k).
                            JObj [(''employee_name'', JStr n), (''department'', JStr d),
                                  (''absent_days'', JInt k)])
                            (case absent of None \<Rightarrow> [] | Some rs \<Rightarrow> rs)))])])
                })
           })
        })"

definition activity_json :: "daily_row \<times> employee_row \<Rightarrow> json" where
  "activity_json de =
     (case de of (d, e) \<Rightarrow>
        let day = show_date (ad_date d); t_out = clock_or ''-'' show_clock (ad_out d)
        in JObj [(''id'', JStr (ad_id d)), (''employee_code'', JStr (e_code e)),
                 (''employee_name'', JStr (full_name e)), (''attendance_date'', JStr day),
                 (''in_date'', JStr day), (''check_in'', JStr (clock_or ''-'' show_clock (ad_in d))),
                 (''out_date'', JStr day), (''check_out'', JStr t_out),
                 (''duration'', JStr (if t_out = ''-'' then ''Running''
                    else show_fixed 2 (fl (num_or_0 (ad_worked d))) @ '' hrs'')),
                 (''is_active'', JBool (ad_out d = None \<and> ad_in d \<noteq> None))])"

text \<open>\<^verbatim>\<open>ORDER BY first_in DESC\<close> puts the rows without a check-in first.\<close>

definition activity_rows ::
  "(employee_row \<Rightarrow> bool) \<Rightarrow> 'a world_scheme \<Rightarrow> (daily_row \<times> employee_row) list" where
  "activity_rows vis w =
     take 50 (sort_key (\<lambda>(d, e). if ad_in d = None then 0 else 1 :: int)
       (sort_key (\<lambda>(d, e). case ad_in d of None \<Rightarrow> 0 | Some t \<Rightarrow> - t)
         [(d, e). d \<leftarrow> daily w, e \<leftarrow> employees w,
                  ad_emp d = e_id e \<and> ad_date d = today w \<and> vis e]))"

definition handle_get_activities :: "claims option \<Rightarrow> ('a world_scheme, response) state" where
  "handle_get_activities cl =
     (case cl of
        None \<Rightarrow> State_Monad.return unauthorized_response
      | Some c \<Rightarrow> do {
          nil \<leftarrow> reads db_nil;
          (if nil then State_Monad.return panicked
           else do {
             emp \<leftarrow> att_caller_ids (cl_user c);
             rows \<leftarrow> select (activity_rows (summary_scope cl emp));
             State_Monad.return (data_response
               (map activity_json (case rows of None \<Rightarrow> [] | Some rs \<Rightarrow> rs)))
           })
        })"

record month_line =
  ml_code :: string
  ml_first :: string
  ml_name :: string
  ml_dept :: string
  ml_present :: int
  ml_absent :: int
  ml_days :: int
  ml_worked :: float64
  ml_ot :: float64

text \<open>\<^verbatim>\<open>COALESCE(SUM(col), 0)\<close>, which skips NULL.\<close>

definition sum_days ::
  "(daily_row \<Rightarrow> rat option) \<Rightarrow> (employee_row \<times> daily_row option) list \<Rightarrow> rat" where
  "sum_days f rows = sum_list (map (\<lambda>(e, d). num_or_0 (Option.bind d f)) rows)"

definition month_text :: "int \<Rightarrow> string" where
  "month_text d = take 7 (show_date d)"

definition month_lines ::
  "string \<Rightarrow> (employee_row \<Rightarrow> bool) \<Rightarrow> 'a world_scheme \<Rightarrow> month_line list" where
  "month_lines month vis w =
     sort_key ml_first
       (map (\<lambda>((code, first, last, dept), rows).
          \<lparr>ml_code = code, ml_first = first, ml_name = first @ '' '' @ last,
           ml_dept = or_general dept, ml_present = count_days is_present rows,
           ml_absent = count_days (\<lambda>d. ad_status d = ''ABSENT'') rows,
           ml_days = count_days (\<lambda>_. True) rows, ml_worked = fl (sum_days ad_worked rows),
           ml_ot = fl (sum_days ad_ot rows)\<rparr>)
         (groups_by (\<lambda>(e, d). (e_code e, e_first e, e_last e, dept_name w e))
            (summary_rows (\<lambda>d. month_text (ad_date d) = month) vis w)))"

definition month_line_json :: "month_line \<Rightarrow> json" where
  "month_line_json m =
     JObj [(''employee_code'', JStr (ml_code m)), (''employee_name'', JStr (ml_name m)),
           (''department'', JStr (ml_dept m)), (''present_days'', JInt (ml_present m)),
           (''absent_days'', JInt (ml_absent m)), (''paid_leave'', JInt 0),
           (''unpaid_leave'', JInt 0), (''working_days'', JInt (ml_days m)),
           (''worked_hours'', JStr (show_fixed 1 (ml_worked m))),
           (''ot_hours'', JStr (show_fixed 1 (ml_ot m)))]"

text \<open>The totals of the loop: employees, days, and the sum of the percentages.\<close>

definition add_line :: "int \<times> int \<times> float64 \<Rightarrow> month_line \<Rightarrow> int \<times> int \<times> float64" where
  "add_line acc m =
     (case acc of (n, days, pct) \<Rightarrow>
        (n + 1, days + ml_days m,
         if ml_days m > 0
         then fadd pct (fmul (fdiv (f_of_int (ml_present m)) (f_of_int (ml_days m))) 100)
         else pct))"

definition month_totals :: "month_line list \<Rightarrow> int \<times> int \<times> float64" where
  "month_totals ms =
     (case foldl add_line (0, 0, 0) ms of (n, days, pct) \<Rightarrow>
        (n, days, if n > 0 then fdiv pct (f_of_int n) else 0))"

definition handle_get_monthly_summary ::
  "claims option \<Rightarrow> url_query \<Rightarrow> ('a world_scheme, response) state" where
  "handle_get_monthly_summary cl q =
     (case cl of
        None \<Rightarrow> State_Monad.return unauthorized_response
      | Some c \<Rightarrow> do {
          nil \<leftarrow> reads db_nil;
          (if nil then State_Monad.return panicked
           else do {
             emp \<leftarrow> att_caller_ids (cl_user c);
             d \<leftarrow> reads today;
             let month = (if q ''month'' = '''' then month_text d else q ''month'');
             rows \<leftarrow> select (month_lines month (summary_scope cl emp));
             let ms = (case rows of None \<Rightarrow> [] | Some ls \<Rightarrow> ls);
             let (n, days, avg) = month_totals ms;
             State_Monad.return (respond status_ok
               [(''success'', JBool True), (''data'', JArr (map month_line_json ms)),
                (''totals'', JObj
                   [(''total_employees'', JInt n), (''working_days'', JInt days),
                    (''avg_attendance'', JStr (show_fixed 1 avg @ ''%''))])])
           })
        })"

end
