(* ===== verification/Users.thy ===== *)
theory Users
  imports Attendance
begin

text \<open>
  \<^verbatim>\<open>internal/user\<close>: the accounts, their creation and invitation in one transaction each, their
  roles, suspension and deletion. Of the foreign keys, those that a handler can run into are in the
  model: a role is given to an existing user only, and a user that an employee or an audit entry
  refers to cannot be deleted.
\<close>

section \<open>Texts\<close>

text \<open>\<^verbatim>\<open>to_char(t, 'YYYY-MM-DD"T"HH24:MI:SS"Z"')\<close> and the JSON of a \<^verbatim>\<open>time.Time\<close>.\<close>

definition show_iso :: "int \<Rightarrow> string" where
  "show_iso t = show_date (date_of t) @ ''T'' @ show_clock t @ ''Z''"

definition show_rfc3339 :: "int \<Rightarrow> string" where
  "show_rfc3339 t =
     (let n = nat (t mod nanos_per_second);
          frac = (if n = 0 then ''''
                  else CHR ''.'' # rev (dropWhile (\<lambda>c. c = CHR ''0'') (rev (decpad 9 n))))
      in show_date (date_of t) @ ''T'' @ show_clock t @ frac @ ''Z'')"

definition user_ok_response :: "(string \<times> json) list \<Rightarrow> response" where
  "user_ok_response fs = respond status_ok ((''success'', JBool True) # fs)"

definition json_or_null :: "string option \<Rightarrow> json" where
  "json_or_null x = (case x of None \<Rightarrow> JNull | Some s \<Rightarrow> JStr s)"

definition json_if_some :: "string \<Rightarrow> string option \<Rightarrow> (string \<times> json) list" where
  "json_if_some k x = (case x of None \<Rightarrow> [] | Some s \<Rightarrow> [(k, JStr s)])"

section \<open>Listing\<close>

record user_view =
  uv_id :: string
  uv_email :: string
  uv_active :: bool
  uv_login :: "string option"
  uv_invited :: "string option"
  uv_roles :: "string list"
  uv_emp :: "string option"

definition user_view_json :: "user_view \<Rightarrow> json" where
  "user_view_json v =
     JObj ([(''id'', JStr (uv_id v)), (''email'', JStr (uv_email v)),
            (''is_active'', JBool (uv_active v)), (''last_login'', json_or_null (uv_login v))]
           @ json_if_some ''invited_at'' (uv_invited v)
           @ [(''roles'', JArr (map JStr (uv_roles v)))]
           @ json_if_some ''employee_id'' (uv_emp v))"

definition role_names :: "'a world_scheme \<Rightarrow> string \<Rightarrow> string list" where
  "role_names w u =
     [ro_name r. (x, rid) \<leftarrow> user_roles w, r \<leftarrow> roles w, x = u \<and> ro_id r = rid]"

definition user_listed :: "string \<Rightarrow> string \<Rightarrow> 'a world_scheme \<Rightarrow> user_row \<Rightarrow> bool" where
  "user_listed search role w u \<longleftrightarrow>
     (search = '''' \<or> ilike w (u_email u) (''%'' @ search @ ''%''))
     \<and> (role = '''' \<or> role \<in> set (role_names w (u_id u)))"

text \<open>A filter on the role leaves only that role in the list of the user.\<close>

definition user_views :: "string \<Rightarrow> string \<Rightarrow> 'a world_scheme \<Rightarrow> user_view list" where
  "user_views search role w =
     [\<lparr>uv_id = u_id u, uv_email = u_email u, uv_active = u_active u,
       uv_login = map_option show_iso (u_login u), uv_invited = map_option show_iso (u_invited u),
       uv_roles = filter (\<lambda>n. role = '''' \<or> n = role) (role_names w (u_id u)), uv_emp = e\<rparr>.
        u \<leftarrow> sort_key (\<lambda>u. - u_created u) (filter (user_listed search role w) (users w)),
        e \<leftarrow> (case filter (user_is (u_id u)) (employees w) of
                [] \<Rightarrow> [None] | es \<Rightarrow> map (\<lambda>e. Some (e_id e)) es)]"

definition handle_list_users ::
  "claims option \<Rightarrow> url_query \<Rightarrow> ('a world_scheme, response) state" where
  "handle_list_users cl q =
     (if \<not> can_manage_users cl
      then State_Monad.return (forbidden_response ''FORBIDDEN_ROLE''
             ''Only Administrators can list user accounts.'')
      else do {
        let pg = parse_pagination_params q;
        nil \<leftarrow> reads db_nil;
        err \<leftarrow> reads err_text;
        (if nil then State_Monad.return panicked
         else do {
           tot \<leftarrow> or_zero (select (\<lambda>w.
             int (count_where (user_listed (pp_search pg) (q ''role'') w) (users w))));
           orelse (query_rows (\<lambda>w. page_of pg (user_views (pp_search pg) (q ''role'') w)))
             (json_error (''failed to query users: '' @ err) status_internal)
             (\<lambda>vs. State_Monad.return (page_response (map user_view_json vs) tot pg))
         })
      })"

definition handle_list_roles :: "('a world_scheme, response) state" where
  "handle_list_roles = do {
     nil \<leftarrow> reads db_nil;
     (if nil then State_Monad.return panicked
      else
        orelse (select (\<lambda>w. sort_key ro_name (roles w)))
          (json_error ''failed to query roles'' status_internal)
          (\<lambda>rs. State_Monad.return (data_response (map (\<lambda>r.
             JObj [(''id'', JStr (ro_id r)), (''name'', JStr (ro_name r)),
                   (''description'', json_or_null (ro_desc r))]) rs))))
   }"

section \<open>Creation and invitation\<close>

definition find_role :: "string \<Rightarrow> ('a world_scheme, string option) state" where
  "find_role role = select_row (\<lambda>w. [ro_id r. r \<leftarrow> roles w, ro_name r = role])"

definition new_user :: "string \<Rightarrow> string \<Rightarrow> bool \<Rightarrow> int \<Rightarrow> string \<Rightarrow> user_row" where
  "new_user email hash active t i =
     \<lparr>u_id = i, u_email = email, u_hash = hash, u_active = active, u_login = None, u_reset = None,
      u_reset_exp = None, u_invite = None, u_invite_exp = None, u_invited = None, u_created = t\<rparr>"

text \<open>Email and identifier are unique; \<open>row\<close> makes the row from the time and the identifier.\<close>

definition insert_user ::
  "(int \<Rightarrow> string \<Rightarrow> user_row) \<Rightarrow> ('a world_scheme, string option) state" where
  "insert_user row = insert_row (\<lambda>i w.
     if \<exists>u\<in>set (users w). u_email u = u_email (row (now w) i) \<or> u_id u = i then None
     else Some (w\<lparr>users := users w @ [row (now w) i]\<rparr>))"

definition insert_user_role :: "string \<Rightarrow> string \<Rightarrow> ('a world_scheme, nat option) state" where
  "insert_user_role uid rid = exec (\<lambda>w.
     case (uuid_in w uid, uuid_in w rid) of
       (Some u, Some r) \<Rightarrow>
         if (u, r) \<in> set (user_roles w) \<or> u \<notin> u_id ` set (users w) then None
         else Some (1, w\<lparr>user_roles := user_roles w @ [(u, r)]\<rparr>)
     | _ \<Rightarrow> None)"

text \<open>A user has one employee at most: \<^verbatim>\<open>employees.user_id\<close> is unique and refers to a user.\<close>

definition link_employee :: "string \<Rightarrow> string \<Rightarrow> ('a world_scheme, nat option) state" where
  "link_employee uid eid = exec (\<lambda>w.
     case (uuid_in w uid, uuid_in w eid) of
       (Some u, Some e) \<Rightarrow>
         let p = (\<lambda>x. e_id x = e \<and> e_user x = None)
         in if (\<exists>x\<in>set (employees w). p x)
               \<and> (u \<notin> u_id ` set (users w) \<or> (\<exists>x\<in>set (employees w). user_is u x)) then None
            else Some (count_where p (employees w),
                   w\<lparr>employees := upd_where p (\<lambda>x. x\<lparr>e_user := Some u\<rparr>) (employees w)\<rparr>)
     | _ \<Rightarrow> None)"

text \<open>
  The part that both transactions share after the role is found: the user, the role, and the link
  to an employee if one is given. The insert of the role is not looked at by the code.
\<close>

definition add_account ::
  "(int \<Rightarrow> string \<Rightarrow> user_row) \<Rightarrow> string \<Rightarrow> string option \<Rightarrow> 'r \<Rightarrow> 'r \<Rightarrow>
   (bool \<times> 'a world_scheme, 'r + string) state" where
  "add_account row rid emp dup unlinked =
     orelse (in_tx (insert_user row)) (Inl dup)
       (\<lambda>uid. do {
          _ \<leftarrow> in_tx (insert_user_role uid rid);
          (if emp \<noteq> None \<and> emp \<noteq> Some ''''
           then orelse (in_tx (link_employee uid (the emp))) (Inl unlinked)
                  (\<lambda>n. State_Monad.return (if n = 0 then Inl unlinked else Inr uid))
           else State_Monad.return (Inr uid))
        })"

definition create_user_tx ::
  "crypto \<Rightarrow> string \<Rightarrow> string \<Rightarrow> string \<Rightarrow> string option \<Rightarrow> bool \<Rightarrow>
   ('a world_scheme, string + string) state" where
  "create_user_tx cr email password role emp invitation = do {
     err \<leftarrow> reads err_text;
     transaction (Inl err)
       (orelse (in_tx (find_role role)) (Inl (Inl (''invalid role: '' @ role)))
          (\<lambda>rid. add_account
             (new_user email (text_or_empty (bcrypt_hash cr password)) (\<not> invitation)) rid emp
             (Inl ''email already exists or creation failed'')
             (Inl ''employee not found or already linked to a user'')))
       (Inl err) Inr
   }"

record create_user_request =
  cu_email :: string
  cu_password :: string
  cu_role :: string
  cu_emp :: "string option"

definition handle_create_user ::
  "crypto \<Rightarrow> claims option \<Rightarrow> create_user_request option \<Rightarrow> ('a world_scheme, response) state" where
  "handle_create_user cr cl body =
     (if \<not> can_manage_users cl
      then State_Monad.return (forbidden_response ''FORBIDDEN_ROLE''
             ''Only Administrators can create user accounts.'')
      else
        (case body of
           None \<Rightarrow> State_Monad.return (json_error ''invalid request'' status_bad_request)
         | Some req \<Rightarrow>
             if cu_email req = '''' \<or> cu_role req = '''' \<or> cu_password req = ''''
             then State_Monad.return
               (json_error ''email, role, and password are required'' status_bad_request)
             else do {
               nil \<leftarrow> reads db_nil;
               (if nil then State_Monad.return panicked
                else do {
                  r \<leftarrow> create_user_tx cr (cu_email req) (cu_password req) (cu_role req) (cu_emp req) False;
                  State_Monad.return
                    (case r of
                       Inl e \<Rightarrow> json_error e status_conflict
                     | Inr uid \<Rightarrow> respond status_created
                         [(''success'', JBool True), (''user_id'', JStr uid),
                          (''message'', JStr ''User created successfully.'')])
                })
             }))"

record invite_request =
  iv_email :: string
  iv_role :: string
  iv_emp :: "string option"

definition invited_user ::
  "string \<Rightarrow> string \<Rightarrow> string \<Rightarrow> int \<Rightarrow> string \<Rightarrow> user_row" where
  "invited_user email hash token t i =
     (new_user email hash False t i)\<lparr>u_invite := Some token,
        u_invite_exp := Some (t + 48 * nanos_per_hour), u_invited := Some t\<rparr>"

text \<open>\<open>random_hex\<close> is the invitation token and \<open>temp\<close> the second secret drawn.\<close>

definition handle_invite_user ::
  "crypto \<Rightarrow> string \<Rightarrow> claims option \<Rightarrow> invite_request option \<Rightarrow> ('a world_scheme, response) state"
  where
  "handle_invite_user cr temp cl body =
     (if \<not> can_manage_users cl
      then State_Monad.return (forbidden_response ''FORBIDDEN_ROLE''
             ''Only Administrators can invite users.'')
      else
        (case body of
           None \<Rightarrow> State_Monad.return (json_error ''invalid request'' status_bad_request)
         | Some req \<Rightarrow>
             if iv_email req = '''' \<or> iv_role req = ''''
             then State_Monad.return (json_error ''email and role are required'' status_bad_request)
             else do {
               nil \<leftarrow> reads db_nil;
               t \<leftarrow> reads now;
               (if nil then State_Monad.return panicked
                else
                  transaction (json_error ''internal error'' status_internal)
                    (orelse (in_tx (find_role (iv_role req)))
                       (Inl (json_error ''invalid role'' status_bad_request))
                       (\<lambda>rid. add_account
                          (invited_user (iv_email req) (text_or_empty (bcrypt_hash cr temp))
                             (hash_token cr (random_hex cr))) rid (iv_emp req)
                          (json_error ''email already exists'' status_conflict)
                          (json_error ''employee not found or already linked'' status_bad_request)))
                    (json_error ''failed to commit'' status_internal)
                    (\<lambda>uid. respond status_created
                       [(''success'', JBool True), (''user_id'', JStr uid),
                        (''message'', JStr
                           ''Invitation sent. User must set their password before first login.''),
                        (''invitation_token'', JStr (random_hex cr)),
                        (''expires_at'', JStr (show_rfc3339 (t + 48 * nanos_per_hour)))]))
             }))"

section \<open>Roles, suspension and deletion\<close>

definition delete_user_roles :: "string \<Rightarrow> ('a world_scheme, nat option) state" where
  "delete_user_roles uid = exec (\<lambda>w. map_option (\<lambda>u.
     (count_where (\<lambda>x. fst x = u) (user_roles w),
      w\<lparr>user_roles := filter (\<lambda>x. fst x \<noteq> u) (user_roles w)\<rparr>)) (uuid_in w uid))"

text \<open>Every error inside the transaction is ignored; a transaction that does not start panics.\<close>

definition handle_update_role ::
  "claims option \<Rightarrow> string \<Rightarrow> string option \<Rightarrow> ('a world_scheme, response) state" where
  "handle_update_role cl uid body =
     (if \<not> has_role cl [''SUPER_ADMIN'']
      then State_Monad.return (forbidden_response ''FORBIDDEN_ROLE''
             ''Only Super Admins can update user roles.'')
      else
        (case body of
           None \<Rightarrow> State_Monad.return (json_error ''invalid request'' status_bad_request)
         | Some role \<Rightarrow> do {
             let answer = user_ok_response [(''message'', JStr ''Role updated'')];
             nil \<leftarrow> reads db_nil;
             (if nil then State_Monad.return panicked
              else
                orelse (find_role role) (json_error ''invalid role'' status_bad_request)
                  (\<lambda>rid. transaction panicked
                     (do {
                        _ \<leftarrow> in_tx (delete_user_roles uid);
                        _ \<leftarrow> in_tx (insert_user_role uid rid);
                        State_Monad.return (Inr ())
                      })
                     answer (\<lambda>_. answer)))
           }))"

definition set_active :: "bool \<Rightarrow> string \<Rightarrow> ('a world_scheme, nat option) state" where
  "set_active b uid = exec (\<lambda>w. map_option (\<lambda>i.
     (count_where (\<lambda>u. u_id u = i) (users w),
      w\<lparr>users := upd_where (\<lambda>u. u_id u = i) (\<lambda>u. u\<lparr>u_active := b\<rparr>) (users w)\<rparr>)) (uuid_in w uid))"

definition handle_suspend_user :: "claims option \<Rightarrow> string \<Rightarrow> ('a world_scheme, response) state" where
  "handle_suspend_user cl uid =
     (if \<not> can_manage_users cl
      then State_Monad.return (forbidden_response ''FORBIDDEN_ROLE''
             ''Only Administrators can suspend users.'')
      else if uid = cl_user (the cl)
      then State_Monad.return (forbidden_response ''INVALID_ACTION''
             ''You cannot suspend your own account.'')
      else do {
        nil \<leftarrow> reads db_nil;
        (if nil then State_Monad.return panicked
         else do {
           _ \<leftarrow> set_active False uid;
           State_Monad.return (user_ok_response [(''message'', JStr ''User suspended'')])
         })
      })"

definition handle_activate_user :: "claims option \<Rightarrow> string \<Rightarrow> ('a world_scheme, response) state" where
  "handle_activate_user cl uid =
     (if \<not> can_manage_users cl
      then State_Monad.return (forbidden_response ''FORBIDDEN_ROLE''
             ''Only Administrators can activate users.'')
      else do {
        nil \<leftarrow> reads db_nil;
        (if nil then State_Monad.return panicked
         else do {
           _ \<leftarrow> set_active True uid;
           State_Monad.return (user_ok_response [(''message'', JStr ''User activated'')])
         })
      })"

definition unlink_user :: "string \<Rightarrow> ('a world_scheme, nat option) state" where
  "unlink_user uid = exec (\<lambda>w. map_option (\<lambda>i.
     (count_where (user_is i) (employees w),
      w\<lparr>employees := upd_where (user_is i) (\<lambda>e. e\<lparr>e_user := None\<rparr>) (employees w)\<rparr>)) (uuid_in w uid))"

text \<open>
  The rows that stop the deletion of a user, those that go with it, and those that forget it:
  the foreign keys without a clause, with \<^verbatim>\<open>ON DELETE CASCADE\<close> and with \<^verbatim>\<open>SET NULL\<close>.
\<close>

definition user_pinned :: "string \<Rightarrow> 'a att_world_scheme \<Rightarrow> bool" where
  "user_pinned i w \<longleftrightarrow> (\<exists>e\<in>set (employees w). user_is i e) \<or> (\<exists>a\<in>set (audit_logs w). au_user a = i)
     \<or> (\<exists>r\<in>set (runs w). pr_processed_by r = Some i \<or> pr_approved_by r = Some i)
     \<or> (\<exists>a\<in>set (advances w). pa_approved_by a = Some i)
     \<or> (\<exists>x\<in>set (exceptions w). ax_by x = Some i)"

definition forget_user :: "string \<Rightarrow> 'a att_world_scheme \<Rightarrow> 'a att_world_scheme" where
  "forget_user i w =
     w\<lparr>users := filter (\<lambda>u. u_id u \<noteq> i) (users w),
       user_roles := filter (\<lambda>x. fst x \<noteq> i) (user_roles w),
       comments := filter (\<lambda>c. cm_user c \<noteq> i) (comments w),
       access_logs := filter (\<lambda>l. dl_user l \<noteq> i) (access_logs w),
       daily := upd_where (\<lambda>d. ad_by d = Some i) (\<lambda>d. d\<lparr>ad_by := None\<rparr>) (daily w),
       encashments := upd_where (\<lambda>e. en_by e = Some i) (\<lambda>e. e\<lparr>en_by := None\<rparr>) (encashments w),
       tickets := upd_where (\<lambda>t. tk_assigned t = Some i) (\<lambda>t. t\<lparr>tk_assigned := None\<rparr>) (tickets w)\<rparr>"

definition delete_user :: "string \<Rightarrow> ('a att_world_scheme, nat option) state" where
  "delete_user uid = exec (\<lambda>w.
     case uuid_in w uid of
       None \<Rightarrow> None
     | Some i \<Rightarrow>
         if i \<in> u_id ` set (users w) \<and> user_pinned i w then None
         else Some (count_where (\<lambda>u. u_id u = i) (users w), forget_user i w))"

definition handle_delete_user :: "claims option \<Rightarrow> string \<Rightarrow> ('a att_world_scheme, response) state" where
  "handle_delete_user cl uid =
     (if \<not> has_role cl [''SUPER_ADMIN'']
      then State_Monad.return (forbidden_response ''FORBIDDEN_ROLE''
             ''Only Super Admins can delete users.'')
      else if uid = cl_user (the cl)
      then State_Monad.return (forbidden_response ''INVALID_ACTION''
             ''You cannot delete your own account.'')
      else do {
        nil \<leftarrow> reads db_nil;
        (if nil then State_Monad.return panicked
         else do {
           _ \<leftarrow> unlink_user uid;
           _ \<leftarrow> delete_user uid;
           State_Monad.return (user_ok_response [(''message'', JStr ''User deleted'')])
         })
      })"

section \<open>Accounts are created completely or not at all\<close>

lemma in_tx_stmt_some:
  assumes "run_state (in_tx (stmt f)) (b, v) = (Some a, s)"
  shows "\<exists>v'. b = False \<and> s = (False, v') \<and> f (popped v) = Some (a, v')"
  using assms by (auto simp: in_tx_def stmt_def split: if_splits option.splits)

lemma in_tx_none: "run_state (in_tx m) (b, v) = (None, s) \<Longrightarrow> fst s"
  by (auto simp: in_tx_def split: if_splits prod.splits)

lemma find_role_some:
  assumes "run_state (in_tx (find_role role)) (b, v) = (Some rid, s)"
  shows "\<exists>r\<in>set (roles v). ro_name r = role \<and> rid = ro_id r \<and> s = (False, popped v)"
proof -
  have "run_state (in_tx (find_role role)) (b, v)
      = run_state (in_tx (stmt (\<lambda>w. map_option (\<lambda>a. (a, w))
          (map_option ro_id (find (\<lambda>r. ro_name r = role) (roles w)))))) (b, v)"
    by (simp add: find_role_def select_row_def query_row_def query_def first_row)
  from in_tx_stmt_some [OF assms [unfolded this]]
  show ?thesis by (auto simp: find_Some_iff)
qed

lemma insert_user_some:
  assumes "run_state (in_tx (insert_user row)) (b, v) = (Some uid, s)"
  shows "(\<forall>u\<in>set (users v). u_email u \<noteq> u_email (row (now v) uid))
    \<and> s = (False, (popped v)\<lparr>users := users v @ [row (now v) uid], issued := issued v + 1\<rparr>)"
proof -
  obtain v' where "s = (False, v')"
    "map_option (\<lambda>w'. (ids (popped v) (issued (popped v)), w'\<lparr>issued := issued (popped v) + 1\<rparr>))
       (if \<exists>u\<in>set (users (popped v)). u_email u
             = u_email (row (now (popped v)) (ids (popped v) (issued (popped v))))
             \<or> u_id u = ids (popped v) (issued (popped v)) then None
        else Some ((popped v)\<lparr>users := users (popped v)
          @ [row (now (popped v)) (ids (popped v) (issued (popped v)))]\<rparr>)) = Some (uid, v')"
    using in_tx_stmt_some [OF assms [unfolded insert_user_def insert_row_def]] by blast
  then show ?thesis by (simp split: if_splits) blast
qed

text \<open>The tables after a complete account, from those before it.\<close>

definition account_added ::
  "(int \<Rightarrow> string \<Rightarrow> user_row) \<Rightarrow> string \<Rightarrow> string option \<Rightarrow> string \<Rightarrow> 'a world_scheme \<Rightarrow>
   'a world_scheme \<Rightarrow> bool" where
  "account_added row rid emp uid w w' \<longleftrightarrow>
     (\<forall>u\<in>set (users w). u_email u \<noteq> u_email (row (now w) uid))
     \<and> users w' = users w @ [row (now w) uid]
     \<and> (\<exists>u r. uuid_in w uid = Some u \<and> uuid_in w rid = Some r \<and> user_roles w' = user_roles w @ [(u, r)]
          \<and> (if emp \<noteq> None \<and> emp \<noteq> Some ''''
             then \<exists>e\<in>set (employees w). uuid_in w (the emp) = Some (e_id e) \<and> e_user e = None
                    \<and> employees w' = upd_where (\<lambda>x. e_id x = e_id e \<and> e_user x = None)
                        (\<lambda>x. x\<lparr>e_user := Some u\<rparr>) (employees w)
             else employees w' = employees w))"

lemma add_account_complete:
  assumes "run_state (add_account row rid emp dup unlinked) (False, v) = (Inr uid, (False, v'))"
  shows "account_added row rid emp uid v v'"
proof -
  let ?give = "emp \<noteq> None \<and> emp \<noteq> Some ''''"
  obtain x s1 where s1: "run_state (in_tx (insert_user row)) (False, v) = (x, s1)"
    by (cases "run_state (in_tx (insert_user row)) (False, v)")
  with assms have "x = Some uid"
    by (cases x) (auto simp: add_account_def run_orelse run_bind split: if_splits prod.splits option.splits)
  with s1 have "run_state (in_tx (insert_user row)) (False, v) = (Some uid, s1)" by simp
  from insert_user_some [OF this]
  obtain v1 where v1: "s1 = (False, v1)" 
    "\<forall>u\<in>set (users v). u_email u \<noteq> u_email (row (now v) uid)"
    "v1 = (popped v)\<lparr>users := users v @ [row (now v) uid], issued := issued v + 1\<rparr>"
    by blast
  obtain y s2 where s2: "run_state (in_tx (insert_user_role uid rid)) (False, v1) = (y, s2)"
    by (cases "run_state (in_tx (insert_user_role uid rid)) (False, v1)")
  have step: "run_state (if ?give
           then orelse (in_tx (link_employee uid (the emp))) (Inl unlinked)
                  (\<lambda>n. State_Monad.return (if n = 0 then Inl unlinked else Inr uid))
           else State_Monad.return (Inr uid)) s2 = (Inr uid, (False, v'))"
    using assms s1 s2 v1(1) \<open>x = Some uid\<close> by (simp add: add_account_def run_orelse run_bind)
  have "y \<noteq> None"
  proof
    assume "y = None"
    with s2 have "run_state (in_tx (insert_user_role uid rid)) (False, v1) = (None, s2)" by simp
    then have "fst s2" by (rule in_tx_none)
    then obtain v2 where "s2 = (True, v2)" by (cases s2) auto
    then show False using step by (auto simp: run_orelse run_in_tx_failed split: if_splits)
  qed
  with s2 obtain k where "run_state (in_tx (insert_user_role uid rid)) (False, v1) = (Some k, s2)" by auto
  from in_tx_stmt_some [OF this [unfolded insert_user_role_def exec_def]]
  obtain u r v2 where v2: "s2 = (False, v2)" "uuid_in v uid = Some u" "uuid_in v rid = Some r"
    "v2 = (popped v1)\<lparr>user_roles := user_roles v @ [(u, r)]\<rparr>"
    by (auto simp: v1(3) split: if_splits option.splits)
  show ?thesis
  proof (cases ?give)
    case False
    then have "v' = v2" using step v2(1) by auto
    then show ?thesis
      using False v1 v2 by (auto simp: account_added_def)
  next
    case True
    obtain z s3 where s3: "run_state (in_tx (link_employee uid (the emp))) (False, v2) = (z, s3)"
      by (cases "run_state (in_tx (link_employee uid (the emp))) (False, v2)")
    obtain n where n: "z = Some n" "n \<noteq> 0" "s3 = (False, v')"
      using step True v2(1) s3 by (cases z) (auto simp: run_orelse split: if_splits)
    from in_tx_stmt_some [OF s3 [unfolded n(1) link_employee_def exec_def]] n(2,3)
    obtain e where e: "uuid_in v (the emp) = Some e"
      "count_where (\<lambda>x. e_id x = e \<and> e_user x = None) (employees v) \<noteq> 0"
      "v' = (popped v2)\<lparr>employees := upd_where (\<lambda>x. e_id x = e \<and> e_user x = None)
           (\<lambda>x. x\<lparr>e_user := Some u\<rparr>) (employees v)\<rparr>"
      using v2(2) by (auto simp: Let_def v2(4) v1(3) split: option.splits if_splits)
    then obtain x where x: "x \<in> set (employees v)" "e_id x = e" "e_user x = None"
      by (auto simp: count_where_0)
    have "users v' = users v @ [row (now v) uid]" "user_roles v' = user_roles v @ [(u, r)]"
      by (simp_all add: e(3) v2(4) v1(3))
    moreover have "employees v' = upd_where (\<lambda>y. e_id y = e_id x \<and> e_user y = None)
        (\<lambda>y. y\<lparr>e_user := Some u\<rparr>) (employees v)"
      by (simp add: e(3) x(2))
    moreover have "uuid_in v (the emp) = Some (e_id x)" by (simp add: e(1) x(2))
    ultimately show ?thesis
      unfolding account_added_def if_P [OF True]
      using v1(2) v2(2,3) x by (intro conjI exI [of _ u] exI [of _ r] bexI [of _ x]) auto
  qed
qed

lemma account_added_outcomes [simp]:
  "account_added row rid emp uid (w\<lparr>outcomes := os\<rparr>) w' \<longleftrightarrow> account_added row rid emp uid w w'"
  "account_added row rid emp uid w (w'\<lparr>outcomes := os\<rparr>) \<longleftrightarrow> account_added row rid emp uid w w'"
  by (simp_all add: account_added_def cong: if_cong)

lemma wp_create_user_tx:
  assumes "\<And>e w'. untouched w w' \<Longrightarrow> Q (Inl e) w'"
    "\<And>uid r w'. r \<in> set (roles w) \<Longrightarrow> ro_name r = role \<Longrightarrow>
       account_added (new_user email (text_or_empty (bcrypt_hash cr password)) (\<not> invitation)) (ro_id r) emp uid w w' \<Longrightarrow>
       Q (Inr uid) w'"
  shows "wp (create_user_tx cr email password role emp invitation) Q w"
  unfolding create_user_tx_def wp_bind wp_reads
proof (rule transaction_atomic)
  show "Q r w'" if "untouched w w'" "r \<in> {Inl (err_text w), Inl (err_text w)}" for r w'
    using that assms(1) by auto
next
  let ?body = "orelse (in_tx (find_role role)) (Inl (Inl (''invalid role: '' @ role) :: string + string))
     (\<lambda>rid. add_account (new_user email (text_or_empty (bcrypt_hash cr password)) (\<not> invitation)) rid emp
        (Inl ''email already exists or creation failed'' :: string + string)
        (Inl ''employee not found or already linked to a user''))"
  obtain x s where s: "run_state (in_tx (find_role role)) (False, popped w) = (x, s)"
    by (cases "run_state (in_tx (find_role role)) (False, popped w)")
  show "Q r w'" if r: "run_state ?body (False, popped w) = (Inl r, b, v)" and u: "untouched w w'"
    for r b v w'
  proof -
    have "\<exists>e. r = Inl e"
      using r s by (auto simp: run_orelse add_account_def run_bind split: option.splits prod.splits if_splits)
    then show ?thesis using assms(1) [OF u] by auto
  qed
  show "Q (Inr uid) (popped v)" if r: "run_state ?body (False, popped w) = (Inr uid, False, v)" for uid v
  proof -
    obtain rid where x: "x = Some rid" using r s by (cases x) (auto simp: run_orelse)
    from find_role_some [OF s [unfolded this]] obtain ro where
      ro: "ro \<in> set (roles w)" "ro_name ro = role" "rid = ro_id ro" "s = (False, popped (popped w))"
      by auto
    have "run_state (add_account (new_user email (text_or_empty (bcrypt_hash cr password)) (\<not> invitation)) rid emp
        (Inl ''email already exists or creation failed'' :: string + string)
        (Inl ''employee not found or already linked to a user'')) (False, popped (popped w))
        = (Inr uid, (False, v))"
      using r s x ro(4) by (simp add: run_orelse)
    from add_account_complete [OF this] have
      "account_added (new_user email (text_or_empty (bcrypt_hash cr password)) (\<not> invitation)) rid emp uid w (popped v)"
      by simp
    then show ?thesis using assms(2) ro by blast
  qed
qed


end
