(* ===== verification/Accounts.thy ===== *)
theory Accounts
  imports Users
begin

text \<open>
  The invariant of the accounts under every request of \<^verbatim>\<open>internal/user\<close>, and what a deletion
  leaves behind.
\<close>

section \<open>Accounts stay well formed\<close>

text \<open>
  Identifiers and emails are unique, roles are given once and to existing users, and an account
  belongs to one employee at most, who is linked to an existing user.
\<close>

definition roles_fit :: "string set \<Rightarrow> (string \<times> string) list \<Rightarrow> bool" where
  "roles_fit us rs \<longleftrightarrow> distinct rs \<and> (\<forall>u r. (u, r) \<in> set rs \<longrightarrow> u \<in> us)"

definition links_fit :: "string set \<Rightarrow> employee_row list \<Rightarrow> bool" where
  "links_fit us es \<longleftrightarrow> distinct (map e_id es)
     \<and> (\<forall>u e. e \<in> set es \<longrightarrow> e_user e = Some u \<longrightarrow> u \<in> us)
     \<and> (\<forall>u e x. e \<in> set es \<longrightarrow> x \<in> set es \<longrightarrow> e_user e = Some u \<longrightarrow> e_user x = Some u \<longrightarrow>
          e_id e = e_id x)"

definition accounts_fit :: "user_row list \<Rightarrow> (string \<times> string) list \<Rightarrow> employee_row list \<Rightarrow> bool" where
  "accounts_fit us rs es \<longleftrightarrow> distinct (map u_id us) \<and> distinct (map u_email us)
     \<and> roles_fit (u_id ` set us) rs \<and> links_fit (u_id ` set us) es"

definition accounts_ok :: "'a world_scheme \<Rightarrow> bool" where
  "accounts_ok w \<longleftrightarrow> accounts_fit (users w) (user_roles w) (employees w)"

lemma links_fit_mono: "links_fit us es \<Longrightarrow> us \<subseteq> vs \<Longrightarrow> links_fit vs es"
  unfolding links_fit_def by blast

lemma roles_fit_filter: "roles_fit us rs \<Longrightarrow> roles_fit us (filter p rs)"
  unfolding roles_fit_def by auto

lemma fit_insert_user:
  assumes "accounts_fit us rs es" "\<forall>u\<in>set us. u_email u \<noteq> u_email r \<and> u_id u \<noteq> u_id r"
  shows "accounts_fit (us @ [r]) rs es"
proof -
  have "links_fit (u_id ` set (us @ [r])) es"
    by (rule links_fit_mono [of "u_id ` set us"]) (use assms(1) in \<open>auto simp: accounts_fit_def\<close>)
  moreover have "roles_fit (u_id ` set (us @ [r])) rs"
    using assms(1) by (auto simp: accounts_fit_def roles_fit_def)
  moreover have "distinct (map u_id (us @ [r]))" "distinct (map u_email (us @ [r]))"
    using assms by (auto simp: accounts_fit_def)
  ultimately show ?thesis unfolding accounts_fit_def by blast
qed

lemma fit_roles:
  "accounts_fit us rs es \<Longrightarrow> roles_fit (u_id ` set us) rs' \<Longrightarrow> accounts_fit us rs' es"
  by (simp add: accounts_fit_def)

lemma fit_users_same:
  "accounts_fit us rs es \<Longrightarrow> map u_id us' = map u_id us \<Longrightarrow> map u_email us' = map u_email us \<Longrightarrow>
   accounts_fit us' rs es"
  unfolding accounts_fit_def set_map [symmetric] by simp

lemma links_unlink:
  assumes "links_fit us es"
  shows "links_fit us (upd_where p (\<lambda>e. e\<lparr>e_user := None\<rparr>) es)" (is "links_fit us ?es")
proof -
  have "map e_id ?es = map e_id es"
    by (rule map_upd_where) simp
  moreover have "e \<in> set es" if "e \<in> set ?es" "e_user e = Some u" for e u
    using that by (auto simp: in_upd_where split: if_splits)
  ultimately show ?thesis
    using assms unfolding links_fit_def by metis
qed

lemma links_link:
  assumes fit: "links_fit us es" and u: "u \<in> us" "\<forall>e\<in>set es. e_user e \<noteq> Some u"
  shows "links_fit us (upd_where (\<lambda>x. e_id x = i \<and> e_user x = None) (\<lambda>x. x\<lparr>e_user := Some u\<rparr>) es)"
    (is "links_fit us ?es")
proof -
  have m: "map e_id ?es = map e_id es" by (rule map_upd_where) simp
  have new: "e \<in> set es \<and> e_user e \<noteq> Some u \<or> e_id e = i \<and> e_user e = Some u" if "e \<in> set ?es" for e
    using that u(2) by (auto simp: in_upd_where split: if_splits)
  have old: "v \<in> us" "e_id e = e_id x"
    if "e \<in> set es" "x \<in> set es" "e_user e = Some v" "e_user x = Some v" for e x v
    using that fit unfolding links_fit_def by blast+
  show ?thesis
    unfolding links_fit_def m
  proof (intro conjI allI impI)
    show "distinct (map e_id es)" using fit by (simp add: links_fit_def)
    show "v \<in> us" if "e \<in> set ?es" "e_user e = Some v" for v e
      using new [OF that(1)] that(2) old(1) [of e e v] u(1) by auto
    show "e_id e = e_id x"
      if "e \<in> set ?es" "x \<in> set ?es" "e_user e = Some v" "e_user x = Some v" for v e x
      using new [OF that(1)] new [OF that(2)] that(3,4) old(2) [of e x v] by auto
  qed
qed

lemma links_delete:
  "links_fit us es \<Longrightarrow> \<forall>e\<in>set es. e_user e \<noteq> Some i \<Longrightarrow> links_fit (us - {i}) es"
  unfolding links_fit_def by blast

lemma fit_delete:
  assumes "accounts_fit us rs es" "\<forall>e\<in>set es. e_user e \<noteq> Some i"
  shows "accounts_fit (filter (\<lambda>u. u_id u \<noteq> i) us) (filter (\<lambda>x. fst x \<noteq> i) rs) es"
proof -
  have ids: "u_id ` set (filter (\<lambda>u. u_id u \<noteq> i) us) = u_id ` set us - {i}" by auto
  have "links_fit (u_id ` set us - {i}) es"
    by (rule links_delete) (use assms in \<open>simp_all add: accounts_fit_def\<close>)
  moreover have "roles_fit (u_id ` set us - {i}) (filter (\<lambda>x. fst x \<noteq> i) rs)"
    using assms(1) by (auto simp: accounts_fit_def roles_fit_def)
  ultimately show ?thesis
    using assms(1) unfolding accounts_fit_def ids by (simp add: distinct_map_filter)
qed

lemma fit_no_user:
  "accounts_fit us rs es \<Longrightarrow> i \<notin> u_id ` set us \<Longrightarrow> e \<in> set es \<Longrightarrow> e_user e \<noteq> Some i"
  by (auto simp: accounts_fit_def links_fit_def)

lemma accounts_ok_untouched: "untouched w w' \<Longrightarrow> accounts_ok w \<Longrightarrow> accounts_ok w'"
proof -
  assume "untouched w w'"
  then obtain os i s where "w' = w\<lparr>outcomes := os, issued := i, sequence := s\<rparr>"
    unfolding untouched_def by blast
  then show "accounts_ok w \<Longrightarrow> accounts_ok w'" by (simp add: accounts_ok_def)
qed

lemmas keeps_accounts_tx = keeps_transaction [where I = accounts_ok, OF accounts_ok_untouched]

lemma stable_accounts_ok [simp]: "stable accounts_ok"
  by (simp add: stable_def accounts_ok_def)

lemma keeps_insert_user:
  assumes "\<And>t i. u_id (row t i) = i"
  shows "keeps accounts_ok (insert_user row)"
  unfolding insert_user_def insert_row_def
  by (rule keeps_stmt)
    (auto simp: accounts_ok_def assms intro!: fit_insert_user split: if_splits)

lemma keeps_insert_user_role [keeps_rules]: "keeps accounts_ok (insert_user_role uid rid)"
  unfolding insert_user_role_def exec_def
  by (rule keeps_stmt)
    (auto simp: accounts_ok_def accounts_fit_def roles_fit_def split: if_splits option.splits)

lemma keeps_delete_user_roles [keeps_rules]: "keeps accounts_ok (delete_user_roles uid)"
  unfolding delete_user_roles_def exec_def
  by (rule keeps_stmt) (auto simp: accounts_ok_def accounts_fit_def intro: roles_fit_filter)

lemma keeps_find_role [keeps_rules]: "keeps accounts_ok (find_role role)"
  unfolding find_role_def by (rule keeps_select_row) simp

lemma keeps_set_active [keeps_rules]: "keeps accounts_ok (set_active b uid)"
  unfolding set_active_def exec_def
  by (rule keeps_stmt) (auto simp: accounts_ok_def map_upd_where intro: fit_users_same)

lemma keeps_link_employee [keeps_rules]: "keeps accounts_ok (link_employee uid eid)"
  unfolding link_employee_def exec_def
proof (rule keeps_stmt)
  fix w w' :: "'a world_scheme" and n
  assume ok: "accounts_ok w" and step: "(case (uuid_in w uid, uuid_in w eid) of
       (Some u, Some e) \<Rightarrow>
         let p = (\<lambda>x. e_id x = e \<and> e_user x = None)
         in if (\<exists>x\<in>set (employees w). p x)
               \<and> (u \<notin> u_id ` set (users w) \<or> (\<exists>x\<in>set (employees w). user_is u x)) then None
            else Some (count_where p (employees w),
                   w\<lparr>employees := upd_where p (\<lambda>x. x\<lparr>e_user := Some u\<rparr>) (employees w)\<rparr>)
     | _ \<Rightarrow> None) = Some (n, w')"
  then obtain u e where ue: "uuid_in w uid = Some u" "uuid_in w eid = Some e"
    by (auto split: option.splits)
  let ?p = "\<lambda>x. e_id x = e \<and> e_user x = None"
  have w': "w' = w\<lparr>employees := upd_where ?p (\<lambda>x. x\<lparr>e_user := Some u\<rparr>) (employees w)\<rparr>"
    and free: "(\<forall>x\<in>set (employees w). \<not> ?p x)
      \<or> u \<in> u_id ` set (users w) \<and> (\<forall>x\<in>set (employees w). e_user x \<noteq> Some u)"
    using step by (auto simp: ue Let_def user_is_def split: if_splits)
  from free show "accounts_ok w'"
  proof
    assume "\<forall>x\<in>set (employees w). \<not> ?p x"
    then have "upd_where ?p (\<lambda>x. x\<lparr>e_user := Some u\<rparr>) (employees w) = employees w"
      by (intro upd_where_none) blast
    then show ?thesis using ok by (simp add: accounts_ok_def w')
  next
    assume "u \<in> u_id ` set (users w) \<and> (\<forall>x\<in>set (employees w). e_user x \<noteq> Some u)"
    then show ?thesis using ok links_link by (simp add: accounts_ok_def accounts_fit_def w')
  qed
qed simp

lemma keeps_unlink_user [keeps_rules]: "keeps accounts_ok (unlink_user uid)"
  unfolding unlink_user_def exec_def
  by (rule keeps_stmt) (auto simp: accounts_ok_def accounts_fit_def links_unlink)

lemma keeps_delete_user [keeps_rules]: "keeps accounts_ok (delete_user uid)"
  unfolding delete_user_def exec_def
  by (rule keeps_stmt)
    (auto simp: accounts_ok_def forget_user_def user_pinned_def user_is_def
      intro!: fit_delete dest: fit_no_user split: if_splits option.splits)

lemma keeps_add_account:
  assumes "\<And>t i. u_id (row t i) = i"
  shows "keeps (\<lambda>s. accounts_ok (snd s)) (add_account row rid emp dup unlinked)"
  unfolding add_account_def by (intro keeps_rules keeps_insert_user assms)

text \<open>One request to the component, whatever its caller, its body and the failing statements.\<close>

inductive user_step :: "'a att_world_scheme \<Rightarrow> 'a att_world_scheme \<Rightarrow> bool" where
  create: "user_step w (snd (run_state (handle_create_user cr cl body) w))"
| invite: "user_step w (snd (run_state (handle_invite_user cr temp cl req) w))"
| list_users: "user_step w (snd (run_state (handle_list_users cl q) w))"
| list_roles: "user_step w (snd (run_state handle_list_roles w))"
| role: "user_step w (snd (run_state (handle_update_role cl uid new) w))"
| suspend: "user_step w (snd (run_state (handle_suspend_user cl uid) w))"
| activate: "user_step w (snd (run_state (handle_activate_user cl uid) w))"
| delete: "user_step w (snd (run_state (handle_delete_user cl uid) w))"
| clock: "user_step w (w\<lparr>now := t, outcomes := os\<rparr>)"

inductive_cases user_stepE: "user_step w w'"

lemma keeps_create_user_tx:
  "keeps accounts_ok (create_user_tx cr email password role emp invitation)"
  unfolding create_user_tx_def
  by (intro keeps_rules keeps_accounts_tx keeps_add_account)
    (simp_all add: new_user_def)

lemma keeps_handle_create_user: "keeps accounts_ok (handle_create_user cr cl body)"
  unfolding handle_create_user_def by (intro keeps_rules keeps_create_user_tx)

lemma keeps_handle_invite_user: "keeps accounts_ok (handle_invite_user cr temp cl req)"
  unfolding handle_invite_user_def
  by (intro keeps_rules keeps_accounts_tx keeps_add_account)
    (simp_all add: invited_user_def new_user_def)

lemma keeps_handle_update_role: "keeps accounts_ok (handle_update_role cl uid new)"
  unfolding handle_update_role_def
  by (intro keeps_rules keeps_accounts_tx)

lemma keeps_handle_users:
  "keeps accounts_ok (handle_list_users cl q)" "keeps accounts_ok handle_list_roles"
  "keeps accounts_ok (handle_suspend_user cl uid)" "keeps accounts_ok (handle_activate_user cl uid)"
  unfolding handle_list_users_def handle_list_roles_def handle_suspend_user_def
    handle_activate_user_def or_zero_def
  by (intro keeps_rules stable_accounts_ok)+

lemma keeps_handle_delete_user: "keeps accounts_ok (handle_delete_user cl uid)"
  unfolding handle_delete_user_def by (intro keeps_rules stable_accounts_ok)

lemma user_step_ok: "user_step w w' \<Longrightarrow> accounts_ok w \<Longrightarrow> accounts_ok w'"
  by (erule user_stepE)
    (simp_all add: keepsD keeps_handle_users keeps_handle_create_user keeps_handle_invite_user
      keeps_handle_update_role keeps_handle_delete_user, simp add: accounts_ok_def)

text \<open>
  The accounts stay well formed. Through any sequence of requests to \<^verbatim>\<open>internal/user\<close>, with
  any callers, bodies and failing statements, no two users share an identifier or an email, roles are
  given once and to existing users only, and an account is linked to one employee at most, an
  existing user in every case.
\<close>

theorem accounts_invariant:
  assumes "user_step\<^sup>*\<^sup>* w w'" "accounts_ok w"
  shows "accounts_ok w'"
  using assms by (induction rule: rtranclp_induct) (auto intro: user_step_ok)

definition demo_user :: user_row where
  "demo_user = new_user ''ann@x.org'' ''h'' True 0 ''u1''"

definition demo_audit :: audit_row where
  "demo_audit = \<lparr>au_user = ''u1'', au_action = ''LOGIN'', au_module = ''AUTH'',
     au_entity = ''USER'', au_entity_id = ''u1'', au_reason = '''', au_time = 0\<rparr>"

definition demo_accounts :: att_world where
  "demo_accounts = empty_att\<lparr>users := [demo_user, new_user ''bob@x.org'' ''h'' True 0 ''u2''],
     roles := [\<lparr>ro_id = ''r1'', ro_name = ''EMPLOYEE'', ro_desc = None\<rparr>],
     user_roles := [(''u1'', ''r1'')], employees := [demo_employee],
     audit_logs := [demo_audit]\<rparr>"

lemmas accounts_defs = demo_accounts_def empty_att_def empty_hr_def empty_world_def world.defs
  hr_world.defs att_world.defs

lemma demo_accounts_simps [simp]:
  "outcomes demo_accounts = []" "\<not> db_nil demo_accounts" "uuid_in demo_accounts = Some"
  "users demo_accounts = [demo_user, new_user ''bob@x.org'' ''h'' True 0 ''u2'']"
  "user_roles demo_accounts = [(''u1'', ''r1'')]" "employees demo_accounts = [demo_employee]"
  "audit_logs demo_accounts = [demo_audit]"
  by (simp_all add: accounts_defs)

lemma demo_accounts_ok: "accounts_ok demo_accounts"
  by (simp add: accounts_ok_def accounts_fit_def roles_fit_def links_fit_def demo_employee_def demo_user_def new_user_def)

text \<open>A super administrator.\<close>

definition root_claims :: claims where
  "root_claims = admin_claims\<lparr>cl_roles := [''SUPER_ADMIN'']\<rparr>"

lemma root_claims_simps [simp]:
  "has_role (Some root_claims) rs" "cl_user root_claims = ''u9''"
  by (simp_all add: root_claims_def admin_claims_def has_role_Some)

theorem accounts_invariant_witness:
  "accounts_ok (snd (run_state (handle_delete_user (Some root_claims) ''u1'') demo_accounts))"
  by (rule accounts_invariant [OF r_into_rtranclp demo_accounts_ok]) (rule user_step.delete)

section \<open>What a deletion leaves\<close>

lemma run_delete_pinned:
  assumes "outcomes w = []" "uuid_in w uid = Some uid" "uid \<in> u_id ` set (users w)" "user_pinned uid w"
  shows "run_state (delete_user uid) w = (None, w)"
  using assms by (simp add: delete_user_def run_exec_calm)

text \<open>
  C28. A user who has done anything cannot be deleted, although the answer says so. When the audit log
  names the user, the request of a super administrator unlinks the employee of the account, leaves the
  account with its roles as it was, and answers that the user is deleted.
\<close>

theorem audited_user_survives:
  assumes "outcomes w = []" "\<not> db_nil w" "uuid_in w uid = Some uid" "uid \<in> u_id ` set (users w)"
    "a \<in> set (audit_logs w)" "au_user a = uid"
    "has_role (Some c) [''SUPER_ADMIN'']" "cl_user c \<noteq> uid"
  shows "let (resp, w') = run_state (handle_delete_user (Some c) uid) w
    in resp = user_ok_response [(''message'', JStr ''User deleted'')]
       \<and> users w' = users w \<and> user_roles w' = user_roles w
       \<and> (\<forall>e\<in>set (employees w'). \<not> user_is uid e)"
proof -
  let ?w = "w\<lparr>employees := upd_where (user_is uid) (\<lambda>e. e\<lparr>e_user := None\<rparr>) (employees w)\<rparr>"
  have "run_state (unlink_user uid) w = (Some (count_where (user_is uid) (employees w)), ?w)"
    using assms(1,3) by (simp add: unlink_user_def run_exec_calm)
  moreover have "run_state (delete_user uid) ?w = (None, ?w)"
    by (rule run_delete_pinned) (use assms in \<open>auto simp: user_pinned_def\<close>)
  moreover have "\<forall>e\<in>set (employees ?w). \<not> user_is uid e"
    by (auto simp: upd_where_def user_is_def)
  ultimately show ?thesis
    using assms(2,7,8) by (simp add: handle_delete_user_def run_bind)
qed

theorem audited_user_survives_witness:
  "let (resp, w') = run_state (handle_delete_user (Some root_claims) ''u1'') demo_accounts
   in resp = user_ok_response [(''message'', JStr ''User deleted'')]
      \<and> users w' = users demo_accounts \<and> user_roles w' = user_roles demo_accounts
      \<and> (\<forall>e\<in>set (employees w'). \<not> user_is ''u1'' e)"
  by (rule audited_user_survives [of _ _ demo_audit])
    (simp_all add: demo_user_def new_user_def demo_audit_def)

end
