(* ===== verification/Csv.thy ===== *)
theory Csv
  imports Prelude
begin

text \<open>
  Go's \<^verbatim>\<open>encoding/csv\<close> (\<^verbatim>\<open>local_go/src/encoding/csv\<close>) as the export of employees writes it
  and the import reads it: a comma as delimiter, no comments, no lazy quotes, no trimming, and the
  number of fields fixed by the first record. Texts are lists of bytes. Errors of the reader are
  \<^term>\<open>None\<close>; \<^verbatim>\<open>ReadAll\<close> gives no record then.
\<close>

section \<open>The writer\<close>

abbreviation cret :: char where "cret \<equiv> CHR 0x0D"
abbreviation newline :: char where "newline \<equiv> CHR 0x0A"
abbreviation dquote :: char where "dquote \<equiv> CHR 0x22"
abbreviation comma :: char where "comma \<equiv> CHR 0x2C"

definition field_needs_quotes :: "string \<Rightarrow> bool" where
  "field_needs_quotes f =
     (if f = [] then False
      else if f = [CHR 0x5C, CHR 0x2E] then True
      else if newline \<in> set f \<or> cret \<in> set f \<or> dquote \<in> set f \<or> comma \<in> set f then True
      else space_front (map of_char f) > 0)"

definition quote_char :: "char \<Rightarrow> string" where
  "quote_char c = (if c = dquote then [dquote, dquote] else [c])"

definition write_field :: "string \<Rightarrow> string" where
  "write_field f =
     (if field_needs_quotes f then [dquote] @ concat (map quote_char f) @ [dquote] else f)"

fun write_fields :: "string list \<Rightarrow> string" where
  "write_fields [] = []"
| "write_fields [f] = write_field f"
| "write_fields (f # g # fs) = write_field f @ [comma] @ write_fields (g # fs)"

definition csv_write :: "string list list \<Rightarrow> string" where
  "csv_write rows = concat (map (\<lambda>r. write_fields r @ [newline]) rows)"

section \<open>The reader\<close>

text \<open>
  \<^verbatim>\<open>readLine\<close>: a line with its line feed, if it has one; a carriage return before the line feed,
  or at the end of the text, is dropped.
\<close>

fun take_line :: "string \<Rightarrow> string \<times> string" where
  "take_line [] = ([], [])"
| "take_line (c # cs) =
     (if c = newline then ([c], cs) else (case take_line cs of (l, r) \<Rightarrow> (c # l, r)))"

lemma take_line_length: "length (snd (take_line s)) \<le> length s"
  by (induction s) (auto split: prod.split)

function lines_of :: "string \<Rightarrow> string list" where
  "lines_of [] = []"
| "lines_of (c # cs) =
     (case take_line (c # cs) of (l, r) \<Rightarrow> l # lines_of r)"
  by pat_completeness auto
termination
  by (relation "measure length")
    (auto split: if_splits prod.splits, metis le_imp_less_Suc snd_conv take_line_length)

definition norm_line :: "string \<Rightarrow> string" where
  "norm_line l =
     (if l \<noteq> [] \<and> last l = cret then butlast l
      else if 2 \<le> length l \<and> last l = newline \<and> last (butlast l) = cret then butlast (butlast l) @ [newline]
      else l)"

definition csv_lines :: "string \<Rightarrow> string list" where
  "csv_lines s = map norm_line (lines_of s)"

text \<open>
  A quoted field, from the character after the opening dquote, on the rest of the line and the lines
  that follow: its text, the rest of the line if a comma ended it, and the lines not read.
\<close>

function read_quoted ::
  "string \<Rightarrow> string list \<Rightarrow> string \<Rightarrow> (string \<times> string option \<times> string list) option" where
  "read_quoted [] [] acc = None"
| "read_quoted [] (l # ls) acc = read_quoted l ls acc"
| "read_quoted (c # cs) ls acc =
     (if c \<noteq> dquote then read_quoted cs ls (acc @ [c])
      else if cs = [] \<or> cs = [newline] then Some (acc, None, ls)
      else if hd cs = dquote then read_quoted (tl cs) ls (acc @ [dquote])
      else if hd cs = comma then Some (acc, Some (tl cs), ls)
      else None)"
  by pat_completeness auto
termination
  by (relation "measure (\<lambda>(l, ls, _). length l + length (concat ls) + length ls)") auto

lemma read_quoted_shorter:
  "read_quoted l ls acc = Some (f, Some l', ls') \<Longrightarrow>
   length l' + length (concat ls') < length l + length (concat ls)"
proof (induction l ls acc rule: read_quoted.induct)
  case (3 c cs ls acc)
  then show ?case by (cases cs) (auto split: if_splits)
qed auto

text \<open>The fields of a record, from the rest of a line on; the record and the lines not read.\<close>

function read_fields :: "string \<Rightarrow> string list \<Rightarrow> (string list \<times> string list) option" where
  "read_fields l ls =
     (if l = [] \<or> hd l \<noteq> dquote then
        (let f = takeWhile (\<lambda>c. c \<noteq> comma) l; r = dropWhile (\<lambda>c. c \<noteq> comma) l;
             g = (if r = [] \<and> f \<noteq> [] \<and> last f = newline then butlast f else f)
         in if dquote \<in> set g then None
            else if r = [] then Some ([g], ls)
            else map_option (apfst ((#) g)) (read_fields (tl r) ls))
      else
        (case read_quoted (tl l) ls [] of
           None \<Rightarrow> None
         | Some (f, None, ls') \<Rightarrow> Some ([f], ls')
         | Some (f, Some l', ls') \<Rightarrow> map_option (apfst ((#) f)) (read_fields l' ls')))"
  by pat_completeness auto
termination
proof (relation "measure (\<lambda>(l, ls). length l + length (concat ls))")
  fix l :: string and ls :: "string list" and f r g :: string
  assume r: "r = dropWhile (\<lambda>c. c \<noteq> comma) l" "r \<noteq> []"
  have "length r \<le> length l" unfolding r(1) by (rule length_dropWhile_le)
  then have "length (tl r) < length l" using r(2) by (cases r) auto
  then show "((tl r, ls), l, ls) \<in> measure (\<lambda>(l, ls). length l + length (concat ls))" by simp
next
  fix l :: string and ls ls' x l' f y o'
  assume "\<not> (l = [] \<or> hd l \<noteq> dquote)" "read_quoted (tl l) ls [] = Some x" "(f, y) = x"
    "(o', ls') = y" "o' = Some l'"
  then show "((l', ls'), l, ls) \<in> measure (\<lambda>(l, ls). length l + length (concat ls))"
    using read_quoted_shorter [of "tl l" ls "[]" f l' ls'] by (cases l) auto
qed simp

declare read_fields.simps [simp del]

lemma read_quoted_lines: "read_quoted l ls acc = Some (f, o', ls') \<Longrightarrow> length ls' \<le> length ls"
proof (induction l ls acc rule: read_quoted.induct)
  case (3 c cs ls acc)
  then show ?case by (cases cs) (auto split: if_splits)
qed auto

lemma read_fields_lines: "read_fields l ls = Some (r, ls') \<Longrightarrow> length ls' \<le> length ls"
proof (induction l ls arbitrary: r ls' rule: read_fields.induct)
  case (1 l ls)
  show ?case
  proof (cases "l = [] \<or> hd l \<noteq> dquote")
    case True
    then show ?thesis
      using 1(3) 1(1) [OF True refl refl refl]
      by (subst (asm) read_fields.simps) (auto simp: Let_def split: if_splits)
  next
    case False
    then show ?thesis
      using 1(3) 1(2) [OF False] read_quoted_lines [of "tl l" ls "[]"]
      by (subst (asm) read_fields.simps)
        (fastforce split: option.splits prod.splits intro: order_trans)
  qed
qed

text \<open>\<^verbatim>\<open>ReadAll\<close>; \<open>n\<close> is \<^verbatim>\<open>FieldsPerRecord\<close>, 0 before the first record. Empty lines are skipped.\<close>

function read_records :: "nat \<Rightarrow> string list \<Rightarrow> string list list option" where
  "read_records n [] = Some []"
| "read_records n (l # ls) =
     (if l = [] \<or> l = [newline] then read_records n ls
      else
        (case read_fields l ls of
           None \<Rightarrow> None
         | Some (r, ls') \<Rightarrow>
             if n > 0 \<and> length r \<noteq> n then None
             else map_option ((#) r) (read_records (if n = 0 then length r else n) ls')))"
  by pat_completeness auto
termination
  by (relation "measure (\<lambda>(n, ls). length ls)")
    (auto dest!: sym [of "Some _"] read_fields_lines simp: less_Suc_eq_le)

definition csv_read :: "string \<Rightarrow> string list list option" where
  "csv_read s = read_records 0 (csv_lines s)"

section \<open>Reading what was written\<close>

text \<open>The reader turns \<^verbatim>\<open>\r\n\<close> into \<^verbatim>\<open>\n\<close>, inside fields too.\<close>

fun crlf :: "string \<Rightarrow> string" where
  "crlf [] = []"
| "crlf [c] = [c]"
| "crlf (c # d # s) = (if c = cret \<and> d = newline then newline # crlf s else c # crlf (d # s))"

lemma crlf_same: "cret \<notin> set s \<Longrightarrow> crlf s = s"
  by (induction s rule: crlf.induct) auto

lemma crlf_changed: "crlf s \<noteq> s \<Longrightarrow> newline \<in> set (crlf s)"
  by (induction s rule: crlf.induct) (auto split: if_splits)

lemma crlf_append:
  "a = [] \<or> last a \<noteq> cret \<or> b = [] \<or> hd b \<noteq> newline \<Longrightarrow> crlf (a @ b) = crlf a @ crlf b"
proof (induction a rule: crlf.induct)
  case (2 c)
  then show ?case by (cases b) auto
next
  case (3 c d s)
  then show ?case by (cases s) (auto split: if_splits)
qed simp

lemma take_line_app [simp]: "newline \<notin> set l \<Longrightarrow> take_line (l @ newline # s) = (l @ [newline], s)"
  by (induction l) auto

lemma lines_of_app [simp]: "newline \<notin> set l \<Longrightarrow> lines_of (l @ newline # s) = (l @ [newline]) # lines_of s"
  by (cases l) auto

lemma crlf_line:
  "newline \<notin> set l \<Longrightarrow>
   crlf (l @ newline # s) = (if l \<noteq> [] \<and> last l = cret then butlast l else l) @ newline # crlf s"
proof (induction l rule: crlf.induct)
  case 1
  then show ?case by (cases s) auto
next
  case (2 c)
  then show ?case by (cases s) auto
next
  case (3 c d l)
  then show ?case by (cases l) (auto split: if_splits)
qed

lemma norm_lines_of: "s = [] \<or> last s = newline \<Longrightarrow> map norm_line (lines_of s) = lines_of (crlf s)"
proof (induction s rule: length_induct)
  case (1 s)
  show ?case
  proof (cases "s = []")
    case False
    then have "newline \<in> set s" using 1(2) last_in_set by fastforce
    then obtain l r where s: "s = l @ newline # r" "newline \<notin> set l" by (meson split_list_first)
    have r: "map norm_line (lines_of r) = lines_of (crlf r)"
      using 1 s(1) by (cases r rule: rev_cases) auto
    have "newline \<notin> set (if l \<noteq> [] \<and> last l = cret then butlast l else l)"
      using s(2) by (auto dest: in_set_butlastD)
    moreover have "norm_line (l @ [newline]) = (if l \<noteq> [] \<and> last l = cret then butlast l else l) @ [newline]"
      by (cases l rule: rev_cases) (auto simp: norm_line_def butlast_append)
    ultimately show ?thesis
      using s(2) r by (simp add: s(1) crlf_line)
  qed simp
qed

lemma needs_quotes_special: "newline \<in> set f \<Longrightarrow> field_needs_quotes f"
  by (auto simp: field_needs_quotes_def)

lemma no_quotes: "\<not> field_needs_quotes f \<Longrightarrow> {newline, cret, dquote, comma} \<inter> set f = {}"
  by (auto simp: field_needs_quotes_def split: if_splits)

lemma field_needs_quotes_crlf: "field_needs_quotes (crlf f) = field_needs_quotes f"
proof (cases "crlf f = f")
  case False
  then have "newline \<in> set (crlf f)" by (rule crlf_changed)
  moreover have "field_needs_quotes f"
    using False no_quotes [of f] crlf_same [of f] by blast
  ultimately show ?thesis using needs_quotes_special by blast
qed simp

lemma crlf_quoted: "crlf (concat (map quote_char f)) = concat (map quote_char (crlf f))"
proof (induction f rule: crlf.induct)
  case (3 c d s)
  show ?case
  proof (cases "c = cret \<and> d = newline")
    case True
    then show ?thesis using 3(1) by (simp add: quote_char_def)
  next
    case False
    have "crlf (quote_char c @ concat (map quote_char (d # s)))
        = crlf (quote_char c) @ crlf (concat (map quote_char (d # s)))"
      by (rule crlf_append) (use False in \<open>auto simp: quote_char_def\<close>)
    also have "crlf (quote_char c) = quote_char c" by (simp add: quote_char_def)
    finally show ?thesis using 3(2) [OF False] False by auto
  qed
qed (simp_all add: quote_char_def)

lemma crlf_write_field: "crlf (write_field f) = write_field (crlf f)"
proof (cases "field_needs_quotes f")
  case True
  let ?q = "concat (map quote_char f)"
  have "crlf ([dquote] @ (?q @ [dquote])) = [dquote] @ crlf (?q @ [dquote])"
    by (subst crlf_append) auto
  also have "crlf (?q @ [dquote]) = crlf ?q @ [dquote]"
    by (subst crlf_append) auto
  finally show ?thesis using True by (simp add: write_field_def field_needs_quotes_crlf crlf_quoted)
next
  case False
  then show ?thesis
    using no_quotes [of f] crlf_same [of f] by (simp add: write_field_def)
qed

lemma last_write_field:
  assumes "write_field f \<noteq> []"
  shows "last (write_field f) \<noteq> cret"
proof (cases "field_needs_quotes f")
  case False
  then have "cret \<notin> set f" using no_quotes by blast
  then show ?thesis using False assms last_in_set [of f] by (metis write_field_def)
qed (simp add: write_field_def)

lemma crlf_comma: "crlf (comma # s) = comma # crlf s"
  by (cases s) auto

lemma crlf_write_fields: "crlf (write_fields r) = write_fields (map crlf r)"
proof (induction r rule: write_fields.induct)
  case (3 f g fs)
  have "crlf (write_field f @ comma # write_fields (g # fs))
      = crlf (write_field f) @ crlf (comma # write_fields (g # fs))"
    by (rule crlf_append) simp
  then show ?case using 3 by (simp add: crlf_write_field crlf_comma)
qed (simp_all add: crlf_write_field)

lemma last_write_fields: "write_fields r \<noteq> [] \<Longrightarrow> last (write_fields r) \<noteq> cret"
proof (induction r rule: write_fields.induct)
  case (3 f g fs)
  then show ?case by (cases "write_fields (g # fs) = []") auto
qed (simp_all add: last_write_field)

lemma crlf_nl: "crlf (newline # s) = newline # crlf s"
  by (cases s) auto

lemma crlf_csv_write: "crlf (csv_write rows) = csv_write (map (map crlf) rows)"
proof (induction rows)
  case (Cons r rows)
  have "crlf (write_fields r @ newline # csv_write rows)
      = crlf (write_fields r) @ crlf (newline # csv_write rows)"
    by (rule crlf_append) (use last_write_fields [of r] in auto)
  then show ?case using Cons by (simp add: csv_write_def crlf_write_fields crlf_nl)
qed (simp add: csv_write_def)

lemma last_csv_write: "csv_write rows = [] \<or> last (csv_write rows) = newline"
  by (induction rows) (auto simp: csv_write_def)

lemma csv_lines_write: "csv_lines (csv_write rows) = lines_of (csv_write (map (map crlf) rows))"
  using norm_lines_of [OF last_csv_write [of rows]] by (simp add: csv_lines_def crlf_csv_write)

text \<open>The reader on a written field, then on a written record.\<close>

abbreviation line1 :: "string \<Rightarrow> string" where "line1 s \<equiv> fst (take_line s)"
abbreviation rest1 :: "string \<Rightarrow> string list" where "rest1 s \<equiv> lines_of (snd (take_line s))"

lemma lines_of_line1: "s \<noteq> [] \<Longrightarrow> lines_of s = line1 s # rest1 s"
  by (cases s) (simp_all split: prod.split)

lemma line1_Cons [simp]:
  "c \<noteq> newline \<Longrightarrow> line1 (c # s) = c # line1 s" "c \<noteq> newline \<Longrightarrow> rest1 (c # s) = rest1 s"
  "line1 (newline # s) = [newline]" "rest1 (newline # s) = lines_of s"
  by (simp_all split: prod.split)

lemma line1_app: "newline \<notin> set f \<Longrightarrow> line1 (f @ s) = f @ line1 s \<and> rest1 (f @ s) = rest1 s"
  by (induction f) (auto split: prod.splits)

declare take_line.simps(2) [simp del]

lemma read_quoted_text:
  "read_quoted (line1 (concat (map quote_char f) @ dquote # s))
     (rest1 (concat (map quote_char f) @ dquote # s)) acc
   = read_quoted (line1 (dquote # s)) (rest1 (dquote # s)) (acc @ f)"
proof (induction f arbitrary: acc)
  case (Cons c f)
  let ?x = "concat (map quote_char f) @ dquote # s"
  consider "c = dquote" | "c = newline" | "c \<noteq> dquote" "c \<noteq> newline" by blast
  then show ?case
  proof cases
    case 2
    have "lines_of ?x = line1 ?x # rest1 ?x" by (rule lines_of_line1) simp
    moreover have "quote_char newline = [newline]" by (simp add: quote_char_def)
    ultimately show ?thesis using 2 Cons [of "acc @ [newline]"] by simp
  qed (use Cons in \<open>simp_all add: quote_char_def\<close>)
qed simp

definition more_or_end :: "char \<Rightarrow> string \<Rightarrow> string option \<times> string list" where
  "more_or_end c s = (if c = newline then (None, lines_of s) else (Some (line1 s), rest1 s))"

lemma read_quoted_field:
  assumes "c = newline \<or> c = comma"
  shows "read_quoted (line1 (concat (map quote_char f) @ dquote # c # s))
     (rest1 (concat (map quote_char f) @ dquote # c # s)) [] = Some (f, more_or_end c s)"
  unfolding read_quoted_text using assms by (auto simp: more_or_end_def)

lemma read_fields_write:
  "r \<noteq> [] \<Longrightarrow> read_fields (line1 (write_fields r @ newline # s)) (rest1 (write_fields r @ newline # s))
     = Some (r, lines_of s)"
proof (induction r rule: write_fields.induct)
  case (2 f)
  show ?case
  proof (cases "field_needs_quotes f")
    case True
    then show ?thesis using read_quoted_field [of newline f s]
      by (subst read_fields.simps) (simp add: write_field_def more_or_end_def)
  next
    case False
    from no_quotes [OF this] have n: "newline \<notin> set f" "dquote \<notin> set f" "comma \<notin> set f" by auto
    have "hd (f @ [newline]) \<noteq> dquote" using n(2) by (cases f) auto
    moreover have "takeWhile (\<lambda>c. c \<noteq> comma) (f @ [newline]) = f @ [newline]"
      "dropWhile (\<lambda>c. c \<noteq> comma) (f @ [newline]) = []"
      using n(3) by (auto simp: takeWhile_eq_all_conv)
    ultimately show ?thesis using False n
      by (subst read_fields.simps) (simp add: write_field_def line1_app Let_def)
  qed
next
  case (3 f g fs)
  let ?t = "write_fields (g # fs) @ newline # s"
  have ih: "read_fields (line1 ?t) (rest1 ?t) = Some (g # fs, lines_of s)" using 3 by simp
  show ?case
  proof (cases "field_needs_quotes f")
    case True
    then show ?thesis using read_quoted_field [of comma f ?t] ih
      by (subst read_fields.simps) (simp add: write_field_def more_or_end_def)
  next
    case False
    from no_quotes [OF this] have n: "newline \<notin> set f" "dquote \<notin> set f" "comma \<notin> set f" by auto
    have "hd (f @ comma # line1 ?t) \<noteq> dquote" using n(2) by (cases f) auto
    moreover have "takeWhile (\<lambda>c. c \<noteq> comma) (f @ comma # line1 ?t) = f"
      "dropWhile (\<lambda>c. c \<noteq> comma) (f @ comma # line1 ?t) = comma # line1 ?t"
      using n(3) by (auto simp: takeWhile_append dropWhile_append)
    ultimately show ?thesis using False n ih
      by (subst read_fields.simps) (simp add: write_field_def line1_app Let_def)
  qed
qed simp

lemma read_records_write:
  assumes "\<forall>r\<in>set rows. length r = n \<and> r \<noteq> [[]]" "0 < n" "k = n \<or> k = 0"
  shows "read_records k (lines_of (csv_write rows)) = Some rows"
  using assms(1,3)
proof (induction rows arbitrary: k)
  case Nil
  then show ?case by (simp add: csv_write_def)
next
  case (Cons r rows)
  let ?t = "write_fields r @ newline # csv_write rows"
  have r: "length r = n" "r \<noteq> []" "r \<noteq> [[]]" using Cons.prems assms(2) by auto
  have "write_fields r \<noteq> [] \<and> hd (write_fields r) \<noteq> newline"
  proof (cases r rule: write_fields.cases)
    case (2 f)
    then show ?thesis using r(3) no_quotes [of f] by (cases f) (auto simp: write_field_def)
  next
    case (3 f g fs)
    then show ?thesis using no_quotes [of f] by (cases f) (auto simp: write_field_def)
  qed (use r in simp)
  then have "line1 ?t \<noteq> []" "line1 ?t \<noteq> [newline]" by (cases "write_fields r"; simp)+
  moreover have "lines_of ?t = line1 ?t # rest1 ?t" by (rule lines_of_line1) simp
  moreover have "csv_write (r # rows) = ?t" by (simp add: csv_write_def)
  ultimately show ?case
    using read_fields_write [OF r(2), of "csv_write rows"] Cons.IH [of n] Cons.prems r(1) assms(2)
    by auto
qed

text \<open>
  C14. What the export writes, the import reads. Records of the same number of fields, none of a single
  empty field, are read back field by field from the text written of them, with quotes,
  commas, leading blanks and line breaks in the fields; only a carriage return before a line feed is
  lost.
\<close>

theorem csv_roundtrip:
  assumes "\<forall>r\<in>set rows. length r = n \<and> r \<noteq> [[]]" "0 < n"
  shows "csv_read (csv_write rows) = Some (map (map crlf) rows)"
proof -
  have "map crlf r \<noteq> [[]]" if "r \<noteq> [[]]" for r
    using that by (cases r) (auto elim: crlf.elims split: if_splits)
  then have "\<forall>r\<in>set (map (map crlf) rows). length r = n \<and> r \<noteq> [[]]" using assms(1) by auto
  then show ?thesis
    unfolding csv_read_def csv_lines_write using read_records_write assms(2) by blast
qed

theorem csv_roundtrip_witness:
  "csv_read (csv_write [[''email'', ''name''], [''a@x.org'', ''Lee, '' @ [dquote] @ ''Ann'' @ [dquote, cret, newline]]])
   = Some [[''email'', ''name''], [''a@x.org'', ''Lee, '' @ [dquote] @ ''Ann'' @ [dquote, newline]]]"
  by (subst csv_roundtrip [of _ 2]) simp_all

end
