(* ===== verification/Employees.thy ===== *)
theory Employees
  imports Users Csv
begin

text \<open>
  \<^verbatim>\<open>internal/employee\<close>: the employee master. Its listing applies the data scope of the caller
  and the filters of the request in one WHERE clause, a profile is shown with the personal and the
  statutory record, and a new employee is written to three tables in one transaction. The upload of
  documents is a fixed answer.
\<close>

section \<open>Views of a row\<close>

record emp_view =
  ev_id :: string
  ev_code :: string
  ev_first :: string
  ev_last :: string
  ev_full :: string
  ev_email :: string
  ev_phone :: "string option"
  ev_type :: string
  ev_status :: string
  ev_joined :: string
  ev_probation :: "string option"
  ev_confirmed :: "string option"
  ev_notice :: int
  ev_nation :: string
  ev_dept :: "string option"
  ev_dept_name :: "string option"
  ev_desig :: "string option"
  ev_desig_name :: "string option"
  ev_location :: "string option"
  ev_location_name :: "string option"
  ev_manager :: "string option"
  ev_manager_name :: "string option"
  ev_user :: "string option"

definition emp_view_fields :: "emp_view \<Rightarrow> (string \<times> json) list" where
  "emp_view_fields v =
     [(''id'', JStr (ev_id v)), (''employee_id'', JStr (ev_code v)), (''first_name'', JStr (ev_first v)),
      (''last_name'', JStr (ev_last v)), (''full_name'', JStr (ev_full v)),
      (''work_email'', JStr (ev_email v))]
     @ json_if_some ''work_phone'' (ev_phone v)
     @ [(''employment_type'', JStr (ev_type v)), (''status'', JStr (ev_status v)),
        (''joining_date'', JStr (ev_joined v))]
     @ json_if_some ''probation_end_date'' (ev_probation v)
     @ json_if_some ''confirmation_date'' (ev_confirmed v)
     @ [(''notice_period_days'', JInt (ev_notice v)), (''nationality'', JStr (ev_nation v))]
     @ json_if_some ''department_id'' (ev_dept v) @ json_if_some ''department_name'' (ev_dept_name v)
     @ json_if_some ''designation_id'' (ev_desig v)
     @ json_if_some ''designation_name'' (ev_desig_name v)
     @ json_if_some ''location_id'' (ev_location v)
     @ json_if_some ''location_name'' (ev_location_name v)
     @ json_if_some ''manager_id'' (ev_manager v) @ json_if_some ''manager_name'' (ev_manager_name v)
     @ json_if_some ''user_id'' (ev_user v)"

text \<open>The address of the account of an employee, if there is one; the name of the manager.\<close>

definition account_email :: "'a world_scheme \<Rightarrow> employee_row \<Rightarrow> string option" where
  "account_email w e = map_option u_email (find (\<lambda>u. e_user e = Some (u_id u)) (users w))"

definition manager_name :: "'a world_scheme \<Rightarrow> employee_row \<Rightarrow> string option" where
  "manager_name w e = map_option full_name (find (\<lambda>m. e_manager e = Some (e_id m)) (employees w))"

text \<open>
  The columns of a row as both queries select them; the scan fails where \<^verbatim>\<open>employment_type\<close> is
  NULL. The profile selects the phone number too.
\<close>

definition emp_view_of :: "bool \<Rightarrow> 'a people_world_scheme \<Rightarrow> employee_row \<Rightarrow> emp_view option" where
  "emp_view_of phone w e =
     (case e_type e of None \<Rightarrow> None
      | Some ty \<Rightarrow> Some
          \<lparr>ev_id = e_id e, ev_code = e_code e, ev_first = e_first e, ev_last = e_last e,
           ev_full = full_name e, ev_email = text_or_empty (account_email w e),
           ev_phone = (if phone then Some (text_or_empty (e_phone e)) else None),
           ev_type = ty, ev_status = e_status e, ev_joined = show_date (e_joined e),
           ev_probation = map_option show_date (e_probation e),
           ev_confirmed = map_option show_date (e_confirmed e),
           ev_notice = (case e_notice e of None \<Rightarrow> 30 | Some n \<Rightarrow> n),
           ev_nation = (case e_nation e of None \<Rightarrow> ''Indian'' | Some n \<Rightarrow> n),
           ev_dept = e_dept e, ev_dept_name = Option.bind (e_dept e) (map_of (departments w)),
           ev_desig = e_desig e, ev_desig_name = Option.bind (e_desig e) (map_of (designation_names w)),
           ev_location = e_location e, ev_location_name = Option.bind (e_location e) (map_of (location_names w)),
           ev_manager = e_manager e, ev_manager_name = manager_name w e, ev_user = e_user e\<rparr>)"

section \<open>The listing\<close>

record emp_filter =
  ef_search :: string
  ef_dept :: string
  ef_status :: string
  ef_type :: string

definition emp_filter_of :: "url_query \<Rightarrow> emp_filter" where
  "emp_filter_of q =
     \<lparr>ef_search = pp_search (parse_pagination_params q), ef_dept = q ''department_id'',
      ef_status = q ''status'', ef_type = q ''employment_type''\<rparr>"

text \<open>
  The caller's employee and department, both empty without one. A caller is looked up by the user
  and by the employee id, the deleted included.
\<close>

definition emp_caller :: "string \<Rightarrow> ('a world_scheme, string \<times> string) state" where
  "emp_caller uid = do {
     r \<leftarrow> select_row (\<lambda>w. [(e_id e, text_or_empty (e_dept e)).
             e \<leftarrow> employees w, user_is uid e \<or> e_id e = uid]);
     State_Monad.return (case r of None \<Rightarrow> ('''', '''') | Some p \<Rightarrow> p)
   }"

text \<open>The conditions that follow the scope; \<open>d\<close> is the department asked for, as a UUID.\<close>

definition emp_matches :: "emp_filter \<Rightarrow> string \<Rightarrow> 'a world_scheme \<Rightarrow> employee_row \<Rightarrow> bool" where
  "emp_matches f d w e \<longleftrightarrow>
     (ef_search f = ''''
      \<or> (let p = ''%'' @ ef_search f @ ''%''
         in ilike w (e_first e) p \<or> ilike w (e_last e) p \<or> ilike w (e_code e) p
            \<or> (case account_email w e of None \<Rightarrow> False | Some m \<Rightarrow> ilike w m p)))
     \<and> (ef_dept f = '''' \<or> e_dept e = Some d)
     \<and> (ef_status f = '''' \<or> e_status e = ef_status f)
     \<and> (ef_type f = '''' \<or> e_type e = Some (ef_type f))"

text \<open>
  The text \<^verbatim>\<open>WHERE deleted_at IS NULL AND <scope> AND <filters>\<close> as the server reads it: AND binds
  closer than OR, so that a disjunction without parentheses takes the conditions before it to its
  first member and those after it to its last.
\<close>

definition where_holds ::
  "bool \<Rightarrow> (string \<Rightarrow> string option) \<Rightarrow> (int \<Rightarrow> string) \<Rightarrow> scond \<Rightarrow> bool \<Rightarrow> bool" where
  "where_holds before col arg c after =
     (let atom = (\<lambda>(k, n). col k = Some (arg n))
      in case c of
           COr False (a # b # as) \<Rightarrow>
             before \<and> atom a \<or> list_ex atom (butlast (b # as)) \<or> atom (last (b # as)) \<and> after
         | _ \<Rightarrow> before \<and> cond_holds col arg c \<and> after)"

definition listed ::
  "claims \<Rightarrow> string \<Rightarrow> string \<Rightarrow> emp_filter \<Rightarrow> string \<Rightarrow> 'a world_scheme \<Rightarrow> employee_row \<Rightarrow> bool" where
  "listed c emp dept f d w e =
     (case scope_where (Some c) emp dept 1 of
        (cond, args, n) \<Rightarrow>
          where_holds (\<not> e_deleted e) (employee_col e) (\<lambda>k. args ! nat (k - 1)) cond
            (emp_matches f d w e))"

definition listed_rows ::
  "claims \<Rightarrow> string \<Rightarrow> string \<Rightarrow> emp_filter \<Rightarrow> 'a world_scheme \<Rightarrow> employee_row list option" where
  "listed_rows c emp dept f w =
     (if ef_dept f = '''' then Some (filter (listed c emp dept f '''' w) (employees w))
      else map_option (\<lambda>d. filter (listed c emp dept f d w) (employees w)) (uuid_in w (ef_dept f)))"

text \<open>\<^verbatim>\<open>ORDER BY joining_date DESC, created_at DESC\<close>.\<close>

definition by_joining :: "employee_row list \<Rightarrow> employee_row list" where
  "by_joining es = sort_key (\<lambda>e. - e_joined e) (sort_key (\<lambda>e. - e_created e) es)"

text \<open>The count and the page for a caller with these ids; the error of the count is ignored.\<close>

definition list_page ::
  "claims \<Rightarrow> string \<Rightarrow> string \<Rightarrow> url_query \<Rightarrow> string \<Rightarrow> ('a people_world_scheme, response) state" where
  "list_page c emp dept q err = do {
     let pg = parse_pagination_params q;
     let rows = listed_rows c emp dept (emp_filter_of q);
     tot \<leftarrow> or_zero (query (\<lambda>w. map_option (\<lambda>es. int (length es)) (rows w)));
     orelse
       (query_rows (\<lambda>w. map_option (map (emp_view_of False w))
          (Option.bind (rows w) (\<lambda>es. page_of pg (by_joining es)))))
       (json_error (''database query failed: '' @ err) status_internal)
       (\<lambda>vs. State_Monad.return
          (if None \<in> set vs then json_error (''scan error: '' @ err) status_internal
           else page_response (map (\<lambda>v. JObj (emp_view_fields (the v))) vs) tot pg))
   }"

definition handle_list_employees ::
  "claims option \<Rightarrow> url_query \<Rightarrow> ('a people_world_scheme, response) state" where
  "handle_list_employees cl q =
     (case cl of
        None \<Rightarrow> State_Monad.return unauthorized_response
      | Some c \<Rightarrow> do {
          nil \<leftarrow> reads db_nil;
          err \<leftarrow> reads err_text;
          (if nil
           then State_Monad.return (json_error ''database connection unavailable'' status_internal)
           else do {
             (emp, dept) \<leftarrow> emp_caller (cl_user c);
             list_page c emp dept q err
           })
        })"

section \<open>A profile\<close>

text \<open>
  The profile is that of the first row that is not deleted and has the id as employee or as user id;
  \<^verbatim>\<open>me\<close> and \<^verbatim>\<open>self\<close> stand for the caller.
\<close>

definition profile_id :: "string \<Rightarrow> string \<Rightarrow> string \<Rightarrow> string" where
  "profile_id emp uid i = (if i = ''me'' \<or> i = ''self'' then (if emp \<noteq> '''' then emp else uid) else i)"

definition profile_rows :: "string \<Rightarrow> 'a world_scheme \<Rightarrow> employee_row list" where
  "profile_rows i w = filter (\<lambda>e. (e_id e = i \<or> user_is i e) \<and> \<not> e_deleted e) (employees w)"

definition find_profile :: "string \<Rightarrow> ('a people_world_scheme, emp_view option) state" where
  "find_profile i = query (\<lambda>w.
     case profile_rows i w of [] \<Rightarrow> None | e # _ \<Rightarrow> emp_view_of True w e)"

text \<open>The first error among the checks of the caller's scope, which know two of the scopes.\<close>

definition profile_refused :: "claims \<Rightarrow> string \<Rightarrow> emp_view \<Rightarrow> response option" where
  "profile_refused c emp v =
     (let is_self = emp \<noteq> '''' \<and> emp = ev_id v \<or> ev_user v = Some (cl_user c)
      in if has_role (Some c) [''SUPER_ADMIN'', ''HR_ADMIN''] then None
         else if cl_scope c = scope_self \<and> \<not> is_self
         then Some (forbidden_response ''FORBIDDEN_RESOURCE''
                ''You do not have permission to view this employee profile.'')
         else if cl_scope c = scope_direct_reports \<and> \<not> is_self \<and> ev_manager v \<noteq> Some emp
         then Some (forbidden_response ''FORBIDDEN_RESOURCE'' ''You can only view your direct reports.'')
         else None)"

text \<open>
  The personal record. A date does not scan into a text: with a date of birth the scan fails at its
  first column and every field stays empty, as it does without a row.
\<close>

definition personal_fields :: "personal_row option \<Rightarrow> (string \<times> json) list" where
  "personal_fields p =
     (case p of
        None \<Rightarrow> []
      | Some r \<Rightarrow>
          json_if_some ''gender'' (pd_gender r) @ json_if_some ''marital_status'' (pd_marital r)
          @ json_if_some ''blood_group'' (pd_blood r) @ json_if_some ''personal_email'' (pd_email r)
          @ json_if_some ''phone_number'' (pd_phone r)
          @ json_if_some ''emergency_contact_name'' (pd_contact r)
          @ json_if_some ''emergency_contact_number'' (pd_contact_no r)
          @ json_if_some ''current_address'' (pd_current r)
          @ json_if_some ''permanent_address'' (pd_permanent r))"

definition find_personal :: "string \<Rightarrow> ('a people_world_scheme, personal_row option) state" where
  "find_personal i = query (\<lambda>w. Option.bind (uuid_in w i) (\<lambda>e.
     case filter (\<lambda>p. pd_emp p = e) (personals w) of
       [] \<Rightarrow> None | p # _ \<Rightarrow> if pd_birth p = None then Some p else None))"

definition find_statutory :: "string \<Rightarrow> ('a people_world_scheme, statutory_row option) state" where
  "find_statutory i = query_row (\<lambda>w. map_option (\<lambda>e.
     filter (\<lambda>s. sd_emp s = e) (statutories w)) (uuid_in w i))"

definition statutory_json :: "statutory_row \<Rightarrow> json" where
  "statutory_json s =
     JObj (json_if_some ''pan_number'' (sd_pan s) @ json_if_some ''aadhaar_number'' (sd_aadhaar s)
       @ json_if_some ''uan_number'' (sd_uan s) @ json_if_some ''pf_number'' (sd_pf s)
       @ json_if_some ''esic_number'' (sd_esic s)
       @ json_if_some ''bank_account_number'' (sd_account s) @ json_if_some ''ifsc_code'' (sd_ifsc s)
       @ json_if_some ''bank_name'' (sd_bank s)
       @ [(''pt_applicable'', JBool (sd_pt s = Some True))])"

definition profile_response ::
  "emp_view \<Rightarrow> personal_row option \<Rightarrow> statutory_row option \<Rightarrow> response" where
  "profile_response v p s = user_ok_response
     [(''data'', JObj (emp_view_fields v @ [(''personal'', JObj (personal_fields p))]
        @ (case s of None \<Rightarrow> [] | Some r \<Rightarrow> [(''statutory'', statutory_json r)])))]"

text \<open>The answer for a caller with this employee id.\<close>

definition show_profile ::
  "claims \<Rightarrow> string \<Rightarrow> string \<Rightarrow> string \<Rightarrow> ('a people_world_scheme, response) state" where
  "show_profile c emp i err =
     orelse (find_profile (profile_id emp (cl_user c) i))
       (json_error (''employee not found: '' @ err) status_not_found)
       (\<lambda>v.
         case profile_refused c emp v of
           Some r \<Rightarrow> State_Monad.return r
         | None \<Rightarrow> do {
             p \<leftarrow> find_personal (ev_id v);
             s \<leftarrow> (if can_view_statutory (Some c) (ev_id v) emp
                  then find_statutory (ev_id v) else State_Monad.return None);
             State_Monad.return (profile_response v p s)
           })"

definition handle_get_employee ::
  "claims option \<Rightarrow> string \<Rightarrow> ('a people_world_scheme, response) state" where
  "handle_get_employee cl i =
     (case cl of
        None \<Rightarrow> State_Monad.return unauthorized_response
      | Some c \<Rightarrow> do {
          nil \<leftarrow> reads db_nil;
          err \<leftarrow> reads err_text;
          (if nil
           then State_Monad.return (json_error ''database connection unavailable'' status_internal)
           else do {
             caller \<leftarrow> select_row (\<lambda>w. [e_id e. e \<leftarrow> employees w,
                         user_is (cl_user c) e \<or> e_id e = cl_user c]);
             show_profile c (text_or_empty caller) i err
           })
        })"

section \<open>Creation\<close>

definition next_value :: "('a conn_scheme, int option) state" where
  "next_value = stmt (\<lambda>w. Some (sequence w, w\<lparr>sequence := sequence w + 1\<rparr>))"

text \<open>\<^verbatim>\<open>fmt.Sprintf("EMP-%04d", n)\<close>.\<close>

definition emp_code :: "int \<Rightarrow> string" where
  "emp_code n = ''EMP-'' @ (if n < 0 then CHR ''-'' # decpad 3 (nat (- n)) else decpad 4 (nat n))"

text \<open>\<^verbatim>\<open>AddDate(0, k, 0)\<close>: a day past the end of the month runs over into the next.\<close>

definition add_months :: "int \<Rightarrow> int \<Rightarrow> int" where
  "add_months n k =
     (let m = month_of n - 1 + k in days_of (year_of n + m div 12) (m mod 12 + 1) 1 + mday_of n - 1)"

definition probation_end :: "string \<Rightarrow> string option" where
  "probation_end joining = map_option (\<lambda>d. show_date (add_months d 3)) (parse_date joining)"

text \<open>Optional texts as the server takes them for a UUID and for a date column.\<close>

definition cast_opt :: "(string \<Rightarrow> 'b option) \<Rightarrow> string option \<Rightarrow> 'b option option" where
  "cast_opt conv x = (case x of None \<Rightarrow> Some None | Some s \<Rightarrow> map_option Some (conv s))"

text \<open>The foreign keys of an employee.\<close>

record emp_refs =
  rf_dept :: "string option"
  rf_desig :: "string option"
  rf_location :: "string option"
  rf_manager :: "string option"

definition cast_refs :: "emp_refs \<Rightarrow> 'a conn_scheme \<Rightarrow> emp_refs option" where
  "cast_refs r w =
     (case (cast_opt (uuid_in w) (rf_dept r), cast_opt (uuid_in w) (rf_desig r),
            cast_opt (uuid_in w) (rf_location r), cast_opt (uuid_in w) (rf_manager r)) of
        (Some d, Some g, Some l, Some m) \<Rightarrow>
          Some \<lparr>rf_dept = d, rf_desig = g, rf_location = l, rf_manager = m\<rparr>
      | _ \<Rightarrow> None)"

definition refs_exist :: "emp_refs \<Rightarrow> 'a people_world_scheme \<Rightarrow> bool" where
  "refs_exist r w \<longleftrightarrow>
     (\<forall>d. rf_dept r = Some d \<longrightarrow> d \<in> fst ` set (departments w))
     \<and> (\<forall>g. rf_desig r = Some g \<longrightarrow> g \<in> dg_id ` set (designations w))
     \<and> (\<forall>l. rf_location r = Some l \<longrightarrow> l \<in> lc_id ` set (locations w))
     \<and> (\<forall>m. rf_manager r = Some m \<longrightarrow> m \<in> e_id ` set (employees w))"

record create_employee_request =
  ce_first :: string
  ce_last :: string
  ce_joining :: string
  ce_refs :: emp_refs
  ce_type :: string
  ce_gender :: "string option"
  ce_birth :: "string option"
  ce_phone :: "string option"

text \<open>The row that the insert makes; \<open>user_id\<close> and the columns not named have their defaults.\<close>

definition new_employee ::
  "create_employee_request \<Rightarrow> emp_refs \<Rightarrow> string \<Rightarrow> int \<Rightarrow> int option \<Rightarrow> int \<Rightarrow> string \<Rightarrow> employee_row"
  where
  "new_employee req r code joined prob t i =
     \<lparr>e_id = i, e_user = None, e_code = code, e_first = ce_first req, e_last = ce_last req,
      e_dept = rf_dept r, e_manager = rf_manager r, e_desig = rf_desig r, e_status = ''ACTIVE'',
      e_deleted = False, e_type = Some (if ce_type req = '''' then ''PERMANENT'' else ce_type req),
      e_joined = joined, e_probation = prob, e_confirmed = None, e_notice = Some 30,
      e_nation = Some ''Indian'', e_location = rf_location r, e_phone = None, e_reports = None, e_created = t\<rparr>"

text \<open>\<^verbatim>\<open>employee_id\<close>, the code, is unique, and so is the identifier.\<close>

definition insert_employee ::
  "create_employee_request \<Rightarrow> string \<Rightarrow> string option \<Rightarrow> ('a people_world_scheme, string option) state"
  where
  "insert_employee req code prob = insert_row (\<lambda>i w.
     case (cast_refs (ce_refs req) w, date_in w (ce_joining req), cast_opt (date_in w) prob) of
       (Some r, Some d, Some p) \<Rightarrow>
         if refs_exist r w \<and> (\<forall>e\<in>set (employees w). e_code e \<noteq> code \<and> e_id e \<noteq> i)
         then Some (w\<lparr>employees := employees w @ [new_employee req r code d p (now w) i]\<rparr>)
         else None
     | _ \<Rightarrow> None)"

definition empty_personal :: "string \<Rightarrow> personal_row" where
  "empty_personal e =
     \<lparr>pd_emp = e, pd_birth = None, pd_gender = None, pd_marital = None, pd_blood = None,
      pd_email = None, pd_phone = None, pd_contact = None, pd_contact_no = None, pd_current = None,
      pd_permanent = None\<rparr>"

definition insert_personal ::
  "create_employee_request \<Rightarrow> string \<Rightarrow> ('a people_world_scheme, nat option) state" where
  "insert_personal req eid = exec (\<lambda>w.
     case (uuid_in w eid, cast_opt (date_in w) (ce_birth req)) of
       (Some e, Some b) \<Rightarrow>
         if e \<in> e_id ` set (employees w) \<and> e \<notin> pd_emp ` set (personals w)
         then Some (1, w\<lparr>personals := personals w @
                [(empty_personal e)\<lparr>pd_gender := ce_gender req, pd_birth := b, pd_phone := ce_phone req\<rparr>]\<rparr>)
         else None
     | _ \<Rightarrow> None)"

definition empty_statutory :: "string \<Rightarrow> statutory_row" where
  "empty_statutory e =
     \<lparr>sd_emp = e, sd_pan = None, sd_aadhaar = None, sd_uan = None, sd_pf = None, sd_esic = None,
      sd_account = None, sd_ifsc = None, sd_bank = None, sd_pt = Some False\<rparr>"

definition insert_statutory :: "string \<Rightarrow> ('a people_world_scheme, nat option) state" where
  "insert_statutory eid = exec (\<lambda>w.
     case uuid_in w eid of
       None \<Rightarrow> None
     | Some e \<Rightarrow>
         if e \<in> sd_emp ` set (statutories w) then Some (0, w)
         else if e \<in> e_id ` set (employees w)
         then Some (1, w\<lparr>statutories := statutories w @ [empty_statutory e]\<rparr>)
         else None)"

text \<open>The transaction of a creation: the next code, the employee and the two records.\<close>

definition add_employee ::
  "create_employee_request \<Rightarrow> response \<Rightarrow>
   (bool \<times> 'a people_world_scheme, response + string \<times> string) state" where
  "add_employee req failed = do {
     n \<leftarrow> in_tx next_value;
     let code = emp_code (case n of None \<Rightarrow> 0 | Some k \<Rightarrow> k);
     orelse (in_tx (insert_employee req code (probation_end (ce_joining req)))) (Inl failed)
       (\<lambda>i. do {
          _ \<leftarrow> in_tx (insert_personal req i);
          _ \<leftarrow> in_tx (insert_statutory i);
          State_Monad.return (Inr (i, code))
        })
   }"

definition handle_create_employee ::
  "claims option \<Rightarrow> create_employee_request option \<Rightarrow> ('a people_world_scheme, response) state" where
  "handle_create_employee cl body =
     (if \<not> has_role cl [''SUPER_ADMIN'', ''HR_ADMIN'']
      then State_Monad.return (forbidden_response ''FORBIDDEN_ROLE''
             ''Only HR Admins can create employees.'')
      else
        (case body of
           None \<Rightarrow> State_Monad.return (json_error ''invalid request'' status_bad_request)
         | Some req \<Rightarrow>
             if ce_first req = '''' \<or> ce_last req = '''' \<or> ce_joining req = ''''
             then State_Monad.return
               (json_error ''first_name, last_name, and joining_date are required'' status_bad_request)
             else do {
               nil \<leftarrow> reads db_nil;
               err \<leftarrow> reads err_text;
               (if nil then State_Monad.return panicked
                else
                  transaction (json_error ''internal error'' status_internal)
                    (add_employee req
                       (json_error (''failed to create employee: '' @ err) status_internal))
                    (json_error ''commit failed'' status_internal)
                    (\<lambda>(i, code). respond status_created
                       [(''success'', JBool True), (''id'', JStr i), (''employee_id'', JStr code),
                        (''message'', JStr ''Employee created successfully'')]))
             }))"

section \<open>Changes\<close>

text \<open>The fields that the update writes; \<^verbatim>\<open>work_email\<close> is not one of them.\<close>

record update_employee_request =
  ue_first :: "string option"
  ue_last :: "string option"
  ue_refs :: emp_refs
  ue_type :: "string option"
  ue_notice :: "int option"
  ue_probation :: "string option"
  ue_status :: "string option"

definition nothing_to_update :: "update_employee_request \<Rightarrow> bool" where
  "nothing_to_update req \<longleftrightarrow>
     ue_first req = None \<and> ue_last req = None \<and> rf_dept (ue_refs req) = None
     \<and> rf_desig (ue_refs req) = None \<and> rf_location (ue_refs req) = None
     \<and> rf_manager (ue_refs req) = None \<and> ue_type req = None \<and> ue_notice req = None
     \<and> ue_probation req = None \<and> ue_status req = None"

definition given :: "'b option \<Rightarrow> 'b \<Rightarrow> 'b" where
  "given x old = (case x of None \<Rightarrow> old | Some y \<Rightarrow> y)"

definition given_opt :: "'b option \<Rightarrow> 'b option \<Rightarrow> 'b option" where
  "given_opt x old = (case x of None \<Rightarrow> old | Some y \<Rightarrow> Some y)"

definition update_fields ::
  "update_employee_request \<Rightarrow> emp_refs \<Rightarrow> int option \<Rightarrow> employee_row \<Rightarrow> employee_row" where
  "update_fields req r prob e =
     e\<lparr>e_first := given (ue_first req) (e_first e), e_last := given (ue_last req) (e_last e),
       e_dept := given_opt (rf_dept r) (e_dept e), e_desig := given_opt (rf_desig r) (e_desig e),
       e_location := given_opt (rf_location r) (e_location e),
       e_manager := given_opt (rf_manager r) (e_manager e),
       e_type := given_opt (ue_type req) (e_type e), e_notice := given_opt (ue_notice req) (e_notice e),
       e_probation := given_opt prob (e_probation e), e_status := given (ue_status req) (e_status e)\<rparr>"

text \<open>\<^verbatim>\<open>notice_period_days\<close> is a 32-bit column.\<close>

definition update_employee ::
  "update_employee_request \<Rightarrow> string \<Rightarrow> ('a people_world_scheme, nat option) state" where
  "update_employee req eid = exec (\<lambda>w.
     case (cast_refs (ue_refs req) w, cast_opt (date_in w) (ue_probation req), uuid_in w eid) of
       (Some r, Some p, Some i) \<Rightarrow>
         if (\<exists>n. ue_notice req = Some n \<and> (n < - (2 ^ 31) \<or> 2 ^ 31 \<le> n))
            \<or> i \<in> e_id ` set (employees w) \<and> \<not> refs_exist r w then None
         else Some (count_where (\<lambda>e. e_id e = i) (employees w),
                w\<lparr>employees := upd_where (\<lambda>e. e_id e = i) (update_fields req r p) (employees w)\<rparr>)
     | _ \<Rightarrow> None)"

definition handle_update_employee ::
  "claims option \<Rightarrow> string \<Rightarrow> update_employee_request option \<Rightarrow> ('a people_world_scheme, response) state"
  where
  "handle_update_employee cl eid body =
     (if \<not> has_role cl [''SUPER_ADMIN'', ''HR_ADMIN'']
      then State_Monad.return (forbidden_response ''FORBIDDEN_ROLE''
             ''Only HR Admins can update employee records.'')
      else
        (case body of
           None \<Rightarrow> State_Monad.return (json_error ''invalid request'' status_bad_request)
         | Some req \<Rightarrow>
             if nothing_to_update req
             then State_Monad.return (json_error ''no fields to update'' status_bad_request)
             else do {
               nil \<leftarrow> reads db_nil;
               err \<leftarrow> reads err_text;
               (if nil then State_Monad.return panicked
                else
                  orelse (update_employee req eid)
                    (json_error (''update failed: '' @ err) status_internal)
                    (\<lambda>_. State_Monad.return
                       (user_ok_response [(''message'', JStr ''Employee updated'')])))
             }))"

section \<open>Export, figures and designations\<close>

definition export_header :: "string list" where
  "export_header = [''Employee ID'', ''First Name'', ''Last Name'', ''Email'', ''Employment Type'',
     ''Status'', ''Joining Date'', ''Department'', ''Designation'', ''Location'']"

text \<open>
  One record; the scan stops at an employment type that is NULL and leaves the other fields empty,
  and pgx closes the rows.
\<close>

definition export_record :: "'a people_world_scheme \<Rightarrow> employee_row \<Rightarrow> string list" where
  "export_record w e =
     [e_code e, e_first e, e_last e, text_or_empty (account_email w e)]
     @ (case e_type e of
          None \<Rightarrow> ['''', '''', '''', '''', '''', '''']
        | Some ty \<Rightarrow>
            [ty, e_status e, show_date (e_joined e), name_in (departments w) (e_dept e) '''',
             name_in (designation_names w) (e_desig e) '''', name_in (location_names w) (e_location e) ''''])"

definition export_rows :: "'a people_world_scheme \<Rightarrow> string list list" where
  "export_rows w =
     (let es = sort_key e_code (filter (\<lambda>e. \<not> e_deleted e) (employees w));
          good = takeWhile (\<lambda>e. e_type e \<noteq> None) es
      in map (export_record w) (good @ take 1 (drop (length good) es)))"

definition handle_export_csv :: "claims option \<Rightarrow> ('a people_world_scheme, response) state" where
  "handle_export_csv cl =
     (if \<not> has_role cl [''SUPER_ADMIN'', ''HR_ADMIN'', ''PAYROLL_ADMIN'']
      then State_Monad.return (forbidden_response ''FORBIDDEN_ROLE''
             ''You do not have permission to export employee data.'')
      else do {
        nil \<leftarrow> reads db_nil;
        (if nil then State_Monad.return panicked
         else
           orelse (select export_rows) (json_error ''export failed'' status_internal)
             (\<lambda>rs. State_Monad.return \<lparr>rcode = status_ok, rbody = Csv (export_header # rs)\<rparr>))
      })"

record emp_stats =
  es_active :: int
  es_new :: int
  es_probation :: int
  es_due :: int

text \<open>Dates compare with instants as midnight in UTC; the caller is not looked at.\<close>

definition emp_stats_of :: "'a world_scheme \<Rightarrow> emp_stats" where
  "emp_stats_of w =
     (let es = filter (\<lambda>e. \<not> e_deleted e) (employees w); d = today w
      in \<lparr>es_active = int (count_where (\<lambda>e. e_status e = ''ACTIVE'') es),
          es_new = int (count_where (\<lambda>e. year_of (e_joined e) = year_of d
                                          \<and> month_of (e_joined e) = month_of d) es),
          es_probation = int (count_where (\<lambda>e. e_status e = ''PROBATION'') es),
          es_due = int (count_where (\<lambda>e. case e_probation e of None \<Rightarrow> False
                     | Some p \<Rightarrow> now w \<le> p * nanos_per_day
                         \<and> p * nanos_per_day \<le> now w + 30 * nanos_per_day) es)\<rparr>)"

definition emp_stats_json :: "emp_stats \<Rightarrow> json" where
  "emp_stats_json s =
     JObj [(''total_active'', JInt (es_active s)), (''new_this_month'', JInt (es_new s)),
           (''on_probation'', JInt (es_probation s)), (''probation_due_soon'', JInt (es_due s))]"

definition handle_emp_stats :: "('a world_scheme, response) state" where
  "handle_emp_stats = do {
     nil \<leftarrow> reads db_nil;
     (if nil then State_Monad.return panicked
      else do {
        s \<leftarrow> select emp_stats_of;
        State_Monad.return (user_ok_response [(''data'', emp_stats_json
          (case s of None \<Rightarrow> \<lparr>es_active = 0, es_new = 0, es_probation = 0, es_due = 0\<rparr> | Some x \<Rightarrow> x))])
      })
   }"

definition designation_json :: "designation_row \<Rightarrow> json" where
  "designation_json d =
     JObj ([(''id'', JStr (dg_id d)), (''name'', JStr (dg_name d))]
           @ json_if_some ''grade'' (dg_grade d) @ [(''organization_id'', JStr (dg_org d))])"

definition handle_list_designations :: "('a world_scheme, response) state" where
  "handle_list_designations = do {
     nil \<leftarrow> reads db_nil;
     (if nil then State_Monad.return panicked
      else
        orelse (select (\<lambda>w. sort_key dg_name (filter (\<lambda>d. \<not> dg_deleted d) (designations w))))
          (json_error ''failed to query designations'' status_internal)
          (\<lambda>ds. State_Monad.return (data_response (map designation_json ds))))
   }"

record designation_request =
  dq_name :: string
  dq_grade :: "string option"
  dq_org :: string

definition insert_designation ::
  "designation_request \<Rightarrow> ('a world_scheme, string option) state" where
  "insert_designation req = insert_row (\<lambda>i w.
     case uuid_in w (dq_org req) of
       None \<Rightarrow> None
     | Some g \<Rightarrow>
         if g \<in> set (orgs w)
         then Some (w\<lparr>designations := designations w @
                [\<lparr>dg_id = i, dg_name = dq_name req, dg_grade = dq_grade req, dg_level = None, dg_org = g,
                  dg_deleted = False\<rparr>]\<rparr>)
         else None)"

definition handle_create_designation ::
  "designation_request option \<Rightarrow> ('a world_scheme, response) state" where
  "handle_create_designation body =
     (case body of
        None \<Rightarrow> State_Monad.return (json_error ''name is required'' status_bad_request)
      | Some req \<Rightarrow>
          if dq_name req = ''''
          then State_Monad.return (json_error ''name is required'' status_bad_request)
          else do {
            nil \<leftarrow> reads db_nil;
            err \<leftarrow> reads err_text;
            (if nil then State_Monad.return panicked
             else
               orelse (insert_designation req)
                 (json_error (''failed to create designation: '' @ err) status_internal)
                 (\<lambda>i. State_Monad.return
                    (respond status_created [(''success'', JBool True), (''id'', JStr i)])))
          })"

definition handle_upload_document :: "('w, response) state" where
  "handle_upload_document = State_Monad.return
     (user_ok_response [(''message'', JStr ''Document engine coming in Sprint 6'')])"

end
