(* ===== verification/Employees_Rules.thy ===== *)
theory Employees_Rules
  imports Employees
begin

text \<open>
  What the employee master promises: whom a listing shows, who sees a profile and its statutory
  record, and that a new employee is written completely or not at all.
\<close>

section \<open>Whom a listing shows\<close>

text \<open>The one scope whose condition has no parentheses: a department that the caller does not have.\<close>

definition split_scope :: "claims \<Rightarrow> string \<Rightarrow> bool" where
  "split_scope c dept \<longleftrightarrow> \<not> has_role (Some c) [''SUPER_ADMIN'', ''HR_ADMIN'']
     \<and> cl_scope c = scope_department \<and> dept = ''''"

definition visible ::
  "claims \<Rightarrow> string \<Rightarrow> string \<Rightarrow> emp_filter \<Rightarrow> string \<Rightarrow> 'a world_scheme \<Rightarrow> employee_row \<Rightarrow> bool" where
  "visible c emp dept f d w e \<longleftrightarrow>
     (if split_scope c dept
      then \<not> e_deleted e \<and> e_id e = emp \<or> user_is (cl_user c) e \<and> emp_matches f d w e
      else \<not> e_deleted e \<and> in_scope (Some c) emp dept e \<and> emp_matches f d w e)"

lemma listed_visible:
  assumes "e_id e \<noteq> ''''"
  shows "listed c emp dept f d w e \<longleftrightarrow> visible c emp dept f d w e"
proof -
  let ?adm = "has_role (Some c) [''SUPER_ADMIN'', ''HR_ADMIN'']"
  consider "?adm \<or> cl_scope c = scope_organization"
    | "\<not> ?adm" "cl_scope c = scope_department" | "\<not> ?adm" "cl_scope c = scope_direct_reports"
    | "\<not> ?adm" "cl_scope c \<notin> {scope_organization, scope_department, scope_direct_reports}" by auto
  then show ?thesis
    by cases (use assms in \<open>auto simp: listed_def visible_def split_scope_def scope_where_def
      where_holds_def cond_holds_def in_scope_def is_self_def employee_col_def user_is_def\<close>)
qed

text \<open>The employee and department that the look-up of a caller gives.\<close>

definition caller_ids :: "string \<Rightarrow> 'a world_scheme \<Rightarrow> string \<times> string" where
  "caller_ids uid w =
     (case find (\<lambda>e. user_is uid e \<or> e_id e = uid) (employees w) of
        None \<Rightarrow> ('''', '''') | Some e \<Rightarrow> (e_id e, text_or_empty (e_dept e)))"

lemma wp_emp_caller:
  "Q (caller_ids uid w) (popped w) \<Longrightarrow> Q ('''', '''') (popped w) \<Longrightarrow> wp (emp_caller uid) Q w"
  by (simp add: emp_caller_def caller_ids_def first_row split: option.splits)

lemma same_outcomes [simp]:
  "account_email (w\<lparr>outcomes := os\<rparr>) = account_email w"
  "manager_name (w\<lparr>outcomes := os\<rparr>) = manager_name w"
  "emp_matches f d (w\<lparr>outcomes := os\<rparr>) = emp_matches f d w"
  "emp_view_of b (v\<lparr>outcomes := os\<rparr>) = emp_view_of b v"
  "listed c emp dept f d (w\<lparr>outcomes := os\<rparr>) = listed c emp dept f d w"
  "listed_rows c emp dept f (w\<lparr>outcomes := os\<rparr>) = listed_rows c emp dept f w"
proof -
  show a: "account_email (w\<lparr>outcomes := os\<rparr>) = account_email w" for w :: "'a world_scheme"
    by (intro ext) (simp add: account_email_def)
  show m: "manager_name (w\<lparr>outcomes := os\<rparr>) = manager_name w" for w :: "'a world_scheme"
    by (intro ext) (simp add: manager_name_def)
  show e: "emp_matches f d (w\<lparr>outcomes := os\<rparr>) = emp_matches f d w" for d and w :: "'a world_scheme"
    by (intro ext) (simp add: emp_matches_def a Let_def split: option.split)
  show l: "listed c emp dept f d (w\<lparr>outcomes := os\<rparr>) = listed c emp dept f d w"
    for d and w :: "'a world_scheme"
    by (intro ext) (simp add: listed_def e)
  show "listed_rows c emp dept f (w\<lparr>outcomes := os\<rparr>) = listed_rows c emp dept f w"
    by (simp add: listed_rows_def l)
  show "emp_view_of b (v\<lparr>outcomes := os\<rparr>) = emp_view_of b v"
    by (intro ext)
      (simp add: emp_view_of_def account_email_def manager_name_def designation_names_def
        location_names_def split: option.split)
qed

text \<open>The rows of a query: none when the server refuses a cast or the offset.\<close>

definition rows_or_none :: "'r list option \<Rightarrow> 'r list" where
  "rows_or_none x = (case x of None \<Rightarrow> [] | Some rs \<Rightarrow> rs)"

definition shown_page :: "url_query \<Rightarrow> employee_row list \<Rightarrow> employee_row list" where
  "shown_page q es = rows_or_none (page_of (parse_pagination_params q) (by_joining es))"

lemma shown_page_Nil [simp]: "shown_page q [] = []"
  by (simp add: shown_page_def rows_or_none_def page_of_def by_joining_def)

lemma wp_list_page:
  assumes "\<And>s w'. Q (json_error s status_internal) w'"
    "\<And>tot w'. Q (page_response (map ((\<lambda>v. JObj (emp_view_fields (the v))) \<circ> emp_view_of False w)
         (shown_page q (rows_or_none (listed_rows c emp dept (emp_filter_of q) w)))) tot
         (parse_pagination_params q)) w'"
  shows "wp (list_page c emp dept q err) Q w"
proof (cases "listed_rows c emp dept (emp_filter_of q) w")
  case None
  then have "Q (page_response [] tot (parse_pagination_params q)) w'" for tot w'
    using assms(2) by (simp add: rows_or_none_def)
  with None show ?thesis
    using assms(1) by (auto simp: list_page_def Let_def or_zero_def wp_query)
next
  case (Some es)
  then show ?thesis
    using assms
    by (auto simp: list_page_def Let_def or_zero_def wp_query shown_page_def rows_or_none_def
        split: option.splits)
qed

lemma listed_rows_visible:
  assumes "\<forall>e\<in>set (employees w). e_id e \<noteq> ''''"
  shows "listed_rows c emp dept f w = (if ef_dept f = ''''
     then Some (filter (visible c emp dept f '''' w) (employees w))
     else map_option (\<lambda>d. filter (visible c emp dept f d w) (employees w)) (uuid_in w (ef_dept f)))"
proof -
  have "filter (listed c emp dept f d w) (employees w) = filter (visible c emp dept f d w) (employees w)"
    for d by (rule filter_cong [OF refl]) (simp add: assms listed_visible)
  then show ?thesis by (simp add: listed_rows_def)
qed

lemma visible_in_scope:
  "visible c emp dept f d w e \<Longrightarrow> in_scope (Some c) emp dept e"
  by (auto simp: visible_def split_scope_def in_scope_def is_self_def user_is_def split: if_splits)

text \<open>
  The employees that a listing selects: those that are visible under the filters, and nobody when the
  department asked for is no UUID.
\<close>

definition selected ::
  "claims \<Rightarrow> string \<Rightarrow> string \<Rightarrow> emp_filter \<Rightarrow> 'a world_scheme \<Rightarrow> employee_row list" where
  "selected c emp dept f w =
     (case if ef_dept f = '''' then Some '''' else uuid_in w (ef_dept f) of
        None \<Rightarrow> [] | Some d \<Rightarrow> filter (visible c emp dept f d w) (employees w))"

text \<open>What an answer of the listing shows: the views of the rows of a page.\<close>

definition shows_rows ::
  "response \<Rightarrow> url_query \<Rightarrow> 'a people_world_scheme \<Rightarrow> employee_row list \<Rightarrow> bool" where
  "shows_rows resp q w es \<longleftrightarrow>
     (\<exists>tot. resp = page_response
        (map (\<lambda>e. JObj (emp_view_fields (the (emp_view_of False w e)))) (shown_page q es))
        tot (parse_pagination_params q))"

lemma set_by_joining [simp]: "set (by_joining es) = set es"
  by (simp add: by_joining_def)

lemma listed_rows_selected:
  assumes "\<forall>e\<in>set (employees w). e_id e \<noteq> ''''"
  shows "rows_or_none (listed_rows c emp dept f w) = selected c emp dept f w"
  by (auto simp: listed_rows_visible [OF assms] rows_or_none_def selected_def split: option.split)

lemma selected_in_scope: "e \<in> set (selected c emp dept f w) \<Longrightarrow> in_scope (Some c) emp dept e"
  by (auto simp: selected_def dest: visible_in_scope split: option.splits)


definition demo_people :: people_world where
  "demo_people = empty_people\<lparr>employees := [demo_employee, demo_employee\<lparr>e_id := ''e2'', e_user := None,
       e_code := ''EMP-2'', e_dept := Some ''d2'', e_manager := Some ''e1''\<rparr>],
     statutories := [empty_statutory ''e1'', empty_statutory ''e2'']\<rparr>"

lemmas people_defs = demo_people_def empty_people_def empty_att_def empty_hr_def empty_world_def
  world.defs hr_world.defs att_world.defs people_world.defs

lemma demo_people_simps [simp]:
  "outcomes demo_people = []" "\<not> db_nil demo_people" "uuid_in demo_people = Some"
  "date_in demo_people = parse_date"
  "employees demo_people = [demo_employee, demo_employee\<lparr>e_id := ''e2'', e_user := None,
       e_code := ''EMP-2'', e_dept := Some ''d2'', e_manager := Some ''e1''\<rparr>]"
  "statutories demo_people = [empty_statutory ''e1'', empty_statutory ''e2'']" "personals demo_people = []"
  by (simp_all add: people_defs)

definition dept_claims :: claims where
  "dept_claims = \<lparr>cl_user = ''u1'', cl_email = ''ann@x.org'', cl_roles = [''HR_MANAGER''],
     cl_scope = scope_department, cl_expires = 0, cl_issued = 0\<rparr>"

lemma demo_no_offset: "pp_offset (parse_pagination_params (\<lambda>_. '''')) = 0"
  by (simp add: parse_pagination_params_def atoi_def Let_def wrap64_def)

lemma demo_listing_ok:
  "rcode (fst (run_state (handle_list_employees (Some dept_claims) (\<lambda>_. '''')) demo_people)) = status_ok"
proof -
  have page: "\<exists>page. page_of (parse_pagination_params (\<lambda>_. '''')) es = Some page \<and> set page \<subseteq> set es"
    for es :: "employee_row list"
    by (auto simp: page_of_def demo_no_offset dest: in_set_takeD)
  obtain emp dept where "run_state (emp_caller (cl_user dept_claims)) demo_people = ((emp, dept), demo_people)"
    by (cases "fst (run_state (emp_caller (cl_user dept_claims)) demo_people)")
      (auto simp: emp_caller_def run_calm)
  moreover obtain es where es: "listed_rows dept_claims emp dept (emp_filter_of (\<lambda>_. '''')) demo_people = Some es"
    "set es \<subseteq> set (employees demo_people)"
    by (auto simp: listed_rows_def emp_filter_of_def)
  moreover obtain page where "page_of (parse_pagination_params (\<lambda>_. '''')) (by_joining es) = Some page"
    "set page \<subseteq> set es" using page [of "by_joining es"] by auto
  moreover from this es have "None \<notin> set (map (emp_view_of False demo_people) page)"
    by (auto simp: emp_view_of_def demo_employee_def)
  ultimately show ?thesis
    by (simp add: handle_list_employees_def list_page_def run_calm or_zero_def Let_def page_response_def)
qed


section \<open>Who sees a profile\<close>

definition profile_fields :: "response \<Rightarrow> (string \<times> json) list" where
  "profile_fields resp =
     (case rbody resp of
        Json (JObj [_, (k, JObj fs)]) \<Rightarrow> if k = ''data'' then fs else [] | _ \<Rightarrow> [])"

lemma profile_fields_response:
  "profile_fields (profile_response v p s) = emp_view_fields v @ [(''personal'', JObj (personal_fields p))]
     @ (case s of None \<Rightarrow> [] | Some r \<Rightarrow> [(''statutory'', statutory_json r)])"
  by (simp add: profile_fields_def profile_response_def user_ok_response_def)

lemma key_json_if_some: "k \<in> fst ` set (json_if_some k' x) \<Longrightarrow> k = k'"
  by (auto simp: json_if_some_def split: option.splits)

lemma no_statutory_key: "''statutory'' \<notin> fst ` set (emp_view_fields v)"
  by (auto simp: emp_view_fields_def image_Un dest!: key_json_if_some)

lemma emp_view_id: "(''id'', JStr (ev_id v)) \<in> set (emp_view_fields v)"
  by (simp add: emp_view_fields_def)

lemma statutory_disclosed:
  "''statutory'' \<in> fst ` set (profile_fields (profile_response v p s)) \<longleftrightarrow> s \<noteq> None"
  using no_statutory_key by (auto simp: profile_fields_response image_Un split: option.splits)

lemma refused_no_fields: "profile_refused c emp v = Some r \<Longrightarrow> profile_fields r = []"
  by (auto simp: profile_refused_def profile_fields_def forbidden_response_def error_json_def
      Let_def split: if_splits)

lemma profile_fields_error [simp]: "profile_fields (json_error s k) = []"
  by (simp add: profile_fields_def json_error_def)

lemma caller_lookup:
  "map_option e_id (find (\<lambda>e. user_is uid e \<or> e_id e = uid) es) = Some i \<Longrightarrow>
   \<exists>e\<in>set es. (user_is uid e \<or> e_id e = uid) \<and> e_id e = i"
  by (auto simp: find_Some_iff)

lemma wp_show_profile:
  assumes "\<And>s w'. Q (json_error s status_not_found) w'"
    "\<And>v r w'. profile_refused c emp v = Some r \<Longrightarrow> Q r w'"
    "\<And>v p s w'. s = None \<or> can_view_statutory (Some c) (ev_id v) emp \<Longrightarrow> Q (profile_response v p s) w'"
  shows "wp (show_profile c emp i err) Q w"
proof -
  have reads: "wp (find_personal (ev_id v)) (\<lambda>p. wp (if can_view_statutory (Some c) (ev_id v) emp
      then find_statutory (ev_id v) else State_Monad.return None) (\<lambda>s. Q (profile_response v p s))) w'"
    for v w'
    by (rule wp_any) (auto intro!: wp_any assms(3))
  show ?thesis
    unfolding show_profile_def wp_orelse
  proof (rule wp_any, goal_cases)
    case (1 x w')
    show ?case
    proof (cases x)
      case (Some v)
      then show ?thesis
        by (cases "profile_refused c emp v")
          (simp_all only: option.case wp_bind wp_bind_eta wp_return_eta wp_return assms(2) reads)
    qed (simp add: assms(1))
  qed
qed



text \<open>
  A profile knows fewer scopes than the listing. A caller with the scope DEPARTMENT is shown the
  profile of every employee who is not deleted, with the personal record, although no listing shows
  him an employee of another department.
\<close>

theorem profile_wider_than_listing:
  assumes "outcomes w = []" "\<not> db_nil w" "cl_scope c = scope_department"
    and "profile_rows i w = e # es" "i \<noteq> ''me''" "i \<noteq> ''self''" "emp_view_of True w e = Some v"
    and "uuid_in w (e_id e) = Some (e_id e)" "filter (\<lambda>x. pd_emp x = e_id e) (personals w) = p # ps"
      "pd_birth p = None"
  shows "(\<exists>s. fst (run_state (handle_get_employee (Some c) i) w) = profile_response v (Some p) s)
    \<and> (\<not> in_scope (Some c) emp dept e \<longrightarrow> (\<forall>f d. \<not> visible c emp dept f d w e))"
proof
  have i: "profile_id caller (cl_user c) i = i" for caller using assms(5,6) by (simp add: profile_id_def)
  have v: "ev_id v = e_id e" using assms(7) by (auto simp: emp_view_of_def split: option.splits)
  have r: "profile_refused c caller v = None" for caller
    using assms(3) by (simp add: profile_refused_def Let_def)
  have p: "run_state (find_personal (e_id e)) w = (Some p, w)"
    using assms(1,8-10) by (simp add: find_personal_def run_query_calm)
  have s: "snd (run_state (if b then find_statutory (e_id e) else State_Monad.return None) w) = w" for b
    using assms(1) by (simp add: find_statutory_def run_query_row_calm)
  show "\<exists>s. fst (run_state (handle_get_employee (Some c) i) w) = profile_response v (Some p) s"
    using assms(1,2,4,7)
    by (auto simp: handle_get_employee_def show_profile_def run_bind run_orelse run_select_row_calm
        find_profile_def run_query_calm i r v p case_prod_unfold)
  show "\<not> in_scope (Some c) emp dept e \<longrightarrow> (\<forall>f d. \<not> visible c emp dept f d w e)"
    using visible_in_scope by blast
qed

theorem profile_wider_than_listing_witness:
  "(\<exists>s. fst (run_state (handle_get_employee (Some dept_claims) ''e2'')
        (demo_people\<lparr>personals := [empty_personal ''e2'']\<rparr>))
      = profile_response (the (emp_view_of True demo_people (employees demo_people ! 1)))
          (Some (empty_personal ''e2'')) s)
   \<and> (\<forall>f d. \<not> visible dept_claims ''e1'' ''d1'' f d (demo_people\<lparr>personals := [empty_personal ''e2'']\<rparr>)
          (employees demo_people ! 1))"
proof -
  let ?w = "demo_people\<lparr>personals := [empty_personal ''e2'']\<rparr>" and ?e = "employees demo_people ! 1"
  have "(\<exists>s. fst (run_state (handle_get_employee (Some dept_claims) ''e2'') ?w)
      = profile_response (the (emp_view_of True demo_people ?e)) (Some (empty_personal ''e2'')) s)
    \<and> (\<not> in_scope (Some dept_claims) ''e1'' ''d1'' ?e \<longrightarrow>
         (\<forall>f d. \<not> visible dept_claims ''e1'' ''d1'' f d ?w ?e))"
    by (rule profile_wider_than_listing [where es = "[]" and ps = "[]"])
      (simp_all add: dept_claims_def profile_rows_def demo_employee_def user_is_def empty_personal_def
        emp_view_of_def account_email_def manager_name_def designation_names_def)
  moreover have "\<not> in_scope (Some dept_claims) ''e1'' ''d1'' ?e"
    by (simp add: in_scope_def dept_claims_def has_role_Some demo_employee_def is_self_def)
  ultimately show ?thesis by blast
qed

section \<open>A new employee is written completely or not at all\<close>

lemma in_tx_ok:
  assumes "run_state (in_tx m) s = (r, (False, v))"
  obtains u a where "s = (False, u)" "r = Some a" "run_state m u = (Some a, v)"
  using assms by (cases s) (auto simp: in_tx_def split: if_splits prod.splits)

lemma stmt_some:
  assumes "run_state (stmt f) u = (Some a, v)"
  shows "f (popped u) = Some (a, v)"
  using assms by (auto simp: stmt_def split: if_splits option.splits)

text \<open>The tables after a new employee, from those before; \<open>e\<close> is the id as a UUID.\<close>

definition employee_added ::
  "create_employee_request \<Rightarrow> string \<Rightarrow> string \<Rightarrow> 'a people_world_scheme \<Rightarrow> 'a people_world_scheme \<Rightarrow> bool"
  where
  "employee_added req code i w w' \<longleftrightarrow>
     (\<exists>r d p b e. cast_refs (ce_refs req) w = Some r \<and> refs_exist r w
        \<and> date_in w (ce_joining req) = Some d
        \<and> cast_opt (date_in w) (probation_end (ce_joining req)) = Some p
        \<and> cast_opt (date_in w) (ce_birth req) = Some b \<and> uuid_in w i = Some e
        \<and> (\<forall>x\<in>set (employees w). e_code x \<noteq> code \<and> e_id x \<noteq> i)
        \<and> employees w' = employees w @ [new_employee req r code d p (now w) i]
        \<and> personals w' = personals w @
            [(empty_personal e)\<lparr>pd_gender := ce_gender req, pd_birth := b, pd_phone := ce_phone req\<rparr>]
        \<and> (\<exists>s\<in>set (statutories w'). sd_emp s = e)
        \<and> users w' = users w)"

lemma insert_employee_some:
  assumes "run_state (insert_employee req code prob) u = (Some i, v)"
  obtains r d p where "cast_refs (ce_refs req) u = Some r" "refs_exist r u"
    "date_in u (ce_joining req) = Some d" "cast_opt (date_in u) prob = Some p"
    "\<forall>e\<in>set (employees u). e_code e \<noteq> code \<and> e_id e \<noteq> i"
    "v = (popped u)\<lparr>employees := employees u @ [new_employee req r code d p (now u) i],
       issued := issued u + 1\<rparr>"
proof -
  have c: "cast_refs (ce_refs req) (popped u) = cast_refs (ce_refs req) u"
    "\<And>r. refs_exist r (popped u) = refs_exist r u"
    by (simp_all add: cast_refs_def refs_exist_def)
  from stmt_some [OF assms [unfolded insert_employee_def insert_row_def]] that show ?thesis
    by (auto simp: c split: option.splits if_splits)
qed

lemma insert_personal_some:
  assumes "run_state (insert_personal req i) u = (Some n, v)"
  obtains e b where "uuid_in u i = Some e" "cast_opt (date_in u) (ce_birth req) = Some b"
    "v = (popped u)\<lparr>personals := personals u @
       [(empty_personal e)\<lparr>pd_gender := ce_gender req, pd_birth := b, pd_phone := ce_phone req\<rparr>]\<rparr>"
  using stmt_some [OF assms [unfolded insert_personal_def exec_def]] that
  by (auto split: option.splits if_splits)

lemma insert_statutory_some:
  assumes "run_state (insert_statutory i) u = (Some n, v)" "uuid_in u i = Some e"
  shows "v = (popped u)\<lparr>statutories := statutories v\<rparr> \<and> (\<exists>s\<in>set (statutories v). sd_emp s = e)"
  using stmt_some [OF assms(1) [unfolded insert_statutory_def exec_def]] assms(2)
  by (auto simp: empty_statutory_def split: if_splits)

lemma same_conversions [simp]:
  "cast_refs r (w\<lparr>outcomes := os\<rparr>) = cast_refs r w"
  "cast_refs r (w\<lparr>sequence := n\<rparr>) = cast_refs r w"
  "refs_exist r (v\<lparr>outcomes := os\<rparr>) = refs_exist r v" "refs_exist r (v\<lparr>sequence := n\<rparr>) = refs_exist r v"
  by (simp_all add: cast_refs_def refs_exist_def)

lemma add_employee_complete:
  assumes "run_state (add_employee req failed) (False, v) = (Inr (i, code), (False, v'))"
  shows "code = emp_code (sequence v) \<and> employee_added req code i v v'"
proof -
  obtain n s1 where s1: "run_state (in_tx next_value) (False, v) = (n, s1)" by (meson surj_pair)
  let ?code = "emp_code (case n of None \<Rightarrow> 0 | Some k \<Rightarrow> k)"
  obtain x s2 where s2: "run_state (in_tx (insert_employee req ?code (probation_end (ce_joining req)))) s1
      = (x, s2)" by (meson surj_pair)
  have x: "x \<noteq> None" using assms [unfolded add_employee_def] s1 s2 by (cases x) (auto simp: run_bind run_orelse Let_def)
  then obtain j where j: "x = Some j" by auto
  obtain y s3 where s3: "run_state (in_tx (insert_personal req j)) s2 = (y, s3)" by (meson surj_pair)
  obtain z s4 where s4: "run_state (in_tx (insert_statutory j)) s3 = (z, s4)" by (meson surj_pair)
  have fin: "s4 = (False, v')" "j = i" "?code = code"
    using assms [unfolded add_employee_def] s1 s2 s3 s4 j by (auto simp: run_bind run_orelse Let_def)
  obtain v3 m where v3: "s3 = (False, v3)" "run_state (insert_statutory i) v3 = (Some m, v')"
    using in_tx_ok [OF s4 [unfolded fin]] by metis
  obtain v2 k where v2: "s2 = (False, v2)" "run_state (insert_personal req i) v2 = (Some k, v3)"
    using in_tx_ok [OF s3 [unfolded v3(1) fin]] by metis
  obtain v1 where v1: "s1 = (False, v1)"
    "run_state (insert_employee req code (probation_end (ce_joining req))) v1 = (Some i, v2)"
    using in_tx_ok [OF s2 [unfolded v2(1) fin(3)]] j fin(2) by (metis option.inject)
  obtain k' where "n = Some k'" "run_state next_value v = (Some k', v1)"
    using in_tx_ok [OF s1 [unfolded v1(1)]] by (metis prod.inject)
  then have "n = Some (sequence v)" "v1 = (popped v)\<lparr>sequence := sequence v + 1\<rparr>"
    using stmt_some [of "\<lambda>w. Some (sequence w, w\<lparr>sequence := sequence w + 1\<rparr>)" v k' v1]
    by (auto simp: next_value_def)
  note first = this
  from insert_employee_some [OF v1(2)] obtain r d p where e:
    "cast_refs (ce_refs req) v1 = Some r" "refs_exist r v1" "date_in v1 (ce_joining req) = Some d"
    "cast_opt (date_in v1) (probation_end (ce_joining req)) = Some p"
    "\<forall>e\<in>set (employees v1). e_code e \<noteq> code \<and> e_id e \<noteq> i"
    "v2 = (popped v1)\<lparr>employees := employees v1 @ [new_employee req r code d p (now v1) i],
       issued := issued v1 + 1\<rparr>" .
  from insert_personal_some [OF v2(2)] obtain u b where p:
    "uuid_in v2 i = Some u" "cast_opt (date_in v2) (ce_birth req) = Some b"
    "v3 = (popped v2)\<lparr>personals := personals v2 @
       [(empty_personal u)\<lparr>pd_gender := ce_gender req, pd_birth := b, pd_phone := ce_phone req\<rparr>]\<rparr>" .
  have u3: "uuid_in v3 i = Some u" using p(1) by (simp add: p(3))
  from insert_statutory_some [OF v3(2) u3]
  have st: "v' = (popped v3)\<lparr>statutories := statutories v'\<rparr>" "\<exists>s\<in>set (statutories v'). sd_emp s = u"
    by auto
  have "employees v' = employees v @ [new_employee req r code d p (now v) i]"
    "personals v' = personals v @
       [(empty_personal u)\<lparr>pd_gender := ce_gender req, pd_birth := b, pd_phone := ce_phone req\<rparr>]"
    "users v' = users v"
    by (subst st(1), simp add: p(3) e(6) first)+
  moreover have "code = emp_code (sequence v)" using first fin(3) by simp
  moreover have "uuid_in v i = Some u" "cast_opt (date_in v) (ce_birth req) = Some b"
    using p(1,2) by (simp_all add: e(6) first)
  ultimately show ?thesis
    using e(1-5) st(2) by (auto simp: employee_added_def first)
qed

lemma employee_added_outcomes [simp]:
  "employee_added req code i (w\<lparr>outcomes := os\<rparr>) w' \<longleftrightarrow> employee_added req code i w w'"
  "employee_added req code i w (w'\<lparr>outcomes := os\<rparr>) \<longleftrightarrow> employee_added req code i w w'"
  by (simp_all add: employee_added_def)


end
