(* ===== verification/Importer.thy ===== *)
theory Importer
  imports Employees "HOL-Library.AList"
begin

text \<open>
  \<^verbatim>\<open>internal/importer\<close>: a CSV file of employees is stored row by row in one transaction, each row
  marked VALID or ERROR, and a batch is processed later, row by row without a transaction, into an
  account and an employee. The texts of a file are UTF-8; a zero byte is the one character that a
  \<^verbatim>\<open>JSONB\<close> value refuses.
\<close>

section \<open>Upload\<close>

text \<open>
  The column that a name denotes: the names of the header are compared in lower case, and the last
  match wins.
\<close>

definition column :: "string \<Rightarrow> string list \<Rightarrow> nat option" where
  "column name hs =
     (case filter (\<lambda>i. to_lower (hs ! i) = name) [0..<length hs] of [] \<Rightarrow> None | ks \<Rightarrow> Some (last ks))"

text \<open>\<^verbatim>\<open>idx == -1 || row[idx] == ""\<close>; the reader gives every record the length of the header.\<close>

definition blank_cell :: "string list \<Rightarrow> nat option \<Rightarrow> bool" where
  "blank_cell row c = (case c of None \<Rightarrow> True | Some i \<Rightarrow> row ! i = '''')"

definition row_error :: "string list \<Rightarrow> string list \<Rightarrow> string" where
  "row_error hs row =
     (if blank_cell row (column ''email'' hs) then ''email is required''
      else if blank_cell row (column ''first_name'' hs) then ''first_name is required''
      else if blank_cell row (column ''last_name'' hs) then ''last_name is required''
      else if length row \<noteq> length hs then ''column count mismatch''
      else '''')"

definition row_status :: "string list \<Rightarrow> string list \<Rightarrow> string" where
  "row_status hs row = (if row_error hs row = '''' then ''VALID'' else ''ERROR'')"

text \<open>The object \<^verbatim>\<open>rowMap\<close>: a field for each name of the header, the last column of a name.\<close>

definition raw_data :: "string list \<Rightarrow> string list \<Rightarrow> (string \<times> string) list" where
  "raw_data hs row = foldl (\<lambda>m (h, x). AList.update h x m) [] (zip hs row)"

definition insert_batch :: "int \<Rightarrow> ('a people_world_scheme, string option) state" where
  "insert_batch n = insert_row (\<lambda>i w.
     if orgs w = [] \<or> users w = [] \<or> i \<in> ib_id ` set (import_batches w) then None
     else Some (w\<lparr>import_batches := import_batches w @
            [\<lparr>ib_id = i, ib_type = ''EMPLOYEE_MASTER'', ib_total = n, ib_valid = 0, ib_errors = 0,
              ib_status = ''VALIDATING'', ib_created = now w\<rparr>]\<rparr>))"

definition insert_import_row ::
  "string \<Rightarrow> int \<Rightarrow> (string \<times> string) list \<Rightarrow> string \<Rightarrow> string \<Rightarrow>
   ('a people_world_scheme, nat option) state" where
  "insert_import_row batch n raw status msg = exec (\<lambda>w.
     case uuid_in w batch of
       None \<Rightarrow> None
     | Some b \<Rightarrow>
         if b \<notin> ib_id ` set (import_batches w) \<or> (\<exists>(k, x)\<in>set raw. CHR 0x00 \<in> set k \<or> CHR 0x00 \<in> set x)
         then None
         else Some (1, w\<lparr>import_rows := import_rows w @
                [\<lparr>ir_id = ids w (issued w), ir_batch = b, ir_number = n, ir_data = raw,
                  ir_status = status, ir_error = Some msg, ir_emp = None\<rparr>],
                issued := issued w + 1\<rparr>))"

text \<open>The loop over the rows, which stops at the first error.\<close>

fun insert_rows ::
  "string \<Rightarrow> string list \<Rightarrow> int \<Rightarrow> string list list \<Rightarrow> (bool \<times> 'a people_world_scheme, bool) state" where
  "insert_rows batch hs n [] = State_Monad.return True"
| "insert_rows batch hs n (r # rs) =
     orelse (in_tx (insert_import_row batch n (raw_data hs r) (row_status hs r) (row_error hs r))) False
       (\<lambda>_. insert_rows batch hs (n + 1) rs)"

definition valid_count :: "string list \<Rightarrow> string list list \<Rightarrow> nat" where
  "valid_count hs rs = count_where (\<lambda>r. row_status hs r = ''VALID'') rs"

definition ready_batch :: "string \<Rightarrow> int \<Rightarrow> int \<Rightarrow> ('a people_world_scheme, nat option) state" where
  "ready_batch batch valid errors = exec (\<lambda>w.
     Some (count_where (\<lambda>b. ib_id b = batch) (import_batches w),
       w\<lparr>import_batches := upd_where (\<lambda>b. ib_id b = batch)
          (\<lambda>b. b\<lparr>ib_valid := valid, ib_errors := errors, ib_status := ''READY''\<rparr>) (import_batches w)\<rparr>))"

text \<open>The transaction of an upload.\<close>

definition store_file ::
  "string list \<Rightarrow> string list list \<Rightarrow> response \<Rightarrow>
   (bool \<times> 'a people_world_scheme, response + string) state" where
  "store_file hs rs failed =
     orelse (in_tx (insert_batch (int (length rs)))) (Inl failed)
       (\<lambda>batch. do {
          ok \<leftarrow> insert_rows batch hs 1 rs;
          (if \<not> ok then State_Monad.return (Inl failed)
           else
             orelse (in_tx (ready_batch batch (int (valid_count hs rs))
                 (int (length rs) - int (valid_count hs rs))))
               (Inl failed) (\<lambda>_. State_Monad.return (Inr batch)))
        })"

text \<open>
  The file of a request: \<^term>\<open>None\<close> when the form does not parse, \<^term>\<open>Some None\<close> without a
  file, else its text.
\<close>

definition handle_upload :: "string option option \<Rightarrow> ('a people_world_scheme, response) state" where
  "handle_upload form = do {
     nil \<leftarrow> reads db_nil;
     err \<leftarrow> reads err_text;
     (if nil then State_Monad.return db_unavailable
      else
        (case form of
           None \<Rightarrow> State_Monad.return
             (fail_json status_bad_request ''file size too large or invalid'')
         | Some None \<Rightarrow> State_Monad.return (fail_json status_bad_request ''file missing'')
         | Some (Some text) \<Rightarrow>
             (case csv_read text of
                Some (hs # r # rs) \<Rightarrow>
                  transaction (fail_json status_internal err)
                    (store_file hs (r # rs) (fail_json status_internal err))
                    (fail_json status_internal err)
                    (\<lambda>batch. respond status_ok
                       [(''success'', JBool True),
                        (''data'', JObj [(''batch_id'', JStr batch)])])
              | _ \<Rightarrow> State_Monad.return
                  (fail_json status_bad_request ''invalid csv format or empty file''))))
   }"

section \<open>Batches\<close>

definition batch_json :: "import_batch_row \<Rightarrow> json" where
  "batch_json b =
     JObj [(''id'', JStr (ib_id b)), (''import_type'', JStr (ib_type b)),
           (''total_rows'', JInt (ib_total b)), (''valid_rows'', JInt (ib_valid b)),
           (''error_rows'', JInt (ib_errors b)), (''status'', JStr (ib_status b)),
           (''created_at'', JStr (show_iso (ib_created b)))]"

definition handle_get_batches :: "('a people_world_scheme, response) state" where
  "handle_get_batches = do {
     nil \<leftarrow> reads db_nil;
     (if nil then State_Monad.return db_unavailable
      else
        orelse (select (\<lambda>w. sort_key (\<lambda>b. - ib_created b) (import_batches w))) (data_response [])
          (\<lambda>bs. State_Monad.return (data_response (map batch_json bs))))
   }"

text \<open>A row with its object, whose fields are printed in the order of their names.\<close>

definition import_row_json :: "import_row \<Rightarrow> json option" where
  "import_row_json r =
     (case ir_error r of None \<Rightarrow> None
      | Some msg \<Rightarrow> Some (JObj
          ([(''id'', JStr (ir_id r)), (''row_number'', JInt (ir_number r)),
            (''raw_data'', JObj (map (\<lambda>(k, x). (k, JStr x)) (sort_key fst (ir_data r)))),
            (''status'', JStr (ir_status r))]
           @ (if msg = '''' then [] else [(''error_message'', JStr msg)]))))"

definition handle_get_batch_detail :: "string \<Rightarrow> ('a people_world_scheme, response) state" where
  "handle_get_batch_detail i = do {
     nil \<leftarrow> reads db_nil;
     err \<leftarrow> reads err_text;
     (if nil then State_Monad.return db_unavailable
      else
        orelse (select_row (\<lambda>w. filter (\<lambda>b. ib_id b = i) (import_batches w)))
          (fail_json status_not_found (''batch not found: '' @ err))
          (\<lambda>b. do {
             rs \<leftarrow> select (\<lambda>w. filter (\<lambda>r. ir_batch r = i \<and> ir_status r = ''ERROR'') (import_rows w));
             State_Monad.return (user_ok_response
               [(''data'', batch_json b),
                (''errors'', JArr (scan_rows import_row_json (case rs of None \<Rightarrow> [] | Some x \<Rightarrow> x)))])
           }))
   }"

section \<open>Processing\<close>

text \<open>\<^verbatim>\<open>fmt.Sprintf("EMP-%d-%d", time.Now().Unix(), i)\<close>.\<close>

definition import_code :: "int \<Rightarrow> nat \<Rightarrow> string" where
  "import_code t i = ''EMP-'' @ dec (t div nanos_per_second) @ ''-'' @ decn i"

definition import_password :: string where
  "import_password = ''password123''"

text \<open>The employee of a row; the account has no other employee, and the code is new.\<close>

definition insert_import_employee ::
  "string \<Rightarrow> string \<Rightarrow> string \<Rightarrow> string \<Rightarrow> string \<Rightarrow> ('a people_world_scheme, string option) state" where
  "insert_import_employee uid code fname lname joining = insert_row (\<lambda>i w.
     case (uuid_in w uid, date_in w joining) of
       (Some u, Some d) \<Rightarrow>
         if u \<in> u_id ` set (users w)
            \<and> (\<forall>e\<in>set (employees w). \<not> user_is u e \<and> e_code e \<noteq> code \<and> e_id e \<noteq> i)
         then Some (w\<lparr>employees := employees w @
                [\<lparr>e_id = i, e_user = Some u, e_code = code, e_first = fname, e_last = lname,
                  e_dept = None, e_manager = None, e_desig = None, e_status = ''ACTIVE'',
                  e_deleted = False, e_type = Some ''PERMANENT'', e_joined = d, e_probation = None,
                  e_confirmed = None, e_notice = Some 30, e_nation = Some ''Indian'',
                  e_location = None, e_phone = None, e_reports = None, e_created = now w\<rparr>]\<rparr>)
         else None
     | _ \<Rightarrow> None)"

definition mark_row ::
  "string \<Rightarrow> (import_row \<Rightarrow> import_row) \<Rightarrow> ('a people_world_scheme, nat option) state" where
  "mark_row i f = exec (\<lambda>w. Some (count_where (\<lambda>r. ir_id r = i) (import_rows w),
     w\<lparr>import_rows := upd_where (\<lambda>r. ir_id r = i) f (import_rows w)\<rparr>))"

definition fail_row :: "string \<Rightarrow> string \<Rightarrow> ('a people_world_scheme, nat option) state" where
  "fail_row i msg = mark_row i (\<lambda>r. r\<lparr>ir_status := ''ERROR'', ir_error := Some msg\<rparr>)"

text \<open>The id of the employee is cast to a UUID.\<close>

definition complete_row :: "string \<Rightarrow> string \<Rightarrow> ('a people_world_scheme, nat option) state" where
  "complete_row i eid = exec (\<lambda>w. map_option
     (\<lambda>e. (count_where (\<lambda>r. ir_id r = i) (import_rows w),
       w\<lparr>import_rows := upd_where (\<lambda>r. ir_id r = i)
          (\<lambda>r. r\<lparr>ir_status := ''COMPLETED'', ir_emp := Some e\<rparr>) (import_rows w)\<rparr>)) (uuid_in w eid))"

text \<open>One row: the account, the employee, the mark; each error ends the row, not the batch.\<close>

definition import_one ::
  "string \<Rightarrow> string \<Rightarrow> string \<Rightarrow> string \<Rightarrow> string \<Rightarrow> string \<Rightarrow> string \<Rightarrow>
   ('a people_world_scheme, unit) state" where
  "import_one hash row code email fname lname joining = do {
     err \<leftarrow> reads err_text;
     u \<leftarrow> insert_user (new_user email hash True);
     (case u of
        None \<Rightarrow> do {
          _ \<leftarrow> fail_row row (''user creation failed: '' @ err);
          State_Monad.return ()
        }
      | Some uid \<Rightarrow> do {
          e \<leftarrow> insert_import_employee uid code fname lname joining;
          (case e of
             None \<Rightarrow> do {
               _ \<leftarrow> fail_row row (''employee creation failed: '' @ err);
               State_Monad.return ()
             }
           | Some eid \<Rightarrow> do {
               _ \<leftarrow> complete_row row eid;
               State_Monad.return ()
             })
        })
   }"

text \<open>
  The loop over the valid rows, with the joining date, which a row without one takes from the row
  before; it ends with \<^term>\<open>False\<close> when a row lacks one of the three fields, where the code panics.
\<close>

fun import_loop ::
  "string \<Rightarrow> string \<Rightarrow> nat \<Rightarrow> (string \<times> (string \<times> string) list) list \<Rightarrow>
   ('a people_world_scheme, bool) state" where
  "import_loop hash joining i [] = State_Monad.return True"
| "import_loop hash joining i ((row, d) # rs) =
     (case (map_of d ''email'', map_of d ''first_name'', map_of d ''last_name'') of
        (Some email, Some fname, Some lname) \<Rightarrow> do {
          t \<leftarrow> reads now;
          let joining' = (case map_of d ''join_date'' of
                 None \<Rightarrow> joining | Some j \<Rightarrow> if j = '''' then joining else j);
          _ \<leftarrow> import_one hash row (import_code t i) email fname lname joining';
          import_loop hash joining' (i + 1) rs
        }
      | _ \<Rightarrow> State_Monad.return False)"

definition valid_rows :: "string \<Rightarrow> 'a people_world_scheme \<Rightarrow> import_row list" where
  "valid_rows batch w = filter (\<lambda>r. ir_batch r = batch \<and> ir_status r = ''VALID'') (import_rows w)"

definition complete_batch :: "string \<Rightarrow> ('a people_world_scheme, nat option) state" where
  "complete_batch batch = exec (\<lambda>w.
     Some (count_where (\<lambda>b. ib_id b = batch) (import_batches w),
       w\<lparr>import_batches := upd_where (\<lambda>b. ib_id b = batch) (\<lambda>b. b\<lparr>ib_status := ''COMPLETED''\<rparr>)
          (import_batches w)\<rparr>))"

definition handle_process_batch ::
  "crypto \<Rightarrow> string \<Rightarrow> ('a people_world_scheme, response) state" where
  "handle_process_batch cr batch = do {
     nil \<leftarrow> reads db_nil;
     err \<leftarrow> reads err_text;
     d \<leftarrow> reads today;
     (if nil then State_Monad.return db_unavailable
      else
        orelse (select (\<lambda>w. map (\<lambda>r. (ir_id r, ir_data r)) (valid_rows batch w)))
          (fail_json status_internal err)
          (\<lambda>rs. do {
             ok \<leftarrow> import_loop (text_or_empty (bcrypt_hash cr import_password)) (show_date d) 0 rs;
             (if \<not> ok then State_Monad.return panicked
              else
                orelse (complete_batch batch) (fail_json status_internal err)
                  (\<lambda>_. State_Monad.return (user_ok_response [(''status'', JStr ''COMPLETED'')])))
           }))
   }"

end
