(* ===== verification/Importer_Rules.thy ===== *)
theory Importer_Rules
  imports Importer Employees_Rules
begin

text \<open>
  What an import leaves in the tables: an upload is stored completely or not at all, a batch that was
  processed to its end has nothing left to process, and a file whose header is not in lower case
  passes the upload and stops the processing.
\<close>

section \<open>An upload is stored completely or not at all\<close>

definition stored_row ::
  "string \<Rightarrow> string list \<Rightarrow> string \<Rightarrow> int \<Rightarrow> string list \<Rightarrow> import_row" where
  "stored_row b hs i n r =
     \<lparr>ir_id = i, ir_batch = b, ir_number = n, ir_data = raw_data hs r, ir_status = row_status hs r,
      ir_error = Some (row_error hs r), ir_emp = None\<rparr>"

fun stored_rows ::
  "string \<Rightarrow> string list \<Rightarrow> int \<Rightarrow> string list \<Rightarrow> string list list \<Rightarrow> import_row list" where
  "stored_rows b hs n (i # js) (r # rs) = stored_row b hs i n r # stored_rows b hs (n + 1) js rs"
| "stored_rows b hs n js rs = []"

definition file_stored ::
  "string list \<Rightarrow> string list list \<Rightarrow> string \<Rightarrow> 'a people_world_scheme \<Rightarrow> 'a people_world_scheme \<Rightarrow> bool"
  where
  "file_stored hs rs batch w w' \<longleftrightarrow>
     batch \<notin> ib_id ` set (import_batches w) \<and> batch \<in> range (ids w)
     \<and> import_batches w' = import_batches w @
         [\<lparr>ib_id = batch, ib_type = ''EMPLOYEE_MASTER'', ib_total = int (length rs),
           ib_valid = int (valid_count hs rs), ib_errors = int (length rs) - int (valid_count hs rs),
           ib_status = ''READY'', ib_created = now w\<rparr>]
     \<and> (\<exists>b js. uuid_in w batch = Some b \<and> length js = length rs
          \<and> import_rows w' = import_rows w @ stored_rows b hs 1 js rs)
     \<and> users w' = users w \<and> employees w' = employees w"

lemma insert_batch_some:
  assumes "run_state (insert_batch n) u = (Some i, v)"
  shows "i \<notin> ib_id ` set (import_batches u) \<and> i = ids u (issued u)
    \<and> v = (popped u)\<lparr>import_batches := import_batches u @
         [\<lparr>ib_id = i, ib_type = ''EMPLOYEE_MASTER'', ib_total = n, ib_valid = 0, ib_errors = 0,
           ib_status = ''VALIDATING'', ib_created = now u\<rparr>], issued := issued u + 1\<rparr>"
  using stmt_some [OF assms [unfolded insert_batch_def insert_row_def]]
  by (auto split: if_splits)

lemma insert_import_row_some:
  assumes "run_state (insert_import_row batch n raw st msg) u = (Some k, v)"
  shows "\<exists>b. uuid_in u batch = Some b
    \<and> v = (popped u)\<lparr>import_rows := import_rows u @
         [\<lparr>ir_id = ids u (issued u), ir_batch = b, ir_number = n, ir_data = raw, ir_status = st,
           ir_error = Some msg, ir_emp = None\<rparr>], issued := issued u + 1\<rparr>"
  using stmt_some [OF assms [unfolded insert_import_row_def exec_def]]
  by (auto split: if_splits option.splits)

lemma insert_rows_stored:
  assumes "run_state (insert_rows batch hs n rs) (False, u) = (True, (False, v))" "uuid_in u batch = Some b"
  shows "\<exists>js os k. length js = length rs
    \<and> v = u\<lparr>import_rows := import_rows u @ stored_rows b hs n js rs, outcomes := os, issued := k\<rparr>"
  using assms
proof (induction rs arbitrary: n u)
  case Nil
  then show ?case by (auto intro!: exI [of _ "outcomes u"] exI [of _ "issued u"])
next
  case (Cons r rs)
  obtain x s where s: "run_state (in_tx (insert_import_row batch n (raw_data hs r) (row_status hs r)
      (row_error hs r))) (False, u) = (x, s)" by (meson surj_pair)
  then have x: "x \<noteq> None" "run_state (insert_rows batch hs (n + 1) rs) s = (True, (False, v))"
    using Cons.prems(1) by (auto simp: run_orelse split: option.splits)
  obtain u1 where "s = (False, u1)"
    using s x(1) by (auto simp: in_tx_def split: if_splits prod.splits)
  then obtain k where u1: "s = (False, u1)" "run_state (insert_import_row batch n (raw_data hs r)
      (row_status hs r) (row_error hs r)) u = (Some k, u1)"
    using in_tx_ok [OF s [unfolded \<open>s = (False, u1)\<close>]] by (metis prod.inject)
  from insert_import_row_some [OF u1(2)] Cons.prems(2)
  have v1: "u1 = (popped u)\<lparr>import_rows := import_rows u @
      [stored_row b hs (ids u (issued u)) n r], issued := issued u + 1\<rparr>"
    by (simp add: stored_row_def)
  obtain js os k' where "length js = length rs"
    "v = u1\<lparr>import_rows := import_rows u1 @ stored_rows b hs (n + 1) js rs, outcomes := os, issued := k'\<rparr>"
    using Cons.IH [OF x(2) [unfolded u1(1)]] Cons.prems(2) by (auto simp: v1)
  then show ?case
    by (intro exI [of _ "ids u (issued u) # js"] exI [of _ os] exI [of _ k']) (simp add: v1)
qed

lemma insert_rows_uuid:
  assumes "run_state (insert_rows batch hs n (r # rs)) (False, u) = (True, (False, v))"
  shows "\<exists>b. uuid_in u batch = Some b"
proof -
  obtain x s where s: "run_state (in_tx (insert_import_row batch n (raw_data hs r) (row_status hs r)
      (row_error hs r))) (False, u) = (x, s)" by (meson surj_pair)
  then obtain k where "x = Some k" using assms by (cases x) (auto simp: run_orelse)
  with s obtain u1 where "run_state (insert_import_row batch n (raw_data hs r) (row_status hs r)
      (row_error hs r)) u = (Some k, u1)"
    by (auto simp: in_tx_def split: prod.splits)
  from insert_import_row_some [OF this] show ?thesis by blast
qed

lemma store_file_stored:
  assumes "run_state (store_file hs rs failed) (False, u) = (Inr batch, (False, v))" "rs \<noteq> []"
  shows "file_stored hs rs batch u v"
proof -
  let ?valid = "int (valid_count hs rs)"
  obtain x s1 where s1: "run_state (in_tx (insert_batch (int (length rs)))) (False, u) = (x, s1)"
    by (meson surj_pair)
  obtain b where x: "x = Some b" using assms(1) s1 by (cases x) (auto simp: store_file_def run_orelse)
  obtain ok s2 where s2: "run_state (insert_rows b hs 1 rs) s1 = (ok, s2)" by (meson surj_pair)
  obtain y s3 where s3: "run_state (in_tx (ready_batch b ?valid (int (length rs) - ?valid))) s2 = (y, s3)"
    by (meson surj_pair)
  have fin: "ok" "s3 = (False, v)" "b = batch"
    using assms(1) s1 x s2 s3
    by (auto simp: store_file_def run_orelse run_bind split: if_splits option.splits)
  obtain v2 n where v2: "s2 = (False, v2)"
    "run_state (ready_batch batch ?valid (int (length rs) - ?valid)) v2 = (Some n, v)"
    using in_tx_ok [OF s3 [unfolded fin(2,3)]] by metis
  obtain v1 where "s1 = (False, v1)"
    using s1 x by (auto simp: in_tx_def split: prod.splits)
  then have v1: "run_state (insert_batch (int (length rs))) u = (Some batch, v1)"
    using in_tx_ok [OF s1 [unfolded \<open>s1 = (False, v1)\<close>]] x fin(3) by (metis option.inject prod.inject)
  note b = insert_batch_some [OF v1]
  have rows: "run_state (insert_rows batch hs 1 rs) (False, v1) = (True, (False, v2))"
    using s2 fin v2(1) \<open>s1 = (False, v1)\<close> by simp
  obtain r rs' where "rs = r # rs'" using assms(2) by (cases rs) auto
  with insert_rows_uuid rows have "\<exists>u'. uuid_in v1 batch = Some u'" by blast
  then obtain u' where u': "uuid_in v1 batch = Some u'" ..
  from insert_rows_stored [OF rows u'] obtain js os k where js: "length js = length rs"
    "v2 = v1\<lparr>import_rows := import_rows v1 @ stored_rows u' hs 1 js rs, outcomes := os, issued := k\<rparr>"
    by blast
  have v: "v = (popped v2)\<lparr>import_batches := upd_where (\<lambda>b. ib_id b = batch)
      (\<lambda>b. b\<lparr>ib_valid := ?valid, ib_errors := int (length rs) - ?valid, ib_status := ''READY''\<rparr>)
      (import_batches v2)\<rparr>"
    using stmt_some [OF v2(2) [unfolded ready_batch_def exec_def]] by simp
  have "upd_where (\<lambda>b. ib_id b = batch) f (import_batches u) = import_batches u" for f
    using b by (intro upd_where_none) (metis image_eqI)
  then show ?thesis
    unfolding file_stored_def using b js(1) u' v js(2)
    by (auto simp: upd_where_def intro!: exI [of _ js])
qed

lemma wp_handle_upload:
  "wp (handle_upload form) (\<lambda>resp w'. if rcode resp = status_ok
      then \<exists>text hs rs batch. form = Some (Some text) \<and> csv_read text = Some (hs # rs) \<and> rs \<noteq> []
             \<and> file_stored hs rs batch w w'
      else untouched w w') w"
proof -
  define Q where "Q = (\<lambda>(resp :: response) (w' :: 'a people_world_scheme).
      if rcode resp = status_ok
      then \<exists>text hs rs batch. form = Some (Some text) \<and> csv_read text = Some (hs # rs) \<and> rs \<noteq> []
             \<and> file_stored hs rs batch w w'
      else untouched w w')"
  have tx: "wp (transaction (fail_json status_internal err)
      (store_file hs (r # rs) (fail_json status_internal err)) (fail_json status_internal err)
      (\<lambda>batch. respond status_ok (f batch))) Q w"
    if "form = Some (Some s)" "csv_read s = Some (hs # r # rs)" for s hs r rs err f
  proof (rule transaction_atomic)
    fix x b v w'
    assume "run_state (store_file hs (r # rs) (fail_json status_internal err)) (False, popped w)
      = (Inl x, (b, v))" "untouched w w'"
    then show "Q x w'"
      by (auto simp: Q_def store_file_def run_orelse run_bind
          split: option.splits prod.splits if_splits)
  next
    fix batch v
    assume "run_state (store_file hs (r # rs) (fail_json status_internal err)) (False, popped w)
      = (Inr batch, (False, v))"
    then have "file_stored hs (r # rs) batch (popped w) v" by (rule store_file_stored) simp
    then have "file_stored hs (r # rs) batch w (popped v)" by (simp add: file_stored_def)
    then show "Q (respond status_ok (f batch)) (popped v)"
      unfolding Q_def if_P [OF refl] using that by auto
  qed (auto simp: Q_def)
  have plain: "Q r w" if "rcode r \<noteq> status_ok" for r using that by (simp add: Q_def)
  have "wp (handle_upload form) Q w"
    unfolding handle_upload_def
    by (auto intro!: tx plain split: option.split list.split)
  then show ?thesis by (simp add: Q_def)
qed

text \<open>
  C15. An upload is stored completely or not at all. Whatever statements fail, an answer 200 means that
  the file is a CSV text with at least one row below its header, and that a READY batch is there with
  one numbered row for each of them, in the order of the file, marked with what the check of the row
  says, the counts of valid and of wrong rows adding up to the total; any other answer leaves every
  table as it was.
\<close>

theorem upload_recorded:
  "let (resp, w') = run_state (handle_upload form) w
   in if rcode resp = status_ok
      then \<exists>text hs rs batch. form = Some (Some text) \<and> csv_read text = Some (hs # rs) \<and> rs \<noteq> []
             \<and> file_stored hs rs batch w w'
      else untouched w w'"
  using wp_handle_upload [of form w] by (simp add: wp_def Let_def case_prod_unfold)

section \<open>A processed batch is done\<close>

text \<open>What a run that no outside failure disturbs leaves of the server.\<close>

definition same_server :: "'a people_world_scheme \<Rightarrow> 'a people_world_scheme \<Rightarrow> bool" where
  "same_server w w' \<longleftrightarrow> outcomes w' = outcomes w \<and> db_nil w' = db_nil w \<and> uuid_in w' = uuid_in w
     \<and> ids w' = ids w \<and> now w' = now w \<and> err_text w' = err_text w
     \<and> import_batches w' = import_batches w"

text \<open>The server reads the identifiers that it makes, and no statement fails for an outside reason.\<close>

definition import_ready :: "'a people_world_scheme \<Rightarrow> bool" where
  "import_ready w \<longleftrightarrow> outcomes w = [] \<and> \<not> db_nil w \<and> (\<forall>n. uuid_in w (ids w n) \<noteq> None)"

lemma same_server_ready: "same_server w w' \<Longrightarrow> import_ready w \<Longrightarrow> import_ready w'"
  by (simp add: same_server_def import_ready_def)

lemma same_server_trans: "same_server u v \<Longrightarrow> same_server v w \<Longrightarrow> same_server u w"
  by (simp add: same_server_def)

definition settles :: "(import_row \<Rightarrow> import_row) \<Rightarrow> bool" where
  "settles g \<longleftrightarrow> (\<forall>r. ir_id (g r) = ir_id r \<and> ir_status (g r) \<noteq> ''VALID'')"

lemma run_insert_user_calm:
  assumes "outcomes w = []"
  shows "\<exists>x us k. run_state (insert_user row) w = (x, w\<lparr>users := us, issued := k\<rparr>)"
proof -
  have "run_state (insert_user row) w = (None, w)
    \<or> (\<exists>us. run_state (insert_user row) w
          = (Some (ids w (issued w)), w\<lparr>users := us, issued := issued w + 1\<rparr>))"
    using assms by (auto simp: insert_user_def run_insert_calm)
  then show ?thesis
  proof
    assume "run_state (insert_user row) w = (None, w)"
    then have "run_state (insert_user row) w = (None, w\<lparr>users := users w, issued := issued w\<rparr>)" by simp
    then show ?thesis by blast
  qed blast
qed

lemma run_import_employee_calm:
  assumes "outcomes w = []"
  shows "run_state (insert_import_employee uid code f l j) w = (None, w)
    \<or> (\<exists>es. run_state (insert_import_employee uid code f l j) w
          = (Some (ids w (issued w)), w\<lparr>employees := es, issued := issued w + 1\<rparr>))"
  using assms by (auto simp: insert_import_employee_def run_insert_calm split: option.split)

lemma run_import_one:
  assumes "import_ready w"
  obtains w' g where "run_state (import_one hash row code email f l j) w = ((), w')" "same_server w w'"
    "settles g" "import_rows w' = upd_where (\<lambda>r. ir_id r = row) g (import_rows w)"
proof -
  have calm: "outcomes w = []" "\<And>n. uuid_in w (ids w n) \<noteq> None"
    using assms by (simp_all add: import_ready_def)
  obtain x us k where u: "run_state (insert_user (new_user email hash True)) w
      = (x, w\<lparr>users := us, issued := k\<rparr>)"
    using run_insert_user_calm [OF calm(1)] by blast
  let ?w1 = "w\<lparr>users := us, issued := k\<rparr>"
  have "outcomes ?w1 = []" using calm by simp
  from run_import_employee_calm [OF this]
  have e: "run_state (insert_import_employee uid code f l j) ?w1 = (None, ?w1)
    \<or> (\<exists>es. run_state (insert_import_employee uid code f l j) ?w1
          = (Some (ids w k), ?w1\<lparr>employees := es, issued := k + 1\<rparr>))" for uid by simp
  have "\<exists>w' g. run_state (import_one hash row code email f l j) w = ((), w') \<and> same_server w w'
    \<and> settles g \<and> import_rows w' = upd_where (\<lambda>r. ir_id r = row) g (import_rows w)"
  proof (cases x)
    case None
    then show ?thesis using u calm
      by (simp add: import_one_def run_bind run_exec_calm fail_row_def mark_row_def same_server_def
          settles_def) (rule exI, rule conjI [rotated], rule refl, simp)
  next
    case (Some uid)
    obtain b where b: "uuid_in w (ids w k) = Some b" using calm(2) by blast
    from e [of uid] show ?thesis
    proof
      assume "run_state (insert_import_employee uid code f l j) ?w1 = (None, ?w1)"
      then show ?thesis using u Some calm
        by (simp add: import_one_def run_bind run_exec_calm fail_row_def mark_row_def same_server_def
            settles_def) (rule exI, rule conjI [rotated], rule refl, simp)
    next
      assume "\<exists>es. run_state (insert_import_employee uid code f l j) ?w1
          = (Some (ids w k), ?w1\<lparr>employees := es, issued := k + 1\<rparr>)"
      then show ?thesis using u Some calm b
        by (auto simp: import_one_def run_bind run_exec_calm complete_row_def same_server_def
            settles_def) (rule exI, rule conjI [rotated], rule refl, simp)
    qed
  qed
  then show ?thesis using that by blast
qed

lemma still_valid:
  assumes "settles g" "r \<in> set (upd_where (\<lambda>r. ir_id r = i) g rs)" "ir_status r = ''VALID''"
  shows "r \<in> set rs \<and> ir_id r \<noteq> i"
proof -
  obtain x where x: "x \<in> set rs" "r = (if ir_id x = i then g x else x)"
    using assms(2) by (auto simp: in_upd_where)
  have "ir_id x \<noteq> i"
  proof
    assume "ir_id x = i"
    then have "ir_status (g x) = ''VALID''" using x(2) assms(3) by simp
    then show False using assms(1) by (simp add: settles_def)
  qed
  then show ?thesis using x by simp
qed

lemma run_import_loop:
  assumes "import_ready w" "run_state (import_loop hash j i rs) w = (True, w')"
  shows "same_server w w' \<and> (\<forall>r\<in>set (import_rows w'). ir_status r = ''VALID'' \<longrightarrow>
           r \<in> set (import_rows w) \<and> ir_id r \<notin> fst ` set rs)"
  using assms
proof (induction rs arbitrary: w j i)
  case Nil
  then show ?case by (auto simp: same_server_def)
next
  case (Cons x rs)
  obtain row d where x: "x = (row, d)" by fastforce
  obtain m f l where f: "map_of d ''email'' = Some m" "map_of d ''first_name'' = Some f"
    "map_of d ''last_name'' = Some l"
    using Cons.prems(2) by (auto simp: x split: option.splits)
  let ?j = "case map_of d ''join_date'' of None \<Rightarrow> j | Some y \<Rightarrow> if y = '''' then j else y"
  obtain w1 g where w1: "run_state (import_one hash row (import_code (now w) i) m f l ?j) w = ((), w1)"
    "same_server w w1" "settles g" "import_rows w1 = upd_where (\<lambda>r. ir_id r = row) g (import_rows w)"
    by (rule run_import_one [OF Cons.prems(1), of hash row "import_code (now w) i" m f l ?j]) blast
  have rest: "run_state (import_loop hash ?j (i + 1) rs) w1 = (True, w')"
    using Cons.prems(2) by (simp add: x f run_bind w1(1) Let_def)
  note ih = Cons.IH [OF same_server_ready [OF w1(2) Cons.prems(1)] rest]
  have "r \<in> set (import_rows w) \<and> ir_id r \<noteq> row \<and> ir_id r \<notin> fst ` set rs"
    if "r \<in> set (import_rows w')" "ir_status r = ''VALID''" for r
  proof -
    from ih that have "r \<in> set (import_rows w1)" "ir_id r \<notin> fst ` set rs" by blast+
    then show ?thesis using still_valid [OF w1(3) _ that(2)] unfolding w1(4) by blast
  qed
  moreover have "same_server w w'" using same_server_trans [OF w1(2)] ih by blast
  ultimately show ?case by (simp add: x)
qed

text \<open>A batch without valid rows.\<close>

lemma run_process_done:
  assumes "import_ready w" "valid_rows batch w = []"
  shows "run_state (handle_process_batch cr batch) w
    = (user_ok_response [(''status'', JStr ''COMPLETED'')], snd (run_state (complete_batch batch) w))"
  using assms
  by (simp add: handle_process_batch_def import_ready_def run_calm complete_batch_def)

lemma complete_batch_tables:
  assumes "outcomes w = []"
  shows "users (snd (run_state (complete_batch batch) w)) = users w"
    "employees (snd (run_state (complete_batch batch) w)) = employees w"
    "import_rows (snd (run_state (complete_batch batch) w)) = import_rows w"
    "uuid_in (snd (run_state (complete_batch batch) w)) = uuid_in w"
    "ids (snd (run_state (complete_batch batch) w)) = ids w"
    "outcomes (snd (run_state (complete_batch batch) w)) = []"
    "db_nil (snd (run_state (complete_batch batch) w)) = db_nil w"
  using assms by (simp_all add: complete_batch_def run_exec_calm)

text \<open>
  C16. Processing a batch again does nothing. When no statement fails for an outside reason and the
  processing of a batch has ended with success, at any later time the same request is answered in
  the same way and adds no account and no employee: each row that was valid is completed or marked as
  wrong.
\<close>

theorem import_idempotent:
  assumes "import_ready w"
    and first_run: "run_state (handle_process_batch cr batch) w = (resp, w')" "rcode resp = status_ok"
    and second_run: "run_state (handle_process_batch cr batch) (w'\<lparr>now := t\<rparr>) = (resp', w'')"
  shows "resp' = resp \<and> users w'' = users w' \<and> employees w'' = employees w'
    \<and> import_rows w'' = import_rows w' \<and> valid_rows batch w' = []"
proof -
  have calm: "outcomes w = []" "\<not> db_nil w" using assms(1) by (simp_all add: import_ready_def)
  let ?rs = "map (\<lambda>r. (ir_id r, ir_data r)) (valid_rows batch w)"
  obtain ok w1 where loop: "run_state (import_loop (text_or_empty (bcrypt_hash cr import_password))
      (show_date (today w)) 0 ?rs) w = (ok, w1)" by (meson surj_pair)
  have "ok" using first_run calm
    by (cases ok) (auto simp: handle_process_batch_def run_bind run_orelse run_select_calm loop)
  with loop have "run_state (import_loop (text_or_empty (bcrypt_hash cr import_password))
      (show_date (today w)) 0 ?rs) w = (True, w1)" by simp
  from run_import_loop [OF assms(1) this] have done_: "same_server w w1"
    "\<forall>r\<in>set (import_rows w1). ir_status r = ''VALID'' \<longrightarrow>
      r \<in> set (import_rows w) \<and> ir_id r \<notin> fst ` set ?rs" by blast+
  have ready: "import_ready w1" using same_server_ready done_(1) assms(1) .
  have none: "valid_rows batch w1 = []"
  proof -
    have "\<not> (ir_batch r = batch \<and> ir_status r = ''VALID'')" if "r \<in> set (import_rows w1)" for r
    proof
      assume "ir_batch r = batch \<and> ir_status r = ''VALID''"
      with done_(2) that have "r \<in> set (valid_rows batch w)" "ir_id r \<notin> fst ` set ?rs"
        by (auto simp: valid_rows_def)
      then show False by force
    qed
    then show ?thesis by (simp add: valid_rows_def filter_empty_conv)
  qed
  have resp: "resp = user_ok_response [(''status'', JStr ''COMPLETED'')]"
    "w' = snd (run_state (complete_batch batch) w1)"
    using first_run(1) calm \<open>ok\<close> ready
    by (auto simp: handle_process_batch_def run_calm loop complete_batch_def import_ready_def)
  have w1: "outcomes w1 = []" "\<not> db_nil w1" "\<forall>n. uuid_in w1 (ids w1 n) \<noteq> None"
    using ready by (simp_all add: import_ready_def)
  note t = complete_batch_tables [OF w1(1), of batch, folded resp(2)]
  have "import_ready (w'\<lparr>now := t\<rparr>)" "valid_rows batch (w'\<lparr>now := t\<rparr>) = []"
    using w1 t none by (simp_all add: import_ready_def valid_rows_def)
  from run_process_done [OF this, of cr] second_run
  have "resp' = user_ok_response [(''status'', JStr ''COMPLETED'')]"
    "w'' = snd (run_state (complete_batch batch) (w'\<lparr>now := t\<rparr>))" by simp_all
  then show ?thesis
    using resp(1) complete_batch_tables [of "w'\<lparr>now := t\<rparr>" batch] t none by (simp add: valid_rows_def)
qed

definition demo_row :: import_row where
  "demo_row = \<lparr>ir_id = ''x1'', ir_batch = ''b1'', ir_number = 1,
     ir_data = [(''email'', ''bob@x.org''), (''first_name'', ''Bob''), (''last_name'', ''Roe''),
       (''join_date'', ''2026-01-05'')],
     ir_status = ''VALID'', ir_error = Some '''', ir_emp = None\<rparr>"

definition demo_batch :: import_batch_row where
  "demo_batch = \<lparr>ib_id = ''b1'', ib_type = ''EMPLOYEE_MASTER'', ib_total = 1, ib_valid = 1, ib_errors = 0,
     ib_status = ''READY'', ib_created = 0\<rparr>"

definition demo_import :: people_world where
  "demo_import = empty_people\<lparr>orgs := [''o1''], users := [new_user ''ann@x.org'' ''h'' True 0 ''u1''],
     import_batches := [demo_batch], import_rows := [demo_row]\<rparr>"

lemma demo_import_simps [simp]:
  "outcomes demo_import = []" "\<not> db_nil demo_import" "uuid_in demo_import = Some"
  "date_in demo_import = parse_date" "users demo_import = [new_user ''ann@x.org'' ''h'' True 0 ''u1'']"
  "orgs demo_import = [''o1'']" "employees demo_import = []" "import_batches demo_import = [demo_batch]"
  "import_rows demo_import = [demo_row]" "issued demo_import = 0" "ids demo_import = (\<lambda>n. ''id-'' @ decn n)"
  "now demo_import = 1785542400000000000"
  by (simp_all add: demo_import_def people_defs)

lemma demo_import_ready: "import_ready demo_import"
  by (simp add: import_ready_def)

lemma demo_date: "parse_date ''2026-01-05'' = Some 20458"
  by code_simp

lemma demo_processed:
  "rcode (fst (run_state (handle_process_batch demo_crypto ''b1'') demo_import)) = status_ok"
  "map u_email (users (snd (run_state (handle_process_batch demo_crypto ''b1'') demo_import)))
   = [''ann@x.org'', ''bob@x.org'']"
  "map e_first (employees (snd (run_state (handle_process_batch demo_crypto ''b1'') demo_import))) = [''Bob'']"
  by (simp_all add: handle_process_batch_def run_calm valid_rows_def demo_row_def import_one_def
      insert_user_def insert_import_employee_def complete_row_def complete_batch_def new_user_def demo_date user_ok_response_def)

theorem import_idempotent_witness:
  "let w' = snd (run_state (handle_process_batch demo_crypto ''b1'') demo_import);
     w'' = snd (run_state (handle_process_batch demo_crypto ''b1'') (w'\<lparr>now := 0\<rparr>))
   in map u_email (users w'') = [''ann@x.org'', ''bob@x.org''] \<and> map e_first (employees w'') = [''Bob'']
     \<and> valid_rows ''b1'' w' = []"
proof -
  obtain resp w' where first: "run_state (handle_process_batch demo_crypto ''b1'') demo_import = (resp, w')"
    by (meson surj_pair)
  obtain resp' w'' where second: "run_state (handle_process_batch demo_crypto ''b1'') (w'\<lparr>now := 0\<rparr>) = (resp', w'')"
    by (meson surj_pair)
  have "rcode resp = status_ok" using demo_processed(1) first by simp
  from import_idempotent [OF demo_import_ready first this second] demo_processed(2,3) show ?thesis
    by (simp add: first second)
qed

section \<open>Headers in other letters\<close>

lemma raw_data_key:
  "k \<notin> fst ` set hrs \<Longrightarrow> map_of (foldl (\<lambda>m (h, x). AList.update h x m) m hrs) k = map_of m k"
  by (induction hrs arbitrary: m) (auto simp: update_conv)

lemma raw_data_none:
  assumes "k \<notin> set hs"
  shows "map_of (raw_data hs row) k = None"
proof -
  have "k \<notin> fst ` set (zip hs row)" using assms by (auto dest: set_zip_leftD)
  from raw_data_key [OF this, of "[]"] show ?thesis by (simp add: raw_data_def)
qed

lemma stored_rows_data:
  "x \<in> set (stored_rows b hs n js rs) \<Longrightarrow> ir_batch x = b \<and> (\<exists>r\<in>set rs. ir_data x = raw_data hs r)"
  by (induction b hs n js rs rule: stored_rows.induct) (auto simp: stored_row_def)

lemma stored_rows_all:
  "length js = length rs \<Longrightarrow> r \<in> set rs \<Longrightarrow>
   \<exists>x\<in>set (stored_rows b hs n js rs). ir_batch x = b \<and> ir_status x = row_status hs r"
  by (induction b hs n js rs rule: stored_rows.induct) (auto simp: stored_row_def)

text \<open>What the server keeps when no statement fails for an outside reason.\<close>

definition calm_server :: "'a people_world_scheme \<Rightarrow> 'a people_world_scheme \<Rightarrow> bool" where
  "calm_server w0 w \<longleftrightarrow> outcomes w = [] \<and> db_nil w = db_nil w0 \<and> uuid_in w = uuid_in w0 \<and> ids w = ids w0"

lemma keeps_calm_stmt:
  assumes "\<And>w a w'. f w = Some (a, w') \<Longrightarrow> calm_server w0 w \<Longrightarrow> calm_server w0 w'"
  shows "keeps (calm_server w0) (stmt f)"
proof (rule keepsI)
  fix w
  assume w: "calm_server w0 w"
  then have "calm_server w0 (popped w)" by (simp add: calm_server_def)
  then show "wp (stmt f) (\<lambda>_. calm_server w0) w"
    using assms by (auto simp: wp_stmt split: option.split)
qed

lemma keeps_calm_rows: "keeps (\<lambda>s. calm_server w0 (snd s)) (insert_rows b hs n rs)"
proof (induction rs arbitrary: n)
  case (Cons r rs)
  have "keeps (calm_server w0) (insert_import_row b n raw st msg)" for raw st msg
    unfolding insert_import_row_def exec_def
    by (rule keeps_calm_stmt) (auto simp: calm_server_def split: option.splits if_splits)
  then show ?case by (simp, intro keeps_rules Cons)
qed (simp add: keeps_return)

lemma keeps_calm_store: "keeps (\<lambda>s. calm_server w0 (snd s)) (store_file hs rs failed)"
proof -
  have "keeps (calm_server w0) (insert_batch n)" for n
    unfolding insert_batch_def insert_row_def
    by (rule keeps_calm_stmt) (auto simp: calm_server_def split: if_splits)
  moreover have "keeps (calm_server w0) (ready_batch b n k)" for b n k
    unfolding ready_batch_def exec_def by (rule keeps_calm_stmt) (auto simp: calm_server_def)
  ultimately show ?thesis
    unfolding store_file_def by (intro keeps_rules keeps_calm_rows)
qed

lemma upload_calm:
  assumes "outcomes w = []" "run_state (handle_upload form) w = (resp, w')"
  shows "calm_server w w'"
proof -
  have w: "calm_server w w" "popped w = w" using assms(1) by (simp_all add: calm_server_def)
  have tx: "wp (transaction a (store_file hs rs failed) b f) (\<lambda>_. calm_server w) w"
    for a b failed :: response and f :: "string \<Rightarrow> response" and hs rs
  proof -
    obtain x c v where s: "run_state (store_file hs rs failed) (False, w) = (x, (c, v))"
      by (rule prod_cases3)
    have v: "calm_server w v"
      using keeps_run [OF keeps_calm_store [of w] _ s] w(1) by simp
    then have "calm_server w (popped v)" "calm_server w (rolled_back w v)"
      "calm_server w (rolled_back w (popped v))"
      using assms(1) by (simp_all add: calm_server_def rolled_back_def)
    then show ?thesis
      unfolding transaction_def wp_orelse wp_exec
      using v w assms(1) s
      by (cases x; cases c) (auto simp: wp_def run_exec_calm calm_server_def split: prod.splits)
  qed
  then have "wp (handle_upload form) (\<lambda>_. calm_server w) w"
    unfolding handle_upload_def using w(1) by (auto split: option.split list.split)
  then show ?thesis using assms(2) by (auto simp: wp_def)
qed

lemma import_loop_stops:
  assumes "rs \<noteq> []" "\<forall>(row, d)\<in>set rs. map_of d ''email'' = None"
  shows "run_state (import_loop hash j i rs) w = (False, w)"
  using assms by (cases rs) auto

lemma stored_batch_valid:
  assumes stored: "file_stored hs rs batch w w'" and same: "\<forall>n. uuid_in w (ids w n) = Some (ids w n)"
    and fk: "\<forall>r\<in>set (import_rows w). ir_batch r \<in> ib_id ` set (import_batches w)"
    and r: "r \<in> set rs" "row_status hs r = ''VALID''" and email: "''email'' \<notin> set hs"
  shows "valid_rows batch w' \<noteq> []" "\<forall>x\<in>set (valid_rows batch w'). map_of (ir_data x) ''email'' = None"
proof -
  from stored obtain b js where b: "uuid_in w batch = Some b" "length js = length rs"
    "import_rows w' = import_rows w @ stored_rows b hs 1 js rs"
    unfolding file_stored_def by blast
  have fresh: "batch \<notin> ib_id ` set (import_batches w)" "batch \<in> range (ids w)"
    using stored by (simp_all add: file_stored_def)
  have "b = batch" using same fresh(2) b(1) by auto
  have old: "filter (\<lambda>r. ir_batch r = batch \<and> ir_status r = ''VALID'') (import_rows w) = []"
    using fk fresh(1) by (auto simp: filter_empty_conv)
  then have rows: "valid_rows batch w' =
      filter (\<lambda>r. ir_batch r = batch \<and> ir_status r = ''VALID'') (stored_rows batch hs 1 js rs)"
    unfolding valid_rows_def b(3) \<open>b = batch\<close> filter_append by simp
  from stored_rows_all [OF b(2) r(1), of batch hs 1] r(2)
  obtain x where "x \<in> set (stored_rows batch hs 1 js rs)" "ir_batch x = batch" "ir_status x = ''VALID''"
    by auto
  then have "x \<in> set (valid_rows batch w')" by (simp add: rows)
  then show "valid_rows batch w' \<noteq> []" by auto
  show "\<forall>x\<in>set (valid_rows batch w'). map_of (ir_data x) ''email'' = None"
  proof
    fix x
    assume "x \<in> set (valid_rows batch w')"
    then have "x \<in> set (stored_rows batch hs 1 js rs)" by (simp add: rows)
    from stored_rows_data [OF this] raw_data_none [OF email]
    show "map_of (ir_data x) ''email'' = None" by auto
  qed
qed

lemma valid_count_pos: "r \<in> set rs \<Longrightarrow> row_status hs r = ''VALID'' \<Longrightarrow> 0 < valid_count hs rs"
  by (auto simp: valid_count_def count_where_def filter_empty_conv)

text \<open>
  C27. A header in other letters passes the check and stops the processing. When the file has no column
  named exactly \<^verbatim>\<open>email\<close>, the upload is answered with success and its rows may count as valid, by
  a column \<^verbatim>\<open>Email\<close>; with one such row, the processing of the batch panics before it has made any
  account.
\<close>

theorem capital_headers_panic:
  assumes "import_ready w" "\<forall>n. uuid_in w (ids w n) = Some (ids w n)"
    and "\<forall>r\<in>set (import_rows w). ir_batch r \<in> ib_id ` set (import_batches w)"
    and "csv_read text = Some (hs # rs)" "''email'' \<notin> set hs" "r \<in> set rs" "row_status hs r = ''VALID''"
    and "run_state (handle_upload (Some (Some text))) w = (resp, w')" "rcode resp = status_ok"
  shows "let batch = ib_id (last (import_batches w')) in
    ib_valid (last (import_batches w')) > 0
    \<and> run_state (handle_process_batch cr batch) w' = (panicked, w')
    \<and> users w' = users w \<and> employees w' = employees w"
proof -
  have calm: "outcomes w = []" "\<not> db_nil w" using assms(1) by (simp_all add: import_ready_def)
  obtain batch where stored: "file_stored hs rs batch w w'"
    using wp_run [OF wp_handle_upload assms(8)] assms(4,9) by auto
  then have last_batch: "ib_id (last (import_batches w')) = batch"
    "ib_valid (last (import_batches w')) = int (valid_count hs rs)"
    "users w' = users w" "employees w' = employees w"
    by (simp_all add: file_stored_def)
  note rows = stored_batch_valid [OF stored assms(2,3,6,7,5)]
  have w': "outcomes w' = []" "\<not> db_nil w'"
    using upload_calm [OF calm(1) assms(8)] calm by (simp_all add: calm_server_def)
  have "run_state (import_loop hash j 0 (map (\<lambda>r. (ir_id r, ir_data r)) (valid_rows batch w'))) w'
      = (False, w')" for hash j
    by (rule import_loop_stops) (use rows in auto)
  then have "run_state (handle_process_batch cr batch) w' = (panicked, w')"
    using w' by (simp add: handle_process_batch_def run_bind run_orelse run_select_calm)
  then show ?thesis
    using valid_count_pos [OF assms(6,7)] last_batch by (simp add: Let_def)
qed

definition capital_file :: string where
  "capital_file = csv_write [[''Email'', ''first_name'', ''last_name''], [''bob@x.org'', ''Bob'', ''Roe'']]"

lemma capital_read:
  "csv_read capital_file = Some [[''Email'', ''first_name'', ''last_name''], [''bob@x.org'', ''Bob'', ''Roe'']]"
  by code_simp

lemma capital_row: "row_status [''Email'', ''first_name'', ''last_name''] [''bob@x.org'', ''Bob'', ''Roe''] = ''VALID''"
  by code_simp

lemma capital_uploaded:
  "rcode (fst (run_state (handle_upload (Some (Some capital_file))) demo_import)) = status_ok"
  by (simp add: handle_upload_def capital_read transaction_def store_file_def in_tx_def run_calm insert_batch_def
      insert_import_row_def ready_batch_def rolled_back_def raw_data_def demo_batch_def capital_row)

theorem capital_headers_panic_witness:
  "let w' = snd (run_state (handle_upload (Some (Some capital_file))) demo_import)
   in ib_valid (last (import_batches w')) > 0
     \<and> run_state (handle_process_batch demo_crypto (ib_id (last (import_batches w')))) w' = (panicked, w')
     \<and> users w' = users demo_import \<and> employees w' = employees demo_import"
proof -
  obtain resp w' where up: "run_state (handle_upload (Some (Some capital_file))) demo_import = (resp, w')"
    by (meson surj_pair)
  then have "rcode resp = status_ok" using capital_uploaded by simp
  from capital_headers_panic [OF demo_import_ready _ _ capital_read _ _ capital_row up this, of demo_crypto]
  show ?thesis by (simp add: up demo_row_def demo_batch_def)
qed

end
