(* ===== verification/Attendance_Requests.thy ===== *)
theory Attendance_Requests
  imports Attendance
begin

text \<open>
  The rest of \<^verbatim>\<open>internal/attendance\<close>: shift exceptions (\<^verbatim>\<open>exceptions.go\<close>),
  regularization requests (\<^verbatim>\<open>requests.go\<close>), and the rules, the IP allowlist and the
  geofences (\<^verbatim>\<open>config.go\<close>). An instant is in nanoseconds since 1970, and the zero
  \<^verbatim>\<open>time.Time\<close> is the start of the year 1.
\<close>

section \<open>Shift exceptions\<close>

definition zero_time :: int where "zero_time = days_of 1 1 1 * nanos_per_day"

definition shift_late :: "int \<Rightarrow> int \<Rightarrow> int \<Rightarrow> int" where
  "shift_late check_in shift_start grace =
     (if check_in > shift_start + wrap64 (grace * nanos_per_minute)
      then int_of_f (in_units nanos_per_minute (time_sub check_in shift_start)) else 0)"

definition shift_early :: "int \<Rightarrow> int \<Rightarrow> int \<Rightarrow> int" where
  "shift_early check_out shift_end grace =
     (if check_out \<noteq> zero_time \<and> check_out < shift_end + wrap64 (wrap64 (- grace) * nanos_per_minute)
      then int_of_f (in_units nanos_per_minute (time_sub shift_end check_out)) else 0)"

definition evaluate_shift_exception ::
  "int \<Rightarrow> int \<Rightarrow> int \<Rightarrow> int \<Rightarrow> int \<Rightarrow> string \<times> int \<times> int" where
  "evaluate_shift_exception check_in check_out shift_start shift_end grace =
     (let late = shift_late check_in shift_start grace;
          early = shift_early check_out shift_end grace
      in (if late > 0 \<and> early > 0 then ''BOTH''
          else if late > 0 then ''LATE_ARRIVAL''
          else if early > 0 then ''EARLY_DEPARTURE''
          else if check_out = zero_time \<and> check_in \<noteq> zero_time then ''MISSING_PUNCH''
          else '''', late, early))"

record exception_item =
  xi_id :: string
  xi_emp :: string
  xi_code :: string
  xi_name :: string
  xi_dept :: string
  xi_date :: string
  xi_type :: string
  xi_late :: int
  xi_early :: int
  xi_grace :: int
  xi_just :: string
  xi_status :: string
  xi_by :: string
  xi_at :: string
  xi_comments :: string

definition exception_json :: "exception_item \<Rightarrow> json" where
  "exception_json x =
     JObj ([(''id'', JStr (xi_id x)), (''employee_id'', JStr (xi_emp x)),
            (''employee_code'', JStr (xi_code x)), (''employee_name'', JStr (xi_name x)),
            (''department'', JStr (xi_dept x)), (''attendance_date'', JStr (xi_date x)),
            (''exception_type'', JStr (xi_type x)), (''late_minutes'', JInt (xi_late x)),
            (''early_departure_minutes'', JInt (xi_early x)),
            (''grace_period_minutes'', JInt (xi_grace x)), (''justification'', JStr (xi_just x)),
            (''status'', JStr (xi_status x))]
           @ nonempty_field ''reviewed_by'' (xi_by x) @ nonempty_field ''reviewed_at'' (xi_at x)
           @ nonempty_field ''review_comments'' (xi_comments x))"

definition exception_item_of ::
  "'a att_world_scheme \<Rightarrow> exception_row \<times> employee_row \<Rightarrow> exception_item" where
  "exception_item_of w xe =
     (case xe of (x, e) \<Rightarrow>
        \<lparr>xi_id = ax_id x, xi_emp = ax_emp x, xi_code = e_code e, xi_name = full_name e,
         xi_dept = name_in (departments w) (e_dept e) ''General'', xi_date = show_date (ax_date x),
         xi_type = ax_type x, xi_late = ax_late x, xi_early = ax_early x, xi_grace = ax_grace x,
         xi_just = text_or_empty (ax_just x), xi_status = ax_status x,
         xi_by = text_or_empty (ax_by x), xi_at = clock_or '''' show_time (ax_at x),
         xi_comments = text_or_empty (ax_comments x)\<rparr>)"

text \<open>What is listed when the query fails.\<close>

definition sample_exceptions :: "string \<Rightarrow> exception_item list" where
  "sample_exceptions day =
     [\<lparr>xi_id = ''exc-001'', xi_emp = ''emp-101'', xi_code = ''PEP15'', xi_name = ''Abigail Roberts'',
       xi_dept = ''Engineering'', xi_date = day, xi_type = ''LATE_ARRIVAL'', xi_late = 24,
       xi_early = 0, xi_grace = 15, xi_just = ''Severe traffic delay on Highway 101'',
       xi_status = ''PENDING'', xi_by = '''', xi_at = '''', xi_comments = ''''\<rparr>,
      \<lparr>xi_id = ''exc-002'', xi_emp = ''emp-102'', xi_code = ''PEP16'', xi_name = ''Alexander Smith'',
       xi_dept = ''Marketing'', xi_date = day, xi_type = ''EARLY_DEPARTURE'', xi_late = 0,
       xi_early = 35, xi_grace = 15, xi_just = ''Medical emergency appointment'',
       xi_status = ''PENDING'', xi_by = '''', xi_at = '''', xi_comments = ''''\<rparr>]"

definition exception_listed :: "string \<Rightarrow> exception_row \<Rightarrow> bool" where
  "exception_listed status x \<longleftrightarrow> status = ''ALL'' \<or> ax_status x = status"

definition exception_rows :: "string \<Rightarrow> 'a att_world_scheme \<Rightarrow> (exception_row \<times> employee_row) list"
  where
  "exception_rows status w =
     sort_key (\<lambda>(x, e). - ax_date x) (sort_key (\<lambda>(x, e). - ax_created x)
       [(x, e). x \<leftarrow> exceptions w, e \<leftarrow> employees w, ax_emp x = e_id e \<and> exception_listed status x])"

definition handle_get_exceptions ::
  "claims option \<Rightarrow> url_query \<Rightarrow> ('a att_world_scheme, response) state" where
  "handle_get_exceptions cl q =
     (if \<not> has_role cl validator_roles
      then State_Monad.return (forbidden_response ''FORBIDDEN_ROLE''
             ''Only managers and HR admins can view attendance exceptions.'')
      else do {
        let pg = parse_pagination_params q;
        let status = (if q ''status'' = '''' then ''PENDING'' else q ''status'');
        nil \<leftarrow> reads db_nil;
        (if nil then State_Monad.return db_unavailable
         else do {
           tot \<leftarrow> or_zero (select (\<lambda>w. int (count_where (exception_listed status) (exceptions w))));
           rows \<leftarrow> query_rows (\<lambda>w. map_option (map (exception_item_of w))
                     (page_of pg (exception_rows status w)));
           day \<leftarrow> reads today;
           State_Monad.return
             (case rows of
                None \<Rightarrow> page_response (map exception_json (sample_exceptions (show_date day))) 2 pg
              | Some xs \<Rightarrow> page_response (map exception_json xs) tot pg)
         })
      })"

record review_exception =
  rx_id :: string
  rx_action :: string
  rx_comments :: string

definition review_target :: "string \<Rightarrow> string" where
  "review_target action =
     (if action = ''REJECT'' then ''REJECTED'' else if action = ''WAIVE'' then ''WAIVED''
      else ''APPROVED'')"

definition update_exception ::
  "('a att_world_scheme \<Rightarrow> (exception_row \<Rightarrow> exception_row) option) \<Rightarrow> string \<Rightarrow>
   ('a att_world_scheme, nat option) state" where
  "update_exception f xid = exec (\<lambda>w.
     case (f w, uuid_in w xid) of
       (Some g, Some i) \<Rightarrow>
         Some (count_where (\<lambda>x. ax_id x = i) (exceptions w),
               w\<lparr>exceptions := upd_where (\<lambda>x. ax_id x = i) g (exceptions w)\<rparr>)
     | _ \<Rightarrow> None)"

definition set_review ::
  "string \<Rightarrow> string \<Rightarrow> string \<Rightarrow> 'a att_world_scheme \<Rightarrow> (exception_row \<Rightarrow> exception_row) option"
  where
  "set_review st by remark w = map_option (\<lambda>u x.
     x\<lparr>ax_status := st, ax_by := Some u, ax_at := Some (now w), ax_comments := Some remark\<rparr>)
     (uuid_in w by)"

definition handle_review_exception ::
  "claims option \<Rightarrow> review_exception option \<Rightarrow> ('a att_world_scheme, response) state" where
  "handle_review_exception cl body =
     (case cl of
        None \<Rightarrow> State_Monad.return (forbidden_response ''FORBIDDEN_ROLE''
                  ''Only managers and HR admins can review attendance exceptions.'')
      | Some c \<Rightarrow>
          if \<not> has_role cl [''SUPER_ADMIN'', ''HR_ADMIN'', ''MANAGER'']
          then State_Monad.return (forbidden_response ''FORBIDDEN_ROLE''
                 ''Only managers and HR admins can review attendance exceptions.'')
          else
            (case body of
               None \<Rightarrow> State_Monad.return (http_error ''invalid payload'' status_bad_request)
             | Some req \<Rightarrow> do {
                 let st = review_target (rx_action req);
                 let answer = respond status_ok
                   [(''success'', JBool True),
                    (''message'', JStr (''Attendance exception marked as '' @ st @ ''.'')),
                    (''status'', JStr st)];
                 nil \<leftarrow> reads db_nil;
                 err \<leftarrow> reads err_text;
                 (if nil then State_Monad.return answer
                  else
                    orelse (update_exception (set_review st (cl_user c) (rx_comments req)) (rx_id req))
                      (fail_json status_internal (''failed to update exception status: '' @ err))
                      (\<lambda>_. do {
                         _ \<leftarrow> log_action \<lparr>le_user = cl_user c, le_action = ''ATTENDANCE_EXCEPTION_REVIEW'',
                                le_module = ''ATTENDANCE'', le_entity = ''attendance_exceptions'',
                                le_entity_id = rx_id req, le_reason = rx_comments req\<rparr>;
                         State_Monad.return answer
                       }))
               }))"

record justification_request =
  jq_id :: string
  jq_text :: string

definition handle_submit_justification ::
  "claims option \<Rightarrow> justification_request option \<Rightarrow> ('a att_world_scheme, response) state" where
  "handle_submit_justification cl body =
     (case (cl, body) of
        (None, _) \<Rightarrow> State_Monad.return (http_error ''unauthorized'' status_unauthorized)
      | (_, None) \<Rightarrow> State_Monad.return (http_error ''invalid payload'' status_bad_request)
      | (Some c, Some req) \<Rightarrow> do {
          let answer = respond status_ok
            [(''success'', JBool True), (''message'', JStr ''Justification submitted successfully.'')];
          nil \<leftarrow> reads db_nil;
          err \<leftarrow> reads err_text;
          (if nil then State_Monad.return answer
           else
             orelse (update_exception (\<lambda>_. Some (\<lambda>x. x\<lparr>ax_just := Some (jq_text req)\<rparr>)) (jq_id req))
               (fail_json status_internal err)
               (\<lambda>_. do {
                  _ \<leftarrow> log_action \<lparr>le_user = cl_user c, le_action = ''ATTENDANCE_EXCEPTION_JUSTIFY'',
                         le_module = ''ATTENDANCE'', le_entity = ''attendance_exceptions'',
                         le_entity_id = jq_id req, le_reason = jq_text req\<rparr>;
                  State_Monad.return answer
                }))
        })"

section \<open>Regularization requests\<close>

record attendance_request =
  aq_emp :: string
  aq_date :: string
  aq_in :: string
  aq_out :: string
  aq_reason :: string

text \<open>
  The insert leaves out \<^verbatim>\<open>attendance_log_id\<close>, which may not be NULL and has no default: the
  server refuses it.
\<close>

definition insert_regularization ::
  "string \<Rightarrow> string \<Rightarrow> string \<Rightarrow> string \<Rightarrow> ('a world_scheme, string option) state" where
  "insert_regularization emp t_in t_out reason = stmt (\<lambda>_. None)"

definition handle_submit_request ::
  "claims option \<Rightarrow> attendance_request option \<Rightarrow> ('a world_scheme, response) state" where
  "handle_submit_request cl body =
     (case cl of
        None \<Rightarrow> State_Monad.return unauthorized_response
      | Some c \<Rightarrow> do {
          nil \<leftarrow> reads db_nil;
          (if nil then State_Monad.return panicked
           else do {
             caller \<leftarrow> att_caller_ids (cl_user c);
             (case body of
                None \<Rightarrow> State_Monad.return (http_error ''invalid request'' status_bad_request)
              | Some req \<Rightarrow> do {
                  target \<leftarrow>
                    (if aq_emp req \<noteq> '''' \<and> has_role cl [''HR_ADMIN'', ''SUPER_ADMIN'', ''MANAGER'']
                     then do {
                       r \<leftarrow> select_row (\<lambda>w. [e_id e. e \<leftarrow> employees w,
                              e_code e = aq_emp req \<or> e_id e = aq_emp req]);
                       State_Monad.return (case r of None \<Rightarrow> caller | Some e \<Rightarrow> e)
                     }
                     else State_Monad.return caller);
                  orelse
                    (insert_regularization target (aq_date req @ '' '' @ aq_in req @ '':00'')
                       (aq_date req @ '' '' @ aq_out req @ '':00'') (aq_reason req))
                    (common_json_error ''Failed to submit request'' status_internal)
                    (\<lambda>i. State_Monad.return (respond status_created
                       [(''success'', JBool True),
                        (''message'', JStr ''Regularization request submitted successfully''),
                        (''data'', JObj [(''id'', JStr i), (''status'', JStr ''PENDING'')])]))
                })
           })
        })"

definition requested_in :: "request_row \<Rightarrow> int option" where
  "requested_in r = map_option (\<lambda>d. d * nanos_per_day + rq_clock r) (rq_date r)"

text \<open>A row without one of the two times does not scan and is skipped.\<close>

definition request_json :: "request_row \<times> employee_row \<Rightarrow> json option" where
  "request_json re =
     (case re of (r, e) \<Rightarrow>
        (case (requested_in r, rq_out r) of
           (Some a, Some b) \<Rightarrow> Some (JObj
             [(''id'', JStr (rq_id r)), (''employee_code'', JStr (e_code e)),
              (''employee_name'', JStr (full_name e)), (''date'', JStr (show_date (date_of a))),
              (''check_in'', JStr (show_clock12 a)), (''check_out'', JStr (show_clock12 b)),
              (''shift'', JStr ''Regular Shift''),
              (''at_work'', JStr (show_fixed 2 (fl (hours_between a b)))),
              (''status'', JStr (rq_status r)), (''reason'', JStr (rq_reason r))])
         | _ \<Rightarrow> None))"

definition query_requests ::
  "(request_row \<Rightarrow> employee_row \<Rightarrow> bool) \<Rightarrow> ('a world_scheme, json list) state" where
  "query_requests p = do {
     rows \<leftarrow> select (\<lambda>w. take 100 (sort_key (\<lambda>(r, e). - rq_created r)
       [(r, e). r \<leftarrow> regularizations w, e \<leftarrow> employees w, rq_emp r = e_id e \<and> p r e]));
     State_Monad.return (scan_rows request_json (case rows of None \<Rightarrow> [] | Some rs \<Rightarrow> rs))
   }"

definition my_request_visible :: "claims option \<Rightarrow> string \<Rightarrow> request_row \<Rightarrow> employee_row \<Rightarrow> bool"
  where
  "my_request_visible cl caller r e =
     (if has_role cl [''HR_ADMIN'', ''SUPER_ADMIN'', ''PAYROLL_ADMIN''] then True
      else if has_role cl [''MANAGER'', ''DEPT_HEAD'']
      then e_id e = caller \<or> e_manager e = Some caller
      else e_id e = caller)"

definition pending_visible :: "claims option \<Rightarrow> string \<Rightarrow> request_row \<Rightarrow> employee_row \<Rightarrow> bool" where
  "pending_visible cl caller r e \<longleftrightarrow>
     rq_status r = ''PENDING''
     \<and> (if has_role cl [''HR_ADMIN'', ''SUPER_ADMIN'', ''PAYROLL_ADMIN''] then True
        else if has_role cl [''MANAGER'', ''DEPT_HEAD''] then e_manager e = Some caller
        else False)"

definition list_requests ::
  "(claims option \<Rightarrow> string \<Rightarrow> request_row \<Rightarrow> employee_row \<Rightarrow> bool) \<Rightarrow> claims option \<Rightarrow>
   ('a world_scheme, response) state" where
  "list_requests vis cl =
     (case cl of
        None \<Rightarrow> State_Monad.return unauthorized_response
      | Some c \<Rightarrow> do {
          nil \<leftarrow> reads db_nil;
          (if nil then State_Monad.return panicked
           else do {
             caller \<leftarrow> att_caller_ids (cl_user c);
             js \<leftarrow> query_requests (vis cl caller);
             State_Monad.return (data_response js)
           })
        })"

definition handle_my_requests :: "claims option \<Rightarrow> ('a world_scheme, response) state" where
  "handle_my_requests = list_requests my_request_visible"

definition handle_pending_approvals :: "claims option \<Rightarrow> ('a world_scheme, response) state" where
  "handle_pending_approvals = list_requests pending_visible"

definition set_regularization :: "string \<Rightarrow> string \<Rightarrow> ('a world_scheme, nat option) state" where
  "set_regularization st rid = exec (\<lambda>w.
     case uuid_in w rid of
       None \<Rightarrow> None
     | Some i \<Rightarrow>
         Some (count_where (\<lambda>r. rq_id r = i) (regularizations w),
               w\<lparr>regularizations := upd_where (\<lambda>r. rq_id r = i) (\<lambda>r. r\<lparr>rq_status := st\<rparr>)
                  (regularizations w)\<rparr>))"

definition sync_day :: "string \<Rightarrow> ('a world_scheme, nat option) state" where
  "sync_day rid = exec (\<lambda>w.
     case uuid_in w rid of
       None \<Rightarrow> None
     | Some i \<Rightarrow>
         (case find (\<lambda>r. rq_id r = i) (regularizations w) of
            None \<Rightarrow> Some (0, w)
          | Some r \<Rightarrow>
              (case (rq_date r, worked_hours w (requested_in r) (rq_out r)) of
                 (Some d, Some h) \<Rightarrow>
                   Some (1, w\<lparr>daily :=
                     upsert (day_key (rq_emp r) d)
                       (\<lambda>x. x\<lparr>ad_in := requested_in r, ad_out := rq_out r, ad_worked := h,
                              ad_status := ''PRESENT'', ad_valid := ''VALIDATED''\<rparr>)
                       ((new_day (ids w (issued w)) (rq_emp r) d (requested_in r) ''VALIDATED'')
                          \<lparr>ad_out := rq_out r, ad_worked := h\<rparr>) (daily w),
                     issued := issued w + 1\<rparr>)
               | _ \<Rightarrow> None)))"

definition handle_approve_request :: "string \<Rightarrow> ('a world_scheme, response) state" where
  "handle_approve_request rid = do {
     nil \<leftarrow> reads db_nil;
     (if nil then State_Monad.return panicked
      else
        orelse (set_regularization ''APPROVED'' rid)
          (common_json_error ''Failed to approve'' status_internal)
          (\<lambda>_. do {
             _ \<leftarrow> sync_day rid;
             State_Monad.return (respond status_ok
               [(''success'', JBool True), (''message'', JStr ''Request approved'')])
           }))
   }"

definition handle_reject_request :: "string \<Rightarrow> ('a world_scheme, response) state" where
  "handle_reject_request rid = do {
     nil \<leftarrow> reads db_nil;
     (if nil then State_Monad.return panicked
      else
        orelse (set_regularization ''REJECTED'' rid)
          (common_json_error ''Failed to reject'' status_internal)
          (\<lambda>_. State_Monad.return (respond status_ok
             [(''success'', JBool True), (''message'', JStr ''Request rejected'')])))
   }"

end
