(* ===== verification/Attendance_Config.thy ===== *)
theory Attendance_Config
  imports Attendance
begin

text \<open>
  \<^verbatim>\<open>internal/attendance/config.go\<close>: the rules, the IP allowlist, the geofences and the
  distance on the sphere. The functions of \<^verbatim>\<open>math\<close> on float64 that the distance uses are a
  record of parameters. No handler calls \<open>is_ip_allowed\<close> or \<open>is_within_geofence\<close>.
\<close>

section \<open>Distance and fences\<close>

record math_lib =
  m_sin :: "float64 \<Rightarrow> float64"
  m_cos :: "float64 \<Rightarrow> float64"
  m_sqrt :: "float64 \<Rightarrow> float64"
  m_atan2 :: "float64 \<Rightarrow> float64 \<Rightarrow> float64"

text \<open>The constant \<^verbatim>\<open>math.Pi / 180.0\<close>, from the digits of \<^verbatim>\<open>math.Pi\<close>.\<close>

definition pi_180 :: float64 where
  "pi_180 = fl (314159265358979323846264338327950288419716939937510582097494459 / 10 ^ 62 / 180)"

definition calculate_haversine_distance ::
  "math_lib \<Rightarrow> float64 \<Rightarrow> float64 \<Rightarrow> float64 \<Rightarrow> float64 \<Rightarrow> float64" where
  "calculate_haversine_distance m lat1 lon1 lat2 lon2 =
     (let d_lat = fmul (fsub lat2 lat1) pi_180;
          d_lon = fmul (fsub lon2 lon1) pi_180;
          r_lat1 = fmul lat1 pi_180;
          r_lat2 = fmul lat2 pi_180;
          s1 = m_sin m (fdiv d_lat 2);
          s2 = m_sin m (fdiv d_lon 2);
          a = fadd (fmul s1 s1) (fmul (fmul (fmul s2 s2) (m_cos m r_lat1)) (m_cos m r_lat2));
          c = fmul 2 (m_atan2 m (m_sqrt m a) (m_sqrt m (fsub 1 a)))
      in fmul 6371000 c)"

definition is_ip_allowed :: "string \<Rightarrow> string list \<Rightarrow> bool" where
  "is_ip_allowed user_ip allowlist =
     (\<exists>ip\<in>set allowlist. trim_space ip = trim_space user_ip)"

record geofence_location =
  gf_id :: string
  gf_name :: string
  gf_lat :: float64
  gf_lon :: float64
  gf_radius :: int
  gf_active :: bool
  gf_created :: string

primrec is_within_geofence ::
  "math_lib \<Rightarrow> float64 \<Rightarrow> float64 \<Rightarrow> geofence_location list \<Rightarrow> bool \<times> string" where
  "is_within_geofence m lat lon [] = (False, '''')"
| "is_within_geofence m lat lon (f # fs) =
     (if \<not> gf_active f then is_within_geofence m lat lon fs
      else if calculate_haversine_distance m lat lon (gf_lat f) (gf_lon f) \<le> f_of_int (gf_radius f)
      then (True, gf_name f)
      else is_within_geofence m lat lon fs)"

section \<open>Rules\<close>

record attendance_rules =
  rl_id :: string
  rl_name :: string
  rl_web :: bool
  rl_ip :: bool
  rl_geo :: bool
  rl_bio :: bool
  rl_grace :: int
  rl_half :: float64

definition rules_json :: "attendance_rules \<Rightarrow> json" where
  "rules_json r =
     JObj [(''id'', JStr (rl_id r)), (''rule_name'', JStr (rl_name r)),
           (''web_clock_enabled'', JBool (rl_web r)), (''ip_restriction_enabled'', JBool (rl_ip r)),
           (''geofence_enabled'', JBool (rl_geo r)), (''biometric_sync_enabled'', JBool (rl_bio r)),
           (''default_grace_period_minutes'', JInt (rl_grace r)),
           (''half_day_threshold_hours'', JNum (rl_half r))]"

abbreviation global_default :: string where "global_default \<equiv> ''GLOBAL_DEFAULT''"

definition rules_of :: "rules_row \<Rightarrow> attendance_rules" where
  "rules_of r =
     \<lparr>rl_id = ar_id r, rl_name = ar_name r, rl_web = ar_web r, rl_ip = ar_ip r, rl_geo = ar_geo r,
      rl_bio = ar_bio r, rl_grace = ar_grace r, rl_half = fl (ar_half r)\<rparr>"

definition default_rules :: attendance_rules where
  "default_rules =
     \<lparr>rl_id = '''', rl_name = global_default, rl_web = True, rl_ip = False, rl_geo = False,
      rl_bio = True, rl_grace = 15, rl_half = 4\<rparr>"

definition handle_get_rules :: "('a att_world_scheme, response) state" where
  "handle_get_rules = do {
     nil \<leftarrow> reads db_nil;
     (if nil then State_Monad.return (fail_json status_internal ''database unavailable'')
      else do {
        r \<leftarrow> select_row (\<lambda>w. [rules_of r. r \<leftarrow> att_rules w, ar_name r = global_default]);
        State_Monad.return (respond status_ok
          [(''success'', JBool True),
           (''data'', rules_json (case r of None \<Rightarrow> default_rules | Some x \<Rightarrow> x))])
      })
   }"

definition upsert_rules :: "attendance_rules \<Rightarrow> ('a att_world_scheme, string option) state" where
  "upsert_rules req = stmt (\<lambda>w.
     case to_num w 2 (rl_half req) of
       None \<Rightarrow> None
     | Some h \<Rightarrow>
         let p = (\<lambda>r. ar_name r = global_default); i = ids w (issued w)
         in Some (case find p (att_rules w) of Some r \<Rightarrow> ar_id r | None \<Rightarrow> i,
              w\<lparr>att_rules :=
                  upsert p
                    (\<lambda>r. r\<lparr>ar_web := rl_web req, ar_ip := rl_ip req, ar_geo := rl_geo req,
                           ar_bio := rl_bio req, ar_grace := rl_grace req, ar_half := h\<rparr>)
                    \<lparr>ar_id = i, ar_name = global_default, ar_web = rl_web req, ar_ip = rl_ip req,
                     ar_geo = rl_geo req, ar_bio = rl_bio req, ar_grace = rl_grace req, ar_half = h\<rparr>
                    (att_rules w),
                issued := issued w + 1\<rparr>))"

definition config_admin :: "claims option \<Rightarrow> bool" where
  "config_admin cl \<longleftrightarrow> cl \<noteq> None \<and> has_role cl [''SUPER_ADMIN'', ''HR_ADMIN'']"

definition handle_update_rules ::
  "claims option \<Rightarrow> attendance_rules option \<Rightarrow> ('a att_world_scheme, response) state" where
  "handle_update_rules cl body =
     (if \<not> config_admin cl
      then State_Monad.return (forbidden_response ''FORBIDDEN_ROLE''
             ''Only HR and Super Admins can configure attendance rules.'')
      else
        (case body of
           None \<Rightarrow> State_Monad.return (http_error ''invalid payload'' status_bad_request)
         | Some req \<Rightarrow> do {
             let answer = (\<lambda>r. respond status_ok
               [(''success'', JBool True),
                (''message'', JStr ''Attendance rules updated successfully.''),
                (''data'', rules_json r)]);
             nil \<leftarrow> reads db_nil;
             err \<leftarrow> reads err_text;
             (if nil then State_Monad.return (answer req)
              else
                orelse (upsert_rules req) (fail_json status_internal err)
                  (\<lambda>i. do {
                     _ \<leftarrow> log_action \<lparr>le_user = cl_user (the cl), le_action = ''ATTENDANCE_RULES_UPDATE'',
                            le_module = ''ATTENDANCE'', le_entity = ''attendance_rules'',
                            le_entity_id = i, le_reason = ''''\<rparr>;
                     State_Monad.return (answer (req\<lparr>rl_id := i\<rparr>))
                   }))
           }))"

section \<open>The IP allowlist\<close>

record ip_item =
  ii_id :: string
  ii_address :: string
  ii_desc :: string
  ii_active :: bool
  ii_created :: string

definition ip_json :: "ip_item \<Rightarrow> json" where
  "ip_json i =
     JObj ([(''id'', JStr (ii_id i)), (''ip_address'', JStr (ii_address i)),
            (''description'', JStr (ii_desc i)), (''is_active'', JBool (ii_active i))]
           @ nonempty_field ''created_at'' (ii_created i))"

definition ip_of :: "ip_row \<Rightarrow> ip_item" where
  "ip_of r =
     \<lparr>ii_id = ip_id r, ii_address = ip_address r, ii_desc = text_or_empty (ip_desc r),
      ii_active = ip_active r, ii_created = show_time (ip_created r)\<rparr>"

text \<open>A list of the pool when there is one, with the error ignored; an example when it is empty.\<close>

definition or_sample :: "'i \<Rightarrow> 'i list option \<Rightarrow> 'i list" where
  "or_sample s xs = (case xs of None \<Rightarrow> [s] | Some ys \<Rightarrow> if ys = [] then [s] else ys)"

definition select_if_db :: "('t conn_scheme \<Rightarrow> 'i list) \<Rightarrow> ('t conn_scheme, 'i list option) state"
  where
  "select_if_db f = do {
     nil \<leftarrow> reads db_nil;
     (if nil then State_Monad.return None else select f)
   }"

definition handle_get_ip_allowlist :: "('a att_world_scheme, response) state" where
  "handle_get_ip_allowlist = do {
     xs \<leftarrow> select_if_db (\<lambda>w. map ip_of (sort_key (\<lambda>r. - ip_created r) (ip_allowlists w)));
     State_Monad.return (data_response (map ip_json (or_sample
       \<lparr>ii_id = ''ip-001'', ii_address = ''203.0.113.50'', ii_desc = ''Mumbai HQ Main Gateway'',
        ii_active = True, ii_created = ''''\<rparr> xs)))
   }"

definition insert_ip :: "ip_item \<Rightarrow> ('a att_world_scheme, string option) state" where
  "insert_ip req = insert_row (\<lambda>i w.
     if \<exists>r\<in>set (ip_allowlists w). ip_address r = ii_address req then None
     else Some (w\<lparr>ip_allowlists := ip_allowlists w @
       [\<lparr>ip_id = i, ip_address = ii_address req, ip_desc = Some (ii_desc req), ip_active = True,
         ip_created = now w\<rparr>]\<rparr>))"

definition handle_add_ip_allowlist ::
  "claims option \<Rightarrow> ip_item option \<Rightarrow> ('a att_world_scheme, response) state" where
  "handle_add_ip_allowlist cl body =
     (if \<not> config_admin cl
      then State_Monad.return (forbidden_response ''FORBIDDEN_ROLE''
             ''Only HR and Super Admins can add IP allowlists.'')
      else
        (case body of
           None \<Rightarrow> State_Monad.return (http_error ''invalid IP payload'' status_bad_request)
         | Some req \<Rightarrow>
             if ii_address req = ''''
             then State_Monad.return (http_error ''invalid IP payload'' status_bad_request)
             else do {
               nil \<leftarrow> reads db_nil;
               i \<leftarrow> (if nil then State_Monad.return (ii_id req)
                    else do { r \<leftarrow> insert_ip req; State_Monad.return (text_or_empty r) });
               State_Monad.return (respond status_ok
                 [(''success'', JBool True),
                  (''data'', ip_json (req\<lparr>ii_id := (if i = '''' then ''ip-new'' else i)\<rparr>))])
             }))"

definition handle_delete_ip_allowlist ::
  "claims option \<Rightarrow> string \<Rightarrow> ('a att_world_scheme, response) state" where
  "handle_delete_ip_allowlist cl iid =
     (if \<not> config_admin cl
      then State_Monad.return (forbidden_response ''FORBIDDEN_ROLE''
             ''Only HR and Super Admins can delete IP allowlists.'')
      else do {
        nil \<leftarrow> reads db_nil;
        _ \<leftarrow> (if nil then State_Monad.return None
             else exec (\<lambda>w. map_option (\<lambda>i.
               (count_where (\<lambda>r. ip_id r = i) (ip_allowlists w),
                w\<lparr>ip_allowlists := filter (\<lambda>r. ip_id r \<noteq> i) (ip_allowlists w)\<rparr>)) (uuid_in w iid)));
        State_Monad.return (respond status_ok
          [(''success'', JBool True), (''message'', JStr ''IP address removed from allowlist.'')])
      })"

section \<open>Geofences and the biometric devices\<close>

definition geofence_json :: "geofence_location \<Rightarrow> json" where
  "geofence_json g =
     JObj ([(''id'', JStr (gf_id g)), (''name'', JStr (gf_name g)),
            (''latitude'', JNum (gf_lat g)), (''longitude'', JNum (gf_lon g)),
            (''radius_meters'', JInt (gf_radius g)), (''is_active'', JBool (gf_active g))]
           @ nonempty_field ''created_at'' (gf_created g))"

definition geofence_of :: "geo_row \<Rightarrow> geofence_location" where
  "geofence_of r =
     \<lparr>gf_id = gl_id r, gf_name = gl_name r, gf_lat = fl (gl_lat r), gf_lon = fl (gl_lon r),
      gf_radius = gl_radius r, gf_active = gl_active r, gf_created = show_time (gl_created r)\<rparr>"

definition handle_get_geofences :: "('a att_world_scheme, response) state" where
  "handle_get_geofences = do {
     xs \<leftarrow> select_if_db (\<lambda>w. map geofence_of (sort_key (\<lambda>r. - gl_created r) (geofences w)));
     State_Monad.return (data_response (map geofence_json (or_sample
       \<lparr>gf_id = ''geo-001'', gf_name = ''Mumbai HQ Building A'', gf_lat = fl (19076 / 1000),
        gf_lon = fl (728777 / 10000), gf_radius = 150, gf_active = True, gf_created = ''''\<rparr> xs)))
   }"

definition insert_geofence :: "geofence_location \<Rightarrow> ('a att_world_scheme, string option) state" where
  "insert_geofence req = insert_row (\<lambda>i w.
     case (to_num w 7 (gf_lat req), to_num w 7 (gf_lon req)) of
       (Some a, Some b) \<Rightarrow>
         Some (w\<lparr>geofences := geofences w @
           [\<lparr>gl_id = i, gl_name = gf_name req, gl_lat = a, gl_lon = b, gl_radius = gf_radius req,
             gl_active = True, gl_created = now w\<rparr>]\<rparr>)
     | _ \<Rightarrow> None)"

definition handle_add_geofence ::
  "claims option \<Rightarrow> geofence_location option \<Rightarrow> ('a att_world_scheme, response) state" where
  "handle_add_geofence cl body =
     (if \<not> config_admin cl
      then State_Monad.return (forbidden_response ''FORBIDDEN_ROLE''
             ''Only HR and Super Admins can add geofence locations.'')
      else
        (case body of
           None \<Rightarrow> State_Monad.return (http_error ''invalid geofence payload'' status_bad_request)
         | Some req0 \<Rightarrow>
             if gf_name req0 = ''''
             then State_Monad.return (http_error ''invalid geofence payload'' status_bad_request)
             else do {
               let req = (if gf_radius req0 \<le> 0 then req0\<lparr>gf_radius := 100\<rparr> else req0);
               let answer = (\<lambda>g. respond status_ok
                 [(''success'', JBool True), (''data'', geofence_json g)]);
               nil \<leftarrow> reads db_nil;
               err \<leftarrow> reads err_text;
               (if nil then State_Monad.return (answer req)
                else
                  orelse (insert_geofence req)
                    (fail_json status_internal (''failed to add geofence: '' @ err))
                    (\<lambda>i. State_Monad.return (answer (req\<lparr>gf_id := i\<rparr>))))
             }))"

record biometric_log =
  bl_code :: string
  bl_time :: string
  bl_type :: string

record biometric_payload =
  bp_device :: string
  bp_logs :: "biometric_log list"

definition handle_biometric_sync :: "biometric_payload option \<Rightarrow> response" where
  "handle_biometric_sync body =
     (case body of
        None \<Rightarrow> http_error ''invalid biometric sync payload'' status_bad_request
      | Some p \<Rightarrow>
          respond status_ok
            [(''success'', JBool True),
             (''message'', JStr (''Successfully processed '' @ dec (int (length (bp_logs p)))
                @ '' biometric punch logs from device '' @ bp_device p @ ''.'')),
             (''processed_count'', JInt (int (length (bp_logs p)))),
             (''device_id'', JStr (bp_device p))])"

end
