(* ===== verification/Attendance_Days.thy ===== *)
theory Attendance_Days
  imports Attendance_Requests Attendance_Config
begin

text \<open>
  The stored days of the attendance component: their invariant under all its operations, and the
  punches of a day as a refinement of a clock with two hands.
\<close>

section \<open>The stored days are well formed\<close>

text \<open>
  A day carries a check-in of that date, one of the known validation states, and the time of a
  validation when it names a validator. There is one row per employee and date, and the check-in
  that a regularization asks for lies in its day.
\<close>

definition validation_states :: "string list" where
  "validation_states = [''TO_VALIDATE'', ''VALIDATED'', ''REJECTED'']"

definition day_ok :: "daily_row \<Rightarrow> bool" where
  "day_ok r \<longleftrightarrow> (\<forall>t. ad_in r = Some t \<longrightarrow> date_of t = ad_date r)
     \<and> ad_valid r \<in> set validation_states \<and> (ad_by r \<noteq> None \<longrightarrow> ad_at r \<noteq> None)"

abbreviation row_key :: "daily_row \<Rightarrow> string \<times> int" where
  "row_key r \<equiv> (ad_emp r, ad_date r)"

definition clock_in_day :: "request_row \<Rightarrow> bool" where
  "clock_in_day r \<longleftrightarrow> 0 \<le> rq_clock r \<and> rq_clock r < nanos_per_day"

definition att_ok :: "'a world_scheme \<Rightarrow> bool" where
  "att_ok w \<longleftrightarrow> distinct (map row_key (daily w)) \<and> (\<forall>r\<in>set (daily w). day_ok r)
     \<and> (\<forall>r\<in>set (regularizations w). clock_in_day r)"

lemma att_ok_stable [simp]: "stable att_ok"
  by (simp add: stable_def att_ok_def)

lemma att_ok_upsert:
  assumes "att_ok w" "\<And>x. row_key (f x) = row_key x" "\<And>x. p x \<longleftrightarrow> row_key x = row_key r"
    "day_ok r" "\<And>x. x \<in> set (daily w) \<Longrightarrow> p x \<Longrightarrow> day_ok (f x)"
    "daily w' = upsert p f r (daily w)" "regularizations w' = regularizations w"
  shows "att_ok w'"
  using assms distinct_upsert [of row_key "daily w" f p r]
  by (auto simp: att_ok_def dest: in_upsert)

lemma att_ok_upd:
  assumes "att_ok w" "\<And>x. row_key (f x) = row_key x" "\<And>x. x \<in> set (daily w) \<Longrightarrow> day_ok (f x)"
    "daily w' = upd_where p f (daily w)" "regularizations w' = regularizations w"
  shows "att_ok w'"
  using assms by (auto simp: att_ok_def map_upd_where in_upd_where)

lemma keeps_att_log [keeps_rules]: "keeps att_ok (log_action e)"
  by (rule keeps_log_action) (simp_all add: att_ok_def)

lemma keeps_raw_punch: "keeps att_ok (record_raw_punch emp ty s)"
  unfolding record_raw_punch_def
  by (rule keeps_exec) (auto simp: att_ok_def split: option.splits if_splits)


lemma new_day_simps [simp]:
  "ad_emp (new_day i e d t v) = e" "ad_date (new_day i e d t v) = d"
  "ad_in (new_day i e d t v) = t" "ad_out (new_day i e d t v) = None"
  "ad_valid (new_day i e d t v) = v" "ad_by (new_day i e d t v) = None"
  by (simp_all add: new_day_def)

lemma keeps_punch_in: "keeps att_ok (punch_in emp)"
  unfolding punch_in_def
proof (rule keeps_exec, simp)
  fix w :: "'a world_scheme" and n w'
  assume "(case uuid_in w emp of None \<Rightarrow> None
     | Some e \<Rightarrow>
         Some (1, w\<lparr>daily :=
           upsert (day_key e (today w))
             (\<lambda>r. if ad_in r = None then r\<lparr>ad_in := Some (now w), ad_status := ''PRESENT''\<rparr> else r)
             (new_day (ids w (issued w)) e (today w) (Some (now w)) ''TO_VALIDATE'') (daily w),
           issued := issued w + 1\<rparr>)) = Some (n, w')" and ok: "att_ok w"
  then obtain e where w': "w' = w\<lparr>daily :=
           upsert (day_key e (today w))
             (\<lambda>r. if ad_in r = None then r\<lparr>ad_in := Some (now w), ad_status := ''PRESENT''\<rparr> else r)
             (new_day (ids w (issued w)) e (today w) (Some (now w)) ''TO_VALIDATE'') (daily w),
           issued := issued w + 1\<rparr>"
    by (auto split: option.splits)
  show "att_ok w'"
    by (rule att_ok_upsert [OF ok, where p = "day_key e (today w)"])
      (use ok in \<open>auto simp: w' day_key_def today_def att_ok_def day_ok_def validation_states_def\<close>)
qed

lemma keeps_punch_out: "keeps att_ok (punch_out emp)"
  unfolding punch_out_def Let_def
proof (rule keeps_exec, simp)
  fix w :: "'a world_scheme" and n w'
  assume "(case uuid_in w emp of None \<Rightarrow> None
     | Some e \<Rightarrow>
         if \<exists>r\<in>set (daily w). day_key e (today w) r \<and> worked_hours w (ad_in r) (Some (now w)) = None
         then None
         else Some (count_where (day_key e (today w)) (daily w),
              w\<lparr>daily := upd_where (day_key e (today w))
                 (\<lambda>r. r\<lparr>ad_out := Some (now w),
                        ad_worked := the (worked_hours w (ad_in r) (Some (now w)))\<rparr>) (daily w)\<rparr>))
      = Some (n, w')" and ok: "att_ok w"
  then obtain e where w': "w' = w\<lparr>daily := upd_where (day_key e (today w))
                 (\<lambda>r. r\<lparr>ad_out := Some (now w),
                        ad_worked := the (worked_hours w (ad_in r) (Some (now w)))\<rparr>) (daily w)\<rparr>"
    by (auto split: option.splits if_splits)
  show "att_ok w'"
    by (rule att_ok_upd [OF ok, where p = "day_key e (today w)"])
      (use ok in \<open>auto simp: w' att_ok_def day_ok_def\<close>)
qed

lemma keeps_punch: "keeps att_ok (handle_punch cl body)"
  unfolding handle_punch_def att_caller_ids_def Let_def
  by (auto split: option.split
      intro!: keeps_rules keeps_raw_punch keeps_punch_in keeps_punch_out)

lemma validation_target_state: "validation_target a \<in> set validation_states"
  by (simp add: validation_target_def validation_states_def)

lemma keeps_validate_day:
  assumes "st \<in> set validation_states"
  shows "keeps att_ok (validate_day st by' remark i)"
  unfolding validate_day_def Let_def
proof (rule keeps_exec, simp)
  fix w :: "'a world_scheme" and n w'
  let ?mark = "\<lambda>d. d\<lparr>ad_valid := st, ad_at := Some (now w), ad_comment := Some remark\<rparr>"
  assume r: "(if by' \<noteq> ''''
        then (case uuid_in w by' of
                None \<Rightarrow> None
              | Some u \<Rightarrow> Some (count_where (\<lambda>d. ad_id d = i) (daily w),
                  w\<lparr>daily := upd_where (\<lambda>d. ad_id d = i) (\<lambda>d. (?mark d)\<lparr>ad_by := Some u\<rparr>) (daily w)\<rparr>))
        else Some (count_where (\<lambda>d. ad_id d = i) (daily w),
               w\<lparr>daily := upd_where (\<lambda>d. ad_id d = i) ?mark (daily w)\<rparr>)) = Some (n, w')"
    and ok: "att_ok w"
  from r consider u where
      "w' = w\<lparr>daily := upd_where (\<lambda>d. ad_id d = i) (\<lambda>d. (?mark d)\<lparr>ad_by := Some u\<rparr>) (daily w)\<rparr>"
    | "w' = w\<lparr>daily := upd_where (\<lambda>d. ad_id d = i) ?mark (daily w)\<rparr>"
    by (auto split: option.splits if_splits)
  then show "att_ok w'"
  proof cases
    case (1 u)
    show ?thesis
      by (rule att_ok_upd [OF ok _ _ _, where p = "\<lambda>d. ad_id d = i"
            and f = "\<lambda>d. (?mark d)\<lparr>ad_by := Some u\<rparr>"])
        (use ok assms in \<open>auto simp: 1 att_ok_def day_ok_def\<close>)
  next
    case 2
    show ?thesis
      by (rule att_ok_upd [OF ok, where p = "\<lambda>d. ad_id d = i" and f = ?mark])
        (use ok assms in \<open>auto simp: 2 att_ok_def day_ok_def\<close>)
  qed
qed

lemma keeps_batch: "keeps att_ok (handle_batch_validation cl body)"
  unfolding handle_batch_validation_def validate_one_def Let_def
  by (auto split: option.split
      intro!: keeps_rules keeps_validate_day validation_target_state)

lemma keeps_set_regularization: "keeps att_ok (set_regularization st rid)"
  unfolding set_regularization_def
  by (rule keeps_exec)
    (auto simp: att_ok_def in_upd_where clock_in_day_def split: option.splits)

lemma requested_in_date:
  assumes "clock_in_day r" "requested_in r = Some t" "rq_date r = Some d"
  shows "date_of t = d"
proof -
  have "t = d * nanos_per_day + rq_clock r" using assms(2,3) by (simp add: requested_in_def)
  then show ?thesis
    using assms(1) by (simp add: date_of_def clock_in_day_def nanos_per_day_def)
qed

lemma keeps_sync_day: "keeps att_ok (sync_day rid)"
  unfolding sync_day_def
proof (rule keeps_exec, simp)
  fix w :: "'a world_scheme" and n w'
  let ?f = "\<lambda>r h x. x\<lparr>ad_in := requested_in r, ad_out := rq_out r, ad_worked := h,
                              ad_status := ''PRESENT'', ad_valid := ''VALIDATED''\<rparr>"
  let ?new = "\<lambda>r d h. (new_day (ids w (issued w)) (rq_emp r) d (requested_in r) ''VALIDATED'')
                          \<lparr>ad_out := rq_out r, ad_worked := h\<rparr>"
  assume r: "(case uuid_in w rid of
       None \<Rightarrow> None
     | Some i \<Rightarrow>
         (case find (\<lambda>r. rq_id r = i) (regularizations w) of
            None \<Rightarrow> Some (0, w)
          | Some r \<Rightarrow>
              (case (rq_date r, worked_hours w (requested_in r) (rq_out r)) of
                 (Some d, Some h) \<Rightarrow>
                   Some (1, w\<lparr>daily := upsert (day_key (rq_emp r) d) (?f r h) (?new r d h) (daily w),
                     issued := issued w + 1\<rparr>)
               | _ \<Rightarrow> None))) = Some (n, w')" and ok: "att_ok w"
  show "att_ok w'"
  proof (cases "w' = w")
    case False
    then obtain i x d h where x: "find (\<lambda>r. rq_id r = i) (regularizations w) = Some x"
      and d: "rq_date x = Some d"
      and w': "w' = w\<lparr>daily := upsert (day_key (rq_emp x) d) (?f x h) (?new x d h) (daily w),
                     issued := issued w + 1\<rparr>"
      using r by (auto split: option.splits)
    have "x \<in> set (regularizations w)" using x by (auto simp: find_Some_iff)
    then have "clock_in_day x" using ok by (simp add: att_ok_def)
    then have t: "date_of t = d" if "requested_in x = Some t" for t
      using requested_in_date that d by blast
    show ?thesis
      by (rule att_ok_upsert [OF ok, where p = "day_key (rq_emp x) d"])
        (use ok t in \<open>auto simp: w' day_key_def att_ok_def day_ok_def validation_states_def\<close>)
  qed (simp add: ok)
qed

lemma keeps_approve: "keeps att_ok (handle_approve_request rid)"
  unfolding handle_approve_request_def
  by (intro keeps_rules keeps_set_regularization keeps_sync_day)

lemma keeps_reject: "keeps att_ok (handle_reject_request rid)"
  unfolding handle_reject_request_def
  by (intro keeps_rules keeps_set_regularization)

lemma keeps_submit: "keeps att_ok (handle_submit_request cl body)"
  unfolding handle_submit_request_def att_caller_ids_def insert_regularization_def
  by (auto split: option.split intro!: keeps_rules keeps_stmt)

lemma keeps_review: "keeps att_ok (handle_review_exception cl body)"
  unfolding handle_review_exception_def update_exception_def Let_def
  by (auto split: option.split intro!: keeps_rules keeps_exec)
    (auto simp: att_ok_def split: option.splits)

lemma keeps_justification: "keeps att_ok (handle_submit_justification cl body)"
  unfolding handle_submit_justification_def update_exception_def Let_def
  by (auto split: option.split intro!: keeps_rules keeps_exec)
    (auto simp: att_ok_def split: option.splits)

lemma keeps_update_rules: "keeps att_ok (handle_update_rules cl body)"
  unfolding handle_update_rules_def upsert_rules_def Let_def
  by (auto split: option.split intro!: keeps_rules keeps_stmt)
    (auto simp: att_ok_def split: option.splits)

lemma keeps_add_ip: "keeps att_ok (handle_add_ip_allowlist cl body)"
  unfolding handle_add_ip_allowlist_def insert_ip_def Let_def
  by (auto split: option.split intro!: keeps_rules keeps_insert_row)
    (auto simp: att_ok_def split: if_splits)

lemma keeps_delete_ip: "keeps att_ok (handle_delete_ip_allowlist cl iid)"
  unfolding handle_delete_ip_allowlist_def Let_def
  by (auto split: option.split intro!: keeps_rules keeps_exec) (auto simp: att_ok_def)

lemma keeps_add_geofence: "keeps att_ok (handle_add_geofence cl body)"
  unfolding handle_add_geofence_def insert_geofence_def Let_def
  by (auto split: option.split intro!: keeps_rules keeps_insert_row)
    (auto simp: att_ok_def split: option.splits)

text \<open>One request to the attendance component, the clock going on, or other requests.\<close>

inductive att_step :: "att_world \<Rightarrow> att_world \<Rightarrow> bool" where
  punch: "att_step w (snd (run_state (handle_punch cl p) w))"
| validate: "att_step w (snd (run_state (handle_batch_validation cl b) w))"
| submit: "att_step w (snd (run_state (handle_submit_request cl s) w))"
| approve: "att_step w (snd (run_state (handle_approve_request rid) w))"
| reject: "att_step w (snd (run_state (handle_reject_request rid) w))"
| review: "att_step w (snd (run_state (handle_review_exception cl x) w))"
| justify: "att_step w (snd (run_state (handle_submit_justification cl j) w))"
| set_rules: "att_step w (snd (run_state (handle_update_rules cl r) w))"
| add_ip: "att_step w (snd (run_state (handle_add_ip_allowlist cl ip) w))"
| delete_ip: "att_step w (snd (run_state (handle_delete_ip_allowlist cl iid) w))"
| add_geofence: "att_step w (snd (run_state (handle_add_geofence cl g) w))"
| elsewhere: "daily w' = daily w \<Longrightarrow> regularizations w' = regularizations w \<Longrightarrow> att_step w w'"

lemma att_step_ok: "att_step w w' \<Longrightarrow> att_ok w \<Longrightarrow> att_ok w'"
proof (induction rule: att_step.induct)
  case (elsewhere w' w)
  then show ?case by (simp add: att_ok_def)
qed (auto intro: keepsD keeps_punch keeps_batch keeps_submit keeps_approve keeps_reject keeps_review
      keeps_justification keeps_update_rules keeps_add_ip keeps_delete_ip keeps_add_geofence)

text \<open>
  C21. The stored days stay well formed. Through any sequence of requests to the attendance
  component, at any times, by anyone and with any statements failing, there is one row per employee
  and date, its check-in is of that date, its validation state is TO\_VALIDATE, VALIDATED or
  REJECTED, and a named validator comes with the time of the validation.
\<close>

theorem stored_days_ok:
  assumes "att_step\<^sup>*\<^sup>* w w'" "att_ok w"
  shows "distinct (map row_key (daily w')) \<and> (\<forall>r\<in>set (daily w'). day_ok r)"
proof -
  have "att_ok w'" using assms by (induction rule: rtranclp_induct) (auto intro: att_step_ok)
  then show ?thesis by (simp add: att_ok_def)
qed

definition demo_office :: att_world where
  "demo_office = empty_att\<lparr>employees := [demo_employee]\<rparr>"

lemmas office_defs = demo_office_def empty_att_def empty_hr_def empty_world_def world.defs
  hr_world.defs att_world.defs

lemma demo_office_simps [simp]:
  "outcomes demo_office = []" "\<not> db_nil demo_office" "uuid_in demo_office = Some"
  "employees demo_office = [demo_employee]" "daily demo_office = []"
  "regularizations demo_office = []" "to_num demo_office = (\<lambda>_. Some)"
  "json_in demo_office = (\<lambda>_. True)" "raw_punches demo_office = []"
  by (simp_all add: office_defs)

definition demo_claims :: claims where
  "demo_claims = \<lparr>cl_user = ''u1'', cl_email = '''', cl_roles = [''EMPLOYEE''],
     cl_scope = scope_self, cl_expires = 0, cl_issued = 0\<rparr>"

theorem stored_days_ok_witness:
  "let w' = snd (run_state (handle_punch (Some demo_claims)
              (Some \<lparr>pq_action = ''CHECK_IN'', pq_notes = ''''\<rparr>)) demo_office)
   in distinct (map row_key (daily w')) \<and> (\<forall>r\<in>set (daily w'). day_ok r)"
  unfolding Let_def
  by (rule stored_days_ok [OF r_into_rtranclp]) (rule att_step.punch, simp add: att_ok_def)

section \<open>The punches of a day refine a clock with two hands\<close>

text \<open>
  The abstract day of an employee: no row, or a check-in and a check-out that may be missing. The
  first check-in stays, the last check-out wins, and a check-out without a row does nothing.
\<close>

type_synonym clock_day = "(int option \<times> int option) option"

definition day_of :: "string \<Rightarrow> int \<Rightarrow> 'a world_scheme \<Rightarrow> clock_day" where
  "day_of e d w = map_option (\<lambda>r. (ad_in r, ad_out r)) (find (day_key e d) (daily w))"

fun clock_in :: "int \<Rightarrow> clock_day \<Rightarrow> clock_day" where
  "clock_in t None = Some (Some t, None)"
| "clock_in t (Some (None, b)) = Some (Some t, b)"
| "clock_in t (Some (Some a, b)) = Some (Some a, b)"

fun clock_out :: "int \<Rightarrow> clock_day \<Rightarrow> clock_day" where
  "clock_out t None = None"
| "clock_out t (Some (a, b)) = Some (a, Some t)"

definition clock_punch :: "string \<Rightarrow> int \<Rightarrow> clock_day \<Rightarrow> clock_day" where
  "clock_punch action t = (if action = ''CHECK_OUT'' then clock_out t else clock_in t)"

text \<open>A caller with an employee record, on a server where nothing fails and a day's hours fit.\<close>

definition puncher :: "claims \<Rightarrow> string \<Rightarrow> 'a att_world_scheme \<Rightarrow> bool" where
  "puncher c i w \<longleftrightarrow>
     outcomes w = [] \<and> \<not> db_nil w \<and> i \<noteq> '''' \<and> uuid_in w i = Some i
     \<and> (\<exists>u e. uuid_in w (cl_user c) = Some u \<and> e_id e = i
          \<and> find (\<lambda>e. user_is u e \<and> \<not> e_deleted e) (employees w) = Some e)
     \<and> (\<forall>x. \<bar>x\<bar> \<le> 24 \<longrightarrow> to_num w 2 x \<noteq> None)"

lemma run_caller:
  assumes "puncher c i w"
  shows "run_state (att_caller_ids (cl_user c)) w = (i, w)"
proof -
  obtain u e where "uuid_in w (cl_user c) = Some u" "e_id e = i"
      "find (\<lambda>e. user_is u e \<and> \<not> e_deleted e) (employees w) = Some e"
    using assms by (auto simp: puncher_def)
  moreover note first_row [of "\<lambda>e. user_is u e \<and> \<not> e_deleted e" e_id "employees w"]
  moreover have "outcomes w = []" using assms by (simp add: puncher_def)
  ultimately show ?thesis
    by (simp add: att_caller_ids_def run_bind run_query_row_calm text_or_empty_def)
qed

lemma day_hours_fit:
  assumes "puncher c i w" "att_ok w" "r \<in> set (daily w)" "day_key i (today w) r"
  shows "worked_hours w (ad_in r) (Some (now w)) \<noteq> None"
proof (cases "ad_in r")
  case (Some t)
  then have d: "date_of t = date_of (now w)"
    using assms(2-4) by (auto simp: att_ok_def day_ok_def day_key_def today_def)
  have "\<bar>now w - t\<bar> \<le> nanos_per_day"
    using d div_mult_mod_eq [of t nanos_per_day] div_mult_mod_eq [of "now w" nanos_per_day]
      pos_mod_bound [of nanos_per_day t] pos_mod_bound [of nanos_per_day "now w"]
      pos_mod_sign [of nanos_per_day t] pos_mod_sign [of nanos_per_day "now w"]
    by (simp add: date_of_def nanos_per_day_def)
  then have "\<bar>hours_between t (now w)\<bar> \<le> 24"
    by (simp add: hours_between_def nanos_per_day_def nanos_per_hour_def divide_le_eq abs_le_iff)
  then show ?thesis
    using assms(1) Some by (auto simp: worked_hours_def puncher_def)
qed (simp add: worked_hours_def)

lemma day_of_upsert_in:
  assumes "daily w' = upsert (day_key i d)
      (\<lambda>r. if ad_in r = None then r\<lparr>ad_in := Some t, ad_status := ''PRESENT''\<rparr> else r)
      (new_day k i d (Some t) ''TO_VALIDATE'') (daily w)"
  shows "day_of i d w' = clock_in t (day_of i d w)"
proof -
  have "find (day_key i d) (daily w') = Some (case find (day_key i d) (daily w) of
      None \<Rightarrow> new_day k i d (Some t) ''TO_VALIDATE''
    | Some r \<Rightarrow> if ad_in r = None then r\<lparr>ad_in := Some t, ad_status := ''PRESENT''\<rparr> else r)"
    unfolding assms by (rule find_upsert_same) (auto simp: day_key_def)
  then show ?thesis
    by (cases "find (day_key i d) (daily w)")
      (auto simp: day_of_def split: option.split)
qed

lemma day_of_other_upsert:
  assumes "daily w' = upsert (day_key i d) f r (daily w)" "row_key r = (i, d)"
    "\<And>x. row_key (f x) = row_key x" "(e, d') \<noteq> (i, d)"
  shows "day_of e d' w' = day_of e d' w"
proof -
  have "find (day_key e d') (daily w') = find (day_key e d') (daily w)"
    unfolding assms(1) by (rule find_upsert_other) (use assms(2-4) in \<open>auto simp: day_key_def\<close>)
  then show ?thesis by (simp add: day_of_def)
qed

lemma day_of_other_upd:
  assumes "daily w' = upd_where (day_key i d) f (daily w)"
    "\<And>x. row_key (f x) = row_key x" "(e, d') \<noteq> (i, d)"
  shows "day_of e d' w' = day_of e d' w"
proof -
  have "find (day_key e d') (daily w') = find (day_key e d') (daily w)"
    unfolding assms(1) by (rule find_upd_where_other) (use assms(2,3) in \<open>auto simp: day_key_def\<close>)
  then show ?thesis by (simp add: day_of_def)
qed

lemma day_of_upd_out:
  assumes "daily w' = upd_where (day_key i d) (\<lambda>r. r\<lparr>ad_out := Some t, ad_worked := h r\<rparr>) (daily w)"
  shows "day_of i d w' = clock_out t (day_of i d w)"
proof -
  have "find (day_key i d) (daily w')
      = map_option (\<lambda>r. r\<lparr>ad_out := Some t, ad_worked := h r\<rparr>) (find (day_key i d) (daily w))"
    unfolding assms by (rule find_upd_where_same) (simp add: day_key_def)
  then show ?thesis by (cases "find (day_key i d) (daily w)") (simp_all add: day_of_def)
qed

definition punched :: "response" where
  "punched = respond status_created
     [(''success'', JBool True), (''message'', JStr ''Punch recorded successfully'')]"

lemma issued_same: "w\<lparr>issued := issued w\<rparr> = w"
  by (cases w) simp

lemma run_punch_in:
  assumes "outcomes w = []" "uuid_in w i = Some i"
  shows "run_state (punch_in i) w = (Some 1, w\<lparr>daily :=
           upsert (day_key i (today w))
             (\<lambda>r. if ad_in r = None then r\<lparr>ad_in := Some (now w), ad_status := ''PRESENT''\<rparr> else r)
             (new_day (ids w (issued w)) i (today w) (Some (now w)) ''TO_VALIDATE'') (daily w),
           issued := issued w + 1\<rparr>)"
  using assms by (simp add: punch_in_def run_exec_calm)

lemma run_punch_out:
  assumes "outcomes w = []" "uuid_in w i = Some i"
    "\<forall>r\<in>set (daily w). day_key i (today w) r \<longrightarrow> worked_hours w (ad_in r) (Some (now w)) \<noteq> None"
  shows "run_state (punch_out i) w = (Some (count_where (day_key i (today w)) (daily w)),
           w\<lparr>daily := upd_where (day_key i (today w)) (\<lambda>r. r\<lparr>ad_out := Some (now w),
               ad_worked := the (worked_hours w (ad_in r) (Some (now w)))\<rparr>) (daily w)\<rparr>)"
proof -
  have "\<not> (\<exists>r\<in>set (daily w). day_key i (today w) r \<and> worked_hours w (ad_in r) (Some (now w)) = None)"
    using assms(3) by blast
  then show ?thesis using assms(1,2) by (simp add: punch_out_def run_exec_calm Let_def)
qed

text \<open>What a punch does, on the abstract day and elsewhere.\<close>

definition punch_effect ::
  "string \<Rightarrow> string \<Rightarrow> 'a att_world_scheme \<Rightarrow> response \<times> 'a att_world_scheme \<Rightarrow> bool" where
  "punch_effect i action w res \<longleftrightarrow>
     (case res of (resp, w') \<Rightarrow>
        resp = punched
        \<and> day_of i (today w) w' = clock_punch action (now w) (day_of i (today w) w)
        \<and> (\<forall>e d. (e, d) \<noteq> (i, today w) \<longrightarrow> day_of e d w' = day_of e d w)
        \<and> (\<exists>p. raw_punches w' = raw_punches w @ [p] \<and> rp_emp p = i \<and> rp_time p = now w
             \<and> rp_type p = (if action = ''CHECK_OUT'' then ''OUT'' else ''IN'')))"

lemma punch_step:
  assumes "puncher c i w" "att_ok w" "json_in w (raw_payload (pq_notes req))"
  shows "punch_effect i (pq_action req) w (run_state (handle_punch (Some c) (Some req)) w)"
    and "puncher c i (snd (run_state (handle_punch (Some c) (Some req)) w))"
    and "json_in (snd (run_state (handle_punch (Some c) (Some req)) w)) = json_in w"
    and "att_ok (snd (run_state (handle_punch (Some c) (Some req)) w))"
proof -
  let ?out = "pq_action req = ''CHECK_OUT''"
  have p: "outcomes w = []" "\<not> db_nil w" "i \<noteq> ''''" "uuid_in w i = Some i"
    "json_in w (raw_payload (pq_notes req))"
    using assms(1,3) by (simp_all add: puncher_def)
  define ty where "ty = (if ?out then ''OUT'' else ''IN'')"
  define row where "row = \<lparr>rp_id = ids w (issued w), rp_emp = i, rp_provider = ''MANUAL_WEB'',
      rp_time = now w, rp_type = ty, rp_payload = raw_payload (pq_notes req)\<rparr>"
  define w1 where "w1 = w\<lparr>raw_punches := raw_punches w @ [row], issued := issued w + 1\<rparr>"
  have raw: "run_state (record_raw_punch i ty (pq_notes req)) w = (Some 1, w1)"
    using p by (simp add: record_raw_punch_def run_exec_calm w1_def row_def)
  have w1: "outcomes w1 = []" "uuid_in w1 i = Some i" "daily w1 = daily w" "now w1 = now w"
    "today w1 = today w"
    using p by (simp_all add: w1_def today_def)
  have w1h: "worked_hours w1 = worked_hours w"
    by (intro ext) (simp add: worked_hours_def w1_def split: option.split)
  have fits: "\<forall>r\<in>set (daily w1). day_key i (today w1) r \<longrightarrow>
      worked_hours w1 (ad_in r) (Some (now w1)) \<noteq> None"
    using day_hours_fit [OF assms(1,2)] unfolding w1 w1h by blast
  obtain w2 n where w2: "run_state (if ty = ''IN'' then punch_in i else punch_out i) w1 = (Some n, w2)"
    and d2: "daily w2 = (if ?out
      then upd_where (day_key i (today w)) (\<lambda>r. r\<lparr>ad_out := Some (now w),
             ad_worked := the (worked_hours w (ad_in r) (Some (now w)))\<rparr>) (daily w)
      else upsert (day_key i (today w))
             (\<lambda>r. if ad_in r = None then r\<lparr>ad_in := Some (now w), ad_status := ''PRESENT''\<rparr> else r)
             (new_day (ids w1 (issued w1)) i (today w) (Some (now w)) ''TO_VALIDATE'') (daily w))"
    and rest: "\<exists>ds k. w2 = w1\<lparr>daily := ds, issued := k\<rparr>"
  proof (cases ?out)
    case True
    then have ty: "ty \<noteq> ''IN''" by (simp add: ty_def)
    show ?thesis
      by (rule that, unfold if_not_P [OF ty], rule run_punch_out [OF w1(1,2) fits])
        (use True w1 w1h issued_same [of "w1\<lparr>daily := _\<rparr>"] in \<open>auto simp: fun_eq_iff intro!: exI [of _ "issued w1"]\<close>)
  next
    case False
    then have ty: "ty = ''IN''" by (simp add: ty_def)
    show ?thesis
      by (rule that, unfold if_P [OF ty], rule run_punch_in [OF w1(1,2)])
        (use False w1 in \<open>auto cong: if_cong\<close>)
  qed
  have run: "run_state (handle_punch (Some c) (Some req)) w = (punched, w2)"
    using p run_caller [OF assms(1)] raw w2
    by (cases ?out) (simp_all add: handle_punch_def run_bind run_orelse ty_def punched_def)
  obtain ds k where w2': "w2 = w1\<lparr>daily := ds, issued := k\<rparr>" using rest by blast
  show "punch_effect i (pq_action req) w (run_state (handle_punch (Some c) (Some req)) w)"
    unfolding run punch_effect_def prod.case
  proof (intro conjI allI impI)
    show "day_of i (today w) w2 = clock_punch (pq_action req) (now w) (day_of i (today w) w)"
      using d2 by (auto simp: clock_punch_def intro: day_of_upsert_in day_of_upd_out split: if_splits)
    show "day_of e d w2 = day_of e d w" if "(e, d) \<noteq> (i, today w)" for e d
    proof (cases ?out)
      case True
      show ?thesis by (rule day_of_other_upd [OF d2 [unfolded if_P [OF True]] _ that]) simp
    next
      case False
      show ?thesis
        by (rule day_of_other_upsert [OF d2 [unfolded if_not_P [OF False]] _ _ that]) simp_all
    qed
    show "\<exists>p. raw_punches w2 = raw_punches w @ [p] \<and> rp_emp p = i \<and> rp_time p = now w
             \<and> rp_type p = (if ?out then ''OUT'' else ''IN'')"
      by (rule exI [of _ row]) (simp add: w2' w1_def row_def ty_def)
  qed simp
  show "puncher c i (snd (run_state (handle_punch (Some c) (Some req)) w))"
    using assms(1) by (simp add: run w2' w1_def puncher_def)
  show "json_in (snd (run_state (handle_punch (Some c) (Some req)) w)) = json_in w"
    by (simp add: run w2' w1_def)
  show "att_ok (snd (run_state (handle_punch (Some c) (Some req)) w))"
    by (rule keepsD [OF keeps_punch assms(2)])
qed

text \<open>A run of punches: at each time the caller sends an action.\<close>

primrec punch_all ::
  "claims \<Rightarrow> (int \<times> punch_request) list \<Rightarrow> 'a att_world_scheme \<Rightarrow> 'a att_world_scheme" where
  "punch_all c [] w = w"
| "punch_all c (p # ps) w =
     punch_all c ps (snd (run_state (handle_punch (Some c) (Some (snd p))) (w\<lparr>now := fst p\<rparr>)))"

abbreviation clock_run :: "(int \<times> punch_request) list \<Rightarrow> clock_day \<Rightarrow> clock_day" where
  "clock_run ps x \<equiv> foldl (\<lambda>x p. clock_punch (pq_action (snd p)) (fst p) x) x ps"

lemma puncher_now: "puncher c i w \<Longrightarrow> puncher c i (w\<lparr>now := t\<rparr>)"
  by (simp add: puncher_def)

lemma att_ok_now: "att_ok w \<Longrightarrow> att_ok (w\<lparr>now := t\<rparr>)"
  by (simp add: att_ok_def)

lemma day_of_now [simp]: "day_of e d (w\<lparr>now := t\<rparr>) = day_of e d w"
  by (simp add: day_of_def)

text \<open>
  C22. The punches of a day refine a clock that keeps the first check-in and the last check-out.
  However often an employee punches in and out on a date, with notes that make a JSON text, the
  stored day is the one the abstract
  clock reaches, the days of everybody else and of other dates do not change, and one raw punch is
  logged per request, in order.
\<close>

theorem punches_refine_clock:
  assumes "puncher c i w" "att_ok w"
    "\<forall>p\<in>set ps. date_of (fst p) = d \<and> json_in w (raw_payload (pq_notes (snd p)))"
  shows "day_of i d (punch_all c ps w) = clock_run ps (day_of i d w)
    \<and> (\<forall>e d'. (e, d') \<noteq> (i, d) \<longrightarrow> day_of e d' (punch_all c ps w) = day_of e d' w)
    \<and> (\<exists>rs. raw_punches (punch_all c ps w) = raw_punches w @ rs \<and> map rp_time rs = map fst ps
         \<and> (\<forall>r\<in>set rs. rp_emp r = i))"
  using assms
proof (induction ps arbitrary: w)
  case Nil
  then show ?case by simp
next
  case (Cons p ps)
  define w1 where "w1 = w\<lparr>now := fst p\<rparr>"
  have w1: "puncher c i w1" "att_ok w1" "today w1 = d" "now w1 = fst p"
    using Cons.prems by (simp_all add: w1_def puncher_now att_ok_now today_def)
  have json: "json_in w1 (raw_payload (pq_notes (snd p)))" using Cons.prems(3) by (simp add: w1_def)
  obtain resp w2 where w2: "run_state (handle_punch (Some c) (Some (snd p))) w1 = (resp, w2)"
    by (cases "run_state (handle_punch (Some c) (Some (snd p))) w1")
  note s = punch_step [OF w1(1,2) json, unfolded w2 snd_conv]
  have ps: "\<forall>p\<in>set ps. date_of (fst p) = d \<and> json_in w2 (raw_payload (pq_notes (snd p)))"
    using Cons.prems(3) s(3) by (simp add: w1_def)
  have eff: "day_of i d w2 = clock_punch (pq_action (snd p)) (fst p) (day_of i d w)"
    "\<forall>e d'. (e, d') \<noteq> (i, d) \<longrightarrow> day_of e d' w2 = day_of e d' w"
    using s(1) w1 by (simp_all add: punch_effect_def w1_def)
  obtain r where r: "raw_punches w2 = raw_punches w @ [r]" "rp_emp r = i" "rp_time r = fst p"
    using s(1) w1 by (auto simp: punch_effect_def w1_def)
  have ih: "day_of i d (punch_all c ps w2) = clock_run ps (day_of i d w2)"
    "\<forall>e d'. (e, d') \<noteq> (i, d) \<longrightarrow> day_of e d' (punch_all c ps w2) = day_of e d' w2"
    using Cons.IH [OF s(2,4) ps] by auto
  obtain rs where rs: "raw_punches (punch_all c ps w2) = raw_punches w2 @ rs"
    "map rp_time rs = map fst ps" "\<forall>r\<in>set rs. rp_emp r = i"
    using Cons.IH [OF s(2,4) ps] by auto
  have all: "punch_all c (p # ps) w = punch_all c ps w2" by (simp add: w1_def [symmetric] w2)
  show ?case
    unfolding all using ih eff r rs
    by (auto intro!: exI [of _ "r # rs"])
qed

definition demo_punches :: "(int \<times> punch_request) list" where
  "demo_punches =
     [(9 * nanos_per_hour, \<lparr>pq_action = ''CHECK_IN'', pq_notes = ''''\<rparr>),
      (13 * nanos_per_hour, \<lparr>pq_action = ''CHECK_OUT'', pq_notes = ''lunch''\<rparr>),
      (14 * nanos_per_hour, \<lparr>pq_action = ''CHECK_IN'', pq_notes = ''''\<rparr>),
      (18 * nanos_per_hour, \<lparr>pq_action = ''CHECK_OUT'', pq_notes = ''''\<rparr>)]"

lemma demo_puncher: "puncher demo_claims ''e1'' demo_office" "att_ok demo_office"
  by (simp_all add: puncher_def att_ok_def demo_claims_def demo_employee_def user_is_def)

theorem punches_refine_clock_witness:
  "day_of ''e1'' 0 (punch_all demo_claims demo_punches demo_office)
   = Some (Some (9 * nanos_per_hour), Some (18 * nanos_per_hour))"
proof -
  have "\<forall>p\<in>set demo_punches. date_of (fst p) = 0
      \<and> json_in demo_office (raw_payload (pq_notes (snd p)))"
    by (simp add: demo_punches_def date_of_def nanos_per_hour_def nanos_per_day_def)
  moreover have "day_of ''e1'' 0 demo_office = None" by (simp add: day_of_def)
  ultimately show ?thesis
    using punches_refine_clock [OF demo_puncher, of demo_punches 0]
    by (simp add: demo_punches_def clock_punch_def)
qed

end
