(* ===== verification/Attendance_Rules.thy ===== *)
theory Attendance_Rules
  imports Attendance_Days
begin

text \<open>
  What the decisions of the attendance component do: the classification of shift exceptions, the
  approval of regularizations, the validation of a batch and its queue, and the configuration, which
  no punch looks at.
\<close>

section \<open>Durations in whole units\<close>

text \<open>
  Up to \<open>2 ^ 17\<close> units, of at most \<open>2 ^ 36\<close> nanoseconds each, the whole part of a duration comes
  back from the floating-point sum exactly: the fraction stays below the next unit.
\<close>

lemma units_floor:
  assumes "0 \<le> d" "0 < u" "u \<le> 2 ^ 36" "d div u < 2 ^ 17"
  shows "int_of_f (in_units u d) = d div u"
proof -
  define q where "q = d div u"
  define r where "r = d mod u"
  have q: "0 \<le> q" "q < 2 ^ 17" and r: "0 \<le> r" "r < u"
    using assms by (simp_all add: q_def r_def pos_imp_zdiv_nonneg_iff)
  define x where "x = fdiv (f_of_int r) (of_int u)"
  define b :: rat where "b = of_int (2 ^ 36 - 1) / 2 ^ 36"
  have fq: "f_of_int q = of_int q" and fr: "f_of_int r = of_int r"
    using q r assms(3) by (auto intro!: f_of_int_exact)
  have "of_int r / of_int u \<le> b"
  proof -
    have "r * 2 ^ 36 \<le> (u - 1) * 2 ^ 36" using r by simp
    also have "\<dots> \<le> u * (2 ^ 36 - 1)" using assms(3) by simp
    finally have "of_int (r * 2 ^ 36) \<le> (of_int (u * (2 ^ 36 - 1)) :: rat)" by (simp only: of_int_le_iff)
    then show ?thesis using assms(2) by (simp add: b_def field_simps)
  qed
  moreover have "is_f64 b" unfolding b_def by (rule f64_shift) simp_all
  ultimately have x: "0 \<le> x" "x \<le> b"
    using r assms(2) by (auto simp: x_def fr fdiv_def intro: b64.nonneg b64.le_bound)
  have top: "of_int q + b = of_int ((q + 1) * 2 ^ 36 - 1) / 2 ^ 36"
    by (simp add: b_def field_simps)
  have "is_f64 (of_int q + b)"
    unfolding top by (rule f64_shift) (use q in auto)
  moreover have "is_f64 (of_int q)" using q by (intro f64_int) auto
  ultimately have "of_int q \<le> fl (of_int q + x) \<and> fl (of_int q + x) \<le> of_int q + b"
    using x by (intro b64.between) auto
  moreover have "b < 1" by (simp add: b_def)
  ultimately have "\<lfloor>fl (of_int q + x)\<rfloor> = q" by (simp add: floor_eq_iff)
  moreover have "0 \<le> fl (of_int q + x)" using q x by (intro b64.nonneg) simp
  moreover have "in_units u d = fl (of_int q + x)"
    using assms(1,2) by (simp add: in_units_def tdiv_nonneg tmod_nonneg fadd_def x_def fq
        flip: q_def r_def)
  ultimately show ?thesis by (simp add: int_of_f_def q_def)
qed

lemma units_floor_sub:
  assumes "u \<le> t" "0 < k" "k \<le> 2 ^ 36" "(t - u) div k < 2 ^ 17"
  shows "int_of_f (in_units k (time_sub t u)) = (t - u) div k"
proof -
  have "t - u = k * ((t - u) div k) + (t - u) mod k" by simp
  moreover have "k * ((t - u) div k) \<le> 2 ^ 36 * 2 ^ 17"
    using assms by (intro mult_mono) (auto simp: pos_imp_zdiv_nonneg_iff)
  moreover have "(t - u) mod k < 2 ^ 36"
    using assms(2,3) pos_mod_bound [of k "t - u"] by linarith
  ultimately have "t - u \<le> 2 ^ 36 * 2 ^ 17 + 2 ^ 36" by linarith
  then have "time_sub t u = t - u" using assms(1) by (simp add: time_sub_def)
  then show ?thesis using units_floor [of "t - u" k] assms by simp
qed

section \<open>Shift exceptions\<close>

text \<open>The rule in words: late and early against the shift with its grace period.\<close>

definition is_late :: "int \<Rightarrow> int \<Rightarrow> int \<Rightarrow> bool" where
  "is_late check_in shift_start grace \<longleftrightarrow> shift_start + grace * nanos_per_minute < check_in"

definition is_early :: "int \<Rightarrow> int \<Rightarrow> int \<Rightarrow> bool" where
  "is_early check_out shift_end grace \<longleftrightarrow>
     check_out \<noteq> zero_time \<and> check_out < shift_end - grace * nanos_per_minute"

definition exception_kind :: "bool \<Rightarrow> bool \<Rightarrow> bool \<Rightarrow> string" where
  "exception_kind late early missing =
     (if late \<and> early then ''BOTH'' else if late then ''LATE_ARRIVAL''
      else if early then ''EARLY_DEPARTURE'' else if missing then ''MISSING_PUNCH'' else '''')"

definition minutes :: "int \<Rightarrow> int \<Rightarrow> int" where
  "minutes from till = (till - from) div nanos_per_minute"

lemma grace_minutes:
  assumes "0 \<le> grace" "grace \<le> 1440"
  shows "wrap64 (grace * nanos_per_minute) = grace * nanos_per_minute"
    "wrap64 (wrap64 (- grace) * nanos_per_minute) = - (grace * nanos_per_minute)"
proof -
  have "int64 (grace * nanos_per_minute)" "int64 (- grace)" "int64 (- grace * nanos_per_minute)"
    using assms by (auto simp: int64_def nanos_per_minute_def)
  then show "wrap64 (grace * nanos_per_minute) = grace * nanos_per_minute"
    "wrap64 (wrap64 (- grace) * nanos_per_minute) = - (grace * nanos_per_minute)"
    by simp_all
qed

lemma minutes_late:
  assumes "1 \<le> grace" "from + grace * nanos_per_minute < till" "minutes from till < 2 ^ 17"
  shows "int_of_f (in_units nanos_per_minute (time_sub till from)) = minutes from till
    \<and> 0 < minutes from till"
proof
  have "nanos_per_minute \<le> grace * nanos_per_minute" using assms(1) by (simp add: nanos_per_minute_def)
  then have le: "nanos_per_minute \<le> till - from" using assms(2) by linarith
  then show "0 < minutes from till"
    by (simp add: minutes_def nanos_per_minute_def pos_imp_zdiv_pos_iff)
  show "int_of_f (in_units nanos_per_minute (time_sub till from)) = minutes from till"
    unfolding minutes_def
    by (rule units_floor_sub) (use le assms(3) in \<open>auto simp: nanos_per_minute_def minutes_def\<close>)
qed

text \<open>
  C24. A shift exception is classified exactly. With a grace period of 1 minute to a day and times
  less than 91 days apart, the kind follows from being late or early beyond the grace period or
  having no check-out, and the minutes are the whole minutes from the start or to the end of the
  shift, 0 within the grace period, in spite of the floating-point detour.
\<close>

theorem shift_exceptions_exact:
  assumes "1 \<le> grace" "grace \<le> 1440"
    "minutes shift_start check_in < 2 ^ 17" "minutes check_out shift_end < 2 ^ 17"
  shows "evaluate_shift_exception check_in check_out shift_start shift_end grace =
    (exception_kind (is_late check_in shift_start grace) (is_early check_out shift_end grace)
       (check_out = zero_time \<and> check_in \<noteq> zero_time),
     if is_late check_in shift_start grace then minutes shift_start check_in else 0,
     if is_early check_out shift_end grace then minutes check_out shift_end else 0)"
proof -
  have g: "wrap64 (grace * nanos_per_minute) = grace * nanos_per_minute"
    "wrap64 (wrap64 (- grace) * nanos_per_minute) = - (grace * nanos_per_minute)"
    using grace_minutes [of grace] assms(1,2) by simp_all
  have late: "shift_late check_in shift_start grace
      = (if is_late check_in shift_start grace then minutes shift_start check_in else 0)"
    "is_late check_in shift_start grace \<longleftrightarrow> 0 < shift_late check_in shift_start grace"
    using minutes_late [OF assms(1) _ assms(3)] g by (auto simp: shift_late_def is_late_def)
  have early: "shift_early check_out shift_end grace
      = (if is_early check_out shift_end grace then minutes check_out shift_end else 0)"
    "is_early check_out shift_end grace \<longleftrightarrow> 0 < shift_early check_out shift_end grace"
    using minutes_late [OF assms(1) _ assms(4)] g
    by (auto simp: shift_early_def is_early_def algebra_simps)
  show ?thesis
    unfolding evaluate_shift_exception_def Let_def exception_kind_def late(2) early(2)
    by (simp flip: late early)
qed

theorem shift_exceptions_exact_witness:
  "evaluate_shift_exception (9 * nanos_per_hour + 24 * nanos_per_minute + 59999999999)
     (17 * nanos_per_hour) (9 * nanos_per_hour) (18 * nanos_per_hour) 15 = (''BOTH'', 24, 60)"
  by (subst shift_exceptions_exact)
    (simp_all add: minutes_def is_late_def is_early_def exception_kind_def zero_time_def
      days_of_def nanos_per_minute_def nanos_per_hour_def nanos_per_day_def)

section \<open>Regularizations are approved by anybody\<close>

lemma run_set_regularization:
  assumes "outcomes w = []" "uuid_in w rid = Some i"
  shows "run_state (set_regularization st rid) w =
    (Some (count_where (\<lambda>r. rq_id r = i) (regularizations w)),
     w\<lparr>regularizations := upd_where (\<lambda>r. rq_id r = i) (\<lambda>r. r\<lparr>rq_status := st\<rparr>) (regularizations w)\<rparr>)"
  using assms by (simp add: set_regularization_def run_exec_calm)

lemma run_sync_day:
  assumes "outcomes w = []" "uuid_in w rid = Some i"
    "find (\<lambda>r. rq_id r = i) (regularizations w) = Some r" "rq_date r = Some d"
    "worked_hours w (requested_in r) (rq_out r) = Some h"
  shows "run_state (sync_day rid) w = (Some 1, w\<lparr>daily :=
     upsert (day_key (rq_emp r) d)
       (\<lambda>x. x\<lparr>ad_in := requested_in r, ad_out := rq_out r, ad_worked := h,
              ad_status := ''PRESENT'', ad_valid := ''VALIDATED''\<rparr>)
       ((new_day (ids w (issued w)) (rq_emp r) d (requested_in r) ''VALIDATED'')
          \<lparr>ad_out := rq_out r, ad_worked := h\<rparr>) (daily w),
     issued := issued w + 1\<rparr>)"
  using assms by (simp add: sync_day_def run_exec_calm)

text \<open>
  C39. Anybody can approve a regularization, whatever was decided before. The handler looks neither
  at the caller nor at the state of the request: on a calm server, any call with the id of a
  request, be it rejected, makes it APPROVED and stores the times it asks for as a VALIDATED day,
  which payroll does not wait for.
\<close>

theorem approval_unguarded:
  assumes "calm w" "\<not> db_nil w" "r \<in> set (regularizations w)"
    "distinct (map rq_id (regularizations w))" "uuid_in w (rq_id r) = Some (rq_id r)"
    "rq_date r = Some d" "worked_hours w (requested_in r) (rq_out r) = Some h"
  shows "let (resp, w') = run_state (handle_approve_request (rq_id r)) w
         in rcode resp = status_ok \<and> r\<lparr>rq_status := ''APPROVED''\<rparr> \<in> set (regularizations w')
            \<and> (\<exists>x. find (day_key (rq_emp r) d) (daily w') = Some x \<and> ad_valid x = ''VALIDATED''
                 \<and> ad_in x = requested_in r \<and> ad_out x = rq_out r)"
proof -
  let ?i = "rq_id r"
  let ?r = "r\<lparr>rq_status := ''APPROVED''\<rparr>"
  define w1 where "w1 = w\<lparr>regularizations :=
      upd_where (\<lambda>r. rq_id r = ?i) (\<lambda>r. r\<lparr>rq_status := ''APPROVED''\<rparr>) (regularizations w)\<rparr>"
  have o: "outcomes w = []" "outcomes w1 = []" "uuid_in w1 ?i = Some ?i"
    using assms(1,5) by (simp_all add: calm_def w1_def)
  have set1: "run_state (set_regularization ''APPROVED'' ?i) w
      = (Some (count_where (\<lambda>r. rq_id r = ?i) (regularizations w)), w1)"
    using run_set_regularization [OF o(1) assms(5)] by (simp add: w1_def)
  have found: "find (\<lambda>r. rq_id r = ?i) (regularizations w1) = Some ?r"
    using find_unique [OF assms(4,3)] by (simp add: w1_def find_upd_where_same)
  have hours: "worked_hours w1 (requested_in ?r) (rq_out ?r) = Some h"
    using assms(7) by (simp add: w1_def worked_hours_def requested_in_def split: option.splits)
  have ri: "requested_in ?r = requested_in r" by (simp add: requested_in_def)
  have sync: "run_state (sync_day ?i) w1 = (Some 1, w1\<lparr>daily :=
     upsert (day_key (rq_emp r) d)
       (\<lambda>x. x\<lparr>ad_in := requested_in r, ad_out := rq_out r, ad_worked := h,
              ad_status := ''PRESENT'', ad_valid := ''VALIDATED''\<rparr>)
       ((new_day (ids w1 (issued w1)) (rq_emp r) d (requested_in r) ''VALIDATED'')
          \<lparr>ad_out := rq_out r, ad_worked := h\<rparr>) (daily w1), issued := issued w1 + 1\<rparr>)"
    using run_sync_day [OF o(2,3) found _ hours, of d] assms(6) unfolding ri by simp
  define w2 where "w2 = snd (run_state (sync_day ?i) w1)"
  have w2: "run_state (sync_day ?i) w1 = (Some 1, w2)" "regularizations w2 = regularizations w1"
    by (simp_all add: w2_def sync)
  have day: "find (day_key (rq_emp r) d) (daily w2)
      = Some (case find (day_key (rq_emp r) d) (daily w1) of
          None \<Rightarrow> (new_day (ids w1 (issued w1)) (rq_emp r) d (requested_in r) ''VALIDATED'')
             \<lparr>ad_out := rq_out r, ad_worked := h\<rparr>
        | Some x \<Rightarrow> x\<lparr>ad_in := requested_in r, ad_out := rq_out r, ad_worked := h,
              ad_status := ''PRESENT'', ad_valid := ''VALIDATED''\<rparr>)"
    unfolding w2_def sync by simp (rule find_upsert_same; simp add: day_key_def)
  have "?r \<in> set (regularizations w2)" using found w2(2) by (auto simp: find_Some_iff)
  moreover have "run_state (handle_approve_request ?i) w
      = (respond status_ok [(''success'', JBool True), (''message'', JStr ''Request approved'')], w2)"
    using assms(2) set1 w2(1) by (simp add: handle_approve_request_def run_bind run_orelse)
  ultimately show ?thesis using day by (simp split: option.split)
qed

definition late_request :: request_row where
  "late_request = \<lparr>rq_id = ''q1'', rq_emp = ''e1'', rq_date = Some 20640,
     rq_clock = 9 * nanos_per_hour, rq_out = Some (20640 * nanos_per_day + 18 * nanos_per_hour),
     rq_reason = ''forgot'', rq_status = ''REJECTED'', rq_created = 0\<rparr>"

theorem approval_unguarded_witness:
  "let (resp, w') = run_state (handle_approve_request ''q1'')
         (demo_office\<lparr>regularizations := [late_request]\<rparr>)
   in rcode resp = status_ok \<and> late_request\<lparr>rq_status := ''APPROVED''\<rparr> \<in> set (regularizations w')
      \<and> (\<exists>x. find (day_key ''e1'' 20640) (daily w') = Some x \<and> ad_valid x = ''VALIDATED''
           \<and> ad_in x = requested_in late_request \<and> ad_out x = rq_out late_request)"
  using approval_unguarded [of "demo_office\<lparr>regularizations := [late_request]\<rparr>" late_request 20640
      "Some 9"]
  by (simp add: calm_def late_request_def worked_hours_def requested_in_def hours_between_def
      nanos_per_hour_def nanos_per_day_def)

section \<open>The validation of a batch\<close>

text \<open>The rows of the batch get the state, the others stay.\<close>

definition validated_row :: "string list \<Rightarrow> string \<Rightarrow> daily_row \<Rightarrow> daily_row \<Rightarrow> bool" where
  "validated_row is st d d' \<longleftrightarrow> ad_id d' = ad_id d \<and> row_key d' = row_key d
     \<and> (if ad_id d \<in> set is then ad_valid d' = st else d' = d)"

lemma validated_row_refl: "validated_row [] st d d"
  by (simp add: validated_row_def)

lemma validated_row_trans:
  "validated_row [i] st d d' \<Longrightarrow> validated_row is st d' d'' \<Longrightarrow> validated_row (i # is) st d d''"
  by (auto simp: validated_row_def split: if_splits)

text \<open>A server on which nothing fails and whose users have UUIDs.\<close>

definition validation_server :: "claims \<Rightarrow> 'a world_scheme \<Rightarrow> bool" where
  "validation_server c w \<longleftrightarrow> outcomes w = [] \<and> \<not> db_nil w \<and> uuid_in w (cl_user c) \<noteq> None"

lemma upd_where_validated:
  assumes "\<And>d. ad_id (f d) = ad_id d" "\<And>d. row_key (f d) = row_key d" "\<And>d. ad_valid (f d) = st"
  shows "list_all2 (validated_row [i] st) ds (upd_where (\<lambda>d. ad_id d = i) f ds)"
  using assms by (induction ds) (auto simp: validated_row_def)

lemma run_validate_day:
  assumes "validation_server c w" "by' = '''' \<or> by' = cl_user c"
  shows "\<exists>n ds. run_state (validate_day st by' remark i) w = (Some n, w\<lparr>daily := ds\<rparr>)
           \<and> list_all2 (validated_row [i] st) (daily w) ds"
proof -
  have u: "uuid_in w (cl_user c) \<noteq> None" "outcomes w = []"
    using assms(1) by (simp_all add: validation_server_def)
  show ?thesis
  proof (cases "by' = ''''")
    case True
    show ?thesis
      by (intro exI conjI, use u True in \<open>simp add: validate_day_def run_exec_calm Let_def\<close>)
        (rule upd_where_validated; simp)
  next
    case False
    then obtain x where "uuid_in w by' = Some x" using u assms(2) by auto
    then show ?thesis
      by (intro exI conjI, use u False in \<open>simp add: validate_day_def run_exec_calm Let_def\<close>)
        (rule upd_where_validated; simp)
  qed
qed

lemma run_validate_one:
  assumes "validation_server c w"
  shows "\<exists>ds as. run_state (validate_one c req i n) w = (n + 1, w\<lparr>daily := ds, audit_logs := as\<rparr>)
           \<and> list_all2 (validated_row [i] (validation_target (bq_action req))) (daily w) ds"
proof -
  have o: "outcomes w = []" using assms by (simp add: validation_server_def)
  define by' where "by' = text_or_empty (case [u_id u. u \<leftarrow> users w, u_id u = cl_user c] of
      [] \<Rightarrow> None | r # _ \<Rightarrow> Some r)"
  have "by' = '''' \<or> by' = cl_user c"
    unfolding by'_def first_row [of "\<lambda>u. u_id u = cl_user c" u_id "users w"]
    by (auto simp: text_or_empty_def find_Some_iff split: option.split)
  then obtain k ds where ds: "run_state (validate_day (validation_target (bq_action req)) by'
        (bq_comments req) i) w = (Some k, w\<lparr>daily := ds\<rparr>)"
    "list_all2 (validated_row [i] (validation_target (bq_action req))) (daily w) ds"
    using run_validate_day [OF assms] by blast
  have "outcomes (w\<lparr>daily := ds\<rparr>) = []" using o by simp
  note log = run_log_action [OF this]
  show ?thesis
    by (intro exI conjI, rule_tac [2] ds(2))
      (use o ds(1) log in \<open>simp add: validate_one_def run_bind run_orelse run_select_row_calm
        flip: by'_def\<close>)
qed

lemma list_all2_trans_row:
  assumes "list_all2 (validated_row [i] st) a b" "list_all2 (validated_row is st) b c"
  shows "list_all2 (validated_row (i # is) st) a c"
  using validated_row_trans assms by (rule list_all2_trans)

lemma run_validate_all:
  assumes "validation_server c w"
  shows "\<exists>ds as. run_state (fold_loop (validate_one c req) is n) w
             = (n + int (length is), w\<lparr>daily := ds, audit_logs := as\<rparr>)
           \<and> list_all2 (validated_row is (validation_target (bq_action req))) (daily w) ds"
  using assms
proof (induction "is" arbitrary: n w)
  case Nil
  have "w = w\<lparr>daily := daily w, audit_logs := audit_logs w\<rparr>" by (cases w) simp
  moreover have "list_all2 (validated_row [] (validation_target (bq_action req))) (daily w) (daily w)"
    by (rule list.rel_refl) (rule validated_row_refl)
  ultimately show ?case
    by (intro exI [of _ "daily w"] exI [of _ "audit_logs w"]) simp
next
  case (Cons i "is")
  obtain ds as where w1: "run_state (validate_one c req i n) w = (n + 1, w\<lparr>daily := ds, audit_logs := as\<rparr>)"
    "list_all2 (validated_row [i] (validation_target (bq_action req))) (daily w) ds"
    using run_validate_one [OF Cons.prems] by blast
  have s: "validation_server c (w\<lparr>daily := ds, audit_logs := as\<rparr>)"
    using Cons.prems by (simp add: validation_server_def)
  obtain ds' as' where w2: "run_state (fold_loop (validate_one c req) is (n + 1))
        (w\<lparr>daily := ds, audit_logs := as\<rparr>)
      = (n + 1 + int (length is), w\<lparr>daily := ds', audit_logs := as'\<rparr>)"
    "list_all2 (validated_row is (validation_target (bq_action req))) ds ds'"
    using Cons.IH [OF s, of "n + 1"] by auto
  show ?case
    by (intro exI conjI, rule_tac [2] list_all2_trans_row [OF w1(2) w2(2)])
      (use w1(1) w2(1) in \<open>simp add: run_bind\<close>)
qed

lemma run_batch:
  assumes "validation_server c w" "has_role (Some c) validator_roles" "bq_ids req \<noteq> []"
  shows "\<exists>ds as. snd (run_state (handle_batch_validation (Some c) (Some req)) w)
             = w\<lparr>daily := ds, audit_logs := as\<rparr>
           \<and> list_all2 (validated_row (bq_ids req) (validation_target (bq_action req))) (daily w) ds"
proof -
  obtain ds as where "run_state (fold_loop (validate_one c req) (bq_ids req) 0) w
      = (int (length (bq_ids req)), w\<lparr>daily := ds, audit_logs := as\<rparr>)"
    "list_all2 (validated_row (bq_ids req) (validation_target (bq_action req))) (daily w) ds"
    using run_validate_all [OF assms(1), of req "bq_ids req" 0] by auto
  then show ?thesis
    using assms
    by (intro exI [of _ ds] exI [of _ as])
      (simp add: handle_batch_validation_def run_bind validation_server_def Let_def)
qed

section \<open>The queue of days to validate\<close>

lemma one_page: "0 \<le> n \<Longrightarrow> n \<le> l \<Longrightarrow> 1 \<le> l \<Longrightarrow> l \<le> 100 \<Longrightarrow>
    pm_total_pages (build_pagination_meta n page l) = 1"
proof (cases "n = 0")
  case False
  assume a: "0 \<le> n" "n \<le> l" "1 \<le> l" "l \<le> 100"
  have "(n + l - 1) div l = (n - 1) div l + 1"
    using a div_add_self2 [of l "n - 1"] by (simp add: algebra_simps)
  also have "(n - 1) div l = 0" using a False by (intro div_pos_pos_trivial) auto
  finally show ?thesis
    using a ceil_quotient [of n l] by (simp add: build_pagination_meta_def)
qed (simp add: build_pagination_meta_def f_of_int_def fdiv_def)

text \<open>
  The validation queue shows one page only. With a working database, whatever number of days
  wait, the answer gives as total the number of rows of the page it returns, so that a page with
  more days behind it claims to be the last: one page in all and no next one.
\<close>

theorem queue_claims_one_page:
  assumes "calm w" "\<not> db_nil w" "has_role cl validator_roles"
    "0 \<le> pp_offset (parse_pagination_params q)"
  shows "let pg = parse_pagination_params q;
             shown = take (nat (pp_limit pg)) (drop (nat (pp_offset pg)) (queue_rows (queue_status q) w));
             m = build_pagination_meta (int (length shown)) (pp_page pg) (pp_limit pg)
         in fst (run_state (handle_get_validation_queue cl q) w) =
              respond status_ok
                [(''success'', JBool True),
                 (''data'', JArr (map (validation_item_json \<circ> validation_item_of w) shown)),
                 (''total'', JInt (int (length shown))), (''pagination'', meta_json m)]
            \<and> pm_total_pages m = 1 \<and> \<not> pm_has_next m"
proof -
  define pg where "pg = parse_pagination_params q"
  define shown where
    "shown = take (nat (pp_limit pg)) (drop (nat (pp_offset pg)) (queue_rows (queue_status q) w))"
  define m where "m = build_pagination_meta (int (length shown)) (pp_page pg) (pp_limit pg)"
  have b: "1 \<le> pp_page pg" "1 \<le> pp_limit pg" "pp_limit pg \<le> 100" "0 \<le> pp_offset pg"
    using parse_bounds [of q] assms(4) by (simp_all add: pg_def)
  have "int (length shown) \<le> pp_limit pg" using b by (simp add: shown_def)
  then have one: "pm_total_pages m = 1" unfolding m_def using b by (intro one_page) auto
  moreover have "\<not> pm_has_next m"
    using one b(1) by (simp add: m_def build_pagination_meta_def Let_def split: if_splits)
  moreover have "fst (run_state (handle_get_validation_queue cl q) w) =
      page_response (map (validation_item_json \<circ> validation_item_of w) shown) (int (length shown)) pg"
    using assms(1-3) b(4)
    by (simp add: handle_get_validation_queue_def run_bind run_orelse run_query_rows_calm calm_def
        page_of_def shown_def o_def flip: pg_def)
  ultimately show ?thesis
    unfolding Let_def by (simp add: page_response_def m_def flip: pg_def shown_def)
qed

definition waiting_day :: "string \<Rightarrow> int \<Rightarrow> daily_row" where
  "waiting_day i d = new_day i ''e1'' d None ''TO_VALIDATE''"

definition waiting_office :: att_world where
  "waiting_office = demo_office\<lparr>daily := [waiting_day ''d1'' 1, waiting_day ''d2'' 2]\<rparr>"

theorem queue_claims_one_page_witness:
  "let q = (\<lambda>k. if k = ''limit'' then ''1'' else '''');
       pg = parse_pagination_params q;
       shown = take (nat (pp_limit pg))
                 (drop (nat (pp_offset pg)) (queue_rows (queue_status q) waiting_office));
       m = build_pagination_meta (int (length shown)) (pp_page pg) (pp_limit pg)
   in length (queue_rows (queue_status q) waiting_office) = 2 \<and> length shown = 1
      \<and> rfield (fst (run_state (handle_get_validation_queue (Some admin_claims) q) waiting_office))
          ''total'' = Some (JInt 1)
      \<and> \<not> pm_has_next m"
proof -
  let ?q = "\<lambda>k. if k = ''limit'' then ''1'' else '''' :: string"
  have w: "calm waiting_office" "\<not> db_nil waiting_office" by (simp_all add: waiting_office_def calm_def)
  have q: "parse_pagination_params ?q = \<lparr>pp_page = 1, pp_limit = 1, pp_offset = 0, pp_search = '''',
      pp_sort_by = '''', pp_sort_order = ''DESC''\<rparr>" by code_simp
  have s: "queue_status ?q = ''TO_VALIDATE''" by (simp add: queue_status_def)
  have l: "length (queue_rows ''TO_VALIDATE'' waiting_office) = 2"
    by (simp add: queue_rows_def waiting_office_def waiting_day_def demo_employee_def)
  show ?thesis
    using queue_claims_one_page [OF w, of "Some admin_claims" ?q] l
    by (simp add: q s Let_def rfield_def)
qed

section \<open>The rules are not applied\<close>

definition reconfigured ::
  "rules_row list \<Rightarrow> ip_row list \<Rightarrow> geo_row list \<Rightarrow> 'a att_world_scheme \<Rightarrow> 'a att_world_scheme" where
  "reconfigured rs ips gs w = w\<lparr>att_rules := rs, ip_allowlists := ips, geofences := gs\<rparr>"

interpretation config: unseen_part "reconfigured rs ips gs" for rs ips gs
  by unfold_locales (simp_all add: reconfigured_def)

lemma blind_caller: "blind (reconfigured rs ips gs) (att_caller_ids uid)"
  unfolding att_caller_ids_def
  by (intro blind_rules config.blind_query_row) (simp add: reconfigured_def)

lemma blind_raw: "blind (reconfigured rs ips gs) (record_raw_punch emp ty n)"
  unfolding record_raw_punch_def
  by (rule config.blind_exec) (simp add: reconfigured_def split: option.split)

lemma blind_punch_in: "blind (reconfigured rs ips gs) (punch_in emp)"
  unfolding punch_in_def
  by (rule config.blind_exec)
    (simp add: reconfigured_def today_def cong: if_cong split: option.split)

lemma blind_punch_out: "blind (reconfigured rs ips gs) (punch_out emp)"
proof -
  have "worked_hours (reconfigured rs ips gs w) = worked_hours w" for w :: "'a att_world_scheme"
    by (intro ext) (simp add: worked_hours_def reconfigured_def split: option.split)
  then show ?thesis
    unfolding punch_out_def Let_def
    by (intro config.blind_exec) (auto simp: reconfigured_def today_def split: option.split)
qed

text \<open>
  Punching ignores the attendance rules. Whatever the rules, the IP allowlist and the geofences
  are, a punch is answered in the same way and leaves the same tables; disabling the web clock or
  restricting it to an address or a place has no effect on who can punch.
\<close>

theorem punch_ignores_rules:
  "run_state (handle_punch cl body) (reconfigured rs ips gs w)
   = apsnd (reconfigured rs ips gs) (run_state (handle_punch cl body) w)"
proof -
  have "blind (reconfigured rs ips gs) (handle_punch cl body :: ('a att_world_scheme, response) state)"
    unfolding handle_punch_def Let_def
    by (auto split: option.split intro!: blind_rules blind_caller blind_raw blind_punch_in blind_punch_out simp: reconfigured_def)
  then show ?thesis by (simp add: blind_def)
qed

end
