(* ===== verification/Organization.thy ===== *)
theory Organization
  imports Pagination "HOL-Library.List_Lexorder" "HOL-Library.Char_ord"
begin

text \<open>
  \<^verbatim>\<open>internal/organization\<close>: locations, designations and departments. The listings read a page
  of their table and show fixed examples when it gives nothing; the creations decode the body and
  answer with it, without a statement.
\<close>

section \<open>The data\<close>

record location =
  lo_id :: string
  lo_org :: string
  lo_name :: string
  lo_address :: string
  lo_city :: string
  lo_state :: string
  lo_country :: string
  lo_zip :: string

record designation =
  de_id :: string
  de_org :: string
  de_name :: string
  de_level :: string

record department =
  dp_id :: string
  dp_name :: string
  dp_code :: string
  dp_desc :: string

definition location_json :: "location \<Rightarrow> json" where
  "location_json l =
     JObj [(''id'', JStr (lo_id l)), (''organization_id'', JStr (lo_org l)), (''name'', JStr (lo_name l)),
           (''address'', JStr (lo_address l)), (''city'', JStr (lo_city l)), (''state'', JStr (lo_state l)),
           (''country'', JStr (lo_country l)), (''zip_code'', JStr (lo_zip l))]"

definition level_json :: "designation \<Rightarrow> json" where
  "level_json d =
     JObj [(''id'', JStr (de_id d)), (''organization_id'', JStr (de_org d)), (''name'', JStr (de_name d)),
           (''level_grade'', JStr (de_level d))]"

definition department_json :: "department \<Rightarrow> json" where
  "department_json d =
     JObj ([(''id'', JStr (dp_id d)), (''name'', JStr (dp_name d)), (''code'', JStr (dp_code d))]
           @ nonempty_field ''description'' (dp_desc d))"

section \<open>Listings\<close>

text \<open>The examples that stand in for an empty page.\<close>

definition example_location :: "string \<Rightarrow> string \<Rightarrow> string \<Rightarrow> location" where
  "example_location i name city =
     \<lparr>lo_id = i, lo_org = '''', lo_name = name, lo_address = '''', lo_city = city, lo_state = '''',
      lo_country = ''India'', lo_zip = ''''\<rparr>"

definition example_locations :: "location list" where
  "example_locations =
     [example_location ''loc-1'' ''Headquarters'' ''Mumbai'',
      example_location ''loc-2'' ''Tech Hub'' ''Bengaluru'']"

definition example_designation :: "string \<Rightarrow> string \<Rightarrow> string \<Rightarrow> designation" where
  "example_designation i name level = \<lparr>de_id = i, de_org = '''', de_name = name, de_level = level\<rparr>"

definition example_designations :: "designation list" where
  "example_designations =
     [example_designation ''des-1'' ''Software Engineer'' ''L3'',
      example_designation ''des-2'' ''Senior HR Manager'' ''L5'',
      example_designation ''des-3'' ''Product Designer'' ''L4'']"

definition example_departments :: "department list" where
  "example_departments =
     [\<lparr>dp_id = ''dept-1'', dp_name = ''Engineering'', dp_code = ''ENG'',
       dp_desc = ''Software Engineering & Tech''\<rparr>,
      \<lparr>dp_id = ''dept-2'', dp_name = ''Human Resources'', dp_code = ''HR'',
       dp_desc = ''People Operations''\<rparr>,
      \<lparr>dp_id = ''dept-3'', dp_name = ''Finance'', dp_code = ''FIN'',
       dp_desc = ''Accounting & Finance''\<rparr>]"

text \<open>The count of the answer is that of the rows shown.\<close>

definition shown_or_examples ::
  "('v \<Rightarrow> json) \<Rightarrow> 'v list \<Rightarrow> pagination_params \<Rightarrow> 'v list \<Rightarrow> response" where
  "shown_or_examples enc examples pg vs =
     (let xs = (if vs = [] then examples else vs)
      in page_response (map enc xs) (int (length xs)) pg)"

text \<open>A row with a NULL in one of its columns does not scan into texts.\<close>

definition scan_location :: "location_row \<Rightarrow> location option" where
  "scan_location l =
     (case (lc_address l, lc_city l, lc_state l, lc_country l, lc_zip l) of
        (Some a, Some c, Some s, Some n, Some z) \<Rightarrow>
          Some \<lparr>lo_id = lc_id l, lo_org = lc_org l, lo_name = lc_name l, lo_address = a, lo_city = c,
                lo_state = s, lo_country = n, lo_zip = z\<rparr>
      | _ \<Rightarrow> None)"

definition scan_designation :: "designation_row \<Rightarrow> designation option" where
  "scan_designation d =
     map_option (\<lambda>l. \<lparr>de_id = dg_id d, de_org = dg_org d, de_name = dg_name d, de_level = l\<rparr>)
       (dg_level d)"

definition or_no_rows :: "('w, 'r list option) state \<Rightarrow> ('w, 'r list) state" where
  "or_no_rows m = orelse m [] State_Monad.return"

definition handle_get_locations :: "url_query \<Rightarrow> ('a people_world_scheme, response) state" where
  "handle_get_locations q = do {
     let pg = parse_pagination_params q;
     nil \<leftarrow> reads db_nil;
     rows \<leftarrow> (if nil then State_Monad.return []
             else or_no_rows (query_rows (\<lambda>w. page_of pg (sort_key lc_name (locations w)))));
     State_Monad.return
       (shown_or_examples location_json example_locations pg (scan_rows scan_location rows))
   }"

definition handle_get_designations :: "url_query \<Rightarrow> ('a world_scheme, response) state" where
  "handle_get_designations q = do {
     let pg = parse_pagination_params q;
     nil \<leftarrow> reads db_nil;
     rows \<leftarrow> (if nil then State_Monad.return []
             else or_no_rows (query_rows (\<lambda>w. page_of pg (sort_key dg_name (designations w)))));
     State_Monad.return
       (shown_or_examples level_json example_designations pg (scan_rows scan_designation rows))
   }"

text \<open>The table \<^verbatim>\<open>departments\<close> has no column \<^verbatim>\<open>description\<close>.\<close>

definition handle_get_departments :: "url_query \<Rightarrow> ('a conn_scheme, response) state" where
  "handle_get_departments q = do {
     let pg = parse_pagination_params q;
     nil \<leftarrow> reads db_nil;
     rows \<leftarrow> (if nil then State_Monad.return [] else or_no_rows no_such_column);
     State_Monad.return (shown_or_examples department_json example_departments pg rows)
   }"

section \<open>Creations\<close>

definition created_data :: "('v \<Rightarrow> json) \<Rightarrow> 'v option \<Rightarrow> response" where
  "created_data enc body =
     (case body of
        None \<Rightarrow> http_error ''invalid request'' status_bad_request
      | Some v \<Rightarrow> respond status_created [(''success'', JBool True), (''data'', enc v)])"

definition handle_create_location :: "location option \<Rightarrow> ('w, response) state" where
  "handle_create_location body = State_Monad.return (created_data location_json body)"

definition handle_create_org_designation :: "designation option \<Rightarrow> ('w, response) state" where
  "handle_create_org_designation body = State_Monad.return (created_data level_json body)"

definition handle_create_department :: "department option \<Rightarrow> ('w, response) state" where
  "handle_create_department body = State_Monad.return (created_data department_json body)"

end
