(* ===== verification/Configuration.thy ===== *)
theory Configuration
  imports Schema
begin

text \<open>
  \<^verbatim>\<open>internal/configuration\<close>: one lookup in \<^verbatim>\<open>system_configurations\<close>, which no handler
  calls. The result is the object of the entry in force, \<^term>\<open>None\<close> inside for the JSON null, or an
  error text.
\<close>

text \<open>\<^verbatim>\<open>ORDER BY effective_from DESC LIMIT 1\<close>, among the entries that have begun.\<close>

definition config_rows :: "string \<Rightarrow> 'a office_world_scheme \<Rightarrow> config_row list" where
  "config_rows key w =
     sort_key (\<lambda>c. - the (cf_from c))
       (filter (\<lambda>c. cf_key c = key \<and> (case cf_from c of None \<Rightarrow> False | Some t \<Rightarrow> t \<le> now w)) (configs w))"

text \<open>\<^verbatim>\<open>json.Unmarshal\<close> into a map: an object or null.\<close>

definition json_map :: "json \<Rightarrow> (string \<times> json) list option option" where
  "json_map j = (case j of JObj fs \<Rightarrow> Some (Some fs) | JNull \<Rightarrow> Some None | _ \<Rightarrow> None)"

definition get_config ::
  "string \<Rightarrow> ('a office_world_scheme, string + (string \<times> json) list option) state" where
  "get_config key = do {
     err \<leftarrow> reads err_text;
     orelse (select_row (\<lambda>w. map cf_value (config_rows key w)))
       (Inl (''config '' @ key @ '' not found: '' @ err))
       (\<lambda>v. State_Monad.return (case json_map v of None \<Rightarrow> Inl err | Some m \<Rightarrow> Inr m))
   }"

end
