(* ===== verification/Lifecycle.thy ===== *)
theory Lifecycle
  imports Users "HOL-Library.Multiset"
begin

text \<open>
  \<^verbatim>\<open>internal/lifecycle\<close>: the dashboard of the probations that end, the timeline of an employee
  and the exits. Resignations, approvals of exits and clearances are fixed answers.
\<close>

section \<open>Probation\<close>

record probation_view =
  pv_id :: string
  pv_code :: string
  pv_name :: string
  pv_dept :: string
  pv_desig :: string
  pv_joined :: string
  pv_end :: string
  pv_status :: string

definition probation_json :: "probation_view \<Rightarrow> json" where
  "probation_json v =
     JObj [(''id'', JStr (pv_id v)), (''employee_id'', JStr (pv_code v)), (''full_name'', JStr (pv_name v)),
           (''department'', JStr (pv_dept v)), (''designation'', JStr (pv_desig v)),
           (''joining_date'', JStr (pv_joined v)), (''probation_end_date'', JStr (pv_end v)),
           (''status'', JStr (pv_status v))]"

definition probation_status :: "int \<Rightarrow> int \<Rightarrow> string" where
  "probation_status d p =
     (if p < d then ''OVERDUE''
      else if p \<le> d + 7 then ''NEXT_7_DAYS''
      else if p \<le> d + 15 then ''NEXT_15_DAYS''
      else ''NEXT_30_DAYS'')"

definition probation_due :: "int \<Rightarrow> employee_row \<Rightarrow> bool" where
  "probation_due d e \<longleftrightarrow>
     e_status e = ''PROBATION'' \<and> (case e_probation e of None \<Rightarrow> False | Some p \<Rightarrow> p \<le> d + 30)
     \<and> \<not> e_deleted e"

definition probation_view_of :: "'a world_scheme \<Rightarrow> employee_row \<Rightarrow> probation_view" where
  "probation_view_of w e =
     \<lparr>pv_id = e_id e, pv_code = e_code e, pv_name = full_name e,
      pv_dept = name_in (departments w) (e_dept e) '''',
      pv_desig = name_in (designation_names w) (e_desig e) '''',
      pv_joined = show_date (e_joined e), pv_end = show_date (the (e_probation e)),
      pv_status = probation_status (today w) (the (e_probation e))\<rparr>"

definition probation_views :: "'a world_scheme \<Rightarrow> probation_view list" where
  "probation_views w =
     map (probation_view_of w)
       (sort_key (\<lambda>e. the (e_probation e)) (filter (probation_due (today w)) (employees w)))"

record dashboard =
  pb_overdue :: "probation_view list"
  pb_next7 :: "probation_view list"
  pb_next15 :: "probation_view list"
  pb_next30 :: "probation_view list"

text \<open>The loop over the rows, which sorts each by its status.\<close>

fun sort_probations :: "probation_view list \<Rightarrow> dashboard \<Rightarrow> dashboard" where
  "sort_probations [] b = b"
| "sort_probations (v # vs) b = sort_probations vs
     (if pv_status v = ''OVERDUE'' then b\<lparr>pb_overdue := pb_overdue b @ [v]\<rparr>
      else if pv_status v = ''NEXT_7_DAYS'' then b\<lparr>pb_next7 := pb_next7 b @ [v]\<rparr>
      else if pv_status v = ''NEXT_15_DAYS'' then b\<lparr>pb_next15 := pb_next15 b @ [v]\<rparr>
      else if pv_status v = ''NEXT_30_DAYS'' then b\<lparr>pb_next30 := pb_next30 b @ [v]\<rparr>
      else b)"

definition dashboard_json :: "dashboard \<Rightarrow> json" where
  "dashboard_json b =
     JObj [(''overdue'', JArr (map probation_json (pb_overdue b))),
           (''next_7_days'', JArr (map probation_json (pb_next7 b))),
           (''next_15_days'', JArr (map probation_json (pb_next15 b))),
           (''next_30_days'', JArr (map probation_json (pb_next30 b)))]"

definition handle_get_probation_due :: "('a world_scheme, response) state" where
  "handle_get_probation_due = do {
     nil \<leftarrow> reads db_nil;
     err \<leftarrow> reads err_text;
     (if nil then State_Monad.return db_unavailable
      else
        orelse (select probation_views) (fail_json status_internal (''database query failed: '' @ err))
          (\<lambda>vs. State_Monad.return (user_ok_response
             [(''data'', dashboard_json (sort_probations vs
                \<lparr>pb_overdue = [], pb_next7 = [], pb_next15 = [], pb_next30 = []\<rparr>))])))
   }"

section \<open>Timeline\<close>

record event =
  el_key :: string
  el_emp :: string
  el_kind :: string
  el_date :: string
  el_old :: "(string \<times> json) list"
  el_new :: "(string \<times> json) list"
  el_reason :: "string option"
  el_by :: "string option"
  el_created :: string

definition json_if_fields :: "string \<Rightarrow> (string \<times> json) list \<Rightarrow> (string \<times> json) list" where
  "json_if_fields k fs = (if fs = [] then [] else [(k, JObj (sort_key fst fs))])"

definition event_json :: "event \<Rightarrow> json" where
  "event_json e =
     JObj ([(''id'', JStr (el_key e)), (''employee_id'', JStr (el_emp e)), (''event_type'', JStr (el_kind e)),
            (''effective_date'', JStr (el_date e))]
           @ json_if_fields ''previous_value'' (el_old e) @ json_if_fields ''new_value'' (el_new e)
           @ json_if_some ''reason'' (el_reason e) @ json_if_some ''created_by'' (el_by e)
           @ [(''created_at'', JStr (el_created e))])"

text \<open>\<^verbatim>\<open>json.Unmarshal\<close> into a map, its error ignored.\<close>

definition object_fields :: "json option \<Rightarrow> (string \<times> json) list" where
  "object_fields j = (case j of Some (JObj fs) \<Rightarrow> fs | _ \<Rightarrow> [])"

text \<open>A timestamp does not scan into the text \<^verbatim>\<open>CreatedAt\<close>, the last of the columns.\<close>

definition scan_event :: "life_event_row \<Rightarrow> event + event" where
  "scan_event r = Inl
     \<lparr>el_key = lf_id r, el_emp = lf_emp r, el_kind = lf_type r, el_date = show_date (lf_date r),
      el_old = object_fields (lf_old r), el_new = object_fields (lf_new r), el_reason = lf_reason r,
      el_by = lf_by r, el_created = ''''\<rparr>"

text \<open>\<^verbatim>\<open>ORDER BY effective_date DESC, created_at DESC\<close>.\<close>

definition timeline_rows :: "string \<Rightarrow> 'a office_world_scheme \<Rightarrow> life_event_row list" where
  "timeline_rows i w =
     sort_key (\<lambda>r. - lf_date r)
       (sort_key (\<lambda>r. - lf_created r) (filter (\<lambda>r. lf_emp r = i) (life_events w)))"

definition handle_get_timeline :: "string \<Rightarrow> ('a office_world_scheme, response) state" where
  "handle_get_timeline i = do {
     nil \<leftarrow> reads db_nil;
     (if nil then State_Monad.return db_unavailable
      else
        orelse (query_rows (\<lambda>w. map_option (\<lambda>e. timeline_rows e w) (uuid_in w i))) (data_response [])
          (\<lambda>rs. State_Monad.return (data_response (map event_json (scan_through scan_event rs)))))
   }"

section \<open>Exits\<close>

record exit_view =
  xv_id :: string
  xv_code :: string
  xv_name :: string
  xv_dept :: string
  xv_resigned :: string
  xv_last :: string
  xv_reason :: string
  xv_status :: string

definition exit_json :: "exit_view \<Rightarrow> json" where
  "exit_json x =
     JObj [(''id'', JStr (xv_id x)), (''employee_id'', JStr (xv_code x)),
           (''employee_name'', JStr (xv_name x)), (''department'', JStr (xv_dept x)),
           (''resignation_date'', JStr (xv_resigned x)), (''last_working_date'', JStr (xv_last x)),
           (''reason'', JStr (xv_reason x)), (''status'', JStr (xv_status x))]"

text \<open>Without a last working date the row does not scan.\<close>

definition scan_exit :: "'a world_scheme \<Rightarrow> request_row \<times> employee_row \<Rightarrow> exit_view option" where
  "scan_exit w xe =
     (case xe of (x, e) \<Rightarrow>
        (case (rq_date x, rq_out x) of
           (Some d, Some l) \<Rightarrow>
             Some \<lparr>xv_id = rq_id x, xv_code = e_code e, xv_name = full_name e,
                   xv_dept = name_in (departments w) (e_dept e) ''General'',
                   xv_resigned = show_date d, xv_last = show_date l, xv_reason = rq_reason x,
                   xv_status = rq_status x\<rparr>
         | _ \<Rightarrow> None))"

definition exit_rows :: "'a world_scheme \<Rightarrow> (request_row \<times> employee_row) list" where
  "exit_rows w =
     sort_key (\<lambda>(x, e). - rq_created x)
       [(x, e). x \<leftarrow> exits w, e \<leftarrow> employees w, e_id e = rq_emp x]"

definition handle_list_exits :: "('a world_scheme, response) state" where
  "handle_list_exits = do {
     nil \<leftarrow> reads db_nil;
     (if nil then State_Monad.return db_unavailable
      else
        orelse (select (\<lambda>w. scan_rows (scan_exit w) (exit_rows w))) (data_response [])
          (\<lambda>xs. State_Monad.return (data_response (map exit_json xs))))
   }"

text \<open>The fixed answers, for a server with a database.\<close>

definition fixed_answer :: "response \<Rightarrow> ('a conn_scheme, response) state" where
  "fixed_answer r = do {
     nil \<leftarrow> reads db_nil;
     State_Monad.return (if nil then db_unavailable else r)
   }"

definition handle_submit_resignation :: "('a conn_scheme, response) state" where
  "handle_submit_resignation = fixed_answer (user_ok_response [(''id'', JStr ''exit-new'')])"

definition handle_approve_exit :: "string \<Rightarrow> ('a conn_scheme, response) state" where
  "handle_approve_exit i = fixed_answer (user_ok_response [])"

definition handle_get_clearance :: "string \<Rightarrow> ('a conn_scheme, response) state" where
  "handle_get_clearance i = fixed_answer (data_response [])"

section \<open>What the dashboard shows\<close>

text \<open>Those on probation whose end satisfies a condition, by the end.\<close>

definition ending :: "(int \<Rightarrow> bool) \<Rightarrow> 'a world_scheme \<Rightarrow> probation_view list" where
  "ending P w =
     map (probation_view_of w)
       (sort_key (\<lambda>e. the (e_probation e))
         (filter (\<lambda>e. e_status e = ''PROBATION'' \<and> \<not> e_deleted e \<and> (\<exists>p. e_probation e = Some p \<and> P p))
           (employees w)))"

lemma sort_probations_filters:
  "sort_probations vs b =
     b\<lparr>pb_overdue := pb_overdue b @ filter (\<lambda>v. pv_status v = ''OVERDUE'') vs,
       pb_next7 := pb_next7 b @ filter (\<lambda>v. pv_status v = ''NEXT_7_DAYS'') vs,
       pb_next15 := pb_next15 b @ filter (\<lambda>v. pv_status v = ''NEXT_15_DAYS'') vs,
       pb_next30 := pb_next30 b @ filter (\<lambda>v. pv_status v = ''NEXT_30_DAYS'') vs\<rparr>"
  by (induction vs arbitrary: b) simp_all

lemma bucket_ending:
  "filter (\<lambda>v. pv_status v = s) (probation_views w)
   = ending (\<lambda>p. p \<le> today w + 30 \<and> probation_status (today w) p = s) w"
  unfolding probation_views_def ending_def filter_map filter_sort filter_filter
  by (intro arg_cong [where f = "map _"] arg_cong [where f = "sort_key _"] filter_cong [OF refl])
    (auto simp: probation_due_def probation_view_of_def split: option.splits)

lemma buckets_partition:
  "mset (probation_views w) = mset (filter (\<lambda>v. pv_status v = ''OVERDUE'') (probation_views w)
     @ filter (\<lambda>v. pv_status v = ''NEXT_7_DAYS'') (probation_views w)
     @ filter (\<lambda>v. pv_status v = ''NEXT_15_DAYS'') (probation_views w)
     @ filter (\<lambda>v. pv_status v = ''NEXT_30_DAYS'') (probation_views w))"
proof -
  have range: "pv_status v \<in> {''OVERDUE'', ''NEXT_7_DAYS'', ''NEXT_15_DAYS'', ''NEXT_30_DAYS''}"
    if "v \<in> set (probation_views w)" for v
  proof -
    have "pv_status v \<in> range (\<lambda>p. probation_status (today w) p)"
      using that by (auto simp: probation_views_def probation_view_of_def)
    then show ?thesis by (auto simp: probation_status_def)
  qed
  have part: "mset vs = mset (filter (\<lambda>v. pv_status v = ''OVERDUE'') vs
     @ filter (\<lambda>v. pv_status v = ''NEXT_7_DAYS'') vs
     @ filter (\<lambda>v. pv_status v = ''NEXT_15_DAYS'') vs @ filter (\<lambda>v. pv_status v = ''NEXT_30_DAYS'') vs)"
    if "set vs \<subseteq> {v. pv_status v \<in> {''OVERDUE'', ''NEXT_7_DAYS'', ''NEXT_15_DAYS'', ''NEXT_30_DAYS''}}"
    for vs :: "probation_view list"
    using that
  proof (induction vs)
    case (Cons v vs)
    then have "pv_status v = ''OVERDUE'' \<or> pv_status v = ''NEXT_7_DAYS'' \<or> pv_status v = ''NEXT_15_DAYS''
      \<or> pv_status v = ''NEXT_30_DAYS''" by simp
    with Cons show ?case by (elim disjE) simp_all
  qed simp
  show ?thesis by (rule part, rule subsetI, rule CollectI) (rule range)
qed

lemma same_tables_popped: "same_tables w (popped w)"
  by (auto simp: same_tables_def)

lemma run_probation_due:
  "run_state handle_get_probation_due w =
     (if db_nil w then (db_unavailable, w)
      else if next_ok w
      then (user_ok_response [(''data'', dashboard_json (sort_probations (probation_views w)
              \<lparr>pb_overdue = [], pb_next7 = [], pb_next15 = [], pb_next30 = []\<rparr>))], popped w)
      else (fail_json status_internal (''database query failed: '' @ err_text w), popped w))"
proof -
  have "probation_views (popped w) = probation_views w"
    by (simp add: probation_views_def probation_view_of_def [abs_def] designation_names_def today_def)
  then show ?thesis
    by (simp add: handle_get_probation_due_def run_bind run_orelse select_def query_def stmt_def)
qed

text \<open>
  C40. The probation dashboard is exact. An answer 200 shows each employee who is on probation, not
  deleted, and at the end of it within 30 days or before today, in exactly one of the four lists: the
  overdue ones, those within 7 days, those after 7 and within 15 days, and the rest, each list by the
  end of the probation. Any other answer is an error of the server; no table changes.
\<close>

theorem probation_dashboard_exact:
  "let (resp, w') = run_state handle_get_probation_due w; d = today w
   in same_tables w w' \<and>
      (if rcode resp = status_ok
       then \<exists>b. resp = user_ok_response [(''data'', dashboard_json b)]
         \<and> pb_overdue b = ending (\<lambda>p. p < d) w
         \<and> pb_next7 b = ending (\<lambda>p. d \<le> p \<and> p \<le> d + 7) w
         \<and> pb_next15 b = ending (\<lambda>p. d + 7 < p \<and> p \<le> d + 15) w
         \<and> pb_next30 b = ending (\<lambda>p. d + 15 < p \<and> p \<le> d + 30) w
         \<and> mset (pb_overdue b @ pb_next7 b @ pb_next15 b @ pb_next30 b) = mset (probation_views w)
       else rcode resp = status_internal)"
proof -
  define b where "b = sort_probations (probation_views w)
    \<lparr>pb_overdue = [], pb_next7 = [], pb_next15 = [], pb_next30 = []\<rparr>"
  have s: "(\<lambda>p. p \<le> today w + 30 \<and> probation_status (today w) p = ''OVERDUE'') = (\<lambda>p. p < today w)"
    "(\<lambda>p. p \<le> today w + 30 \<and> probation_status (today w) p = ''NEXT_7_DAYS'')
       = (\<lambda>p. today w \<le> p \<and> p \<le> today w + 7)"
    "(\<lambda>p. p \<le> today w + 30 \<and> probation_status (today w) p = ''NEXT_15_DAYS'')
       = (\<lambda>p. today w + 7 < p \<and> p \<le> today w + 15)"
    "(\<lambda>p. p \<le> today w + 30 \<and> probation_status (today w) p = ''NEXT_30_DAYS'')
       = (\<lambda>p. today w + 15 < p \<and> p \<le> today w + 30)"
    by (auto simp: probation_status_def fun_eq_iff)
  have b: "pb_overdue b = ending (\<lambda>p. p < today w) w"
    "pb_next7 b = ending (\<lambda>p. today w \<le> p \<and> p \<le> today w + 7) w"
    "pb_next15 b = ending (\<lambda>p. today w + 7 < p \<and> p \<le> today w + 15) w"
    "pb_next30 b = ending (\<lambda>p. today w + 15 < p \<and> p \<le> today w + 30) w"
    by (simp_all add: b_def sort_probations_filters bucket_ending s)
  have "mset (pb_overdue b @ pb_next7 b @ pb_next15 b @ pb_next30 b) = mset (probation_views w)"
    unfolding buckets_partition [of w] by (simp add: b_def sort_probations_filters)
  with b show ?thesis
    unfolding run_probation_due b_def [symmetric] Let_def
    by (auto simp: user_ok_response_def same_tables_popped intro!: exI [of _ b])
qed

section \<open>What a timeline shows\<close>

lemma scan_events:
  "map event_json (scan_through scan_event rs)
   = (case rs of [] \<Rightarrow> [] | r # _ \<Rightarrow> [event_json (projl (scan_event r))])"
  by (cases rs) (simp_all add: scan_event_def)

lemma run_timeline:
  "run_state (handle_get_timeline i) w =
     (if db_nil w then (db_unavailable, w)
      else (data_response (if next_ok w
              then map event_json (scan_through scan_event
                (case uuid_in w i of None \<Rightarrow> [] | Some e \<Rightarrow> timeline_rows e w))
              else []), popped w))"
proof -
  have "timeline_rows e (popped w) = timeline_rows e w" for e by (simp add: timeline_rows_def)
  then show ?thesis
    by (simp add: handle_get_timeline_def run_bind run_orelse query_rows_def select_def query_def
        stmt_def split: option.split)
qed

text \<open>
  A timeline ends after one event. Of the events of an employee, however many there are, the
  answer shows the newest only, and without its time of creation: that column does not scan into a
  text, and the error, which nobody looks at, ends the loop.
\<close>

theorem timeline_shows_one:
  "let (resp, w') = run_state (handle_get_timeline i) w
   in same_tables w w'
      \<and> (resp = db_unavailable \<or> resp = data_response []
         \<or> (\<exists>e r rs. uuid_in w i = Some e \<and> timeline_rows e w = r # rs
              \<and> resp = data_response [event_json (projl (scan_event r))]
              \<and> json_field (event_json (projl (scan_event r))) ''created_at'' = Some (JStr [])))"
proof -
  have "json_field (event_json (projl (scan_event r))) ''created_at'' = Some (JStr [])" for r
    by (auto simp: event_json_def scan_event_def json_if_fields_def json_if_some_def
        map_add_def split: option.split)
  then show ?thesis
    unfolding run_timeline scan_events by (auto simp: same_tables_popped split: option.split list.split)
qed

end
