(* ===== verification/Documents.thy ===== *)
theory Documents
  imports Lifecycle
begin

text \<open>
  \<^verbatim>\<open>internal/document\<close>: document types and the documents of an employee. The creation of a
  type and the verification of a document are fixed answers.
\<close>

section \<open>Types\<close>

record document_type =
  ty_id :: string
  ty_name :: string
  ty_mandatory :: bool
  ty_expires :: bool
  ty_verified :: bool
  ty_access :: string

definition document_type_json :: "document_type \<Rightarrow> json" where
  "document_type_json t =
     JObj [(''id'', JStr (ty_id t)), (''name'', JStr (ty_name t)),
           (''is_mandatory'', JBool (ty_mandatory t)), (''has_expiry'', JBool (ty_expires t)),
           (''requires_verification'', JBool (ty_verified t)), (''access_scope'', JStr (ty_access t))]"

text \<open>The columns are scanned in turn; a NULL ends the scan and leaves the zero values after it.\<close>

definition scan_doc_type :: "doc_type_row \<Rightarrow> document_type + document_type" where
  "scan_doc_type r =
     (let part = (\<lambda>m e v. \<lparr>ty_id = dt_id r, ty_name = dt_name r, ty_mandatory = m, ty_expires = e,
                           ty_verified = v, ty_access = ''''\<rparr>)
      in case dt_mandatory r of
           None \<Rightarrow> Inl (part False False False)
         | Some m \<Rightarrow>
             (case dt_expires r of
                None \<Rightarrow> Inl (part m False False)
              | Some e \<Rightarrow>
                  (case dt_verified r of
                     None \<Rightarrow> Inl (part m e False)
                   | Some v \<Rightarrow>
                       (case dt_access r of
                          None \<Rightarrow> Inl (part m e v)
                        | Some a \<Rightarrow> Inr ((part m e v)\<lparr>ty_access := a\<rparr>)))))"

definition handle_get_types :: "('a office_world_scheme, response) state" where
  "handle_get_types = do {
     nil \<leftarrow> reads db_nil;
     err \<leftarrow> reads err_text;
     (if nil then State_Monad.return db_unavailable
      else
        orelse (select doc_types) (fail_json status_internal (''database query failed: '' @ err))
          (\<lambda>rs. State_Monad.return (user_ok_response
             [(''data'', JArr (map document_type_json (scan_through scan_doc_type rs)))])))
   }"

text \<open>The body is decoded and not used.\<close>

definition handle_create_type ::
  "claims option \<Rightarrow> document_type option \<Rightarrow> ('a conn_scheme, response) state" where
  "handle_create_type cl body =
     (if \<not> has_role cl [''SUPER_ADMIN'', ''HR_ADMIN'']
      then State_Monad.return
        (forbidden_response ''FORBIDDEN_ROLE'' ''Only HR Admins can create document types.'')
      else
        (case body of
           None \<Rightarrow> State_Monad.return (http_error ''invalid request'' status_bad_request)
         | Some req \<Rightarrow> fixed_answer (user_ok_response [(''id'', JStr ''dt-new'')])))"

section \<open>Documents of an employee\<close>

text \<open>The table \<^verbatim>\<open>employee_documents\<close> has no column \<^verbatim>\<open>document_type_id\<close>, \<^verbatim>\<open>file_url\<close> or
  \<^verbatim>\<open>file_name\<close>.\<close>

definition handle_get_employee_documents ::
  "claims option \<Rightarrow> string \<Rightarrow> ('a world_scheme, response) state" where
  "handle_get_employee_documents cl i =
     (case cl of
        None \<Rightarrow> State_Monad.return unauthorized_response
      | Some c \<Rightarrow> do {
          nil \<leftarrow> reads db_nil;
          (if nil then State_Monad.return db_unavailable
           else do {
             caller \<leftarrow> select_row (\<lambda>w. [e_id e. e \<leftarrow> employees w,
                         user_is (cl_user c) e \<or> e_id e = cl_user c]);
             (if \<not> can_view_document cl i (text_or_empty caller)
              then State_Monad.return (forbidden_response ''FORBIDDEN_RESOURCE''
                     ''You do not have permission to view these documents.'')
              else orelse no_such_column (data_response [])
                     (\<lambda>ds. State_Monad.return (data_response ds)))
           })
        })"

definition handle_verify_document :: "('a conn_scheme, response) state" where
  "handle_verify_document = fixed_answer (user_ok_response [])"

text \<open>
  Nobody sees a document. Whoever asks and whatever the tables hold, the answer for the documents
  of an employee is an error or the empty list, which is given only to an administrator or to the
  employee: the query names columns that the table does not have.
\<close>

theorem documents_never_shown:
  "let (resp, w') = run_state (handle_get_employee_documents cl i) w
   in same_tables w w' \<and>
      (if rcode resp = status_ok
       then resp = data_response []
         \<and> (has_role cl [''SUPER_ADMIN'', ''HR_ADMIN'']
            \<or> (\<exists>c e. cl = Some c \<and> e \<in> set (employees w) \<and> (user_is (cl_user c) e \<or> e_id e = cl_user c)
                 \<and> e_id e = i))
       else rcode resp \<in> {status_unauthorized, status_forbidden, status_internal})"
proof (cases cl)
  case None
  then show ?thesis by (simp add: handle_get_employee_documents_def State_Monad.return_def)
next
  case (Some c)
  define own where "own e \<longleftrightarrow> user_is (cl_user c) e \<or> e_id e = cl_user c" for e
  define Q where "Q = (\<lambda>resp w'. same_tables w w' \<and>
      (if rcode resp = status_ok
       then resp = data_response []
         \<and> (has_role cl [''SUPER_ADMIN'', ''HR_ADMIN'']
            \<or> (\<exists>c e. cl = Some c \<and> e \<in> set (employees w) \<and> (user_is (cl_user c) e \<or> e_id e = cl_user c)
                 \<and> e_id e = i))
       else rcode resp \<in> {status_unauthorized, status_forbidden, status_internal}))"
  have shown: "Q (data_response []) w'"
    if "can_view_document (Some c) i (text_or_empty caller)" "same_tables w w'"
      "caller = None \<or> (\<exists>e\<in>set (employees w). own e \<and> caller = Some (e_id e))" for caller w'
    using that unfolding Q_def Some can_view_document_def text_or_empty_def own_def
    by (auto split: if_splits option.splits)
  have errors: "Q (forbidden_response k msg) v" "Q db_unavailable v" if "same_tables w v" for k msg v
    using that by (simp_all add: Q_def)
  have answer: "wp (if \<not> can_view_document (Some c) i (text_or_empty caller)
      then State_Monad.return (forbidden_response ''FORBIDDEN_RESOURCE'' msg)
      else orelse no_such_column (data_response [])
        (\<lambda>ds. State_Monad.return (data_response ds))) Q v"
    if "same_tables w v" "caller = None \<or> (\<exists>e\<in>set (employees w). own e \<and> caller = Some (e_id e))"
    for caller msg v
    using that by (auto intro!: wp_no_such_same shown errors)
  have found: "\<exists>e\<in>set (employees w). own e \<and> Some x = Some (e_id e)"
    if "[e_id e. e \<leftarrow> employees w, user_is (cl_user c) e \<or> e_id e = cl_user c] = x # xs" for x xs
  proof -
    have "x \<in> set [e_id e. e \<leftarrow> employees w, user_is (cl_user c) e \<or> e_id e = cl_user c]"
      unfolding that by simp
    then show ?thesis by (auto simp: own_def)
  qed
  have "wp (select_row (\<lambda>w. [e_id e. e \<leftarrow> employees w, user_is (cl_user c) e \<or> e_id e = cl_user c]))
      (\<lambda>caller. wp (if \<not> can_view_document (Some c) i (text_or_empty caller)
         then State_Monad.return (forbidden_response ''FORBIDDEN_RESOURCE'' msg)
         else orelse no_such_column (data_response [])
           (\<lambda>ds. State_Monad.return (data_response ds))) Q) w" for msg
    by (rule wp_select_row_same [OF same_tables_refl], simp)
      (rule answer, assumption, use found in blast)+
  then have "wp (handle_get_employee_documents cl i) Q w"
    unfolding handle_get_employee_documents_def Some option.case
    by (simp add: errors del: wp_select_row wp_orelse)
  then show ?thesis unfolding Q_def wp_def Let_def case_prod_unfold .
qed

end
