(* ===== verification/Onboarding.thy ===== *)
theory Onboarding
  imports Lifecycle
begin

text \<open>
  \<^verbatim>\<open>internal/onboarding\<close>: templates are listed and created; the instances are read from
  \<^verbatim>\<open>onboarding_instances\<close>, a table that no migration creates (theirs is
  \<^verbatim>\<open>employee_onboarding_instances\<close>). Tasks are fixed answers.
\<close>

section \<open>Templates\<close>

text \<open>The tasks of a template are neither read nor stored.\<close>

record onboarding_template =
  tm_id :: string
  tm_name :: string
  tm_desc :: string

definition template_json :: "onboarding_template \<Rightarrow> json" where
  "template_json t =
     JObj [(''id'', JStr (tm_id t)), (''name'', JStr (tm_name t)), (''description'', JStr (tm_desc t))]"

definition template_of :: "template_row \<Rightarrow> onboarding_template" where
  "template_of r = \<lparr>tm_id = ot_id r, tm_name = ot_name r, tm_desc = text_or_empty (ot_desc r)\<rparr>"

definition handle_get_templates :: "('a office_world_scheme, response) state" where
  "handle_get_templates = do {
     nil \<leftarrow> reads db_nil;
     err \<leftarrow> reads err_text;
     (if nil then State_Monad.return db_unavailable
      else
        orelse (select templates) (fail_json status_internal (''database query failed: '' @ err))
          (\<lambda>rs. State_Monad.return (user_ok_response
             [(''data'', JArr (map (\<lambda>r. template_json (template_of r)) rs))])))
   }"

definition insert_template ::
  "onboarding_template \<Rightarrow> ('a office_world_scheme, string option) state" where
  "insert_template t = insert_row (\<lambda>i w.
     case orgs w of
       [] \<Rightarrow> None
     | g # _ \<Rightarrow>
         if i \<in> ot_id ` set (templates w) then None
         else Some (w\<lparr>templates := templates w @
                [\<lparr>ot_id = i, ot_org = g, ot_name = tm_name t, ot_desc = Some (tm_desc t)\<rparr>]\<rparr>))"

definition handle_create_template ::
  "onboarding_template option \<Rightarrow> ('a office_world_scheme, response) state" where
  "handle_create_template body =
     (case body of
        None \<Rightarrow> State_Monad.return (http_error ''invalid request'' status_bad_request)
      | Some t \<Rightarrow> do {
          nil \<leftarrow> reads db_nil;
          err \<leftarrow> reads err_text;
          (if nil then State_Monad.return db_unavailable
           else
             orelse (insert_template t)
               (fail_json status_internal (''failed to create template: '' @ err))
               (\<lambda>i. State_Monad.return
                  (respond status_created [(''success'', JBool True), (''id'', JStr i)])))
        })"

record template_task =
  tt_name :: string
  tt_desc :: string
  tt_owner :: string
  tt_days :: int

definition handle_create_template_task ::
  "template_task option \<Rightarrow> ('a conn_scheme, response) state" where
  "handle_create_template_task body =
     (case body of
        None \<Rightarrow> State_Monad.return (http_error ''invalid request'' status_bad_request)
      | Some t \<Rightarrow> fixed_answer (user_ok_response [(''id'', JStr ''tsk-new'')]))"

section \<open>Instances\<close>

record onboarding_instance =
  oi_id :: string
  oi_emp :: string
  oi_name :: string
  oi_template :: string
  oi_status :: string
  oi_progress :: int

definition instance_json :: "onboarding_instance \<Rightarrow> json" where
  "instance_json i =
     JObj [(''id'', JStr (oi_id i)), (''employee_id'', JStr (oi_emp i)),
           (''employee_name'', JStr (oi_name i)), (''template_name'', JStr (oi_template i)),
           (''status'', JStr (oi_status i)), (''progress'', JInt (oi_progress i))]"

definition handle_get_instances :: "('a conn_scheme, response) state" where
  "handle_get_instances = do {
     nil \<leftarrow> reads db_nil;
     (if nil then State_Monad.return db_unavailable
      else orelse no_such_column (data_response [])
        (\<lambda>is. State_Monad.return (data_response (map instance_json is))))
   }"

definition handle_get_instance_detail :: "string \<Rightarrow> ('a conn_scheme, response) state" where
  "handle_get_instance_detail i = do {
     nil \<leftarrow> reads db_nil;
     err \<leftarrow> reads err_text;
     (if nil then State_Monad.return db_unavailable
      else orelse no_such_column (fail_json status_not_found (''instance not found: '' @ err))
        (\<lambda>x. State_Monad.return (user_ok_response [(''data'', instance_json x)])))
   }"

definition handle_complete_task :: "('a conn_scheme, response) state" where
  "handle_complete_task = fixed_answer (user_ok_response [])"

section \<open>A template that is created is listed\<close>

lemma wp_insert_template:
  "wp (insert_template t) (\<lambda>r w'. case r of
      None \<Rightarrow> same_tables w w'
    | Some i \<Rightarrow> i \<notin> ot_id ` set (templates w) \<and>
        (\<exists>g os. w' = w\<lparr>outcomes := os,
           templates := templates w @ [\<lparr>ot_id = i, ot_org = g, ot_name = tm_name t,
             ot_desc = Some (tm_desc t)\<rparr>], issued := issued w + 1\<rparr>)) w"
  unfolding insert_template_def
  by (rule wp_insert_row_same [OF same_tables_refl])
    (auto simp: image_iff split: list.splits if_splits)

text \<open>
  A template that is created is listed. An answer 201 to the creation means that the template has
  been added under a new identifier, so that the next listing, when its query succeeds, shows the
  templates of before and, at the end, the new one with its name and description; after any other
  answer the tables are as before.
\<close>

theorem template_listed:
  "let (resp, w1) = run_state (handle_create_template body) w;
       (resp', w2) = run_state handle_get_templates w1;
       listed = map (\<lambda>r. template_json (template_of r)) (templates w)
   in (if rcode resp = status_created
       then \<exists>t i. body = Some t \<and> i \<notin> ot_id ` set (templates w)
         \<and> rfield resp ''id'' = Some (JStr i) \<and> employees w1 = employees w \<and> users w1 = users w
         \<and> (if rcode resp' = status_ok
            then resp' = data_response (listed @ [template_json (t\<lparr>tm_id := i\<rparr>)])
            else rcode resp' = status_internal)
       else same_tables w w1)"
proof -
  have created: "wp (handle_create_template body) (\<lambda>resp w1.
      if rcode resp = status_created
      then \<exists>t i g os. body = Some t \<and> i \<notin> ot_id ` set (templates w) \<and> rfield resp ''id'' = Some (JStr i)
        \<and> w1 = w\<lparr>outcomes := os,
             templates := templates w @ [\<lparr>ot_id = i, ot_org = g, ot_name = tm_name t,
               ot_desc = Some (tm_desc t)\<rparr>], issued := issued w + 1\<rparr>
      else same_tables w w1) w"
    unfolding handle_create_template_def
    by (cases body)
      (auto simp: rfield_def split: option.splits intro!: wp_mono [OF wp_insert_template])
  obtain resp w1 where one: "run_state (handle_create_template body) w = (resp, w1)"
    by (meson surj_pair)
  obtain resp' w2 where two: "run_state handle_get_templates w1 = (resp', w2)"
    by (meson surj_pair)
  have listing: "rcode resp' = status_internal \<or> resp' = data_response
      (map (\<lambda>r. template_json (template_of r)) (templates w1))"
    using two by (auto simp: handle_get_templates_def run_bind run_orelse select_def query_def
        stmt_def user_ok_response_def split: if_splits)
  show ?thesis
    using wp_run [OF created one] listing
    unfolding one Let_def prod.case two
    by (auto simp: template_of_def template_json_def text_or_empty_def split: if_splits)
qed

end
