(* ===== verification/Recruitment.thy ===== *)
theory Recruitment
  imports Users
begin

text \<open>
  \<^verbatim>\<open>internal/recruitment\<close>: openings and candidates are fixed lists, and an offer is decoded and
  acknowledged; no statement is sent.
\<close>

record job_requisition =
  jr_id :: string
  jr_title :: string
  jr_dept :: string
  jr_location :: string
  jr_status :: string
  jr_headcount :: int

definition requisition_json :: "job_requisition \<Rightarrow> json" where
  "requisition_json j =
     JObj [(''id'', JStr (jr_id j)), (''title'', JStr (jr_title j)), (''department'', JStr (jr_dept j)),
           (''location'', JStr (jr_location j)), (''status'', JStr (jr_status j)),
           (''headcount'', JInt (jr_headcount j))]"

definition job_openings :: "job_requisition list" where
  "job_openings =
     [\<lparr>jr_id = ''job-1'', jr_title = ''Senior Frontend Engineer'', jr_dept = ''Engineering'',
       jr_location = ''Bangalore'', jr_status = ''OPEN'', jr_headcount = 2\<rparr>,
      \<lparr>jr_id = ''job-2'', jr_title = ''Product Manager'', jr_dept = ''Product'',
       jr_location = ''Remote'', jr_status = ''OPEN'', jr_headcount = 1\<rparr>]"

record candidate =
  cd_id :: string
  cd_name :: string
  cd_email :: string
  cd_role :: string
  cd_status :: string

definition candidate_json :: "candidate \<Rightarrow> json" where
  "candidate_json c =
     JObj [(''id'', JStr (cd_id c)), (''name'', JStr (cd_name c)), (''email'', JStr (cd_email c)),
           (''role'', JStr (cd_role c)), (''status'', JStr (cd_status c))]"

definition candidates :: "candidate list" where
  "candidates =
     [\<lparr>cd_id = ''cand-1'', cd_name = ''Rahul Sharma'', cd_email = ''rahul@example.com'',
       cd_role = ''Senior Frontend Engineer'', cd_status = ''APPLIED''\<rparr>,
      \<lparr>cd_id = ''cand-2'', cd_name = ''Priya Patel'', cd_email = ''priya@example.com'',
       cd_role = ''Senior Frontend Engineer'', cd_status = ''INTERVIEWING''\<rparr>,
      \<lparr>cd_id = ''cand-3'', cd_name = ''Amit Kumar'', cd_email = ''amit@example.com'',
       cd_role = ''Product Manager'', cd_status = ''OFFERED''\<rparr>,
      \<lparr>cd_id = ''cand-4'', cd_name = ''Sneha Gupta'', cd_email = ''sneha@example.com'',
       cd_role = ''Product Manager'', cd_status = ''HIRED''\<rparr>]"

record offer_request =
  of_candidate :: string
  of_salary :: float64

definition handle_get_jobs :: "('w, response) state" where
  "handle_get_jobs = State_Monad.return (data_response (map requisition_json job_openings))"

definition handle_get_candidates :: "('w, response) state" where
  "handle_get_candidates = State_Monad.return (data_response (map candidate_json candidates))"

definition handle_create_offer :: "offer_request option \<Rightarrow> ('w, response) state" where
  "handle_create_offer body = State_Monad.return
     (case body of
        None \<Rightarrow> http_error ''invalid request'' status_bad_request
      | Some r \<Rightarrow> respond status_created
          [(''success'', JBool True),
           (''message'', JStr ''Offer letter generated and workflow triggered.'')])"

end
