(* ===== verification/Performance.thy ===== *)
theory Performance
  imports Employees
begin

text \<open>
  \<^verbatim>\<open>internal/performance\<close>: cycles, goals, reviews and improvement plans. The listings are
  fixed, the creations answer with what was sent and nothing is stored. The identifiers of
  \<^verbatim>\<open>google/uuid\<close> are a parameter, and \<open>err\<close> is the message of the decoder.
\<close>

section \<open>The data\<close>

record cycle =
  cy_id :: string
  cy_title :: string
  cy_start :: string
  cy_end :: string
  cy_status :: string
  cy_created :: int

record goal =
  gl_id :: string
  gl_emp :: string
  gl_name :: string
  gl_cycle :: "string option"
  gl_title :: string
  gl_desc :: string
  gl_category :: string
  gl_target :: float64
  gl_current :: float64
  gl_weight :: int
  gl_status :: string

record review =
  rw_id :: string
  rw_cycle :: string
  rw_title :: string
  rw_emp :: string
  rw_name :: string
  rw_reviewer :: "string option"
  rw_self :: "float64 option"
  rw_self_comments :: string
  rw_manager :: "float64 option"
  rw_manager_comments :: string
  rw_score :: "float64 option"
  rw_status :: string

record pip_plan =
  pi_id :: string
  pi_emp :: string
  pi_name :: string
  pi_manager :: "string option"
  pi_reason :: string
  pi_start :: string
  pi_end :: string
  pi_status :: string
  pi_remarks :: string
  pi_created :: int

definition cycle_json :: "cycle \<Rightarrow> json" where
  "cycle_json c =
     JObj [(''id'', JStr (cy_id c)), (''title'', JStr (cy_title c)), (''start_date'', JStr (cy_start c)),
           (''end_date'', JStr (cy_end c)), (''status'', JStr (cy_status c)),
           (''created_at'', JStr (show_rfc3339 (cy_created c)))]"

definition goal_json :: "goal \<Rightarrow> json" where
  "goal_json g =
     JObj ([(''id'', JStr (gl_id g)), (''employee_id'', JStr (gl_emp g))]
           @ nonempty_field ''employee_name'' (gl_name g)
           @ [(''cycle_id'', json_or_null (gl_cycle g)), (''title'', JStr (gl_title g)),
              (''description'', JStr (gl_desc g)), (''category'', JStr (gl_category g)),
              (''target_value'', JNum (gl_target g)), (''current_value'', JNum (gl_current g)),
              (''weightage'', JInt (gl_weight g)), (''status'', JStr (gl_status g))])"

definition rating_json :: "float64 option \<Rightarrow> json" where
  "rating_json x = (case x of None \<Rightarrow> JNull | Some r \<Rightarrow> JNum r)"

definition review_json :: "review \<Rightarrow> json" where
  "review_json r =
     JObj ([(''id'', JStr (rw_id r)), (''cycle_id'', JStr (rw_cycle r))]
           @ nonempty_field ''cycle_title'' (rw_title r) @ [(''employee_id'', JStr (rw_emp r))]
           @ nonempty_field ''employee_name'' (rw_name r)
           @ [(''reviewer_id'', json_or_null (rw_reviewer r)), (''self_rating'', rating_json (rw_self r)),
              (''self_comments'', JStr (rw_self_comments r)),
              (''manager_rating'', rating_json (rw_manager r)),
              (''manager_comments'', JStr (rw_manager_comments r)),
              (''final_score'', rating_json (rw_score r)), (''status'', JStr (rw_status r))])"

definition pip_json :: "pip_plan \<Rightarrow> json" where
  "pip_json p =
     JObj ([(''id'', JStr (pi_id p)), (''employee_id'', JStr (pi_emp p))]
           @ nonempty_field ''employee_name'' (pi_name p)
           @ [(''manager_id'', json_or_null (pi_manager p)), (''reason'', JStr (pi_reason p)),
              (''start_date'', JStr (pi_start p)), (''end_date'', JStr (pi_end p)),
              (''status'', JStr (pi_status p)), (''remarks'', JStr (pi_remarks p)),
              (''created_at'', JStr (show_rfc3339 (pi_created p)))])"

section \<open>The fixed lists\<close>

text \<open>\<^verbatim>\<open>time.Now().AddDate(0, n, 0)\<close>.\<close>

definition months_from :: "int \<Rightarrow> int \<Rightarrow> int" where
  "months_from t n = add_months (date_of t) n * nanos_per_day + t mod nanos_per_day"

definition fixed_cycles :: "int \<Rightarrow> cycle list" where
  "fixed_cycles t =
     [\<lparr>cy_id = ''c0111111-1111-1111-1111-111111111111'', cy_title = ''FY26 Annual Performance Review'',
       cy_start = ''2026-04-01'', cy_end = ''2027-03-31'', cy_status = ''ACTIVE'',
       cy_created = months_from t (- 2)\<rparr>,
      \<lparr>cy_id = ''c0222222-2222-2222-2222-222222222222'', cy_title = ''Q2 2026 Mid-Year Check-in'',
       cy_start = ''2026-07-01'', cy_end = ''2026-09-30'', cy_status = ''REVIEW_IN_PROGRESS'',
       cy_created = months_from t (- 1)\<rparr>]"

definition fixed_goals :: "goal list" where
  "fixed_goals =
     [\<lparr>gl_id = ''g0111111-1111-1111-1111-111111111111'',
       gl_emp = ''e0111111-1111-1111-1111-111111111111'', gl_name = ''Aarav Sharma'', gl_cycle = None,
       gl_title = ''Deliver Enterprise HRMS Microservices Architecture'',
       gl_desc = ''Refactor core modules to Go microservices with sub-50ms p99 latency.'',
       gl_category = ''INDIVIDUAL'', gl_target = 100, gl_current = 85, gl_weight = 40,
       gl_status = ''IN_PROGRESS''\<rparr>,
      \<lparr>gl_id = ''g0222222-2222-2222-2222-222222222222'',
       gl_emp = ''e0111111-1111-1111-1111-111111111111'', gl_name = ''Aarav Sharma'', gl_cycle = None,
       gl_title = ''Achieve 95%+ Unit Test Coverage across Frontend Core'',
       gl_desc = ''Implement automated end-to-end component testing.'',
       gl_category = ''TEAM'', gl_target = 95, gl_current = 92, gl_weight = 30,
       gl_status = ''IN_PROGRESS''\<rparr>,
      \<lparr>gl_id = ''g0333333-3333-3333-3333-333333333333'',
       gl_emp = ''e0222222-2222-2222-2222-222222222222'', gl_name = ''Priya Patel'', gl_cycle = None,
       gl_title = ''Automate Indian Statutory Tax Computation Engine'',
       gl_desc = ''Integrate Tax Regime 2026/27 deductions into payroll processing.'',
       gl_category = ''INDIVIDUAL'', gl_target = 100, gl_current = 100, gl_weight = 30,
       gl_status = ''COMPLETED''\<rparr>]"

definition fixed_reviews :: "review list" where
  "fixed_reviews =
     [\<lparr>rw_id = ''r0111111-1111-1111-1111-111111111111'',
       rw_cycle = ''c0111111-1111-1111-1111-111111111111'', rw_title = ''FY26 Annual Performance Review'',
       rw_emp = ''e0111111-1111-1111-1111-111111111111'', rw_name = ''Aarav Sharma'', rw_reviewer = None,
       rw_self = Some (fl (45 / 10)),
       rw_self_comments = ''Successfully delivered core microservices and optimized API throughput.'',
       rw_manager = Some (fl (48 / 10)),
       rw_manager_comments = ''Exceptional technical execution and leadership during major release.'',
       rw_score = Some (fl (465 / 100)), rw_status = ''SUBMITTED_MANAGER''\<rparr>,
      \<lparr>rw_id = ''r0222222-2222-2222-2222-222222222222'',
       rw_cycle = ''c0111111-1111-1111-1111-111111111111'', rw_title = ''FY26 Annual Performance Review'',
       rw_emp = ''e0222222-2222-2222-2222-222222222222'', rw_name = ''Priya Patel'', rw_reviewer = None,
       rw_self = Some (fl (40 / 10)),
       rw_self_comments = ''Automated payroll statutory compliance engine ahead of deadline.'',
       rw_manager = Some (fl (42 / 10)),
       rw_manager_comments = ''Great domain expertise and attention to regulatory details.'',
       rw_score = None, rw_status = ''SUBMITTED_SELF''\<rparr>]"

definition fixed_pips :: "int \<Rightarrow> pip_plan list" where
  "fixed_pips t =
     [\<lparr>pi_id = ''p0111111-1111-1111-1111-111111111111'',
       pi_emp = ''e0333333-3333-3333-3333-333333333333'', pi_name = ''Vikram Malhotra'', pi_manager = None,
       pi_reason = ''Underperformance in Q2 SLA targets and missed sprint deliverables.'',
       pi_start = ''2026-08-01'', pi_end = ''2026-10-31'', pi_status = ''ACTIVE'',
       pi_remarks = ''Bi-weekly performance check-ins scheduled with engineering manager.'',
       pi_created = months_from t (- 1)\<rparr>]"

section \<open>The handlers\<close>

definition data_only :: "json \<Rightarrow> response" where
  "data_only j = respond status_ok [(''data'', j)]"

definition data_message :: "json \<Rightarrow> string \<Rightarrow> response" where
  "data_message j msg = respond status_ok [(''data'', j), (''message'', JStr msg)]"

definition handle_get_cycles :: "('a conn_scheme, response) state" where
  "handle_get_cycles = do {
     t \<leftarrow> reads now;
     State_Monad.return (data_only (JArr (map cycle_json (fixed_cycles t))))
   }"

record cycle_request =
  cq_title :: string
  cq_start :: string
  cq_end :: string

text \<open>What the four creations share: the decoder's error, or the answer made from the input.\<close>

definition echoed :: "string \<Rightarrow> ('v \<Rightarrow> int \<Rightarrow> response) \<Rightarrow> 'v option \<Rightarrow> ('a conn_scheme, response) state" where
  "echoed err k body =
     (case body of
        None \<Rightarrow> State_Monad.return (http_error err status_bad_request)
      | Some v \<Rightarrow> do { t \<leftarrow> reads now; State_Monad.return (k v t) })"

definition handle_create_cycle ::
  "string \<Rightarrow> string \<Rightarrow> cycle_request option \<Rightarrow> ('a conn_scheme, response) state" where
  "handle_create_cycle uuid err = echoed err (\<lambda>c t. data_message
     (cycle_json \<lparr>cy_id = uuid, cy_title = cq_title c, cy_start = cq_start c, cy_end = cq_end c,
        cy_status = ''ACTIVE'', cy_created = t\<rparr>)
     ''Cycle created successfully'')"

definition handle_get_goals :: "('w, response) state" where
  "handle_get_goals = State_Monad.return (data_only (JArr (map goal_json fixed_goals)))"

definition handle_create_goal ::
  "string \<Rightarrow> string \<Rightarrow> goal option \<Rightarrow> ('a conn_scheme, response) state" where
  "handle_create_goal uuid err = echoed err (\<lambda>g t. data_message
     (goal_json (g\<lparr>gl_id := uuid, gl_status := ''IN_PROGRESS''\<rparr>)) ''Goal created successfully'')"

record goal_progress =
  gp_current :: float64
  gp_status :: string

definition handle_update_goal ::
  "string \<Rightarrow> string \<Rightarrow> goal_progress option \<Rightarrow> ('a conn_scheme, response) state" where
  "handle_update_goal i err = echoed err (\<lambda>p t. respond status_ok
     [(''id'', JStr i), (''current_value'', JNum (gp_current p)), (''status'', JStr (gp_status p)),
      (''message'', JStr ''Goal progress updated'')])"

definition handle_get_reviews :: "('w, response) state" where
  "handle_get_reviews = State_Monad.return (data_only (JArr (map review_json fixed_reviews)))"

definition handle_save_review ::
  "string \<Rightarrow> string \<Rightarrow> review option \<Rightarrow> ('a conn_scheme, response) state" where
  "handle_save_review uuid err = echoed err (\<lambda>r t. data_message
     (review_json (r\<lparr>rw_id := uuid, rw_status := ''SUBMITTED_SELF''\<rparr>)) ''Review submitted successfully'')"

definition handle_get_pip_plans :: "('a conn_scheme, response) state" where
  "handle_get_pip_plans = do {
     t \<leftarrow> reads now;
     State_Monad.return (data_only (JArr (map pip_json (fixed_pips t))))
   }"

definition handle_create_pip_plan ::
  "string \<Rightarrow> string \<Rightarrow> pip_plan option \<Rightarrow> ('a conn_scheme, response) state" where
  "handle_create_pip_plan uuid err = echoed err (\<lambda>p t. data_message
     (pip_json (p\<lparr>pi_id := uuid, pi_status := ''ACTIVE'', pi_created := t\<rparr>))
     ''PIP plan created successfully'')"

end
