(* ===== verification/Reports.thy ===== *)
theory Reports
  imports Employees
begin

text \<open>
  \<^verbatim>\<open>internal/reports\<close>: the dashboard of a caller's first role, computed from the tables with every
  error ignored; the quality report and the exports are fixed texts. The order of the groups of a
  \<^verbatim>\<open>GROUP BY\<close> is the server's; here they come in the order of the table.
\<close>

section \<open>What the dashboards share\<close>

text \<open>\<^verbatim>\<open>getEmployeeID\<close>.\<close>

definition reports_employee_id :: "string \<Rightarrow> ('a world_scheme, string option) state" where
  "reports_employee_id uid = query_row (\<lambda>w. map_option
     (\<lambda>u. map e_id (filter (\<lambda>e. e_user e = Some u \<and> \<not> e_deleted e) (employees w))) (uuid_in w uid))"

text \<open>\<^verbatim>\<open>TO_CHAR(t, 'HH24:MI')\<close> and \<^verbatim>\<open>Format("15:04")\<close>.\<close>

definition show_hour_minute :: "int \<Rightarrow> string" where
  "show_hour_minute t = take 5 (show_clock t)"

definition team_of :: "string \<Rightarrow> employee_row \<Rightarrow> bool" where
  "team_of m e \<longleftrightarrow> e_reports e = Some m \<or> e_manager e = Some m"

definition feed_entry :: "raw_punch_row \<times> employee_row \<Rightarrow> json" where
  "feed_entry pe =
     (case pe of (p, e) \<Rightarrow>
        JObj [(''time'', JStr (show_hour_minute (rp_time p))),
              (''text'', JStr (e_code e @ '' ('' @ full_name e @ '') '' @ rp_type p @ '' via ''
                 @ rp_provider p))])"

text \<open>The last five punches of today, of everybody or of one employee and the team.\<close>

definition feed_rows :: "(employee_row \<Rightarrow> bool) \<Rightarrow> 'a att_world_scheme \<Rightarrow> (raw_punch_row \<times> employee_row) list"
  where
  "feed_rows shown w =
     take 5 (sort_key (\<lambda>(p, e). - rp_time p)
       [(p, e). p \<leftarrow> raw_punches w, e \<leftarrow> employees w,
          rp_emp p = e_id e \<and> date_of (rp_time p) = today w \<and> shown e])"

definition activity_feed :: "string \<Rightarrow> ('a att_world_scheme, json list) state" where
  "activity_feed m = do {
     t \<leftarrow> reads now;
     rows \<leftarrow> query_rows (\<lambda>w.
       if m = '''' then Some (feed_rows (\<lambda>_. True) w)
       else map_option (\<lambda>u. feed_rows (\<lambda>e. e_id e = u \<or> team_of u e) w) (uuid_in w m));
     State_Monad.return
       (case map feed_entry (case rows of None \<Rightarrow> [] | Some rs \<Rightarrow> rs) of
          [] \<Rightarrow> [JObj [(''time'', JStr (show_hour_minute t)),
                      (''text'', JStr ''System ready. No recent activity.'')]]
        | es \<Rightarrow> es)
   }"

text \<open>\<^verbatim>\<open>SELECT name, COUNT(id) ... GROUP BY name\<close> over the names of the joined rows.\<close>

definition count_by :: "string list \<Rightarrow> (string \<times> nat) list" where
  "count_by ns = map (\<lambda>n. (n, count_list ns n)) (remdups ns)"

definition count_json :: "string \<times> nat \<Rightarrow> json" where
  "count_json nc = JObj [(''name'', JStr (fst nc)), (''count'', JInt (int (snd nc)))]"

text \<open>The fallback of an empty list of counts.\<close>

definition counts_or :: "string \<Rightarrow> int \<Rightarrow> (string \<times> nat) list option \<Rightarrow> json list" where
  "counts_or name tot cs =
     (case cs of
        Some (c # cs) \<Rightarrow> map count_json (c # cs)
      | _ \<Rightarrow> [JObj [(''name'', JStr name), (''count'', JInt tot)]])"

definition counted :: "('a world_scheme \<Rightarrow> int option) \<Rightarrow> ('a world_scheme, int) state" where
  "counted f = or_zero (query f)"

section \<open>The dashboard of an administrator\<close>

definition is_active :: "employee_row \<Rightarrow> bool" where
  "is_active e \<longleftrightarrow> e_status e = ''ACTIVE''"

definition department_headcount :: "'a world_scheme \<Rightarrow> (string \<times> nat) list" where
  "department_headcount w =
     count_by [n. (d, n) \<leftarrow> departments w, e \<leftarrow> employees w, e_dept e = Some d \<and> is_active e]"

text \<open>
  The net pay of the slips of this year as a double; no slip at all, a sum of zero and an error give
  the figure of the example.
\<close>

definition paid_this_year :: "('a world_scheme, float64) state" where
  "paid_this_year = do {
     s \<leftarrow> select (\<lambda>w.
       let start = days_of (year_of (today w)) 1 1 * nanos_per_day;
           slips = filter (\<lambda>p. ps_created p \<ge> start) (payslips w)
       in if slips = [] then 4120000 else fl (sum_list (map ps_net slips)));
     State_Monad.return (case s of None \<Rightarrow> 4120000 | Some x \<Rightarrow> if x = 0 then 4120000 else x)
   }"

definition admin_dashboard :: "('a att_world_scheme, json) state" where
  "admin_dashboard = do {
     tot \<leftarrow> counted (\<lambda>w. Some (int (count_where is_active (employees w))));
     pending \<leftarrow> counted (\<lambda>w. Some (int (count_where (\<lambda>l. la_status l = ''PENDING'') (leaves w))));
     pay \<leftarrow> paid_this_year;
     heads \<leftarrow> select department_headcount;
     feed \<leftarrow> activity_feed '''';
     State_Monad.return (JObj
       [(''total_employees'', JInt tot), (''open_jobs'', JInt 14), (''pending_approvals'', JInt pending),
        (''total_payroll'', JNum pay), (''headcount_data'', JArr (counts_or ''General'' tot heads)),
        (''activity_feed'', JArr feed)])
   }"

section \<open>The dashboard of a manager\<close>

text \<open>
  AND binds closer than OR: \<^verbatim>\<open>reporting_manager_id = $1 OR manager_id = $1 AND status = 'ACTIVE'\<close>
  tests the state of the second half only.
\<close>

definition team_counted :: "string \<Rightarrow> employee_row \<Rightarrow> bool" where
  "team_counted m e \<longleftrightarrow> e_reports e = Some m \<or> e_manager e = Some m \<and> is_active e"

definition team_leaves :: "string \<Rightarrow> 'a world_scheme \<Rightarrow> nat" where
  "team_leaves m w =
     length [l. l \<leftarrow> leaves w, e \<leftarrow> employees w, la_emp l = e_id e \<and> team_of m e \<and> la_status l = ''PENDING'']"

definition designation_headcount :: "string \<Rightarrow> 'a world_scheme \<Rightarrow> (string \<times> nat) list" where
  "designation_headcount m w =
     count_by [n. (d, n) \<leftarrow> designation_names w, e \<leftarrow> employees w,
       e_desig e = Some d \<and> team_of m e \<and> is_active e]"

definition manager_dashboard :: "string \<Rightarrow> ('a att_world_scheme, json) state" where
  "manager_dashboard uid = do {
     m \<leftarrow> reports_employee_id uid;
     (case m of
        None \<Rightarrow> State_Monad.return (JObj [])
      | Some emp \<Rightarrow> do {
          team \<leftarrow> counted (\<lambda>w. map_option (\<lambda>u. int (count_where (team_counted u) (employees w))) (uuid_in w emp));
          pending \<leftarrow> counted (\<lambda>w. map_option (\<lambda>u. int (team_leaves u w)) (uuid_in w emp));
          desigs \<leftarrow> query_rows (\<lambda>w. map_option (\<lambda>u. designation_headcount u w) (uuid_in w emp));
          feed \<leftarrow> activity_feed emp;
          State_Monad.return (JObj
            [(''total_team_members'', JInt team), (''pending_approvals'', JInt pending),
             (''team_attendance'', JInt 95), (''designation_data'', JArr (counts_or ''Team'' team desigs)),
             (''activity_feed'', JArr feed)])
        })
   }"

section \<open>The dashboard of an employee\<close>

text \<open>\<^verbatim>\<open>leave_balances\<close> has no column \<^verbatim>\<open>leave_type\<close>.\<close>

definition employee_dashboard :: "string \<Rightarrow> ('a att_world_scheme, json) state" where
  "employee_dashboard uid = do {
     m \<leftarrow> reports_employee_id uid;
     (case m of
        None \<Rightarrow> State_Monad.return (JObj [])
      | Some emp \<Rightarrow> do {
          pending \<leftarrow> counted (\<lambda>w. map_option
            (\<lambda>u. int (count_where (\<lambda>l. la_emp l = u \<and> la_status l = ''PENDING'') (leaves w))) (uuid_in w emp));
          casual \<leftarrow> or_zero no_such_column;
          sick \<leftarrow> or_zero no_such_column;
          feed \<leftarrow> activity_feed emp;
          State_Monad.return (JObj
            [(''my_attendance_rate'', JInt 98), (''pending_requests'', JInt pending),
             (''casual_leave'', JInt casual), (''sick_leave'', JInt sick), (''activity_feed'', JArr feed)])
        })
   }"

definition dashboard_role :: "claims \<Rightarrow> string" where
  "dashboard_role c = (case cl_roles c of [] \<Rightarrow> ''EMPLOYEE'' | r # _ \<Rightarrow> r)"

definition handle_get_dashboard :: "claims option \<Rightarrow> ('a att_world_scheme, response) state" where
  "handle_get_dashboard cl =
     (case cl of
        None \<Rightarrow> State_Monad.return (http_error ''Unauthorized'' status_unauthorized)
      | Some c \<Rightarrow> do {
          nil \<leftarrow> reads db_nil;
          (if nil then State_Monad.return panicked
           else do {
             d \<leftarrow> (if dashboard_role c \<in> {''SUPER_ADMIN'', ''HR_ADMIN''} then admin_dashboard
                  else if dashboard_role c = ''MANAGER'' then manager_dashboard (cl_user c)
                  else employee_dashboard (cl_user c));
             State_Monad.return (user_ok_response [(''data'', d), (''role'', JStr (dashboard_role c))])
           })
        })"

section \<open>Data quality and exports\<close>

record quality_issue =
  qi_id :: string
  qi_emp :: string
  qi_name :: string
  qi_dept :: string
  qi_type :: string
  qi_severity :: string
  qi_desc :: string
  qi_url :: string

definition issue_json :: "quality_issue \<Rightarrow> json" where
  "issue_json i =
     JObj [(''id'', JStr (qi_id i)), (''employee_id'', JStr (qi_emp i)),
           (''employee_name'', JStr (qi_name i)), (''department'', JStr (qi_dept i)),
           (''issue_type'', JStr (qi_type i)), (''severity'', JStr (qi_severity i)),
           (''description'', JStr (qi_desc i)), (''fix_url'', JStr (qi_url i))]"

definition fixed_issues :: "quality_issue list" where
  "fixed_issues =
     [\<lparr>qi_id = ''issue-1'', qi_emp = ''EMP-1088'', qi_name = ''Bob Smith'', qi_dept = ''Design'',
       qi_type = ''MISSING_MANAGER'', qi_severity = ''HIGH'',
       qi_desc = ''Reporting manager not assigned in org chart'', qi_url = ''/employees/EMP-1088''\<rparr>,
      \<lparr>qi_id = ''issue-2'', qi_emp = ''EMP-1090'', qi_name = ''Carol Danvers'', qi_dept = ''Product'',
       qi_type = ''MISSING_PAN'', qi_severity = ''HIGH'',
       qi_desc = ''PAN Card details missing for statutory TDS calculation'',
       qi_url = ''/employees/EMP-1090''\<rparr>,
      \<lparr>qi_id = ''issue-3'', qi_emp = ''EMP-1024'', qi_name = ''Alice Walker'', qi_dept = ''Engineering'',
       qi_type = ''MISSING_SHIFT'', qi_severity = ''MEDIUM'',
       qi_desc = ''Work shift policy default fallback active'', qi_url = ''/employees/EMP-1024''\<rparr>,
      \<lparr>qi_id = ''issue-4'', qi_emp = ''EMP-1010'', qi_name = ''David Miller'', qi_dept = ''Sales'',
       qi_type = ''MISSING_BANK'', qi_severity = ''HIGH'',
       qi_desc = ''Bank IFSC & Account Number pending verification'', qi_url = ''/employees/EMP-1010''\<rparr>,
      \<lparr>qi_id = ''issue-5'', qi_emp = ''EMP-1095'', qi_name = ''Eva Green'', qi_dept = ''Finance'',
       qi_type = ''DUPLICATE_EMAIL'', qi_severity = ''HIGH'',
       qi_desc = ''Corporate email conflicts with secondary alias record'',
       qi_url = ''/employees/EMP-1095''\<rparr>]"

definition quality_summary :: json where
  "quality_summary =
     JObj [(''health_score'', JInt 94), (''total_employees'', JInt 128), (''clean_record_count'', JInt 123),
           (''total_issues_count'', JInt 5), (''missing_manager_count'', JInt 1),
           (''missing_bank_pan_count'', JInt 2), (''missing_shift_count'', JInt 1),
           (''duplicate_email_count'', JInt 1), (''missing_docs_count'', JInt 0),
           (''issues'', JArr (map issue_json fixed_issues))]"

definition handle_get_data_quality :: "('w, response) state" where
  "handle_get_data_quality = State_Monad.return (user_ok_response [(''data'', quality_summary)])"

text \<open>\<^verbatim>\<open>writeReportCSV\<close>, the records it writes.\<close>

definition report_csv :: "string \<Rightarrow> string list list" where
  "report_csv ty =
     (if ty = ''headcount'' then
        [[''Employee ID'', ''Name'', ''Department'', ''Designation'', ''Joining Date'', ''Status''],
         [''EMP-1024'', ''Alice Walker'', ''Engineering'', ''Senior Engineer'', ''2024-01-15'', ''ACTIVE''],
         [''EMP-1088'', ''Bob Smith'', ''Design'', ''UI Lead'', ''2024-03-01'', ''ACTIVE''],
         [''EMP-1090'', ''Carol Danvers'', ''Product'', ''Product Manager'', ''2024-05-10'', ''ACTIVE'']]
      else if ty = ''payroll'' then
        [[''Employee ID'', ''Name'', ''Basic Pay'', ''HRA'', ''Gross Pay'', ''Deductions'', ''Net Disbursed''],
         [''EMP-1024'', ''Alice Walker'', ''45000'', ''22500'', ''80000'', ''10200'', ''69800''],
         [''EMP-1088'', ''Bob Smith'', ''40000'', ''20000'', ''70000'', ''6833'', ''63167'']]
      else if ty = ''attendance'' then
        [[''Employee ID'', ''Name'', ''Total Days'', ''Present'', ''Absent'', ''LOP Days'', ''OT Hours''],
         [''EMP-1024'', ''Alice Walker'', ''31'', ''22'', ''0'', ''0'', ''4.5''],
         [''EMP-1088'', ''Bob Smith'', ''31'', ''20'', ''2'', ''1.0'', ''0.0'']]
      else if ty = ''leave'' then
        [[''Employee ID'', ''Name'', ''Casual Leave'', ''Sick Leave'', ''Earned Leave'', ''Encashable Days''],
         [''EMP-1024'', ''Alice Walker'', ''8.0'', ''6.0'', ''12.0'', ''10.0''],
         [''EMP-1088'', ''Bob Smith'', ''6.5'', ''5.0'', ''10.0'', ''8.0'']]
      else if ty = ''tax'' then
        [[''Employee ID'', ''Name'', ''Annual Gross'', ''80C Deductions'', ''80D Deductions'',
          ''Taxable Income'', ''TDS Deducted''],
         [''EMP-1024'', ''Alice Walker'', ''1200000'', ''150000'', ''25000'', ''1025000'', ''117500''],
         [''EMP-1088'', ''Bob Smith'', ''960000'', ''150000'', ''20000'', ''790000'', ''70500'']]
      else [[''Field 1'', ''Field 2'', ''Field 3''], [''Data 1'', ''Data 2'', ''Data 3'']])"

definition report_row ::
  "string \<Rightarrow> string \<Rightarrow> string \<Rightarrow> string \<Rightarrow> string \<Rightarrow> string \<Rightarrow> json" where
  "report_row code name dept desig joined status =
     JObj [(''employee_id'', JStr code), (''name'', JStr name), (''department'', JStr dept),
           (''designation'', JStr desig), (''joining_date'', JStr joined), (''status'', JStr status)]"

definition report_json :: "string \<Rightarrow> int \<Rightarrow> json" where
  "report_json ty t =
     JObj [(''report_type'', JStr ty), (''generated_at'', JStr (show_rfc3339 t)),
           (''total_records'', JInt 128),
           (''columns'', JArr (map JStr
             [''Employee ID'', ''Name'', ''Department'', ''Designation'', ''Joining Date'', ''Status''])),
           (''rows'', JArr
             [report_row ''EMP-1024'' ''Alice Walker'' ''Engineering'' ''Senior Engineer'' ''2024-01-15'' ''ACTIVE'',
              report_row ''EMP-1088'' ''Bob Smith'' ''Design'' ''UI Lead'' ''2024-03-01'' ''ACTIVE'',
              report_row ''EMP-1090'' ''Carol Danvers'' ''Product'' ''Product Manager'' ''2024-05-10'' ''ACTIVE'',
              report_row ''EMP-1010'' ''David Miller'' ''Sales'' ''Sales Executive'' ''2024-06-01'' ''CONFIRMED''])]"

text \<open>The spreadsheet is the CSV text, and the PDF is three lines of text.\<close>

definition report_pdf :: "string \<Rightarrow> int \<Rightarrow> string" where
  "report_pdf ty t =
     ''%PDF-1.4 %Enterprise HRMS Report: '' @ ty @ [CHR 0x0A] @ ''Generated: '' @ show_time t
       @ [CHR 0x0A] @ ''Total Records: 128'' @ [CHR 0x0A]"

definition handle_export_report :: "claims option \<Rightarrow> url_query \<Rightarrow> ('a conn_scheme, response) state" where
  "handle_export_report cl q =
     (if cl = None \<or> \<not> can_export_reports cl
      then State_Monad.return (forbidden_response ''FORBIDDEN_ROLE''
             ''Only HR/Payroll Administrators can export organizational reports.'')
      else do {
        t \<leftarrow> reads now;
        let ty = (if q ''type'' = '''' then ''headcount'' else q ''type'');
        State_Monad.return
          (if q ''format'' \<in> {''csv'', ''xlsx'', ''excel''} then \<lparr>rcode = status_ok, rbody = Csv (report_csv ty)\<rparr>
           else if q ''format'' = ''pdf'' then \<lparr>rcode = status_ok, rbody = Plain (report_pdf ty t)\<rparr>
           else user_ok_response [(''data'', report_json ty t)])
      })"

section \<open>What the counts say\<close>

lemma sum_count_by: "sum_list (map snd (count_by ns)) = length ns"
proof -
  have "sum_list (map snd (count_by ns)) = sum_list (map (count_list ns) (remdups ns))"
    by (simp add: count_by_def o_def)
  also have "\<dots> = (\<Sum>n\<in>set ns. count_list ns n)"
    by (simp add: sum_list_distinct_conv_sum_set)
  also have "\<dots> = length ns" by (simp add: sum_count_set)
  finally show ?thesis .
qed

lemma length_joined:
  assumes "distinct (map fst ds)"
  shows "length [n. (d, n) \<leftarrow> ds, e \<leftarrow> es, e_dept e = Some d \<and> P e]
    = length (filter (\<lambda>e. P e \<and> (\<exists>d\<in>fst ` set ds. e_dept e = Some d)) es)"
  using assms
proof (induction ds)
  case (Cons x ds)
  obtain d n where x: "x = (d, n)" by fastforce
  have new: "d \<notin> fst ` set ds" using Cons.prems by (simp add: x)
  have "length (concat (map (\<lambda>e. if e_dept e = Some d \<and> P e then [n] else []) es))
      = length (filter (\<lambda>e. P e \<and> e_dept e = Some d) es)"
    by (induction es) auto
  moreover have "length (filter (\<lambda>e. P e \<and> (\<exists>d\<in>fst ` set (x # ds). e_dept e = Some d)) es)
      = length (filter (\<lambda>e. P e \<and> e_dept e = Some d) es)
        + length (filter (\<lambda>e. P e \<and> (\<exists>d\<in>fst ` set ds. e_dept e = Some d)) es)"
    using new by (induction es) (auto simp: x)
  ultimately show ?case using Cons by (simp add: x)
qed simp

lemma run_admin_dashboard:
  assumes "outcomes w = []"
  shows "\<exists>pending pay feed. run_state admin_dashboard w =
    (JObj [(''total_employees'', JInt (int (count_where is_active (employees w)))), (''open_jobs'', JInt 14),
           (''pending_approvals'', pending), (''total_payroll'', pay),
           (''headcount_data'', JArr (counts_or ''General'' (int (count_where is_active (employees w)))
              (Some (department_headcount w)))),
           (''activity_feed'', feed)], w)"
proof -
  obtain pay where pay: "run_state paid_this_year w = (pay, w)"
    using assms by (simp add: paid_this_year_def run_calm)
  obtain feed where "run_state (activity_feed '''') w = (feed, w)"
    using assms by (simp add: activity_feed_def run_calm)
  with pay show ?thesis
    using assms by (simp add: admin_dashboard_def counted_def or_zero_def run_calm)
qed

text \<open>
  The head count of the administrators' dashboard adds up. The answer lists each department name
  with its number of ACTIVE employees, and these numbers together with the ACTIVE employees of no
  department make the total that the answer states.
\<close>

theorem headcount_adds_up:
  assumes "outcomes w = []" "\<not> db_nil w" "dashboard_role c \<in> {''SUPER_ADMIN'', ''HR_ADMIN''}"
    and "distinct (map fst (departments w))" "department_headcount w \<noteq> []"
  shows "\<exists>d heads homeless. run_state (handle_get_dashboard (Some c)) w
      = (user_ok_response [(''data'', d), (''role'', JStr (dashboard_role c))], w)
    \<and> json_field d ''headcount_data'' = Some (JArr (map count_json heads)) \<and> distinct (map fst heads)
    \<and> homeless = count_where (\<lambda>e. is_active e \<and> (\<forall>d\<in>fst ` set (departments w). e_dept e \<noteq> Some d)) (employees w)
    \<and> json_field d ''total_employees'' = Some (JInt (int (sum_list (map snd heads) + homeless)))"
proof -
  let ?heads = "department_headcount w"
  obtain pending pay feed where run: "run_state admin_dashboard w =
    (JObj [(''total_employees'', JInt (int (count_where is_active (employees w)))), (''open_jobs'', JInt 14),
           (''pending_approvals'', pending), (''total_payroll'', pay),
           (''headcount_data'', JArr (counts_or ''General'' (int (count_where is_active (employees w)))
              (Some ?heads))),
           (''activity_feed'', feed)], w)"
    using run_admin_dashboard [OF assms(1)] by blast
  have "sum_list (map snd ?heads)
      = length (filter (\<lambda>e. is_active e \<and> (\<exists>d\<in>fst ` set (departments w). e_dept e = Some d)) (employees w))"
    unfolding department_headcount_def sum_count_by length_joined [OF assms(4)] ..
  moreover have "length (filter (\<lambda>e. is_active e \<and> (\<exists>d\<in>fst ` set ds. e_dept e = Some d)) es)
      + count_where (\<lambda>e. is_active e \<and> (\<forall>d\<in>fst ` set ds. e_dept e \<noteq> Some d)) es = count_where is_active es"
    for ds :: "(string \<times> string) list" and es
    by (induction es) (auto simp: count_where_def)
  ultimately have "sum_list (map snd ?heads)
      + count_where (\<lambda>e. is_active e \<and> (\<forall>d\<in>fst ` set (departments w). e_dept e \<noteq> Some d)) (employees w)
    = count_where is_active (employees w)" by simp
  moreover have "counts_or name tot (Some ?heads) = map count_json ?heads" for name tot
    using assms(5) by (auto simp: counts_or_def neq_Nil_conv)
  moreover have "distinct (map fst ?heads)" by (simp add: department_headcount_def count_by_def o_def)
  moreover have "run_state (handle_get_dashboard (Some c)) w
      = (user_ok_response [(''data'', fst (run_state admin_dashboard w)), (''role'', JStr (dashboard_role c))], w)"
    using assms(2,3) by (auto simp: handle_get_dashboard_def run_bind run)
  ultimately show ?thesis
    by (intro exI [of _ "fst (run_state admin_dashboard w)"] exI [of _ ?heads]) (simp add: run)
qed

definition demo_boss :: claims where
  "demo_boss = \<lparr>cl_user = ''u1'', cl_email = ''ann@x.org'', cl_roles = [''HR_ADMIN''],
     cl_scope = scope_organization, cl_expires = 0, cl_issued = 0\<rparr>"

text \<open>Ann, who leads the department, somebody of no department, and a former member of the team.\<close>

definition demo_staff :: att_world where
  "demo_staff = empty_att\<lparr>departments := [(''d1'', ''Engineering'')],
     employees := [demo_employee, demo_employee\<lparr>e_id := ''e2'', e_user := None, e_dept := None\<rparr>,
       demo_employee\<lparr>e_id := ''e3'', e_user := None, e_status := ''EXITED'', e_reports := Some ''e1''\<rparr>]\<rparr>"

lemma demo_staff_simps [simp]:
  "outcomes demo_staff = []" "\<not> db_nil demo_staff" "uuid_in demo_staff = Some"
  "departments demo_staff = [(''d1'', ''Engineering'')]"
  "employees demo_staff = [demo_employee, demo_employee\<lparr>e_id := ''e2'', e_user := None, e_dept := None\<rparr>,
       demo_employee\<lparr>e_id := ''e3'', e_user := None, e_status := ''EXITED'', e_reports := Some ''e1''\<rparr>]"
  by (simp_all add: demo_staff_def empty_att_def empty_hr_def empty_world_def world.defs hr_world.defs
      att_world.defs)

lemma demo_role: "dashboard_role demo_boss = ''HR_ADMIN''"
  by (simp add: dashboard_role_def demo_boss_def)

lemma demo_heads: "department_headcount demo_staff = [(''Engineering'', 1)]"
  by (simp add: department_headcount_def count_by_def is_active_def demo_employee_def)

theorem headcount_adds_up_witness:
  "\<exists>d heads homeless. run_state (handle_get_dashboard (Some demo_boss)) demo_staff
      = (user_ok_response [(''data'', d), (''role'', JStr ''HR_ADMIN'')], demo_staff)
    \<and> json_field d ''headcount_data'' = Some (JArr (map count_json heads)) \<and> homeless = 1
    \<and> json_field d ''total_employees'' = Some (JInt (int (sum_list (map snd heads) + homeless)))"
proof -
  have "count_where (\<lambda>e. is_active e \<and> (\<forall>d\<in>fst ` set (departments demo_staff). e_dept e \<noteq> Some d))
      (employees demo_staff) = 1"
    by (simp add: count_where_def is_active_def demo_employee_def)
  moreover note headcount_adds_up [of demo_staff demo_boss]
  ultimately show ?thesis by (simp add: demo_role demo_heads) blast
qed

lemma run_manager_dashboard:
  assumes "outcomes w = []" "uuid_in w uid = Some uid" "uuid_in w (e_id e) = Some (e_id e)"
    "filter (\<lambda>e. e_user e = Some uid \<and> \<not> e_deleted e) (employees w) = e # es"
  shows "\<exists>pending desigs feed. run_state (manager_dashboard uid) w =
    (JObj [(''total_team_members'', JInt (int (count_where (team_counted (e_id e)) (employees w)))),
           (''pending_approvals'', pending), (''team_attendance'', JInt 95),
           (''designation_data'', desigs), (''activity_feed'', feed)], w)"
proof -
  obtain feed where "run_state (activity_feed (e_id e)) w = (feed, w)"
    using assms(1) by (simp add: activity_feed_def run_calm)
  then show ?thesis
    using assms
    by (simp add: manager_dashboard_def reports_employee_id_def counted_def or_zero_def run_calm)
qed

text \<open>
  The size of a manager's team counts those who left. The number of team members that a manager's
  dashboard states is the number of ACTIVE employees who report to the manager plus that of the
  employees who are not ACTIVE and have him as reporting manager, since the test of the state binds to
  the second half of the condition only.
\<close>

theorem team_counts_former_members:
  assumes "outcomes w = []" "\<not> db_nil w" "dashboard_role c = ''MANAGER''"
    and "uuid_in w (cl_user c) = Some (cl_user c)" "uuid_in w (e_id m) = Some (e_id m)"
    and "filter (\<lambda>e. e_user e = Some (cl_user c) \<and> \<not> e_deleted e) (employees w) = m # es"
  shows "\<exists>d. run_state (handle_get_dashboard (Some c)) w
      = (user_ok_response [(''data'', d), (''role'', JStr ''MANAGER'')], w)
    \<and> json_field d ''total_team_members'' = Some (JInt (int
        (count_where (\<lambda>e. team_of (e_id m) e \<and> is_active e) (employees w)
         + count_where (\<lambda>e. e_reports e = Some (e_id m) \<and> \<not> is_active e) (employees w))))"
proof -
  have "count_where (team_counted i) es' = count_where (\<lambda>e. team_of i e \<and> is_active e) es'
      + count_where (\<lambda>e. e_reports e = Some i \<and> \<not> is_active e) es'" for i es'
    by (induction es') (auto simp: count_where_def team_counted_def team_of_def)
  moreover have "dashboard_role c \<notin> {''SUPER_ADMIN'', ''HR_ADMIN''}" using assms(3) by simp
  ultimately show ?thesis
    using run_manager_dashboard [OF assms(1,4,5,6)] assms(2,3)
    by (auto simp: handle_get_dashboard_def run_bind)
qed

theorem team_counts_former_members_witness:
  "\<exists>d. run_state (handle_get_dashboard (Some (demo_boss\<lparr>cl_roles := [''MANAGER'']\<rparr>))) demo_staff
      = (user_ok_response [(''data'', d), (''role'', JStr ''MANAGER'')], demo_staff)
    \<and> json_field d ''total_team_members'' = Some (JInt 1)"
proof -
  let ?c = "demo_boss\<lparr>cl_roles := [''MANAGER'']\<rparr>"
  have own: "filter (\<lambda>e. e_user e = Some (cl_user ?c) \<and> \<not> e_deleted e) (employees demo_staff) = [demo_employee]"
    by (simp add: demo_boss_def demo_employee_def)
  have "count_where (\<lambda>e. team_of (e_id demo_employee) e \<and> is_active e) (employees demo_staff) = 0"
    "count_where (\<lambda>e. e_reports e = Some (e_id demo_employee) \<and> \<not> is_active e) (employees demo_staff) = 1"
    by (simp_all add: count_where_def team_of_def is_active_def demo_employee_def)
  moreover have "dashboard_role ?c = ''MANAGER''" by (simp add: dashboard_role_def demo_boss_def)
  ultimately show ?thesis
    using team_counts_former_members [OF _ _ _ _ _ own] by simp
qed

end
