(* ===== verification/Routes.thy ===== *)
theory Routes
  imports
    Users Employees Importer Workflow Leave Attendance_Requests Attendance_Config Payroll Salary
    Recruitment Lifecycle Reports Helpdesk Security Documents Onboarding Performance Jobs Organization
begin

text \<open>
  \<^verbatim>\<open>cmd/api/main.go\<close> and the \<^verbatim>\<open>RegisterRoutes\<close> of the packages: every request that the
  service answers, the handler behind it and the middleware before it. A request is given after the
  router has matched its route, by one constructor per registered route with the path parameters,
  the query and the decoded body; the last arguments of some are what the handler gets from outside
  (a generated identifier or secret, the text of a decoding error, the address of the caller). The
  state is the database and the memory of the job service. The packages that register several files
  at once have one type: \<^verbatim>\<open>attendance_config_call\<close> has the routes of \<^verbatim>\<open>config.go\<close> and
  \<^verbatim>\<open>exceptions.go\<close>, \<^verbatim>\<open>payroll_call\<close> those of \<^verbatim>\<open>matrix.go\<close> too,
  \<^verbatim>\<open>leave_call\<close> those of \<^verbatim>\<open>policy.go\<close> and \<^verbatim>\<open>encashment.go\<close>.
\<close>

section \<open>The requests of each package\<close>

datatype http_method = GET | POST | PATCH | DELETE

datatype auth_call =
    Login "login_request option"
  | Forgot_password "string option"
  | Reset_password "reset_request option"
  | Open_logout
  | Open_me

datatype session_call =
    Me
  | Logout

datatype organization_call =
    Get_locations url_query
  | Create_location "location option"
  | Get_org_designations url_query
  | Create_org_designation "Organization.designation option"
  | Get_departments url_query
  | Create_department "department option"

datatype employee_call =
    List_employees url_query
  | Create_employee "create_employee_request option"
  | Export_employees
  | Employee_stats
  | Get_employee string
  | Update_employee string "update_employee_request option"
  | List_designations
  | Create_designation "designation_request option"

datatype workflow_call =
    Universal_approvals
  | Bulk_action "bulk_action_request option"
  | Approve_task string
  | Reject_task string
  | Hr_tasks
  | Notifications
  | Mark_read

datatype leave_call =
    Leave_types
  | Leave_balances
  | Leave_applications url_query
  | Apply_leave "application_request option"
  | Leave_policies
  | Upsert_policy "leave_policy_item option"
  | Accrue_batch
  | Accrual_logs
  | Get_encashments
  | Submit_encashment "encashment_item option"
  | Review_encashment "review_request option"

datatype attendance_call =
    Get_logs url_query
  | Check_in
  | Check_out
  | Regularize "regularize_request option"
  | Punch "punch_request option"
  | Punch_status
  | Daily_status url_query
  | Dashboard_metrics
  | Activities
  | Monthly_summary url_query
  | Validation_queue url_query
  | Validate_batch "batch_validation option"
  | Submit_request "attendance_request option"
  | My_requests
  | Pending_approvals
  | Approve_request string
  | Reject_request string

datatype attendance_config_call =
    Get_config
  | Get_rules
  | Update_rules "attendance_rules option"
  | Get_allowlist
  | Add_allowlist "ip_item option"
  | Delete_allowlist string
  | Get_geofences
  | Add_geofence "geofence_location option"
  | Biometric_sync "biometric_payload option"
  | Get_exceptions url_query
  | Review_exception "review_exception option"
  | Submit_justification "justification_request option"

datatype payroll_call =
    Get_runs url_query
  | Process_payroll "(int \<times> int) option"
  | Transition_run string "string option"
  | Run_readiness string
  | Get_readiness url_query
  | Get_advances url_query
  | Create_advance "advance_request option"
  | Approve_advance string
  | Get_payslips url_query
  | Payslip_details string
  | Get_currencies
  | Update_currency "currency_item option"
  | Get_components
  | Calculate_preview "(float64 \<times> string) option"
  | Save_structure "structure_request option"
  | Get_structure string

datatype recruitment_call =
    Get_jobs
  | Get_candidates
  | Create_offer "offer_request option"

datatype lifecycle_call =
    Probation_due
  | Timeline string
  | Submit_resignation
  | List_exits
  | Approve_exit string
  | Get_clearance string

datatype reports_call =
    Dashboard
  | Data_quality
  | Export_report url_query

datatype helpdesk_call =
    Get_categories
  | Create_category "helpdesk_category option"
  | Get_tickets
  | Create_ticket "helpdesk_ticket option"
  | Ticket_details string
  | Add_comment string "string option"
  | Transition_ticket string "transition_request option"

datatype security_call =
    Access_logs
  | Log_access "access_request option" string string
  | Rbac_matrix

datatype user_call =
    List_users url_query
  | Create_user "create_user_request option"
  | Invite_user string "invite_request option"
  | List_roles
  | Suspend_user string
  | Activate_user string
  | Update_role string "string option"
  | Delete_user string

datatype document_call =
    Document_types
  | Create_type "document_type option"
  | Employee_documents string
  | Verify_document string

datatype import_call =
    Upload "string option option"
  | Get_batches
  | Batch_detail string
  | Process_batch string

datatype onboarding_call =
    Get_templates
  | Create_template "onboarding_template option"
  | Create_template_task string "template_task option"
  | Get_instances
  | Instance_detail string
  | Complete_task string string

datatype performance_call =
    Get_cycles
  | Create_cycle string string "cycle_request option"
  | Get_goals
  | Create_goal string string "goal option"
  | Update_goal string string "goal_progress option"
  | Get_reviews
  | Save_review string string "review option"
  | Get_pips
  | Create_pip string string "pip_plan option"

datatype jobs_call =
    Trigger_job int "trigger_request option"
  | Job_history

primrec run_auth :: "crypto \<Rightarrow> ctx \<Rightarrow> auth_call \<Rightarrow> (office_world, response) state" where
  "run_auth cr c (Login b) = handle_login cr b"
| "run_auth cr c (Forgot_password b) = handle_forgot_password cr b"
| "run_auth cr c (Reset_password b) = handle_reset_password cr b"
| "run_auth cr c Open_logout = handle_logout"
| "run_auth cr c Open_me = handle_me c"

primrec run_session :: "ctx \<Rightarrow> session_call \<Rightarrow> (office_world, response) state" where
  "run_session c Me = handle_me c"
| "run_session c Logout = handle_logout"

primrec run_organization :: "organization_call \<Rightarrow> (office_world, response) state" where
  "run_organization (Get_locations q) = handle_get_locations q"
| "run_organization (Create_location b) = handle_create_location b"
| "run_organization (Get_org_designations q) = handle_get_designations q"
| "run_organization (Create_org_designation b) = handle_create_org_designation b"
| "run_organization (Get_departments q) = handle_get_departments q"
| "run_organization (Create_department b) = handle_create_department b"

primrec run_employee :: "claims option \<Rightarrow> employee_call \<Rightarrow> (office_world, response) state" where
  "run_employee cl (List_employees q) = handle_list_employees cl q"
| "run_employee cl (Create_employee b) = handle_create_employee cl b"
| "run_employee cl Export_employees = handle_export_csv cl"
| "run_employee cl Employee_stats = handle_emp_stats"
| "run_employee cl (Get_employee i) = handle_get_employee cl i"
| "run_employee cl (Update_employee i b) = handle_update_employee cl i b"
| "run_employee cl List_designations = handle_list_designations"
| "run_employee cl (Create_designation b) = handle_create_designation b"

primrec run_workflow :: "claims option \<Rightarrow> workflow_call \<Rightarrow> (office_world, response) state" where
  "run_workflow cl Universal_approvals = handle_get_universal_approvals cl"
| "run_workflow cl (Bulk_action b) = handle_bulk_action cl b"
| "run_workflow cl (Approve_task i) = handle_approve_task cl i"
| "run_workflow cl (Reject_task i) = handle_reject_task cl i"
| "run_workflow cl Hr_tasks = State_Monad.return handle_get_hr_tasks"
| "run_workflow cl Notifications =
     do { t \<leftarrow> reads now; State_Monad.return (handle_get_notifications t) }"
| "run_workflow cl Mark_read = State_Monad.return handle_mark_notifications_read"

primrec run_leave :: "claims option \<Rightarrow> leave_call \<Rightarrow> (office_world, response) state" where
  "run_leave cl Leave_types = Leave.handle_get_types"
| "run_leave cl Leave_balances = handle_get_balances cl"
| "run_leave cl (Leave_applications q) = handle_get_applications cl q"
| "run_leave cl (Apply_leave b) = handle_create_application cl b"
| "run_leave cl Leave_policies = handle_get_policies"
| "run_leave cl (Upsert_policy b) = handle_upsert_policy cl b"
| "run_leave cl Accrue_batch = handle_process_batch_accruals cl"
| "run_leave cl Accrual_logs = handle_get_accrual_logs"
| "run_leave cl Get_encashments = handle_get_encashments"
| "run_leave cl (Submit_encashment b) = handle_submit_encashment cl b"
| "run_leave cl (Review_encashment b) = handle_review_encashment cl b"

primrec run_attendance :: "claims option \<Rightarrow> attendance_call \<Rightarrow> (office_world, response) state" where
  "run_attendance cl (Get_logs q) = handle_get_logs q"
| "run_attendance cl Check_in = State_Monad.return handle_check_in"
| "run_attendance cl Check_out = State_Monad.return handle_check_out"
| "run_attendance cl (Regularize b) = State_Monad.return (handle_regularize b)"
| "run_attendance cl (Punch b) = handle_punch cl b"
| "run_attendance cl Punch_status = handle_punch_status cl"
| "run_attendance cl (Daily_status q) = handle_daily_status q"
| "run_attendance cl Dashboard_metrics = handle_dashboard_metrics cl"
| "run_attendance cl Activities = handle_get_activities cl"
| "run_attendance cl (Monthly_summary q) = handle_get_monthly_summary cl q"
| "run_attendance cl (Validation_queue q) = handle_get_validation_queue cl q"
| "run_attendance cl (Validate_batch b) = handle_batch_validation cl b"
| "run_attendance cl (Submit_request b) = handle_submit_request cl b"
| "run_attendance cl My_requests = handle_my_requests cl"
| "run_attendance cl Pending_approvals = handle_pending_approvals cl"
| "run_attendance cl (Approve_request i) = handle_approve_request i"
| "run_attendance cl (Reject_request i) = handle_reject_request i"

primrec run_attendance_config :: "claims option \<Rightarrow> attendance_config_call \<Rightarrow> (office_world, response) state" where
  "run_attendance_config cl Get_config = handle_get_rules"
| "run_attendance_config cl Get_rules = handle_get_rules"
| "run_attendance_config cl (Update_rules b) = handle_update_rules cl b"
| "run_attendance_config cl Get_allowlist = handle_get_ip_allowlist"
| "run_attendance_config cl (Add_allowlist b) = handle_add_ip_allowlist cl b"
| "run_attendance_config cl (Delete_allowlist i) = handle_delete_ip_allowlist cl i"
| "run_attendance_config cl Get_geofences = handle_get_geofences"
| "run_attendance_config cl (Add_geofence b) = handle_add_geofence cl b"
| "run_attendance_config cl (Biometric_sync b) = State_Monad.return (handle_biometric_sync b)"
| "run_attendance_config cl (Get_exceptions q) = handle_get_exceptions cl q"
| "run_attendance_config cl (Review_exception b) = handle_review_exception cl b"
| "run_attendance_config cl (Submit_justification b) = handle_submit_justification cl b"

primrec run_payroll :: "claims option \<Rightarrow> payroll_call \<Rightarrow> (office_world, response) state" where
  "run_payroll cl (Get_runs q) = handle_get_runs cl q"
| "run_payroll cl (Process_payroll b) = handle_process_payroll cl b"
| "run_payroll cl (Transition_run i b) = handle_transition_state cl i b"
| "run_payroll cl (Run_readiness i) = handle_get_run_readiness cl i"
| "run_payroll cl (Get_readiness q) = handle_get_readiness cl q"
| "run_payroll cl (Get_advances q) = handle_get_advances q"
| "run_payroll cl (Create_advance b) = handle_create_advance cl b"
| "run_payroll cl (Approve_advance i) = handle_approve_advance cl i"
| "run_payroll cl (Get_payslips q) = handle_get_payslips cl q"
| "run_payroll cl (Payslip_details i) = handle_get_payslip_details cl i"
| "run_payroll cl Get_currencies = handle_get_currencies"
| "run_payroll cl (Update_currency b) = handle_update_currency cl b"
| "run_payroll cl Get_components = handle_get_components"
| "run_payroll cl (Calculate_preview b) = State_Monad.return (handle_calculate_preview b)"
| "run_payroll cl (Save_structure b) = handle_save_structure cl b"
| "run_payroll cl (Get_structure i) = handle_get_structure i"

primrec run_recruitment :: "recruitment_call \<Rightarrow> (office_world, response) state" where
  "run_recruitment Get_jobs = handle_get_jobs"
| "run_recruitment Get_candidates = handle_get_candidates"
| "run_recruitment (Create_offer b) = handle_create_offer b"

primrec run_lifecycle :: "lifecycle_call \<Rightarrow> (office_world, response) state" where
  "run_lifecycle Probation_due = handle_get_probation_due"
| "run_lifecycle (Timeline i) = handle_get_timeline i"
| "run_lifecycle Submit_resignation = handle_submit_resignation"
| "run_lifecycle List_exits = handle_list_exits"
| "run_lifecycle (Approve_exit i) = handle_approve_exit i"
| "run_lifecycle (Get_clearance i) = handle_get_clearance i"

primrec run_reports :: "claims option \<Rightarrow> reports_call \<Rightarrow> (office_world, response) state" where
  "run_reports cl Dashboard = handle_get_dashboard cl"
| "run_reports cl Data_quality = handle_get_data_quality"
| "run_reports cl (Export_report q) = handle_export_report cl q"

primrec run_helpdesk :: "claims option \<Rightarrow> helpdesk_call \<Rightarrow> (office_world, response) state" where
  "run_helpdesk cl Get_categories = handle_get_categories"
| "run_helpdesk cl (Create_category b) = handle_create_category cl b"
| "run_helpdesk cl Get_tickets = handle_get_tickets"
| "run_helpdesk cl (Create_ticket b) = handle_create_ticket cl b"
| "run_helpdesk cl (Ticket_details i) = handle_get_ticket_details i"
| "run_helpdesk cl (Add_comment i b) = handle_add_comment cl i b"
| "run_helpdesk cl (Transition_ticket i b) = handle_transition_ticket cl i b"

primrec run_security :: "claims option \<Rightarrow> security_call \<Rightarrow> (office_world, response) state" where
  "run_security cl Access_logs = handle_get_access_logs cl"
| "run_security cl (Log_access b i j) = handle_log_access cl b i j"
| "run_security cl Rbac_matrix = State_Monad.return handle_get_rbac_matrix"

primrec run_user :: "crypto \<Rightarrow> claims option \<Rightarrow> user_call \<Rightarrow> (office_world, response) state" where
  "run_user cr cl (List_users q) = handle_list_users cl q"
| "run_user cr cl (Create_user b) = handle_create_user cr cl b"
| "run_user cr cl (Invite_user i b) = handle_invite_user cr i cl b"
| "run_user cr cl List_roles = handle_list_roles"
| "run_user cr cl (Suspend_user i) = handle_suspend_user cl i"
| "run_user cr cl (Activate_user i) = handle_activate_user cl i"
| "run_user cr cl (Update_role i b) = handle_update_role cl i b"
| "run_user cr cl (Delete_user i) = handle_delete_user cl i"

primrec run_document :: "claims option \<Rightarrow> document_call \<Rightarrow> (office_world, response) state" where
  "run_document cl Document_types = Documents.handle_get_types"
| "run_document cl (Create_type b) = handle_create_type cl b"
| "run_document cl (Employee_documents i) = handle_get_employee_documents cl i"
| "run_document cl (Verify_document i) = handle_verify_document"

primrec run_import :: "crypto \<Rightarrow> import_call \<Rightarrow> (office_world, response) state" where
  "run_import cr (Upload b) = handle_upload b"
| "run_import cr Get_batches = handle_get_batches"
| "run_import cr (Batch_detail i) = handle_get_batch_detail i"
| "run_import cr (Process_batch i) = handle_process_batch cr i"

primrec run_onboarding :: "onboarding_call \<Rightarrow> (office_world, response) state" where
  "run_onboarding Get_templates = handle_get_templates"
| "run_onboarding (Create_template b) = handle_create_template b"
| "run_onboarding (Create_template_task i b) = handle_create_template_task b"
| "run_onboarding Get_instances = handle_get_instances"
| "run_onboarding (Instance_detail i) = handle_get_instance_detail i"
| "run_onboarding (Complete_task i j) = handle_complete_task"

primrec run_performance :: "performance_call \<Rightarrow> (office_world, response) state" where
  "run_performance Get_cycles = handle_get_cycles"
| "run_performance (Create_cycle i j b) = handle_create_cycle i j b"
| "run_performance Get_goals = handle_get_goals"
| "run_performance (Create_goal i j b) = handle_create_goal i j b"
| "run_performance (Update_goal i j b) = handle_update_goal i j b"
| "run_performance Get_reviews = handle_get_reviews"
| "run_performance (Save_review i j b) = handle_save_review i j b"
| "run_performance Get_pips = handle_get_pip_plans"
| "run_performance (Create_pip i j b) = handle_create_pip_plan i j b"

primrec run_jobs :: "int \<Rightarrow> claims option \<Rightarrow> jobs_call \<Rightarrow> (job_state, response) state" where
  "run_jobs t cl (Trigger_job t' b) = State (handle_trigger_job t t' cl b)"
| "run_jobs t cl Job_history = reads handle_get_job_history"

primrec route_auth :: "auth_call \<Rightarrow> http_method \<times> string" where
  "route_auth (Login b) = (POST, ''/login'')"
| "route_auth (Forgot_password b) = (POST, ''/forgot-password'')"
| "route_auth (Reset_password b) = (POST, ''/reset-password'')"
| "route_auth Open_logout = (POST, ''/logout'')"
| "route_auth Open_me = (GET, ''/me'')"

primrec route_session :: "session_call \<Rightarrow> http_method \<times> string" where
  "route_session Me = (GET, ''/auth/me'')"
| "route_session Logout = (POST, ''/auth/logout'')"

primrec route_organization :: "organization_call \<Rightarrow> http_method \<times> string" where
  "route_organization (Get_locations q) = (GET, ''/locations'')"
| "route_organization (Create_location b) = (POST, ''/locations'')"
| "route_organization (Get_org_designations q) = (GET, ''/designations'')"
| "route_organization (Create_org_designation b) = (POST, ''/designations'')"
| "route_organization (Get_departments q) = (GET, ''/departments'')"
| "route_organization (Create_department b) = (POST, ''/departments'')"

primrec route_employee :: "employee_call \<Rightarrow> http_method \<times> string" where
  "route_employee (List_employees q) = (GET, ''/'')"
| "route_employee (Create_employee b) = (POST, ''/'')"
| "route_employee Export_employees = (GET, ''/export'')"
| "route_employee Employee_stats = (GET, ''/stats'')"
| "route_employee (Get_employee i) = (GET, ''/{id}'')"
| "route_employee (Update_employee i b) = (PATCH, ''/{id}'')"
| "route_employee List_designations = (GET, ''/designations'')"
| "route_employee (Create_designation b) = (POST, ''/designations'')"

primrec route_workflow :: "workflow_call \<Rightarrow> http_method \<times> string" where
  "route_workflow Universal_approvals = (GET, ''/universal-approvals'')"
| "route_workflow (Bulk_action b) = (POST, ''/tasks/bulk-action'')"
| "route_workflow (Approve_task i) = (POST, ''/tasks/{id}/approve'')"
| "route_workflow (Reject_task i) = (POST, ''/tasks/{id}/reject'')"
| "route_workflow Hr_tasks = (GET, ''/hr-tasks'')"
| "route_workflow Notifications = (GET, ''/notifications'')"
| "route_workflow Mark_read = (POST, ''/notifications/mark-read'')"

primrec route_leave :: "leave_call \<Rightarrow> http_method \<times> string" where
  "route_leave Leave_types = (GET, ''/types'')"
| "route_leave Leave_balances = (GET, ''/balances'')"
| "route_leave (Leave_applications q) = (GET, ''/applications'')"
| "route_leave (Apply_leave b) = (POST, ''/applications'')"
| "route_leave Leave_policies = (GET, ''/policies'')"
| "route_leave (Upsert_policy b) = (POST, ''/policies'')"
| "route_leave Accrue_batch = (POST, ''/accrue-batch'')"
| "route_leave Accrual_logs = (GET, ''/accrual-logs'')"
| "route_leave Get_encashments = (GET, ''/encashment'')"
| "route_leave (Submit_encashment b) = (POST, ''/encashment'')"
| "route_leave (Review_encashment b) = (POST, ''/encashment/review'')"

primrec route_attendance :: "attendance_call \<Rightarrow> http_method \<times> string" where
  "route_attendance (Get_logs q) = (GET, ''/logs'')"
| "route_attendance Check_in = (POST, ''/check-in'')"
| "route_attendance Check_out = (POST, ''/check-out'')"
| "route_attendance (Regularize b) = (POST, ''/regularize'')"
| "route_attendance (Punch b) = (POST, ''/punch'')"
| "route_attendance Punch_status = (GET, ''/punch-status'')"
| "route_attendance (Daily_status q) = (GET, ''/daily'')"
| "route_attendance Dashboard_metrics = (GET, ''/dashboard-metrics'')"
| "route_attendance Activities = (GET, ''/activities'')"
| "route_attendance (Monthly_summary q) = (GET, ''/monthly-summary'')"
| "route_attendance (Validation_queue q) = (GET, ''/validation-queue'')"
| "route_attendance (Validate_batch b) = (POST, ''/validate-batch'')"
| "route_attendance (Submit_request b) = (POST, ''/requests'')"
| "route_attendance My_requests = (GET, ''/requests/me'')"
| "route_attendance Pending_approvals = (GET, ''/requests/pending'')"
| "route_attendance (Approve_request i) = (POST, ''/requests/{id}/approve'')"
| "route_attendance (Reject_request i) = (POST, ''/requests/{id}/reject'')"

primrec route_attendance_config :: "attendance_config_call \<Rightarrow> http_method \<times> string" where
  "route_attendance_config Get_config = (GET, ''/config'')"
| "route_attendance_config Get_rules = (GET, ''/config/rules'')"
| "route_attendance_config (Update_rules b) = (POST, ''/config/rules'')"
| "route_attendance_config Get_allowlist = (GET, ''/config/ip-allowlist'')"
| "route_attendance_config (Add_allowlist b) = (POST, ''/config/ip-allowlist'')"
| "route_attendance_config (Delete_allowlist i) = (DELETE, ''/config/ip-allowlist/{id}'')"
| "route_attendance_config Get_geofences = (GET, ''/config/geofences'')"
| "route_attendance_config (Add_geofence b) = (POST, ''/config/geofences'')"
| "route_attendance_config (Biometric_sync b) = (POST, ''/biometric/sync'')"
| "route_attendance_config (Get_exceptions q) = (GET, ''/exceptions'')"
| "route_attendance_config (Review_exception b) = (POST, ''/exceptions/review'')"
| "route_attendance_config (Submit_justification b) = (POST, ''/exceptions/justification'')"

primrec route_payroll :: "payroll_call \<Rightarrow> http_method \<times> string" where
  "route_payroll (Get_runs q) = (GET, ''/runs'')"
| "route_payroll (Process_payroll b) = (POST, ''/runs/process'')"
| "route_payroll (Transition_run i b) = (POST, ''/runs/{id}/transition'')"
| "route_payroll (Run_readiness i) = (GET, ''/runs/{id}/readiness'')"
| "route_payroll (Get_readiness q) = (GET, ''/readiness'')"
| "route_payroll (Get_advances q) = (GET, ''/advances'')"
| "route_payroll (Create_advance b) = (POST, ''/advances'')"
| "route_payroll (Approve_advance i) = (POST, ''/advances/{id}/approve'')"
| "route_payroll (Get_payslips q) = (GET, ''/payslips'')"
| "route_payroll (Payslip_details i) = (GET, ''/payslips/{id}'')"
| "route_payroll Get_currencies = (GET, ''/currencies'')"
| "route_payroll (Update_currency b) = (POST, ''/currencies'')"
| "route_payroll Get_components = (GET, ''/components'')"
| "route_payroll (Calculate_preview b) = (POST, ''/calculate-preview'')"
| "route_payroll (Save_structure b) = (POST, ''/structures'')"
| "route_payroll (Get_structure i) = (GET, ''/structures/{employee_id}'')"

primrec route_recruitment :: "recruitment_call \<Rightarrow> http_method \<times> string" where
  "route_recruitment Get_jobs = (GET, ''/jobs'')"
| "route_recruitment Get_candidates = (GET, ''/candidates'')"
| "route_recruitment (Create_offer b) = (POST, ''/offers'')"

primrec route_lifecycle :: "lifecycle_call \<Rightarrow> http_method \<times> string" where
  "route_lifecycle Probation_due = (GET, ''/probation-due'')"
| "route_lifecycle (Timeline i) = (GET, ''/employees/{id}/timeline'')"
| "route_lifecycle Submit_resignation = (POST, ''/exits'')"
| "route_lifecycle List_exits = (GET, ''/exits'')"
| "route_lifecycle (Approve_exit i) = (POST, ''/exits/{id}/approve'')"
| "route_lifecycle (Get_clearance i) = (GET, ''/exits/{id}/clearance'')"

primrec route_reports :: "reports_call \<Rightarrow> http_method \<times> string" where
  "route_reports Dashboard = (GET, ''/dashboard'')"
| "route_reports Data_quality = (GET, ''/data-quality'')"
| "route_reports (Export_report q) = (GET, ''/export'')"

primrec route_helpdesk :: "helpdesk_call \<Rightarrow> http_method \<times> string" where
  "route_helpdesk Get_categories = (GET, ''/categories'')"
| "route_helpdesk (Create_category b) = (POST, ''/categories'')"
| "route_helpdesk Get_tickets = (GET, ''/tickets'')"
| "route_helpdesk (Create_ticket b) = (POST, ''/tickets'')"
| "route_helpdesk (Ticket_details i) = (GET, ''/tickets/{id}'')"
| "route_helpdesk (Add_comment i b) = (POST, ''/tickets/{id}/comments'')"
| "route_helpdesk (Transition_ticket i b) = (POST, ''/tickets/{id}/transition'')"

primrec route_security :: "security_call \<Rightarrow> http_method \<times> string" where
  "route_security Access_logs = (GET, ''/access-logs'')"
| "route_security (Log_access b i j) = (POST, ''/log-access'')"
| "route_security Rbac_matrix = (GET, ''/rbac-matrix'')"

primrec route_user :: "user_call \<Rightarrow> http_method \<times> string" where
  "route_user (List_users q) = (GET, ''/'')"
| "route_user (Create_user b) = (POST, ''/'')"
| "route_user (Invite_user i b) = (POST, ''/invite'')"
| "route_user List_roles = (GET, ''/roles'')"
| "route_user (Suspend_user i) = (POST, ''/{id}/suspend'')"
| "route_user (Activate_user i) = (POST, ''/{id}/activate'')"
| "route_user (Update_role i b) = (PATCH, ''/{id}/role'')"
| "route_user (Delete_user i) = (DELETE, ''/{id}'')"

primrec route_document :: "document_call \<Rightarrow> http_method \<times> string" where
  "route_document Document_types = (GET, ''/types'')"
| "route_document (Create_type b) = (POST, ''/types'')"
| "route_document (Employee_documents i) = (GET, ''/employees/{id}'')"
| "route_document (Verify_document i) = (PATCH, ''/{id}/verify'')"

primrec route_import :: "import_call \<Rightarrow> http_method \<times> string" where
  "route_import (Upload b) = (POST, ''/upload'')"
| "route_import Get_batches = (GET, ''/batches'')"
| "route_import (Batch_detail i) = (GET, ''/batches/{id}'')"
| "route_import (Process_batch i) = (POST, ''/batches/{id}/process'')"

primrec route_onboarding :: "onboarding_call \<Rightarrow> http_method \<times> string" where
  "route_onboarding Get_templates = (GET, ''/templates'')"
| "route_onboarding (Create_template b) = (POST, ''/templates'')"
| "route_onboarding (Create_template_task i b) = (POST, ''/templates/{id}/tasks'')"
| "route_onboarding Get_instances = (GET, ''/instances'')"
| "route_onboarding (Instance_detail i) = (GET, ''/instances/{id}'')"
| "route_onboarding (Complete_task i j) = (PATCH, ''/instances/{id}/tasks/{taskId}'')"

primrec route_performance :: "performance_call \<Rightarrow> http_method \<times> string" where
  "route_performance Get_cycles = (GET, ''/cycles'')"
| "route_performance (Create_cycle i j b) = (POST, ''/cycles'')"
| "route_performance Get_goals = (GET, ''/goals'')"
| "route_performance (Create_goal i j b) = (POST, ''/goals'')"
| "route_performance (Update_goal i j b) = (PATCH, ''/goals/{id}'')"
| "route_performance Get_reviews = (GET, ''/reviews'')"
| "route_performance (Save_review i j b) = (POST, ''/reviews'')"
| "route_performance Get_pips = (GET, ''/pip'')"
| "route_performance (Create_pip i j b) = (POST, ''/pip'')"

primrec route_jobs :: "jobs_call \<Rightarrow> http_method \<times> string" where
  "route_jobs (Trigger_job t' b) = (POST, ''/trigger'')"
| "route_jobs Job_history = (GET, ''/history'')"

section \<open>The service\<close>

text \<open>The two routes of \<^verbatim>\<open>main.go\<close> itself, and one constructor per package that it mounts.\<close>

datatype plain_call = Health | Ping

primrec run_plain :: "plain_call \<Rightarrow> ('w, response) state" where
  "run_plain Health = State_Monad.return (respond status_ok [(''status'', JStr ''ok'')])"
| "run_plain Ping = State_Monad.return \<lparr>rcode = status_ok, rbody = Plain ''pong''\<rparr>"

primrec route_plain :: "plain_call \<Rightarrow> http_method \<times> string" where
  "route_plain Health = (GET, ''/health'')"
| "route_plain Ping = (GET, ''/api/v1/ping'')"

datatype call =
    To_plain plain_call
  | To_auth auth_call
  | To_session session_call
  | To_organization organization_call
  | To_employee employee_call
  | To_workflow workflow_call
  | To_leave leave_call
  | To_attendance attendance_call
  | To_attendance_config attendance_config_call
  | To_payroll payroll_call
  | To_recruitment recruitment_call
  | To_lifecycle lifecycle_call
  | To_reports reports_call
  | To_helpdesk helpdesk_call
  | To_security security_call
  | To_user user_call
  | To_document document_call
  | To_import import_call
  | To_onboarding onboarding_call
  | To_performance performance_call
  | To_jobs jobs_call

type_synonym portal = "office_world \<times> job_state"

text \<open>A handler of the database, and one of the job service, in the state of the service.\<close>

definition on_tables :: "(office_world, 'r) state \<Rightarrow> (portal, 'r) state" where
  "on_tables m = State (\<lambda>(w, j). case run_state m w of (r, w') \<Rightarrow> (r, (w', j)))"

definition on_jobs :: "(int \<Rightarrow> (job_state, 'r) state) \<Rightarrow> (portal, 'r) state" where
  "on_jobs m = State (\<lambda>(w, j). case run_state (m (now w)) j of (r, j') \<Rightarrow> (r, (w, j')))"

primrec run_call :: "crypto \<Rightarrow> call \<Rightarrow> portal handler" where
  "run_call cr (To_plain a) c = run_plain a"
| "run_call cr (To_auth a) c = on_tables (run_auth cr c a)"
| "run_call cr (To_session a) c = on_tables (run_session c a)"
| "run_call cr (To_organization a) c = on_tables (run_organization a)"
| "run_call cr (To_employee a) c = on_tables (run_employee (get_claims c) a)"
| "run_call cr (To_workflow a) c = on_tables (run_workflow (get_claims c) a)"
| "run_call cr (To_leave a) c = on_tables (run_leave (get_claims c) a)"
| "run_call cr (To_attendance a) c = on_tables (run_attendance (get_claims c) a)"
| "run_call cr (To_attendance_config a) c = on_tables (run_attendance_config (get_claims c) a)"
| "run_call cr (To_payroll a) c = on_tables (run_payroll (get_claims c) a)"
| "run_call cr (To_recruitment a) c = on_tables (run_recruitment a)"
| "run_call cr (To_lifecycle a) c = on_tables (run_lifecycle a)"
| "run_call cr (To_reports a) c = on_tables (run_reports (get_claims c) a)"
| "run_call cr (To_helpdesk a) c = on_tables (run_helpdesk (get_claims c) a)"
| "run_call cr (To_security a) c = on_tables (run_security (get_claims c) a)"
| "run_call cr (To_user a) c = on_tables (run_user cr (get_claims c) a)"
| "run_call cr (To_document a) c = on_tables (run_document (get_claims c) a)"
| "run_call cr (To_import a) c = on_tables (run_import cr a)"
| "run_call cr (To_onboarding a) c = on_tables (run_onboarding a)"
| "run_call cr (To_performance a) c = on_tables (run_performance a)"
| "run_call cr (To_jobs a) c = on_jobs (\<lambda>t. run_jobs t (get_claims c) a)"

text \<open>The prefixes under which \<^verbatim>\<open>main.go\<close> mounts the packages.\<close>

definition under :: "string \<Rightarrow> http_method \<times> string \<Rightarrow> http_method \<times> string" where
  "under p r = (fst r, ''/api/v1'' @ p @ snd r)"

primrec route :: "call \<Rightarrow> http_method \<times> string" where
  "route (To_plain a) = route_plain a"
| "route (To_auth a) = under ''/auth'' (route_auth a)"
| "route (To_session a) = under [] (route_session a)"
| "route (To_organization a) = under ''/organization'' (route_organization a)"
| "route (To_employee a) = under ''/employees'' (route_employee a)"
| "route (To_workflow a) = under ''/workflows'' (route_workflow a)"
| "route (To_leave a) = under ''/leave'' (route_leave a)"
| "route (To_attendance a) = under ''/attendance'' (route_attendance a)"
| "route (To_attendance_config a) = under ''/attendance'' (route_attendance_config a)"
| "route (To_payroll a) = under ''/payroll'' (route_payroll a)"
| "route (To_recruitment a) = under ''/recruitment'' (route_recruitment a)"
| "route (To_lifecycle a) = under ''/lifecycle'' (route_lifecycle a)"
| "route (To_reports a) = under ''/reports'' (route_reports a)"
| "route (To_helpdesk a) = under ''/helpdesk'' (route_helpdesk a)"
| "route (To_security a) = under ''/security'' (route_security a)"
| "route (To_user a) = under ''/users'' (route_user a)"
| "route (To_document a) = under ''/documents'' (route_document a)"
| "route (To_import a) = under ''/import'' (route_import a)"
| "route (To_onboarding a) = under ''/onboarding'' (route_onboarding a)"
| "route (To_performance a) = under ''/performance'' (route_performance a)"
| "route (To_jobs a) = under ''/jobs'' (route_jobs a)"

text \<open>
  The groups with \<^verbatim>\<open>RequireAuth\<close> hold all packages but \<^verbatim>\<open>auth\<close>; its logout and profile are
  registered in such a group as well (\<^verbatim>\<open>session_call\<close>).
\<close>

primrec public :: "call \<Rightarrow> bool" where
  "public (To_plain a) = True"
| "public (To_auth a) = True"
| "public (To_session a) = False"
| "public (To_organization a) = False"
| "public (To_employee a) = False"
| "public (To_workflow a) = False"
| "public (To_leave a) = False"
| "public (To_attendance a) = False"
| "public (To_attendance_config a) = False"
| "public (To_payroll a) = False"
| "public (To_recruitment a) = False"
| "public (To_lifecycle a) = False"
| "public (To_reports a) = False"
| "public (To_helpdesk a) = False"
| "public (To_security a) = False"
| "public (To_user a) = False"
| "public (To_document a) = False"
| "public (To_import a) = False"
| "public (To_onboarding a) = False"
| "public (To_performance a) = False"
| "public (To_jobs a) = False"

text \<open>The context of a request before the middleware.\<close>

definition no_ctx :: ctx where
  "no_ctx = \<lparr>cx_claims = None, cx_scope = None\<rparr>"

text \<open>One request with its \<^verbatim>\<open>Authorization\<close> header.\<close>

definition serve :: "crypto \<Rightarrow> string \<Rightarrow> call \<Rightarrow> (portal, response) state" where
  "serve cr header a = do {
     t \<leftarrow> reads (\<lambda>s. now (fst s));
     (if public a then run_call cr a no_ctx
      else require_auth cr t header (run_call cr a) no_ctx)
   }"

end
