(* ===== verification/Portal.thy ===== *)
theory Portal
  imports Routes Accounts Attendance_Days Helpdesk_Rules Payroll_Runs
begin

text \<open>
  What holds of the service as a whole, whoever sends which requests in which order.
\<close>

section \<open>Requests with GET only read\<close>

lemma reads_auth:
  "stable I \<Longrightarrow> fst (route_auth a) = GET \<Longrightarrow> keeps I (run_auth cr c a)"
  by (cases a) (auto simp: handle_me_def split: option.split
      intro!: keeps_rules)

lemma reads_session:
  "stable I \<Longrightarrow> fst (route_session a) = GET \<Longrightarrow> keeps I (run_session c a)"
  by (cases a) (auto simp: handle_me_def split: option.split
      intro!: keeps_rules)

lemma reads_organization:
  "stable I \<Longrightarrow> fst (route_organization a) = GET \<Longrightarrow> keeps I (run_organization a)"
  by (cases a) (auto simp: Let_def handle_get_departments_def handle_get_designations_def
      handle_get_locations_def or_no_rows_def split: option.split
      intro!: keeps_rules)

lemma reads_employee:
  "stable I \<Longrightarrow> fst (route_employee a) = GET \<Longrightarrow> keeps I (run_employee cl a)"
  by (cases a) (auto simp: Let_def emp_caller_def find_personal_def find_profile_def
      find_statutory_def handle_emp_stats_def handle_export_csv_def handle_get_employee_def
      handle_list_designations_def handle_list_employees_def list_page_def show_profile_def
      split: option.split
      intro!: keeps_rules)

lemma reads_workflow:
  "stable I \<Longrightarrow> fst (route_workflow a) = GET \<Longrightarrow> keeps I (run_workflow cl a)"
  by (cases a) (auto simp: Let_def get_caller_ids_def handle_get_universal_approvals_def split:
      option.split
      intro!: keeps_rules)

lemma reads_leave:
  "stable I \<Longrightarrow> fst (route_leave a) = GET \<Longrightarrow> keeps I (run_leave cl a)"
  by (cases a) (auto simp: Let_def handle_get_accrual_logs_def handle_get_applications_def
      handle_get_balances_def handle_get_encashments_def handle_get_policies_def
      Leave.handle_get_types_def split: option.split
      intro!: keeps_rules)

lemma reads_attendance:
  "stable I \<Longrightarrow> fst (route_attendance a) = GET \<Longrightarrow> keeps I (run_attendance cl a)"
  by (cases a) (auto simp: Let_def att_caller_ids_def handle_daily_status_def
      handle_dashboard_metrics_def handle_get_activities_def handle_get_logs_def
      handle_get_monthly_summary_def handle_get_validation_queue_def handle_my_requests_def
      handle_pending_approvals_def handle_punch_status_def list_requests_def query_requests_def
      split: option.split
      intro!: keeps_rules)

lemma reads_attendance_config:
  "stable I \<Longrightarrow> fst (route_attendance_config a) = GET \<Longrightarrow> keeps I (run_attendance_config cl a)"
  by (cases a) (auto simp: Let_def handle_get_exceptions_def handle_get_geofences_def
      handle_get_ip_allowlist_def handle_get_rules_def select_if_db_def split: option.split
      intro!: keeps_rules)

lemma reads_payroll:
  "stable I \<Longrightarrow> fst (route_payroll a) = GET \<Longrightarrow> keeps I (run_payroll cl a)"
  by (cases a) (auto simp: Let_def check_payroll_readiness_def handle_get_advances_def
      handle_get_components_def handle_get_currencies_def handle_get_payslip_details_def
      handle_get_payslips_def handle_get_readiness_def handle_get_run_readiness_def
      handle_get_runs_def handle_get_structure_def split: option.split
      intro!: keeps_rules)

lemma reads_recruitment:
  "stable I \<Longrightarrow> fst (route_recruitment a) = GET \<Longrightarrow> keeps I (run_recruitment a)"
  by (cases a) (auto simp: Let_def handle_get_candidates_def handle_get_jobs_def split: option.split
      intro!: keeps_rules)

lemma reads_lifecycle:
  "stable I \<Longrightarrow> fst (route_lifecycle a) = GET \<Longrightarrow> keeps I (run_lifecycle a)"
  by (cases a) (auto simp: Let_def fixed_answer_def handle_get_clearance_def
      handle_get_probation_due_def handle_get_timeline_def handle_list_exits_def split:
      option.split
      intro!: keeps_rules)

lemma reads_reports:
  "stable I \<Longrightarrow> fst (route_reports a) = GET \<Longrightarrow> keeps I (run_reports cl a)"
  by (cases a) (auto simp: Let_def activity_feed_def admin_dashboard_def counted_def
      employee_dashboard_def handle_export_report_def handle_get_dashboard_def
      handle_get_data_quality_def manager_dashboard_def paid_this_year_def
      reports_employee_id_def split: option.split
      intro!: keeps_rules)

lemma reads_helpdesk:
  "stable I \<Longrightarrow> fst (route_helpdesk a) = GET \<Longrightarrow> keeps I (run_helpdesk cl a)"
  by (cases a) (auto simp: Let_def handle_get_categories_def handle_get_ticket_details_def
      handle_get_tickets_def split: option.split
      intro!: keeps_rules)

lemma reads_security:
  "stable I \<Longrightarrow> fst (route_security a) = GET \<Longrightarrow> keeps I (run_security cl a)"
  by (cases a) (auto simp: Let_def handle_get_access_logs_def split: option.split
      intro!: keeps_rules)

lemma reads_user:
  "stable I \<Longrightarrow> fst (route_user a) = GET \<Longrightarrow> keeps I (run_user cr cl a)"
  by (cases a) (auto simp: Let_def handle_list_roles_def handle_list_users_def split: option.split
      intro!: keeps_rules)

lemma reads_document:
  "stable I \<Longrightarrow> fst (route_document a) = GET \<Longrightarrow> keeps I (run_document cl a)"
  by (cases a) (auto simp: Let_def handle_get_employee_documents_def
      Documents.handle_get_types_def split: option.split
      intro!: keeps_rules)

lemma reads_import:
  "stable I \<Longrightarrow> fst (route_import a) = GET \<Longrightarrow> keeps I (run_import cr a)"
  by (cases a) (auto simp: Let_def handle_get_batch_detail_def handle_get_batches_def split:
      option.split
      intro!: keeps_rules)

lemma reads_onboarding:
  "stable I \<Longrightarrow> fst (route_onboarding a) = GET \<Longrightarrow> keeps I (run_onboarding a)"
  by (cases a) (auto simp: Let_def handle_get_instance_detail_def handle_get_instances_def
      handle_get_templates_def split: option.split
      intro!: keeps_rules)

lemma reads_performance:
  "stable I \<Longrightarrow> fst (route_performance a) = GET \<Longrightarrow> keeps I (run_performance a)"
  by (cases a) (auto simp: Let_def handle_get_cycles_def handle_get_goals_def
      handle_get_pip_plans_def handle_get_reviews_def split: option.split
      intro!: keeps_rules)

section \<open>What stays out of a component\<close>

lemma keeps_first_update:
  "(\<And>u. u \<in> set us \<Longrightarrow> keeps I (exec u)) \<Longrightarrow> keeps I (first_update us)"
  by (induction us) (auto intro!: keeps_rules)

text \<open>
  A predicate of the database that does not look at what statements use up nor at the logs, and for
  each component one that does not look at its tables either. A component keeps every such predicate.
\<close>

locale bystander =
  fixes I :: "office_world \<Rightarrow> bool"
  assumes steady: "stable I"
    and counters: "\<And>w n. I (w\<lparr>issued := n\<rparr>) = I w" "\<And>w k. I (w\<lparr>sequence := k\<rparr>) = I w"
    and logs: "\<And>w x. I (w\<lparr>audit_logs := x\<rparr>) = I w" "\<And>w x. I (w\<lparr>access_logs := x\<rparr>) = I w"
    and templates: "\<And>w x. I (w\<lparr>templates := x\<rparr>) = I w"
begin

lemmas frame = counters logs templates

lemma keeps_security: "keeps I (run_security cl a)"
  by (cases a) (auto simp: Let_def handle_get_access_logs_def handle_log_access_def
      insert_access_def
      frame split: option.splits intro!: keeps_rules keeps_insert_row steady)

lemma keeps_onboarding: "keeps I (run_onboarding a)"
  by (cases a) (auto simp: Let_def fixed_answer_def handle_complete_task_def
      handle_create_template_def
      handle_create_template_task_def handle_get_instance_detail_def handle_get_instances_def
      handle_get_templates_def insert_template_def frame split: option.splits list.splits if_splits
      intro!: keeps_rules keeps_insert_row steady)

lemma untouched_same: "untouched w w' \<Longrightarrow> I w \<Longrightarrow> I w'"
proof -
  assume "untouched w w'"
  then obtain os n k where "w' = w\<lparr>outcomes := os, issued := n, sequence := k\<rparr>"
    unfolding untouched_def by blast
  then show "I w \<Longrightarrow> I w'" using steady by (simp add: counters stable_def)
qed

lemmas keeps_tx = keeps_transaction [where I = I, OF untouched_same]

end

locale pay_bystander = bystander +
  assumes pay_tables: "\<And>w x. I (w\<lparr>runs := x\<rparr>) = I w" "\<And>w x. I (w\<lparr>payslips := x\<rparr>) = I w"
    "\<And>w x. I (w\<lparr>advances := x\<rparr>) = I w" "\<And>w x. I (w\<lparr>structures := x\<rparr>) = I w"
    "\<And>w x. I (w\<lparr>currencies := x\<rparr>) = I w"
begin

lemma pay_statements:
  "keeps I (mark_deducted i)" "keeps I (upsert_payslip r e b h g d n)" "keeps I (finish_run r m tot u)"
  "keeps I (insert_run org mo y u)" "keeps I (set_run r f)" "keeps I (approve_run r u)"
  "keeps I (publish_payslips r)" "keeps I (insert_advance e req)" "keeps I (deactivate_structures e)"
  "keeps I (insert_structure sq)" "keeps I (log_action le)"
  unfolding mark_deducted_def upsert_payslip_def finish_run_def insert_run_def set_run_def
    approve_run_def publish_payslips_def insert_advance_def deactivate_structures_def
    insert_structure_def log_action_def
  by (rule keeps_exec keeps_insert_row, rule steady,
      (auto simp: Let_def frame pay_tables split: option.splits if_splits prod.splits; fail))+

lemma keeps_process: "keeps I (process_employees r m y eps tot)"
  by (induction eps arbitrary: tot)
    (auto simp: Let_def process_employee_def lop_days_def due_advance_def split: option.split list.split
      intro!: keeps_rules pay_statements steady)

lemma keeps_payroll: "keeps I (run_payroll cl a)"
proof (cases "fst (route_payroll a) = GET")
  case False
  then show ?thesis
  by (cases a) (auto simp: Let_def handle_process_payroll_def process_run_def
      check_payroll_readiness_def
        handle_transition_state_def transition_action_def handle_create_advance_def
        handle_approve_advance_def handle_update_currency_def handle_save_structure_def
        frame pay_tables split: option.splits
        intro!: keeps_rules pay_statements keeps_process steady keeps_exec)
qed (rule reads_payroll [OF steady])

end

locale request_bystander = bystander +
  assumes request_tables: "\<And>w f. I (advances_update f w) = I w" "\<And>w f. I (leaves_update f w) = I w"
    "\<And>w f. I (regularizations_update f w) = I w" "\<And>w f. I (ods_update f w) = I w"
    "\<And>w f. I (wfhs_update f w) = I w" "\<And>w f. I (exits_update f w) = I w"
begin

lemma keeps_task_updates: "keeps I (update_task_status tid st)"
  unfolding update_task_status_def task_updates_def
  by (intro keeps_first_update, simp only: set_simps insert_iff empty_iff, elim disjE)
    (auto simp: Let_def update_pending_def request_tables split: option.splits if_splits
      intro!: keeps_exec steady)

lemma keeps_bulk: "keeps I (bulk_loop cl action tids)"
  by (induction tids) (auto simp: is_self_approval_def is_authorized_to_approve_def
      get_task_requester_ids_def get_caller_ids_def Let_def split: option.split
      intro!: keeps_rules keeps_task_updates steady)

lemma keeps_workflow: "keeps I (run_workflow cl a)"
proof (cases "fst (route_workflow a) = GET")
  case False
  then show ?thesis
    by (cases a) (auto simp: handle_approve_task_def handle_reject_task_def decide_task_def Let_def
        handle_bulk_action_def is_self_approval_def is_authorized_to_approve_def
        get_task_requester_ids_def get_caller_ids_def
        split: option.split intro!: keeps_rules keeps_task_updates keeps_bulk steady)
qed (rule reads_workflow [OF steady])

end

locale leave_bystander = bystander +
  assumes leave_tables: "\<And>w x. I (w\<lparr>leaves := x\<rparr>) = I w" "\<And>w x. I (w\<lparr>leave_balances := x\<rparr>) = I w"
    "\<And>w x. I (w\<lparr>leave_policies := x\<rparr>) = I w" "\<And>w x. I (w\<lparr>accruals := x\<rparr>) = I w"
    "\<And>w x. I (w\<lparr>encashments := x\<rparr>) = I w"
begin

lemma leave_statements:
  "keeps I (insert_application e ar t)" "keeps I (upsert_policy p)" "keeps I (insert_accrual e t r)"
  "keeps I (insert_encashment e ei r x)" "keeps I (update_encashment st u i)" "keeps I (log_action le)"
  unfolding insert_application_def upsert_policy_def insert_accrual_def insert_encashment_def
    update_encashment_def log_action_def
  by (rule keeps_exec keeps_insert_row keeps_stmt, rule steady,
      (auto simp: Let_def frame leave_tables split: option.splits if_splits prod.splits; fail))+

lemma keeps_leave: "keeps I (run_leave cl a)"
proof (cases "fst (route_leave a) = GET")
  case False
  then show ?thesis
    by (cases a) (auto simp: handle_create_application_def handle_upsert_policy_def
        handle_process_batch_accruals_def accrue_one_def accrue_employee_def handle_submit_encashment_def
        handle_review_encashment_def session_employee_def requested_type_def employee_or_first_def Let_def
        split: option.split intro!: keeps_rules leave_statements steady)
qed (rule reads_leave [OF steady])

end

locale desk_bystander = bystander +
  assumes desk_tables: "\<And>w x. I (w\<lparr>categories := x\<rparr>) = I w" "\<And>w x. I (w\<lparr>tickets := x\<rparr>) = I w"
    "\<And>w x. I (w\<lparr>comments := x\<rparr>) = I w"
begin

lemma desk_statements:
  "keeps I (insert_category c)" "keeps I (insert_ticket n e tk)" "keeps I (insert_comment u t x)"
  "keeps I (update_ticket f st u t)" "keeps I (log_action le)"
  unfolding insert_category_def insert_ticket_def insert_comment_def update_ticket_def log_action_def
  by (rule keeps_exec keeps_insert_row, rule steady,
      (auto simp: Let_def frame desk_tables split: option.splits if_splits prod.splits; fail))+

lemma keeps_helpdesk: "keeps I (run_helpdesk cl a)"
proof (cases "fst (route_helpdesk a) = GET")
  case False
  then show ?thesis
    by (cases a) (auto simp: handle_create_category_def handle_create_ticket_def ticket_employee_def
        handle_add_comment_def handle_transition_ticket_def Let_def
        split: option.split intro!: keeps_rules desk_statements steady)
qed (rule reads_helpdesk [OF steady])

end

locale att_bystander = bystander +
  assumes att_tables: "\<And>w x. I (w\<lparr>daily := x\<rparr>) = I w" "\<And>w x. I (w\<lparr>raw_punches := x\<rparr>) = I w"
    "\<And>w x. I (w\<lparr>att_logs := x\<rparr>) = I w" "\<And>w x. I (w\<lparr>exceptions := x\<rparr>) = I w"
    "\<And>w x. I (w\<lparr>regularizations := x\<rparr>) = I w" "\<And>w x. I (w\<lparr>att_rules := x\<rparr>) = I w"
    "\<And>w x. I (w\<lparr>ip_allowlists := x\<rparr>) = I w" "\<And>w x. I (w\<lparr>geofences := x\<rparr>) = I w"
begin

lemma att_statements:
  "keeps I (punch_in e)" "keeps I (punch_out e)" "keeps I (record_raw_punch e ty s)"
  "keeps I (validate_day st u r i)" "keeps I (set_regularization st rid)" "keeps I (sync_day rid)"
  "keeps I (insert_geofence g)" "keeps I (insert_ip p)" "keeps I (upsert_rules rl)"
  "keeps I (update_exception f i)" "keeps I (insert_regularization e t u r)" "keeps I (log_action le)"
  unfolding punch_in_def punch_out_def record_raw_punch_def validate_day_def set_regularization_def
    sync_day_def insert_geofence_def insert_ip_def upsert_rules_def update_exception_def
    insert_regularization_def log_action_def Let_def
  by (rule keeps_exec keeps_insert_row keeps_stmt, rule steady,
      (auto simp: frame att_tables split: option.splits if_splits prod.splits; fail))+

lemma keeps_attendance: "keeps I (run_attendance cl a)"
proof (cases "fst (route_attendance a) = GET")
  case False
  then show ?thesis
    by (cases a) (auto simp: handle_punch_def att_caller_ids_def handle_batch_validation_def
        validate_one_def handle_submit_request_def handle_approve_request_def handle_reject_request_def
        Let_def split: option.split intro!: keeps_rules att_statements steady)
qed (rule reads_attendance [OF steady])

lemma keeps_attendance_config: "keeps I (run_attendance_config cl a)"
proof (cases "fst (route_attendance_config a) = GET")
  case False
  then show ?thesis
    by (cases a) (auto simp: handle_update_rules_def handle_add_ip_allowlist_def
        handle_delete_ip_allowlist_def handle_add_geofence_def handle_review_exception_def
        handle_submit_justification_def frame att_tables
        Let_def split: option.splits intro!: keeps_rules att_statements steady keeps_exec)
qed (rule reads_attendance_config [OF steady])

end

locale staff_bystander = bystander +
  assumes staff_tables: "\<And>w x. I (w\<lparr>users := x\<rparr>) = I w" "\<And>w x. I (w\<lparr>user_roles := x\<rparr>) = I w"
    "\<And>w x. I (w\<lparr>employees := x\<rparr>) = I w" "\<And>w x. I (w\<lparr>designations := x\<rparr>) = I w"
    "\<And>w x. I (w\<lparr>personals := x\<rparr>) = I w" "\<And>w x. I (w\<lparr>statutories := x\<rparr>) = I w"
    "\<And>w x. I (w\<lparr>import_batches := x\<rparr>) = I w" "\<And>w x. I (w\<lparr>import_rows := x\<rparr>) = I w"
    and forgets: "\<And>w i. I w \<Longrightarrow> I (forget_user i w)"
begin

lemma user_statements:
  "keeps I (insert_user row)" "keeps I (insert_user_role u r)" "keeps I (link_employee u e)"
  "keeps I (delete_user_roles u)" "keeps I (set_active b u)" "keeps I (unlink_user u)"
  "keeps I (delete_user u)"
  unfolding insert_user_def insert_user_role_def link_employee_def delete_user_roles_def set_active_def
    unlink_user_def delete_user_def
  by (rule keeps_exec keeps_insert_row keeps_stmt, rule steady,
      (auto simp: Let_def frame staff_tables intro: forgets split: option.splits if_splits prod.splits; fail))+

lemma staff_statements:
  "keeps I next_value" "keeps I (insert_employee er c p)" "keeps I (insert_personal er e)"
  "keeps I (insert_statutory e)" "keeps I (update_employee ue e)" "keeps I (insert_designation dn)"
  "keeps I (insert_batch n)" "keeps I (insert_import_row bt m rw st msg)" "keeps I (ready_batch bt v er')"
  "keeps I (insert_import_employee u c f l jd)" "keeps I (mark_row i g)" "keeps I (complete_row i e)"
  "keeps I (complete_batch bt)"
  unfolding next_value_def insert_employee_def insert_personal_def insert_statutory_def update_employee_def
    insert_designation_def insert_batch_def insert_import_row_def ready_batch_def
    insert_import_employee_def mark_row_def complete_row_def complete_batch_def
  by (rule keeps_exec keeps_insert_row keeps_stmt, rule steady,
      (auto simp: Let_def frame staff_tables split: option.splits if_splits prod.splits; fail))+

lemma keeps_auth: "keeps I (run_auth cr c a)"
  by (cases a) (auto simp: handle_login_def handle_forgot_password_def handle_reset_password_def
      handle_logout_def handle_me_def Let_def frame staff_tables split: option.splits
      intro!: keeps_rules keeps_exec steady)

lemma keeps_import_loop: "keeps I (import_loop h jd n rs)"
  by (induction h jd n rs rule: import_loop.induct)
    (auto simp: Let_def import_one_def fail_row_def split: option.split
      intro!: keeps_rules user_statements staff_statements)

lemma keeps_insert_rows: "keeps (\<lambda>s. I (snd s)) (insert_rows bt hs n rs)"
  by (induction bt hs n rs rule: insert_rows.induct) (auto intro!: keeps_rules staff_statements)

lemma keeps_import: "keeps I (run_import cr a)"
proof (cases "fst (route_import a) = GET")
  case False
  then show ?thesis
    by (cases a) (auto simp: handle_upload_def store_file_def handle_process_batch_def Let_def
        split: option.split list.split
        intro!: keeps_rules keeps_tx keeps_import_loop keeps_insert_rows staff_statements steady)
qed (rule reads_import [OF steady])

lemma keeps_employee: "keeps I (run_employee cl a)"
proof (cases "fst (route_employee a) = GET")
  case False
  then show ?thesis
    by (cases a) (auto simp: handle_create_employee_def add_employee_def handle_update_employee_def
        handle_create_designation_def Let_def
        split: option.split intro!: keeps_rules keeps_tx staff_statements steady)
qed (rule reads_employee [OF steady])

lemma keeps_add: "keeps (\<lambda>s. I (snd s)) (add_account row rid emp dup unlinked)"
  unfolding add_account_def by (intro keeps_rules user_statements)

lemma keeps_user: "keeps I (run_user cr cl a)"
proof (cases "fst (route_user a) = GET")
  case False
  then show ?thesis
    by (cases a) (auto simp: handle_create_user_def create_user_tx_def handle_invite_user_def
        handle_suspend_user_def handle_activate_user_def handle_update_role_def handle_delete_user_def
        find_role_def Let_def
        split: option.split sum.split intro!: keeps_rules keeps_tx keeps_add user_statements steady)
qed (rule reads_user [OF steady])

end

text \<open>The packages that store nothing keep every predicate of the tables.\<close>

lemma keeps_fixed:
  assumes "stable I"
  shows "keeps I (run_session c a1)" "keeps I (run_organization a2)" "keeps I (run_recruitment a3)"
    "keeps I (run_lifecycle a4)" "keeps I (run_reports cl a5)" "keeps I (run_document cl a6)"
    "keeps I (run_performance a7)"
proof -
  show "keeps I (run_session c a1)"
    by (cases a1) (auto simp: handle_me_def handle_logout_def intro!: keeps_rules)
  show "keeps I (run_organization a2)"
    by (cases "fst (route_organization a2) = GET", rule reads_organization [OF assms], assumption)
      (cases a2; auto simp: handle_create_location_def handle_create_org_designation_def
        handle_create_department_def intro!: keeps_rules)
  show "keeps I (run_recruitment a3)"
    by (cases "fst (route_recruitment a3) = GET", rule reads_recruitment [OF assms], assumption)
      (cases a3; auto simp: handle_create_offer_def intro!: keeps_rules)
  show "keeps I (run_lifecycle a4)"
    by (cases "fst (route_lifecycle a4) = GET", rule reads_lifecycle [OF assms], assumption)
      (cases a4; auto simp: handle_submit_resignation_def handle_approve_exit_def fixed_answer_def
        intro!: keeps_rules)
  show "keeps I (run_reports cl a5)"
    by (rule reads_reports [OF assms]) (cases a5; simp)
  show "keeps I (run_document cl a6)"
    by (cases "fst (route_document a6) = GET", rule reads_document [OF assms], assumption)
      (cases a6; auto simp: handle_create_type_def handle_verify_document_def fixed_answer_def
        split: option.split intro!: keeps_rules)
  show "keeps I (run_performance a7)"
    by (cases "fst (route_performance a7) = GET", rule reads_performance [OF assms], assumption)
      (cases a7; auto simp: handle_create_cycle_def handle_create_goal_def handle_update_goal_def
        handle_save_review_def handle_create_pip_plan_def echoed_def split: option.split
        intro!: keeps_rules)
qed

end
