(* ===== verification/Portal_Invariants.thy ===== *)
theory Portal_Invariants
  imports Portal
begin

text \<open>
  The invariants of the components under every request of the service: each is a bystander of the
  components that do not touch its tables, and is shown of the others' statements.
\<close>

section \<open>From the components to the service\<close>

lemma keeps_on_tables: "keeps I m \<Longrightarrow> keeps (\<lambda>s. I (fst s)) (on_tables m)"
  by (auto simp: keeps_def wp_def on_tables_def split: prod.splits)

lemma keeps_on_jobs: "keeps (\<lambda>s. I (fst s)) (on_jobs m)"
  by (auto simp: keeps_def wp_def on_jobs_def split: prod.splits)

lemma keeps_require_auth:
  "(\<And>c. keeps I (next c)) \<Longrightarrow> keeps I (require_auth cr t header next c)"
  by (auto simp: require_auth_def Let_def intro: keeps_return split: option.split)

text \<open>A predicate of the database that every component keeps.\<close>

locale service_invariant =
  fixes I :: "office_world \<Rightarrow> bool"
  assumes steady: "stable I" and clock: "\<And>w t. I (w\<lparr>now := t\<rparr>) = I w"
    and auth: "\<And>cr c a. keeps I (run_auth cr c a)" and user: "\<And>cr cl a. keeps I (run_user cr cl a)"
    and employee: "\<And>cl a. keeps I (run_employee cl a)" and importer: "\<And>cr a. keeps I (run_import cr a)"
    and payroll: "\<And>cl a. keeps I (run_payroll cl a)" and workflow: "\<And>cl a. keeps I (run_workflow cl a)"
    and leave: "\<And>cl a. keeps I (run_leave cl a)" and helpdesk: "\<And>cl a. keeps I (run_helpdesk cl a)"
    and attendance: "\<And>cl a. keeps I (run_attendance cl a)"
    and attendance_config: "\<And>cl a. keeps I (run_attendance_config cl a)"
    and security: "\<And>cl a. keeps I (run_security cl a)" and onboarding: "\<And>a. keeps I (run_onboarding a)"
begin

lemma keeps_call: "keeps (\<lambda>s. I (fst s)) (run_call cr a c)"
proof (cases a)
  case (To_plain p)
  then show ?thesis by (cases p) (auto intro: keeps_return)
qed (auto intro!: keeps_on_tables keeps_on_jobs auth user employee importer payroll workflow leave helpdesk
    attendance attendance_config security onboarding keeps_fixed steady)

lemma keeps_serve: "keeps (\<lambda>s. I (fst s)) (serve cr header a)"
  unfolding serve_def by (intro keeps_rules keeps_call keeps_require_auth)

end

text \<open>
  The service between two of its states: a request with any header, the clock, and statements that
  begin to fail or to succeed. Secrets and digests may differ between requests.
\<close>

inductive api_step :: "portal \<Rightarrow> portal \<Rightarrow> bool" where
  request: "api_step s (snd (run_state (serve cr header a) s))"
| passing: "api_step (w, j) (w\<lparr>now := t, outcomes := os\<rparr>, j)"

inductive_cases api_stepE: "api_step s s'"

context service_invariant
begin

lemma api_step_keeps: "api_step s s' \<Longrightarrow> I (fst s) \<Longrightarrow> I (fst s')"
  by (erule api_stepE) (auto dest: keepsD [OF keeps_serve] simp: clock steady [unfolded stable_def, rule_format])

lemma api_keeps: "api_step\<^sup>*\<^sup>* s s' \<Longrightarrow> I (fst s) \<Longrightarrow> I (fst s')"
  by (induction rule: rtranclp_induct) (auto intro: api_step_keeps)

end

section \<open>The accounts\<close>

interpretation accounts: pay_bystander accounts_ok
  by unfold_locales (simp_all add: accounts_ok_def)

interpretation accounts: request_bystander accounts_ok
  by unfold_locales (simp_all add: accounts_ok_def)

interpretation accounts: leave_bystander accounts_ok
  by unfold_locales (simp_all add: accounts_ok_def)

interpretation accounts: desk_bystander accounts_ok
  by unfold_locales (simp_all add: accounts_ok_def)

interpretation accounts: att_bystander accounts_ok
  by unfold_locales (simp_all add: accounts_ok_def)

lemma accounts_counters [simp]: "accounts_ok (w\<lparr>issued := n\<rparr>) = accounts_ok w"
  by (simp add: accounts_ok_def)

lemma accounts_upd_users:
  assumes "accounts_ok w" "\<And>u. u_id (f u) = u_id u" "\<And>u. u_email (f u) = u_email u"
  shows "accounts_ok (w\<lparr>users := upd_where p f (users w)\<rparr>)"
  using assms by (auto simp: accounts_ok_def map_upd_where intro: fit_users_same)

lemma links_append:
  assumes "links_fit us es" "\<forall>x\<in>set es. e_id x \<noteq> e_id e"
    "\<And>u. e_user e = Some u \<Longrightarrow> u \<in> us \<and> (\<forall>x\<in>set es. e_user x \<noteq> Some u)"
  shows "links_fit us (es @ [e])"
  unfolding links_fit_def
proof (intro conjI allI impI)
  have "distinct (map e_id es)" using assms(1) unfolding links_fit_def by blast
  then show "distinct (map e_id (es @ [e]))" using assms(2) by auto
  show "u \<in> us" if "x \<in> set (es @ [e])" "e_user x = Some u" for u x
  proof (cases "x = e")
    case False
    then have "x \<in> set es" using that(1) by simp
    then show ?thesis using assms(1) that(2) unfolding links_fit_def by blast
  qed (use assms(3) that in simp)
  show "e_id x = e_id y"
    if "x \<in> set (es @ [e])" "y \<in> set (es @ [e])" "e_user x = Some u" "e_user y = Some u" for u x y
  proof (cases "x \<in> set es \<and> y \<in> set es")
    case True
    then show ?thesis using assms(1) that(3,4) unfolding links_fit_def by blast
  next
    case False
    then show ?thesis using assms(3) that by auto
  qed
qed

lemma accounts_append_employee:
  assumes "accounts_ok w" "\<forall>x\<in>set (employees w). e_id x \<noteq> e_id e"
    "\<And>u. e_user e = Some u \<Longrightarrow> u \<in> u_id ` set (users w) \<and> (\<forall>x\<in>set (employees w). e_user x \<noteq> Some u)"
  shows "accounts_ok (w\<lparr>employees := employees w @ [e]\<rparr>)"
  using assms by (auto simp: accounts_ok_def accounts_fit_def intro!: links_append)

lemma links_same:
  assumes "links_fit us es" "map e_id es' = map e_id es"
    "\<And>e. e \<in> set es' \<Longrightarrow> \<exists>x\<in>set es. e_id x = e_id e \<and> e_user x = e_user e"
  shows "links_fit us es'"
  unfolding links_fit_def
proof (intro conjI allI impI)
  show "distinct (map e_id es')" using assms(1,2) by (simp add: links_fit_def)
  show "u \<in> us" if "e \<in> set es'" "e_user e = Some u" for u e
    using assms(3) [OF that(1)] that(2) assms(1) unfolding links_fit_def by metis
  show "e_id e = e_id x"
    if e: "e \<in> set es'" "x \<in> set es'" "e_user e = Some u" "e_user x = Some u" for u e x
  proof -
    obtain e0 x0 where "e0 \<in> set es" "e_id e0 = e_id e" "e_user e0 = Some u"
      "x0 \<in> set es" "e_id x0 = e_id x" "e_user x0 = Some u"
      using assms(3) [OF e(1)] assms(3) [OF e(2)] e(3,4) by auto
    then show ?thesis using assms(1) unfolding links_fit_def by metis
  qed
qed

lemma accounts_upd_employees:
  assumes "accounts_ok w" "\<And>e. e_id (f e) = e_id e" "\<And>e. e_user (f e) = e_user e"
  shows "accounts_ok (w\<lparr>employees := upd_where p f (employees w)\<rparr>)"
proof -
  have "links_fit us (upd_where p f es)" if "links_fit us es" for us es
  proof (rule links_same [OF that])
    show "map e_id (upd_where p f es) = map e_id es" by (rule map_upd_where) (rule assms(2))
    show "\<exists>x\<in>set es. e_id x = e_id e \<and> e_user x = e_user e" if "e \<in> set (upd_where p f es)" for e
      using that assms(2,3) by (auto simp: in_upd_where split: if_splits)
  qed
  then show ?thesis using assms(1) by (simp add: accounts_ok_def accounts_fit_def)
qed

lemma keeps_upd_users:
  assumes "\<And>w u. u_id (f w u) = u_id u" "\<And>w u. u_email (f w u) = u_email u"
  shows "keeps accounts_ok (exec (\<lambda>w. Some (n w, w\<lparr>users := upd_where p (f w) (users w)\<rparr>)))"
  by (rule keeps_exec) (auto simp: assms intro: accounts_upd_users)

lemma accounts_auth: "keeps accounts_ok (run_auth cr c a)"
  by (cases a) (auto simp: handle_login_def handle_forgot_password_def handle_reset_password_def
      handle_logout_def handle_me_def Let_def split: option.split
      intro!: keeps_rules keeps_upd_users)

lemma accounts_insert_employee: "keeps accounts_ok (insert_employee er c p)"
  unfolding insert_employee_def
  by (rule keeps_insert_row, rule stable_accounts_ok)
    (auto simp: accounts_counters new_employee_def split: option.splits if_splits
      intro!: accounts_append_employee)

lemma accounts_insert_import_employee: "keeps accounts_ok (insert_import_employee u cd f l jd)"
  unfolding insert_import_employee_def
  by (rule keeps_insert_row, rule stable_accounts_ok)
    (auto simp: accounts_counters user_is_def split: option.splits if_splits
      intro!: accounts_append_employee)

lemma accounts_update_employee: "keeps accounts_ok (update_employee ue e)"
  unfolding update_employee_def
  by (rule keeps_exec, rule stable_accounts_ok)
    (auto simp: update_fields_def split: option.splits if_splits intro!: accounts_upd_employees)

lemma accounts_staff_statements:
  "keeps accounts_ok next_value" "keeps accounts_ok (insert_personal er e)"
  "keeps accounts_ok (insert_statutory e)" "keeps accounts_ok (insert_designation dn)"
  "keeps accounts_ok (insert_batch n)" "keeps accounts_ok (insert_import_row bt m rw st msg)"
  "keeps accounts_ok (ready_batch bt v er')" "keeps accounts_ok (mark_row i g)"
  "keeps accounts_ok (complete_row i e)" "keeps accounts_ok (complete_batch bt)"
  unfolding next_value_def insert_personal_def insert_statutory_def insert_designation_def
    insert_batch_def insert_import_row_def ready_batch_def mark_row_def complete_row_def complete_batch_def
  by (rule keeps_exec keeps_insert_row keeps_stmt, rule stable_accounts_ok,
      (auto simp: Let_def accounts_ok_def split: option.splits if_splits; fail))+

lemma accounts_employee: "keeps accounts_ok (run_employee cl a)"
proof (cases "fst (route_employee a) = GET")
  case False
  then show ?thesis
    by (cases a) (auto simp: handle_create_employee_def add_employee_def handle_update_employee_def
        handle_create_designation_def Let_def split: option.split
        intro!: keeps_rules keeps_accounts_tx accounts_insert_employee accounts_update_employee
          accounts_staff_statements)
qed (rule reads_employee [OF stable_accounts_ok])

lemma accounts_import_loop: "keeps accounts_ok (import_loop h jd n rs)"
  by (induction h jd n rs rule: import_loop.induct)
    (auto simp: Let_def import_one_def fail_row_def new_user_def split: option.split
      intro!: keeps_rules keeps_insert_user accounts_insert_import_employee accounts_staff_statements)

lemma accounts_insert_rows: "keeps (\<lambda>s. accounts_ok (snd s)) (insert_rows bt hs n rs)"
  by (induction bt hs n rs rule: insert_rows.induct)
    (auto intro!: keeps_rules accounts_staff_statements)

lemma accounts_import: "keeps accounts_ok (run_import cr a)"
proof (cases "fst (route_import a) = GET")
  case False
  then show ?thesis
    by (cases a) (auto simp: handle_upload_def store_file_def handle_process_batch_def Let_def
        split: option.split list.split
        intro!: keeps_rules keeps_accounts_tx accounts_import_loop accounts_insert_rows
          accounts_staff_statements)
qed (rule reads_import [OF stable_accounts_ok])

lemma accounts_user: "keeps accounts_ok (run_user cr cl a)"
  by (cases a) (simp_all add: keeps_handle_users keeps_handle_create_user keeps_handle_invite_user
      keeps_handle_update_role keeps_handle_delete_user)

interpretation accounts_api: service_invariant accounts_ok
  by unfold_locales (simp_all add: accounts_auth accounts_user accounts_employee accounts_import
      accounts.keeps_payroll accounts.keeps_workflow accounts.keeps_leave accounts.keeps_helpdesk
      accounts.keeps_attendance accounts.keeps_attendance_config accounts.keeps_security
      accounts.keeps_onboarding, simp add: accounts_ok_def)

section \<open>The stored days\<close>

interpretation days: pay_bystander att_ok
  by unfold_locales (simp_all add: att_ok_def)

interpretation days: leave_bystander att_ok
  by unfold_locales (simp_all add: att_ok_def)

interpretation days: desk_bystander att_ok
  by unfold_locales (simp_all add: att_ok_def)

lemma days_forget:
  assumes "att_ok w"
  shows "att_ok (forget_user i w)"
proof (rule att_ok_upd [OF assms])
  show "day_ok (x\<lparr>ad_by := None\<rparr>)" if "x \<in> set (daily w)" for x
    using assms that by (auto simp: att_ok_def day_ok_def)
qed (simp_all add: forget_user_def)

interpretation days: staff_bystander att_ok
  by unfold_locales (simp_all only: days_forget, simp_all add: att_ok_def)

lemma days_task_updates: "keeps att_ok (update_task_status tid st)"
  unfolding update_task_status_def task_updates_def
  by (intro keeps_first_update, simp only: set_simps insert_iff empty_iff, elim disjE)
    (auto simp: Let_def update_pending_def att_ok_def clock_in_day_def in_upd_where
      split: option.splits if_splits intro!: keeps_exec)

lemma days_bulk: "keeps att_ok (bulk_loop cl action tids)"
  by (induction tids) (auto simp: is_self_approval_def is_authorized_to_approve_def
      get_task_requester_ids_def get_caller_ids_def Let_def split: option.split
      intro!: keeps_rules days_task_updates)

lemma days_workflow: "keeps att_ok (run_workflow cl a)"
proof (cases "fst (route_workflow a) = GET")
  case False
  then show ?thesis
    by (cases a) (auto simp: handle_approve_task_def handle_reject_task_def decide_task_def Let_def
        handle_bulk_action_def is_self_approval_def is_authorized_to_approve_def
        get_task_requester_ids_def get_caller_ids_def
        split: option.split intro!: keeps_rules days_task_updates days_bulk)
qed (rule reads_workflow [OF att_ok_stable])

lemma days_attendance: "keeps att_ok (run_attendance cl a)"
  by (cases "fst (route_attendance a) = GET", rule reads_attendance [OF att_ok_stable], assumption)
    (cases a; auto intro: keeps_return keeps_punch keeps_batch keeps_submit keeps_approve keeps_reject)

lemma days_attendance_config: "keeps att_ok (run_attendance_config cl a)"
  by (cases "fst (route_attendance_config a) = GET", rule reads_attendance_config [OF att_ok_stable],
      assumption)
    (cases a; auto intro: keeps_return keeps_review keeps_justification keeps_update_rules keeps_add_ip
      keeps_delete_ip keeps_add_geofence)

interpretation days_api: service_invariant att_ok
  by unfold_locales (simp_all add: days.keeps_auth days.keeps_user days.keeps_employee days.keeps_import
      days.keeps_payroll days_workflow days.keeps_leave days.keeps_helpdesk days_attendance
      days_attendance_config days.keeps_security days.keeps_onboarding, simp add: att_ok_def)

section \<open>The keys of the helpdesk\<close>

text \<open>
  Without the states of the tickets, which an unknown action may erase, and without their agents,
  whom the deletion of a user takes away.
\<close>

definition desk_keys_ok :: "'a hr_world_scheme \<Rightarrow> bool" where
  "desk_keys_ok w \<longleftrightarrow> distinct (map tk_number (tickets w)) \<and> distinct (map hc_name (categories w))
     \<and> (\<forall>c\<in>set (categories w). 0 < hc_sla c)"

lemma desk_keys_stable [simp]: "stable desk_keys_ok"
  by (simp add: stable_def desk_keys_ok_def)

interpretation desk: pay_bystander desk_keys_ok
  by unfold_locales (simp_all add: desk_keys_ok_def)

interpretation desk: request_bystander desk_keys_ok
  by unfold_locales (simp_all add: desk_keys_ok_def)

interpretation desk: leave_bystander desk_keys_ok
  by unfold_locales (simp_all add: desk_keys_ok_def)

interpretation desk: att_bystander desk_keys_ok
  by unfold_locales (simp_all add: desk_keys_ok_def)

interpretation desk: staff_bystander desk_keys_ok
  by unfold_locales (simp_all add: desk_keys_ok_def forget_user_def map_upd_where)

lemma desk_keys_upd:
  assumes "desk_keys_ok w" "\<And>t. tk_number (f t) = tk_number t"
  shows "desk_keys_ok (w\<lparr>tickets := upd_where p f (tickets w)\<rparr>)"
  using assms by (simp add: desk_keys_ok_def map_upd_where)

lemma desk_keys_statements:
  "0 < ct_sla c \<Longrightarrow> keeps desk_keys_ok (insert_category c)" "keeps desk_keys_ok (insert_ticket n e tk)"
  "keeps desk_keys_ok (insert_comment u t x)" "keeps desk_keys_ok (log_action le)"
  unfolding insert_category_def insert_ticket_def insert_comment_def log_action_def
  by (rule keeps_exec keeps_insert_row, rule desk_keys_stable,
      (force simp: Let_def desk_keys_ok_def split: option.splits if_splits prod.splits; fail)+)+

lemma desk_keys_update:
  assumes "\<And>n t. tk_number (f n t) = tk_number t"
  shows "keeps desk_keys_ok (update_ticket f st u i)"
  unfolding update_ticket_def
  by (rule keeps_exec) (auto simp: assms intro!: desk_keys_upd split: option.splits)

lemma desk_helpdesk: "keeps desk_keys_ok (run_helpdesk cl a)"
proof (cases "fst (route_helpdesk a) = GET")
  case False
  then show ?thesis
    by (cases a) (auto simp: handle_create_category_def handle_create_ticket_def ticket_employee_def
        handle_add_comment_def handle_transition_ticket_def Let_def
        split: option.split intro!: keeps_rules desk_keys_statements desk_keys_update)
qed (rule reads_helpdesk [OF desk_keys_stable])

interpretation desk_api: service_invariant desk_keys_ok
  by unfold_locales (simp_all add: desk.keeps_auth desk.keeps_user desk.keeps_employee desk.keeps_import
      desk.keeps_payroll desk.keeps_workflow desk.keeps_leave desk_helpdesk desk.keeps_attendance
      desk.keeps_attendance_config desk.keeps_security desk.keeps_onboarding, simp add: desk_keys_ok_def)

section \<open>Final payroll runs\<close>

lemmas frozen_defs = run_frozen_def run_ids_ok_def slip_figures_def

interpretation frozen: request_bystander "run_frozen r ps" for r ps
  by unfold_locales (simp_all add: frozen_defs)

interpretation frozen: leave_bystander "run_frozen r ps" for r ps
  by unfold_locales (simp_all add: frozen_defs)

interpretation frozen: desk_bystander "run_frozen r ps" for r ps
  by unfold_locales (simp_all add: frozen_defs)

interpretation frozen: att_bystander "run_frozen r ps" for r ps
  by unfold_locales (simp_all add: frozen_defs)

interpretation frozen: staff_bystander "run_frozen r ps" for r ps
  by unfold_locales (simp_all add: frozen_defs forget_user_def)

lemma frozen_structures:
  "keeps (run_frozen r ps) (deactivate_structures e)" "keeps (run_frozen r ps) (insert_structure req)"
  unfolding deactivate_structures_def insert_structure_def
  by (rule keeps_exec keeps_insert_row, rule run_frozen_stable,
      (auto simp: Let_def frozen_defs split: option.splits if_splits; fail))+

lemma frozen_log: "keeps (run_frozen r ps) (log_action le)"
  by (rule keeps_log_action) (simp_all add: frozen_defs)

lemma frozen_payroll: "keeps (run_frozen r ps) (run_payroll cl a)"
proof (cases "fst (route_payroll a) = GET")
  case False
  then show ?thesis
    by (cases a) (auto simp: handle_update_currency_def handle_save_structure_def Let_def frozen_defs
        split: option.splits
        intro!: keeps_process_payroll keeps_transition_state keeps_create_advance keeps_approve_advance
          keeps_rules keeps_exec frozen_structures frozen_log run_frozen_stable)
qed (rule reads_payroll [OF run_frozen_stable])

interpretation frozen_api: service_invariant "run_frozen r ps" for r ps
  by unfold_locales (simp_all add: frozen.keeps_auth frozen.keeps_user frozen.keeps_employee
      frozen.keeps_import frozen_payroll frozen.keeps_workflow frozen.keeps_leave frozen.keeps_helpdesk
      frozen.keeps_attendance frozen.keeps_attendance_config frozen.keeps_security
      frozen.keeps_onboarding, simp add: frozen_defs)

section \<open>Who changes the payroll\<close>

abbreviation payroll_roles :: "string list" where
  "payroll_roles \<equiv> [''SUPER_ADMIN'', ''HR_ADMIN'', ''PAYROLL_ADMIN'']"

abbreviation payroll_data ::
  "'a world_scheme \<Rightarrow> run_row list \<times> payslip_row list \<times> structure_row list \<times> currency_row list" where
  "payroll_data w \<equiv> (runs w, payslips w, structures w, currencies w)"

definition payroll_is ::
  "run_row list \<times> payslip_row list \<times> structure_row list \<times> currency_row list \<Rightarrow> 'a world_scheme \<Rightarrow> bool" where
  "payroll_is d w \<longleftrightarrow> payroll_data w = d"

lemma payroll_is_stable [simp]: "stable (payroll_is d)"
  by (simp add: stable_def payroll_is_def)

interpretation paydata: request_bystander "payroll_is d" for d
  by unfold_locales (simp_all add: payroll_is_def)

interpretation paydata: leave_bystander "payroll_is d" for d
  by unfold_locales (simp_all add: payroll_is_def)

interpretation paydata: desk_bystander "payroll_is d" for d
  by unfold_locales (simp_all add: payroll_is_def)

interpretation paydata: att_bystander "payroll_is d" for d
  by unfold_locales (simp_all add: payroll_is_def)

interpretation paydata: staff_bystander "payroll_is d" for d
  by unfold_locales (simp_all add: payroll_is_def forget_user_def)

lemma has_role_more: "set rs \<subseteq> set rs' \<Longrightarrow> has_role cl rs \<Longrightarrow> has_role cl rs'"
  by (cases cl) (simp add: has_role_def, simp only: has_role_Some, blast)

lemma unprivileged_payroll:
  assumes "\<not> has_role cl payroll_roles"
  shows "keeps (payroll_is d) (run_payroll cl a)"
proof (cases "fst (route_payroll a) = GET")
  case False
  have "\<not> has_role cl [''SUPER_ADMIN'', ''HR_ADMIN'']"
    using assms has_role_more [of "[''SUPER_ADMIN'', ''HR_ADMIN'']" payroll_roles] by auto
  moreover have "keeps (payroll_is d) (insert_advance e req)" for e req
    unfolding insert_advance_def
    by (rule keeps_insert_row) (auto simp: payroll_is_def split: option.splits)
  ultimately show ?thesis
    using False assms
    by (cases a) (auto simp: handle_process_payroll_def handle_transition_state_def
        handle_approve_advance_def handle_create_advance_def handle_update_currency_def
        handle_save_structure_def can_manage_payroll_def Let_def split: option.split
        intro!: keeps_rules)
qed (rule reads_payroll [OF payroll_is_stable])

lemma unprivileged_call:
  assumes "\<not> has_role (get_claims c) payroll_roles"
  shows "keeps (\<lambda>s. payroll_is d (fst s)) (run_call cr a c)"
proof (cases a)
  case (To_plain p)
  then show ?thesis by (cases p) (auto intro: keeps_return)
qed (auto intro!: keeps_on_tables keeps_on_jobs keeps_fixed paydata.keeps_auth paydata.keeps_user
    paydata.keeps_employee paydata.keeps_import unprivileged_payroll paydata.keeps_workflow
    paydata.keeps_leave paydata.keeps_helpdesk paydata.keeps_attendance paydata.keeps_attendance_config
    paydata.keeps_security paydata.keeps_onboarding assms)

section \<open>The service\<close>

text \<open>A protected request ends in the middleware, or reaches its handler with a verified token.\<close>

lemma run_serve_protected:
  assumes "run_state (serve cr header a) s = (resp, s')" "\<not> public a"
  obtains "rcode resp = status_unauthorized" "s' = s"
  | token cl c where "header = ''Bearer '' @ token" "validate_token cr (now (fst s)) token = Some cl"
      "get_claims c = Some cl" "run_state (run_call cr a c) s = (resp, s')"
proof (cases "header \<noteq> '''' \<and> length (split_on CHR '' '' header) = 2
              \<and> split_on CHR '' '' header ! 0 = ''Bearer''")
  case True
  then obtain token where sp: "split_on CHR '' '' header = [''Bearer'', token]"
    by (auto simp: length_Suc_conv numeral_2_eq_2)
  then have h: "header = ''Bearer '' @ token" using split_on_two by fastforce
  show ?thesis
  proof (cases "validate_token cr (now (fst s)) token")
    case None
    then have "rcode resp = status_unauthorized \<and> s' = s"
      using assms True sp by (auto simp: serve_def run_bind require_auth_def Let_def)
    then show ?thesis using that(1) by blast
  next
    case (Some cl)
    then have "run_state (run_call cr a (no_ctx\<lparr>cx_claims := Some cl,
        cx_scope := Some (get_scope_for_roles (cl_roles cl))\<rparr>)) s = (resp, s')"
      using assms True sp by (simp add: serve_def run_bind require_auth_def Let_def)
    then show ?thesis by (rule that(2) [OF h Some, rotated]) (simp add: get_claims_def)
  qed
next
  case False
  then have "\<exists>r. require_auth cr (now (fst s)) header (run_call cr a) no_ctx = State_Monad.return r
      \<and> rcode r = status_unauthorized"
    by (auto simp: require_auth_def Let_def)
  then obtain r where r: "require_auth cr (now (fst s)) header (run_call cr a) no_ctx = State_Monad.return r"
    "rcode r = status_unauthorized"
    by blast
  have "run_state (require_auth cr (now (fst s)) header (run_call cr a) no_ctx) s = (resp, s')"
    using assms by (simp add: serve_def run_bind)
  then have "resp = r \<and> s' = s" unfolding r(1) by simp
  then show ?thesis using that(1) r(2) by blast
qed

lemma under_fst [simp]: "fst (under p r) = fst r"
  by (simp add: under_def)

lemma get_call_reads:
  assumes "fst (route a) = GET"
  shows "keeps (\<lambda>s. same_tables w (fst s) \<and> snd s = j) (run_call cr a c)"
proof -
  have t: "keeps (\<lambda>s. same_tables w (fst s) \<and> snd s = j) (on_tables m)" if "keeps (same_tables w) m"
    for m :: "(office_world, response) state"
    using that by (auto simp: keeps_def wp_def on_tables_def split: prod.splits)
  show ?thesis
  proof (cases a)
    case (To_plain p)
    then show ?thesis by (cases p) (auto intro: keeps_return)
  next
    case (To_jobs b)
    then show ?thesis
      using assms by (cases b) (auto simp: keeps_def wp_def on_jobs_def reads_def)
  qed (use assms in \<open>auto intro!: t reads_auth reads_session reads_organization reads_employee
      reads_workflow reads_leave reads_attendance reads_attendance_config reads_payroll reads_recruitment
      reads_lifecycle reads_reports reads_helpdesk reads_security reads_user reads_document reads_import
      reads_onboarding reads_performance\<close>)
qed

text \<open>A request of an administrator with a token of a server that knows one token.\<close>

definition demo_gate :: crypto where
  "demo_gate = demo_crypto\<lparr>verify := (\<lambda>t s. if s = ''tok'' then Some root_claims else None)\<rparr>"

definition demo_rupee :: currency_item where
  "demo_rupee = \<lparr>ci_code = ''INR'', ci_name = ''Rupee'', ci_symbol = ''Rs'', ci_rate = 1, ci_base = True\<rparr>"

abbreviation demo_call :: call where
  "demo_call \<equiv> To_payroll (Update_currency (Some demo_rupee))"

lemmas empty_office_defs = empty_office_def empty_people_def empty_att_def empty_hr_def empty_world_def
  world.defs hr_world.defs att_world.defs people_world.defs office_world.defs

lemma empty_office_simps [simp]:
  "outcomes empty_office = []" "\<not> db_nil empty_office" "currencies empty_office = []"
  "runs empty_office = []" "payslips empty_office = []" "to_num empty_office = (\<lambda>_. Some)"
  "users empty_office = []" "user_roles empty_office = []" "employees empty_office = []"
  "daily empty_office = []" "regularizations empty_office = []" "tickets empty_office = []"
  "categories empty_office = []" "uuid_in empty_office = Some"
  by (simp_all add: empty_office_defs)

lemma run_demo_call:
  "currencies (fst (snd (run_state (serve demo_gate ''Bearer tok'' demo_call) (empty_office, new_service 0))))
   \<noteq> []"
proof -
  have "has_role (Some root_claims) rs" for rs by simp
  then show ?thesis
    by (simp add: serve_def run_bind require_auth_def demo_gate_def validate_token_def on_tables_def
        handle_update_currency_def demo_rupee_def get_claims_def run_orelse run_exec_calm run_log_action
        upsert_def Let_def)
qed

text \<open>
  C4. Nothing changes without a verified token. A request that changes a table or the memory of the
  job service is not a GET, and is either to one of the open routes of \<^verbatim>\<open>auth\<close> (login and the
  reset of a password) or carries \<^verbatim>\<open>Bearer\<close> and a token that verifies at that time.
\<close>

theorem changes_need_token:
  assumes "run_state (serve cr header a) (w, j) = (resp, (w', j'))" "\<not> (same_tables w w' \<and> j' = j)"
  shows "fst (route a) \<noteq> GET \<and> ((\<exists>b. a = To_auth b)
    \<or> (\<exists>token cl. header = ''Bearer '' @ token \<and> validate_token cr (now w) token = Some cl))"
proof -
  have "fst (route a) \<noteq> GET"
  proof
    assume "fst (route a) = GET"
    then have "keeps (\<lambda>s. same_tables w (fst s) \<and> snd s = j) (serve cr header a)"
      unfolding serve_def by (intro keeps_rules keeps_require_auth get_call_reads)
    from keeps_run [OF this _ assms(1)] show False using assms(2) by simp
  qed
  moreover have "\<exists>b. a = To_auth b" if "public a"
  proof (cases a)
    case (To_plain p)
    then show ?thesis using \<open>fst (route a) \<noteq> GET\<close> by (cases p) auto
  qed (use that in auto)
  moreover have "\<exists>token cl. header = ''Bearer '' @ token \<and> validate_token cr (now w) token = Some cl"
    if "\<not> public a"
    using assms(2) by (cases rule: run_serve_protected [OF assms(1) that]) auto
  ultimately show ?thesis by blast
qed

theorem changes_need_token_witness:
  "fst (route demo_call) = POST \<and> (\<exists>token cl. ''Bearer tok'' = ''Bearer '' @ token
     \<and> validate_token demo_gate (now empty_office) token = Some cl)"
proof -
  obtain resp w' j' where run: "run_state (serve demo_gate ''Bearer tok'' demo_call)
      (empty_office, new_service 0) = (resp, (w', j'))"
    by (metis surj_pair)
  have "\<not> same_tables empty_office w'"
    using run_demo_call by (auto simp: run same_tables_def)
  then show ?thesis using changes_need_token [OF run] by simp
qed

text \<open>
  C2. The payroll belongs to its administrators. A request that changes a run, a payslip, a salary
  structure or a currency carries a verified token with one of the roles SUPER\_ADMIN, HR\_ADMIN and
  PAYROLL\_ADMIN, whatever route it takes.
\<close>

theorem payroll_privileged:
  assumes "run_state (serve cr header a) (w, j) = (resp, (w', j'))" "payroll_data w' \<noteq> payroll_data w"
  shows "\<exists>token cl. header = ''Bearer '' @ token \<and> validate_token cr (now w) token = Some cl
    \<and> has_role (Some cl) payroll_roles"
proof (cases "public a")
  case True
  then have run: "run_state (run_call cr a no_ctx) (w, j) = (resp, (w', j'))"
    using assms(1) by (simp add: serve_def run_bind)
  have "keeps (\<lambda>s. payroll_is (payroll_data w) (fst s)) (run_call cr a no_ctx)"
    by (rule unprivileged_call) (simp add: no_ctx_def get_claims_def has_role_def)
  from keeps_run [OF this _ run] have "payroll_is (payroll_data w) w'"
    by (simp add: payroll_is_def)
  then show ?thesis using assms(2) by (simp add: payroll_is_def)
next
  case False
  show ?thesis
  proof (cases rule: run_serve_protected [OF assms(1) False])
    case 1
    then show ?thesis using assms(2) by simp
  next
    case (2 token cl c)
    have "has_role (Some cl) payroll_roles"
    proof (rule ccontr)
      assume "\<not> has_role (Some cl) payroll_roles"
      then have "keeps (\<lambda>s. payroll_is (payroll_data w) (fst s)) (run_call cr a c)"
        by (intro unprivileged_call) (simp add: 2(3))
      from keeps_run [OF this _ 2(4)] have "payroll_is (payroll_data w) w'"
        by (simp add: payroll_is_def)
      then show False using assms(2) by (simp add: payroll_is_def)
    qed
    then show ?thesis using 2(1,2) by auto
  qed
qed

theorem payroll_privileged_witness:
  "\<exists>token cl. ''Bearer tok'' = ''Bearer '' @ token
     \<and> validate_token demo_gate (now empty_office) token = Some cl \<and> has_role (Some cl) payroll_roles"
proof -
  obtain resp w' j' where run: "run_state (serve demo_gate ''Bearer tok'' demo_call)
      (empty_office, new_service 0) = (resp, (w', j'))"
    by (metis surj_pair)
  have "payroll_data w' \<noteq> payroll_data empty_office"
    using run_demo_call by (simp add: run)
  then show ?thesis by (rule payroll_privileged [OF run])
qed

definition service_ok :: "office_world \<Rightarrow> bool" where
  "service_ok w \<longleftrightarrow> accounts_ok w \<and> att_ok w \<and> desk_keys_ok w"

text \<open>
  C3. The service keeps its invariants. Through any sequence of requests to any of its routes, by
  anyone, at any times and with any statements failing, e-mails and identifiers of accounts stay
  unique and each account belongs to one employee at most, the stored days stay well formed, and
  tickets and categories keep distinct numbers and names.
\<close>

theorem service_stays_ok:
  assumes "api_step\<^sup>*\<^sup>* (w, j) (w', j')" "service_ok w"
  shows "service_ok w'"
  using accounts_api.api_keeps [OF assms(1)] days_api.api_keeps [OF assms(1)]
    desk_api.api_keeps [OF assms(1)] assms(2)
  by (simp add: service_ok_def)

lemma empty_office_ok: "service_ok empty_office"
  by (simp add: service_ok_def accounts_ok_def accounts_fit_def roles_fit_def links_fit_def att_ok_def
      desk_keys_ok_def)

theorem service_stays_ok_witness:
  "service_ok (fst (snd (run_state (serve demo_gate ''Bearer tok'' demo_call) (empty_office, new_service 0))))"
proof -
  let ?s = "snd (run_state (serve demo_gate ''Bearer tok'' demo_call) (empty_office, new_service 0))"
  have "api_step\<^sup>*\<^sup>* (empty_office, new_service 0) (fst ?s, snd ?s)"
    using r_into_rtranclp [of api_step, OF api_step.request] by simp
  then show ?thesis by (rule service_stays_ok) (rule empty_office_ok)
qed

text \<open>
  C1. A locked run is final for the whole service. Whatever requests follow, to any route, by anyone
  and with any statements failing, a LOCKED or PUBLISHED payroll run keeps its row, except that it may
  become published, and its payslips keep their figures.
\<close>

theorem final_runs_stay:
  assumes "api_step\<^sup>*\<^sup>* (w, j) (w', j')" "run_ids_ok w" "r \<in> set (runs w)"
    "pr_status r \<in> {''LOCKED'', ''PUBLISHED''}"
  shows "(r \<in> set (runs w') \<or> r\<lparr>pr_status := ''PUBLISHED''\<rparr> \<in> set (runs w'))
    \<and> slip_figures (pr_id r) w' = slip_figures (pr_id r) w"
proof -
  have "run_frozen r (slip_figures (pr_id r) w) w"
    using assms(2-4) by (auto simp: run_frozen_def final_status_def)
  then have "run_frozen r (slip_figures (pr_id r) w) w'"
    using frozen_api.api_keeps [OF assms(1)] by simp
  then show ?thesis by (simp add: run_frozen_def)
qed

theorem final_runs_stay_witness:
  "let w' = fst (snd (run_state (serve demo_gate ''Bearer tok'' demo_call)
              (empty_office\<lparr>runs := [locked_run]\<rparr>, new_service 0)))
   in locked_run \<in> set (runs w') \<or> locked_run\<lparr>pr_status := ''PUBLISHED''\<rparr> \<in> set (runs w')"
proof -
  let ?w = "empty_office\<lparr>runs := [locked_run]\<rparr>"
  let ?s = "snd (run_state (serve demo_gate ''Bearer tok'' demo_call) (?w, new_service 0))"
  have "api_step\<^sup>*\<^sup>* (?w, new_service 0) (fst ?s, snd ?s)"
    using r_into_rtranclp [of api_step, OF api_step.request] by simp
  moreover have "run_ids_ok ?w" "locked_run \<in> set (runs ?w)"
    "pr_status locked_run \<in> {''LOCKED'', ''PUBLISHED''}"
    by (simp_all add: run_ids_ok_def locked_run_def)
  ultimately show ?thesis using final_runs_stay unfolding Let_def by blast
qed

end
