(* ===== verification/Seed_Payroll.thy ===== *)
theory Seed_Payroll
  imports Payroll_Runs Attendance Leave
begin

text \<open>
  \<^verbatim>\<open>backend/scripts/seed_payroll_test_data.go\<close>: the script that prepares a payroll period for
  the tests, and what the payroll of \<^verbatim>\<open>internal/payroll\<close> then sees. The flags of the command
  line are the arguments of \<open>seed_payroll_data\<close>; the script has its own connection, which is open
  from the start. A script ends by itself or with \<^verbatim>\<open>log.Fatalf\<close>, whose message (without the
  text of the error) is \<^term>\<open>Inl\<close>.
\<close>

section \<open>The reset of a period\<close>

definition run_of_period :: "int \<Rightarrow> int \<Rightarrow> run_row list \<Rightarrow> string \<Rightarrow> bool" where
  "run_of_period month year rs i \<longleftrightarrow>
     (\<exists>r\<in>set rs. pr_id r = i \<and> pr_month r = month \<and> pr_year r = year)"

definition delete_period_slips :: "int \<Rightarrow> int \<Rightarrow> ('a world_scheme, nat option) state" where
  "delete_period_slips month year = exec (\<lambda>w.
     let p = (\<lambda>s. run_of_period month year (runs w) (ps_run s))
     in Some (count_where p (payslips w), w\<lparr>payslips := filter (\<lambda>s. \<not> p s) (payslips w)\<rparr>))"

text \<open>\<^verbatim>\<open>payslips.payroll_run_id\<close> is \<^verbatim>\<open>ON DELETE CASCADE\<close>.\<close>

definition delete_period_runs :: "int \<Rightarrow> int \<Rightarrow> ('a world_scheme, nat option) state" where
  "delete_period_runs month year = exec (\<lambda>w.
     let p = (\<lambda>r. pr_month r = month \<and> pr_year r = year)
     in Some (count_where p (runs w),
          w\<lparr>payslips := filter (\<lambda>s. \<not> run_of_period month year (runs w) (ps_run s)) (payslips w),
            runs := filter (\<lambda>r. \<not> p r) (runs w)\<rparr>))"

definition delete_period_advances :: "int \<Rightarrow> int \<Rightarrow> ('a world_scheme, nat option) state" where
  "delete_period_advances month year = exec (\<lambda>w.
     let p = (\<lambda>a. pa_month a = month \<and> pa_year a = year)
     in Some (count_where p (advances w), w\<lparr>advances := filter (\<lambda>a. \<not> p a) (advances w)\<rparr>))"

definition delete_period_days :: "int \<Rightarrow> int \<Rightarrow> ('a world_scheme, nat option) state" where
  "delete_period_days month year = exec (\<lambda>w.
     let p = (\<lambda>d. in_period month year (ad_date d))
     in Some (count_where p (daily w), w\<lparr>daily := filter (\<lambda>d. \<not> p d) (daily w)\<rparr>))"

definition reset_period :: "int \<Rightarrow> int \<Rightarrow> ('a world_scheme, unit) state" where
  "reset_period month year = do {
     _ \<leftarrow> delete_period_slips month year;
     _ \<leftarrow> delete_period_runs month year;
     _ \<leftarrow> delete_period_advances month year;
     _ \<leftarrow> delete_period_days month year;
     State_Monad.return ()
   }"

section \<open>Salary structures\<close>

definition seeded_employees :: "'a world_scheme \<Rightarrow> (string \<times> string) list" where
  "seeded_employees w =
     map (\<lambda>e. (e_id e, e_code e)) (sort_key e_code (filter active_employee (employees w)))"

definition seeded_salary :: "nat \<Rightarrow> float64" where
  "seeded_salary i =
     (if 10 \<le> i \<and> i < 20 then 75000
      else if 20 \<le> i \<and> i < 30 then 100000
      else if 30 \<le> i \<and> i < 40 then 120000
      else if 40 \<le> i then 150000
      else 50000)"

text \<open>
  The table has no constraint that \<^verbatim>\<open>ON CONFLICT DO NOTHING\<close> could run into but its primary
  key, so the insert adds a structure each time. The identifier that the script reads is not used.
\<close>

definition seed_salary :: "nat \<times> string \<times> string \<Rightarrow> ('a world_scheme, unit) state" where
  "seed_salary = (\<lambda>(i, eid, code). do {
     r \<leftarrow> insert_structure
       \<lparr>sr_employee = eid, sr_currency = ''INR'', sr_base = seeded_salary i\<rparr>;
     (if r = None \<or> r = Some ''''
      then State_Monad.bind
        (query_row (\<lambda>w. map_option (\<lambda>e.
           [ss_id s. s \<leftarrow> structures w, ss_emp s = e \<and> ss_active s]) (uuid_in w eid)))
        (\<lambda>_. State_Monad.return ())
      else State_Monad.return ())
   })"

section \<open>Attendance\<close>

definition days_in_month :: "int \<Rightarrow> int" where
  "days_in_month month =
     (if month = 2 then 28
      else if month = 4 \<or> month = 6 \<or> month = 9 \<or> month = 11 then 30
      else 31)"

text \<open>The date of \<^verbatim>\<open>time.Date(year, month, day, ...)\<close>, which normalizes month and day.\<close>

definition go_date :: "int \<Rightarrow> int \<Rightarrow> int \<Rightarrow> int" where
  "go_date y m d = days_of (y + (m - 1) div 12) ((m - 1) mod 12 + 1) 1 + d - 1"

definition insert_weekend :: "string \<Rightarrow> int \<Rightarrow> ('a world_scheme, nat option) state" where
  "insert_weekend emp date = exec (\<lambda>w.
     case uuid_in w emp of
       None \<Rightarrow> None
     | Some e \<Rightarrow>
         if \<exists>r\<in>set (daily w). day_key e date r then Some (0, w\<lparr>issued := issued w + 1\<rparr>)
         else Some (1, w\<lparr>daily := daily w @
            [(new_day (ids w (issued w)) e date None ''VALIDATED'')\<lparr>ad_status := ''WEEKEND''\<rparr>],
            issued := issued w + 1\<rparr>))"

definition upsert_day ::
  "string \<Rightarrow> int \<Rightarrow> string \<Rightarrow> string \<Rightarrow> ('a world_scheme, nat option) state" where
  "upsert_day emp date st valid = exec (\<lambda>w.
     case uuid_in w emp of
       None \<Rightarrow> None
     | Some e \<Rightarrow>
         Some (1, w\<lparr>daily :=
           upsert (day_key e date) (\<lambda>r. r\<lparr>ad_status := st, ad_valid := valid\<rparr>)
             ((new_day (ids w (issued w)) e date None valid)\<lparr>ad_status := st\<rparr>) (daily w),
           issued := issued w + 1\<rparr>))"

record seed_summary =
  sm_salaries :: int
  sm_days :: int
  sm_leave :: int
  sm_lop :: int
  sm_advances :: int

definition on_leave :: "nat \<Rightarrow> int \<Rightarrow> bool" where
  "on_leave i d \<longleftrightarrow> 25 \<le> i \<and> i < 35 \<and> (d = 10 \<or> d = 11)"

definition on_lop :: "nat \<Rightarrow> int \<Rightarrow> bool" where
  "on_lop i d \<longleftrightarrow> 35 \<le> i \<and> i < 42 \<and> (d = 15 \<or> d = 16)"

definition planned_status :: "nat \<Rightarrow> int \<Rightarrow> string" where
  "planned_status i d =
     (if on_lop i d then ''ABSENT'' else if on_leave i d then ''ON_LEAVE'' else ''PRESENT'')"

definition planned_validation :: "bool \<Rightarrow> string \<Rightarrow> int \<Rightarrow> string" where
  "planned_validation pending code d =
     (if pending \<and> code = ''TEST_EMP_037'' \<and> d = 22 then ''TO_VALIDATE'' else ''VALIDATED'')"

definition seed_day ::
  "int \<Rightarrow> int \<Rightarrow> bool \<Rightarrow> nat \<Rightarrow> string \<times> string \<Rightarrow> int \<Rightarrow> seed_summary \<Rightarrow>
   ('a world_scheme, seed_summary) state" where
  "seed_day month year pending i = (\<lambda>(eid, code) d sm. do {
     let date = go_date year month d;
     (if is_weekend date
      then do {
        _ \<leftarrow> insert_weekend eid date;
        State_Monad.return (sm\<lparr>sm_days := sm_days sm + 1\<rparr>)
      }
      else do {
        _ \<leftarrow> upsert_day eid date (planned_status i d) (planned_validation pending code d);
        State_Monad.return
          (sm\<lparr>sm_leave := sm_leave sm + (if on_leave i d \<and> d = 10 then 1 else 0),
              sm_lop := sm_lop sm + (if on_lop i d \<and> d = 15 then 1 else 0),
              sm_days := sm_days sm + 1\<rparr>)
      })
   })"

definition seed_employee ::
  "int \<Rightarrow> int \<Rightarrow> bool \<Rightarrow> nat \<times> string \<times> string \<Rightarrow> seed_summary \<Rightarrow>
   ('a world_scheme, seed_summary) state" where
  "seed_employee month year pending = (\<lambda>(i, eid, code) sm. do {
     sm1 \<leftarrow> fold_loop (seed_day month year pending i (eid, code)) [1..days_in_month month] sm;
     (if 42 \<le> i \<and> i < 47
      then do {
        r \<leftarrow> insert_advance eid
          \<lparr>aq_employee = eid, aq_amount = 15000, aq_reason = ''Festival Advance'',
           aq_month = month, aq_year = year\<rparr>;
        State_Monad.return
          (if r = None then sm1 else sm1\<lparr>sm_advances := sm_advances sm1 + 1\<rparr>)
      }
      else State_Monad.return sm1)
   })"

section \<open>The script\<close>

text \<open>The part after the employees are read. The organization that it looks up is not used.\<close>

definition seed_all :: "int \<Rightarrow> int \<Rightarrow> bool \<Rightarrow> (string \<times> string) list \<Rightarrow>
    ('a world_scheme, string + seed_summary) state" where
  "seed_all month year pending emps = do {
     foreach seed_salary (enumerate 0 emps);
     _ \<leftarrow> select_row orgs;
     sm \<leftarrow> fold_loop (seed_employee month year pending) (enumerate 0 emps)
       \<lparr>sm_salaries = int (length emps), sm_days = 0, sm_leave = 0, sm_lop = 0, sm_advances = 0\<rparr>;
     State_Monad.return (Inr sm)
   }"

definition seed_payroll_data ::
  "int \<Rightarrow> int \<Rightarrow> bool \<Rightarrow> bool \<Rightarrow> ('a world_scheme, string + seed_summary) state" where
  "seed_payroll_data month year reset pending = do {
     (if reset then reset_period month year else State_Monad.return ());
     orelse (select seeded_employees) (Inl ''Failed to query employees'')
       (\<lambda>emps.
          if emps = []
          then State_Monad.return
            (Inl ''No active employees found! Run scripts/seed-50-employees.sh first.'')
          else seed_all month year pending emps)
   }"

section \<open>What the payroll sees of a seeded period\<close>

lemma go_date_days_of: "1 \<le> month \<Longrightarrow> month \<le> 12 \<Longrightarrow> go_date year month d = days_of year month d"
  by (auto simp: go_date_def days_of_def Let_def)

lemma seeded_day_in_period:
  assumes "1 \<le> month" "month \<le> 12" "1 \<le> d" "d \<le> 28"
  shows "in_period month year (go_date year month d)"
proof -
  have "d \<le> month_days year month" using month_days_bounds [of year month] assms(4) by linarith
  then show ?thesis
    using civil_days_of [OF assms(1-3)] assms(1,2)
    by (simp add: go_date_days_of in_period_def month_of_def year_of_def)
qed

lemma go_date_inj: "go_date y m d = go_date y m d' \<longleftrightarrow> d = d'"
  by (simp add: go_date_def)

lemma keeps_foreach_in:
  "(\<And>x. x \<in> set xs \<Longrightarrow> keeps I (f x)) \<Longrightarrow> keeps I (foreach f xs)"
  by (induction xs) (auto intro: keeps_return keeps_bind)

lemma keeps_fold_loop_in:
  "(\<And>x b. x \<in> set xs \<Longrightarrow> keeps I (f x b)) \<Longrightarrow> keeps I (fold_loop f xs b)"
  by (induction xs arbitrary: b) (auto intro: keeps_return keeps_bind)

lemma wp_keeps: "keeps I m \<Longrightarrow> I w \<Longrightarrow> wp m (\<lambda>_. I) w"
  by (simp add: keeps_def)

text \<open>A loop that reaches \<open>J\<close> at one element, keeping \<open>I\<close> before and \<open>J\<close> after.\<close>

lemma wp_fold_loop_reach:
  assumes "\<And>y b. y \<in> set xs \<Longrightarrow> keeps I (f y b)" "\<And>b w. I w \<Longrightarrow> wp (f x b) (\<lambda>_. J) w"
    "\<And>y b. y \<in> set ys \<Longrightarrow> keeps J (f y b)" "I w"
  shows "wp (fold_loop f (xs @ x # ys) b) (\<lambda>_. J) w"
  using assms(1,4)
proof (induction xs arbitrary: b w)
  case Nil
  have "keeps J (fold_loop f ys c)" for c by (rule keeps_fold_loop_in) (rule assms(3))
  then show ?case
    using assms(2) [OF Nil(2)] by (auto simp: keeps_def intro: wp_mono)
next
  case (Cons y xs)
  have "wp (f y b) (\<lambda>_. I) w" using Cons.prems by (intro wp_keeps) auto
  then show ?case using Cons by (auto intro: wp_mono)
qed

definition waiting :: "daily_row \<Rightarrow> bool" where
  "waiting r \<longleftrightarrow> ad_valid r = ''TO_VALIDATE'' \<or> ad_valid r = ''OT_PENDING''"

text \<open>Nothing fails, the employees are the given ones, and a day of the period waits only if \<open>b\<close>.\<close>

definition seeding :: "employee_row list \<Rightarrow> int \<Rightarrow> int \<Rightarrow> bool \<Rightarrow> 'a world_scheme \<Rightarrow> bool" where
  "seeding es month year b w \<longleftrightarrow>
     outcomes w = [] \<and> \<not> db_nil w \<and> employees w = es
     \<and> (\<forall>e\<in>set es. uuid_in w (e_id e) = Some (e_id e))
     \<and> (\<forall>r\<in>set (daily w). in_period month year (ad_date r) \<longrightarrow> waiting r \<longrightarrow> b)"

definition held_back :: "string \<Rightarrow> int \<Rightarrow> 'a world_scheme \<Rightarrow> bool" where
  "held_back e date w \<longleftrightarrow> (\<exists>r\<in>set (daily w). day_key e date r \<and> ad_valid r = ''TO_VALIDATE'')"

definition seeding_held ::
  "employee_row list \<Rightarrow> int \<Rightarrow> int \<Rightarrow> string \<Rightarrow> int \<Rightarrow> 'a world_scheme \<Rightarrow> bool" where
  "seeding_held es month year e date w \<longleftrightarrow> seeding es month year True w \<and> held_back e date w"

lemma quiet_seeding [simp]: "quiet (seeding es month year b)"
  by (simp add: quiet_def seeding_def)

lemma quiet_seeding_held [simp]: "quiet (seeding_held es month year e date)"
  by (simp add: quiet_def seeding_held_def seeding_def)

lemma seeding_upsert:
  assumes "seeding es month year b w" "waiting (f r) \<longrightarrow> b" "\<And>x. ad_date (f x) = ad_date x"
    "\<And>x. waiting (f x) \<longleftrightarrow> waiting (f r)" "waiting r \<longleftrightarrow> waiting (f r)"
  shows "seeding es month year b (w\<lparr>daily := upsert p f r (daily w), issued := n\<rparr>)"
  using assms by (auto simp: seeding_def dest!: in_upsert)

lemma seeding_weekend: "keeps (seeding es month year b) (insert_weekend eid date)"
  unfolding insert_weekend_def
  by (rule quiet_exec) (auto simp: seeding_def waiting_def new_day_def split: option.splits if_splits)

lemma seeding_upsert_day:
  assumes "valid = ''TO_VALIDATE'' \<longrightarrow> b" "valid \<noteq> ''OT_PENDING''"
  shows "keeps (seeding es month year b) (upsert_day eid date st valid)"
  unfolding upsert_day_def
  by (rule quiet_exec)
    (use assms in \<open>auto intro!: seeding_upsert simp: waiting_def new_day_def split: option.splits\<close>)

lemma held_weekend:
  "keeps (seeding_held es month year e date) (insert_weekend eid date')"
  unfolding insert_weekend_def
  by (rule quiet_exec) (auto simp: seeding_held_def held_back_def seeding_def waiting_def
      new_day_def split: option.splits if_splits)

lemma held_upsert_day:
  assumes "eid \<in> e_id ` set es" "eid \<noteq> e \<or> date' \<noteq> date" "valid \<noteq> ''OT_PENDING''"
  shows "keeps (seeding_held es month year e date) (upsert_day eid date' st valid)"
  unfolding upsert_day_def
proof (rule quiet_exec, simp)
  fix w :: "'a world_scheme" and n w'
  assume u: "(case uuid_in w eid of None \<Rightarrow> None | Some e \<Rightarrow> Some (1 :: nat, w\<lparr>daily :=
      upsert (day_key e date') (\<lambda>r. r\<lparr>ad_status := st, ad_valid := valid\<rparr>)
        (new_day (ids w (issued w)) e date' None valid\<lparr>ad_status := st\<rparr>) (daily w),
      issued := issued w + 1\<rparr>)) = Some (n, w')"
    and i: "seeding_held es month year e date w"
  then have id: "uuid_in w eid = Some eid" "seeding es month year True w"
    using assms(1) by (auto simp: seeding_held_def seeding_def)
  obtain r where r: "r \<in> set (daily w)" "day_key e date r" "ad_valid r = ''TO_VALIDATE''"
    using i by (auto simp: seeding_held_def held_back_def)
  have "\<not> day_key eid date' r" using r(2) assms(2) by (auto simp: day_key_def)
  then have "r \<in> set (daily w')"
    using u r(1) id(1) by (auto simp: upsert_def in_upd_where)
  then show "seeding_held es month year e date w'"
    using u id r seeding_upsert [OF id(2), of "\<lambda>r. r\<lparr>ad_status := st, ad_valid := valid\<rparr>"
        "new_day (ids w (issued w)) eid date' None valid\<lparr>ad_status := st\<rparr>" "issued w + 1"
        "day_key eid date'"]
    by (auto simp: seeding_held_def held_back_def waiting_def new_day_def)
qed

lemma upsert_found: "\<exists>x\<in>set (upsert p f r rs). x = r \<or> (\<exists>y\<in>set rs. p y \<and> x = f y)"
proof (cases "\<exists>y\<in>set rs. p y")
  case True
  then obtain y where "y \<in> set rs" "p y" by blast
  then have "f y \<in> set (upsert p f r rs)" by (force simp: upsert_def in_upd_where)
  then show ?thesis using \<open>y \<in> set rs\<close> \<open>p y\<close> by blast
qed (simp add: upsert_def)

lemma hold_upsert_day:
  assumes "eid \<in> e_id ` set es" "seeding es month year True w"
  shows "wp (upsert_day eid date st ''TO_VALIDATE'')
           (\<lambda>_. seeding_held es month year eid date) w"
proof -
  have k: "keeps (seeding es month year True) (upsert_day eid date st ''TO_VALIDATE'')"
    by (rule seeding_upsert_day) auto
  have u: "uuid_in w eid = Some eid" "outcomes w = []" using assms by (auto simp: seeding_def)
  have "wp (upsert_day eid date st ''TO_VALIDATE'') (\<lambda>_. held_back eid date) w"
  proof -
    let ?r = "new_day (ids w (issued w)) eid date None ''TO_VALIDATE''\<lparr>ad_status := st\<rparr>"
    let ?f = "\<lambda>r :: daily_row. r\<lparr>ad_status := st, ad_valid := ''TO_VALIDATE''\<rparr>"
    obtain x where x: "x \<in> set (upsert (day_key eid date) ?f ?r (daily w))"
      "x = ?r \<or> (\<exists>y\<in>set (daily w). day_key eid date y \<and> x = ?f y)"
      using upsert_found [of "day_key eid date" ?f ?r "daily w"] by blast
    then have "day_key eid date x \<and> ad_valid x = ''TO_VALIDATE''"
      by (auto simp: day_key_def new_day_def)
    then show ?thesis
      unfolding wp_def upsert_day_def run_exec_calm [OF u(2)] held_back_def
      using x(1) by (simp add: u(1)) blast
  qed
  then show ?thesis
    using wp_keeps [OF k assms(2)] by (auto simp: wp_def seeding_held_def split: prod.splits)
qed

lemma keeps_seed_salary:
  assumes "quiet I" "\<And>w ss n. I w \<Longrightarrow> I (w\<lparr>structures := ss, issued := n\<rparr>)"
  shows "keeps I (seed_salary x)"
proof -
  obtain i eid code where x: "x = (i, eid, code)" by (rule prod_cases3)
  have "keeps I (insert_structure q)" for q
    unfolding insert_structure_def
    by (rule quiet_insert_row [OF assms(1)]) (auto intro: assms(2) split: option.splits)
  then show ?thesis
    unfolding x seed_salary_def prod.case by (intro keeps_rules quiet_query_row assms(1))
qed

lemma keeps_insert_advance:
  assumes "quiet I" "\<And>w as n. I w \<Longrightarrow> I (w\<lparr>advances := as, issued := n\<rparr>)"
  shows "keeps I (insert_advance eid q)"
  unfolding insert_advance_def
  by (rule quiet_insert_row [OF assms(1)]) (auto intro: assms(2) split: option.splits)

lemma seeding_other_tables:
  "seeding es month year b w \<Longrightarrow> seeding es month year b (w\<lparr>structures := ss, issued := n\<rparr>)"
  "seeding es month year b w \<Longrightarrow> seeding es month year b (w\<lparr>advances := as, issued := n\<rparr>)"
  "seeding_held es month year e date w \<Longrightarrow>
     seeding_held es month year e date (w\<lparr>advances := as, issued := n\<rparr>)"
  by (simp_all add: seeding_def seeding_held_def held_back_def)

text \<open>The employee whose day the flag holds back, when that day is no weekend.\<close>

definition flagged :: "bool \<Rightarrow> int \<Rightarrow> int \<Rightarrow> string \<Rightarrow> int \<Rightarrow> bool" where
  "flagged pending month year code d \<longleftrightarrow>
     pending \<and> code = ''TEST_EMP_037'' \<and> d = 22 \<and> \<not> is_weekend (go_date year month d)"

lemma seeding_seed_day:
  assumes "flagged pending month year code d \<longrightarrow> b"
  shows "keeps (seeding es month year b) (seed_day month year pending i (eid, code) d sm)"
  unfolding seed_day_def prod.case Let_def
  by (intro keeps_rules seeding_weekend seeding_upsert_day)
    (use assms in \<open>auto simp: planned_validation_def flagged_def\<close>)

lemma held_seed_day:
  assumes "eid \<in> e_id ` set es" "eid \<noteq> e \<or> d \<noteq> d'"
  shows "keeps (seeding_held es month year e (go_date year month d'))
           (seed_day month year pending i (eid, code) d sm)"
  unfolding seed_day_def prod.case Let_def
  by (intro keeps_rules held_weekend held_upsert_day)
    (use assms in \<open>auto simp: planned_validation_def go_date_inj\<close>)

lemma seeding_seed_employee:
  assumes "flagged pending month year code 22 \<longrightarrow> b"
  shows "keeps (seeding es month year b) (seed_employee month year pending (i, eid, code) sm)"
proof -
  have "flagged pending month year code d \<longrightarrow> b" for d
    using assms by (auto simp: flagged_def)
  then show ?thesis
    unfolding seed_employee_def prod.case
    by (intro keeps_rules seeding_seed_day keeps_insert_advance quiet_seeding seeding_other_tables)
qed

lemma held_seed_employee:
  assumes "eid \<in> e_id ` set es" "eid \<noteq> e"
  shows "keeps (seeding_held es month year e (go_date year month 22))
           (seed_employee month year pending (i, eid, code) sm)"
  unfolding seed_employee_def prod.case
  by (intro keeps_rules held_seed_day keeps_insert_advance quiet_seeding_held
      seeding_other_tables assms(1) disjI1 assms(2))

lemma hold_seed_employee:
  assumes "flagged pending month year code 22" "eid \<in> e_id ` set es" "seeding es month year True w"
  shows "wp (seed_employee month year pending (i, eid, code) sm)
           (\<lambda>_. seeding_held es month year eid (go_date year month 22)) w"
proof -
  let ?J = "seeding_held es month year eid (go_date year month 22)"
  have days: "[1..days_in_month month] = [1..21] @ 22 # [23..days_in_month month]"
    using upto_split3 [of 1 22 "days_in_month month"] by (simp add: days_in_month_def)
  have "wp (seed_day month year pending i (eid, code) 22 b) (\<lambda>_. ?J) v"
    if "seeding es month year True v" for b v
    using that assms(1,2) hold_upsert_day [OF assms(2) that]
    by (auto simp: seed_day_def flagged_def planned_validation_def intro: wp_mono)
  then have l: "wp (fold_loop (seed_day month year pending i (eid, code)) [1..days_in_month month] sm)
      (\<lambda>_. ?J) w"
    unfolding days
    by (intro wp_fold_loop_reach [where I = "seeding es month year True"] seeding_seed_day
        held_seed_day assms(2,3)) auto
  have k: "keeps ?J (insert_advance eid q)" for q
    by (intro keeps_insert_advance quiet_seeding_held seeding_other_tables)
  show ?thesis
    unfolding seed_employee_def prod.case wp_bind
    by (rule wp_mono [OF l]) (auto intro!: wp_mono [OF wp_keeps [OF k]])
qed

lemma reset_period_seeding:
  assumes "outcomes w = []" "\<not> db_nil w" "\<forall>e\<in>set (employees w). uuid_in w (e_id e) = Some (e_id e)"
  shows "wp (reset_period month year) (\<lambda>_. seeding (employees w) month year False) w"
  using assms by (simp add: wp_def reset_period_def delete_period_slips_def delete_period_runs_def
      delete_period_advances_def delete_period_days_def run_calm Let_def seeding_def)

lemma seeding_mono: "seeding es month year b w \<Longrightarrow> (b \<Longrightarrow> c) \<Longrightarrow> seeding es month year c w"
  by (auto simp: seeding_def)

lemma seeded_employees_distinct:
  assumes "distinct (map e_id (employees w))"
  shows "distinct (map fst (seeded_employees w))"
proof -
  have "distinct (map e_id (filter active_employee (employees w)))"
    using assms by (rule distinct_map_filter)
  then show ?thesis by (simp add: seeded_employees_def o_def distinct_map)
qed

lemma seeded_employees_set:
  "set (seeded_employees w) = (\<lambda>e. (e_id e, e_code e)) ` {e \<in> set (employees w). active_employee e}"
  by (simp add: seeded_employees_def)


lemma enumerate_codes:
  assumes "(i, eid, code) \<in> set (enumerate 0 emps)"
  shows "(eid, code) \<in> set emps"
proof -
  have "i < length emps" "emps ! i = (eid, code)"
    using assms by (simp_all add: in_set_enumerate_eq)
  then show ?thesis using nth_mem by force
qed

lemma seed_all_seeding:
  assumes "\<And>eid code. (eid, code) \<in> set emps \<Longrightarrow> flagged pending month year code 22 \<longrightarrow> b"
  shows "keeps (seeding es month year b) (seed_all month year pending emps)"
proof -
  have "keeps (seeding es month year b) (seed_employee month year pending x sm)"
    if "x \<in> set (enumerate 0 emps)" for x sm
  proof -
    obtain i eid code where x: "x = (i, eid, code)" by (rule prod_cases3)
    show ?thesis
      unfolding x by (rule seeding_seed_employee, rule assms, rule enumerate_codes) (use that x in simp)
  qed
  then have "keeps (seeding es month year b)
      (fold_loop (seed_employee month year pending) (enumerate 0 emps) sm)" for sm
    by (rule keeps_fold_loop_in)
  moreover have "keeps (seeding es month year b) (foreach seed_salary (enumerate 0 emps))"
    by (intro keeps_foreach keeps_seed_salary quiet_seeding seeding_other_tables)
  moreover have "keeps (seeding es month year b) (select_row orgs)"
    unfolding select_row_def by (rule quiet_query_row) simp
  ultimately show ?thesis
    unfolding seed_all_def by (intro keeps_bind keeps_return)
qed

lemma seed_all_held:
  assumes "(eid, code) \<in> set emps" "flagged pending month year code 22" "distinct (map fst emps)"
    "fst ` set emps \<subseteq> e_id ` set es" "seeding es month year True w"
  shows "wp (seed_all month year pending emps)
           (\<lambda>_. seeding_held es month year eid (go_date year month 22)) w"
proof -
  let ?I = "seeding es month year True"
  let ?J = "seeding_held es month year eid (go_date year month 22)"
  have "(eid, code) \<in> snd ` set (enumerate 0 emps)"
    using assms(1) by (metis list.set_map map_snd_enumerate)
  then obtain i xs ys where e: "enumerate 0 emps = xs @ (i, eid, code) # ys"
    by (auto dest: split_list)
  have ids: "fst (snd x) \<in> e_id ` set es" if "x \<in> set (enumerate 0 emps)" for x
  proof -
    obtain j e c where x: "x = (j, e, c)" by (rule prod_cases3)
    have "(e, c) \<in> set emps" by (rule enumerate_codes [of j]) (use that x in simp)
    then show ?thesis using assms(4) x by force
  qed
  have "map (\<lambda>x. fst (snd x)) (enumerate 0 emps) = map fst (map snd (enumerate 0 emps))"
    by (simp del: map_snd_enumerate)
  then have "distinct (map (\<lambda>x. fst (snd x)) (enumerate 0 emps))"
    using assms(3) by simp
  then have other: "fst (snd y) \<noteq> eid" if "y \<in> set ys" for y
    using that unfolding e by force
  have "wp (fold_loop (seed_employee month year pending) (enumerate 0 emps) b) (\<lambda>_. ?J) v"
    if "?I v" for b v
    unfolding e
  proof (rule wp_fold_loop_reach [where I = ?I])
    show "keeps ?I (seed_employee month year pending y c)" for y c
      by (cases y) (auto intro: seeding_seed_employee)
    show "wp (seed_employee month year pending (i, eid, code) c) (\<lambda>_. ?J) u" if "?I u" for c u
      using assms(2) _ that by (rule hold_seed_employee) (use ids e in force)
    show "keeps ?J (seed_employee month year pending y c)" if "y \<in> set ys" for y c
      using other [OF that] ids [of y] that e by (cases y) (auto intro: held_seed_employee)
  qed (rule that)
  then have l: "wp (do { sm \<leftarrow> fold_loop (seed_employee month year pending) (enumerate 0 emps) b;
      State_Monad.return (Inr sm) }) (\<lambda>_. ?J) v" if "?I v" for b v
    using that by simp
  have s: "keeps ?I (foreach seed_salary (enumerate 0 emps))"
    by (intro keeps_foreach keeps_seed_salary quiet_seeding seeding_other_tables)
  have o: "keeps ?I (select_row orgs)"
    unfolding select_row_def by (rule quiet_query_row) simp
  show ?thesis
    unfolding seed_all_def wp_bind [of "foreach _ _"] wp_bind [of "select_row _"]
    by (rule wp_mono [OF wp_keeps [OF s assms(5)]], rule wp_mono [OF wp_keeps [OF o]], assumption,
        rule l)
qed

text \<open>After the reset, the employees are read and the rest runs on the emptied period.\<close>

lemma wp_seed_payroll:
  assumes "outcomes w = []" "\<not> db_nil w" "\<forall>e\<in>set (employees w). uuid_in w (e_id e) = Some (e_id e)"
    "\<And>v. seeding (employees w) month year False v \<Longrightarrow> seeded_employees v = [] \<Longrightarrow> Q v"
    "\<And>v. seeding (employees w) month year False v \<Longrightarrow> seeded_employees v \<noteq> [] \<Longrightarrow>
       wp (seed_all month year pending (seeded_employees v)) (\<lambda>_. Q) v"
  shows "wp (seed_payroll_data month year True pending) (\<lambda>_. Q) w"
proof -
  have "wp (orelse (select seeded_employees) (Inl ''Failed to query employees'')
       (\<lambda>emps. if emps = []
          then State_Monad.return
            (Inl ''No active employees found! Run scripts/seed-50-employees.sh first.'')
          else seed_all month year pending emps)) (\<lambda>_. Q) v"
    if "seeding (employees w) month year False v" for v
    using that assms(4,5) [OF that] by (auto simp: wp_def seeding_def run_orelse run_select_calm)
  then show ?thesis
    unfolding seed_payroll_data_def wp_bind if_True
    by (rule wp_mono [OF reset_period_seeding [OF assms(1-3)]])
qed

definition seed_ready :: "int \<Rightarrow> int \<Rightarrow> 'a world_scheme \<Rightarrow> bool" where
  "seed_ready month year w \<longleftrightarrow> calm w \<and> \<not> db_nil w \<and> 1 \<le> month \<and> month \<le> 12
     \<and> distinct (map e_id (employees w))
     \<and> (\<forall>e\<in>set (employees w). uuid_in w (e_id e) = Some (e_id e))"

definition some_day_held :: "int \<Rightarrow> int \<Rightarrow> bool \<Rightarrow> employee_row list \<Rightarrow> bool" where
  "some_day_held month year pending es \<longleftrightarrow> pending \<and> \<not> is_weekend (days_of year month 22)
     \<and> (\<exists>e\<in>set es. active_employee e \<and> e_code e = ''TEST_EMP_037'')"

lemma wp_seed_period:
  assumes "seed_ready month year w"
  shows "wp (seed_payroll_data month year True pending)
           (\<lambda>_. seeding (employees w) month year (some_day_held month year pending (employees w))) w"
proof -
  let ?B = "some_day_held month year pending (employees w)"
  have m: "1 \<le> month" "month \<le> 12" using assms by (simp_all add: seed_ready_def)
  have flag: "flagged pending month year code 22 \<longrightarrow> ?B"
    if "(eid, code) \<in> set (seeded_employees v)" "seeding (employees w) month year False v"
    for eid code and v :: "'a world_scheme"
    using that m
    by (auto simp: seeded_employees_set seeding_def flagged_def go_date_days_of some_day_held_def)
  show ?thesis
    using assms
    by (intro wp_seed_payroll wp_keeps [OF seed_all_seeding [OF flag]])
      (auto simp: seed_ready_def calm_def intro: seeding_mono)
qed

lemma wp_seed_period_held:
  assumes "seed_ready month year w" "some_day_held month year pending (employees w)"
  shows "\<exists>e. wp (seed_payroll_data month year True pending)
           (\<lambda>_. seeding_held (employees w) month year e (go_date year month 22)) w"
proof -
  let ?es = "employees w"
  obtain e where e: "e \<in> set ?es" "active_employee e" "e_code e = ''TEST_EMP_037''"
    using assms(2) by (auto simp: some_day_held_def)
  let ?J = "seeding_held ?es month year (e_id e) (go_date year month 22)"
  have m: "1 \<le> month" "month \<le> 12" "distinct (map e_id ?es)"
    and w: "outcomes w = []" "\<not> db_nil w" "\<forall>e\<in>set ?es. uuid_in w (e_id e) = Some (e_id e)"
    using assms(1) by (simp_all add: seed_ready_def calm_def)
  have "wp (seed_payroll_data month year True pending) (\<lambda>_. ?J) w"
  proof (rule wp_seed_payroll [OF w])
    fix v :: "'a world_scheme"
    assume v: "seeding ?es month year False v"
    then have es: "employees v = ?es" by (simp add: seeding_def)
    then have i: "(e_id e, e_code e) \<in> set (seeded_employees v)"
      using e by (auto simp: seeded_employees_set)
    then show "?J v" if "seeded_employees v = []" using that by simp
    show "wp (seed_all month year pending (seeded_employees v)) (\<lambda>_. ?J) v"
    proof (rule seed_all_held [OF i])
      show "flagged pending month year (e_code e) 22"
        using assms(2) e(3) unfolding flagged_def go_date_days_of [OF m(1,2)] some_day_held_def by blast
      show "distinct (map fst (seeded_employees v))"
        by (rule seeded_employees_distinct) (use m(3) es in simp)
      show "fst ` set (seeded_employees v) \<subseteq> e_id ` set ?es"
        unfolding seeded_employees_set es by auto
      show "seeding ?es month year True v" using v by (rule seeding_mono) simp
    qed
  qed
  then show ?thesis by blast
qed

text \<open>
  C34. A seeded period lets payroll go on, unless the script was told to hold a day back. After the
  script has reset and filled a period without a failing statement, the readiness check of that
  period succeeds; with the flag \<^verbatim>\<open>-pending-attendance\<close> it fails exactly if the employee
  \<^verbatim>\<open>TEST\_EMP\_037\<close> is active and the 22nd of the month is no weekend. In a month whose 22nd is a
  Saturday or a Sunday the flag does nothing.
\<close>

theorem seeded_period_ready:
  assumes "seed_ready month year w"
  shows "let w' = snd (run_state (seed_payroll_data month year True pending) w)
         in rd_ready (fst (run_state (check_payroll_readiness month year) w'))
            \<longleftrightarrow> \<not> some_day_held month year pending (employees w)"
proof -
  let ?B = "some_day_held month year pending (employees w)"
  define w' where "w' = snd (run_state (seed_payroll_data month year True pending) w)"
  have s: "seeding (employees w) month year ?B w'"
    unfolding w'_def by (rule wp_snd [OF wp_seed_period [OF assms]])
  have "\<exists>d\<in>set (daily w'). in_period month year (ad_date d) \<and> waiting d" if b: ?B
  proof -
    obtain e where "wp (seed_payroll_data month year True pending)
        (\<lambda>_. seeding_held (employees w) month year e (go_date year month 22)) w"
      using wp_seed_period_held [OF assms b] by blast
    then have "seeding_held (employees w) month year e (go_date year month 22) w'"
      unfolding w'_def by (rule wp_snd)
    then obtain d where "d \<in> set (daily w')" "ad_date d = go_date year month 22" "waiting d"
      unfolding seeding_held_def held_back_def day_key_def waiting_def by blast
    then show ?thesis
      using seeded_day_in_period [of month 22 year] assms
      by (intro bexI [of _ d]) (simp_all add: seed_ready_def)
  qed
  then have "(\<forall>d\<in>set (daily w'). in_period month year (ad_date d) \<longrightarrow> \<not> waiting d) \<longleftrightarrow> \<not> ?B"
    using s unfolding seeding_def by blast
  moreover have "outcomes w' = []" "\<not> db_nil w'" using s by (simp_all add: seeding_def)
  ultimately show ?thesis
    using readiness_calm [of w' month year] unfolding w'_def Let_def by (auto simp: waiting_def)
qed

definition seed_office :: world where
  "seed_office = empty_world\<lparr>employees := [demo_employee\<lparr>e_code := ''TEST_EMP_037''\<rparr>]\<rparr>"

text \<open>22 July 2026 is a Wednesday, 22 March 2026 a Sunday.\<close>

theorem seeded_period_ready_witness:
  "\<not> rd_ready (fst (run_state (check_payroll_readiness 7 2026)
       (snd (run_state (seed_payroll_data 7 2026 True True) seed_office))))
   \<and> rd_ready (fst (run_state (check_payroll_readiness 3 2026)
       (snd (run_state (seed_payroll_data 3 2026 True True) seed_office))))"
proof -
  have r: "seed_ready m 2026 seed_office" if "1 \<le> m" "m \<le> 12" for m
    using that by (simp add: seed_ready_def calm_def seed_office_def) (simp add: empty_world_def)
  have "\<not> is_weekend (days_of 2026 7 22)" "is_weekend (days_of 2026 3 22)" by code_simp+
  then show ?thesis
    using seeded_period_ready [OF r [of 7], of True] seeded_period_ready [OF r [of 3], of True]
    by (simp add: Let_def some_day_held_def seed_office_def active_employee_def demo_employee_def)
qed

section \<open>Seeding twice\<close>

text \<open>Nothing fails and what the salaries depend on is given: the employees and the structures.\<close>

definition salaried ::
  "'a world_scheme \<Rightarrow> structure_row list \<Rightarrow> 'a world_scheme \<Rightarrow> bool" where
  "salaried w0 ss w \<longleftrightarrow> outcomes w = [] \<and> employees w = employees w0 \<and> uuid_in w = uuid_in w0
     \<and> to_num w = to_num w0 \<and> structures w = ss"

lemma quiet_salaried [simp]: "quiet (salaried w0 ss)"
  by (simp add: quiet_def salaried_def)

lemma salaried_days:
  "keeps (salaried w0 ss) (insert_weekend eid date)"
  "keeps (salaried w0 ss) (upsert_day eid date st valid)"
  "keeps (salaried w0 ss) (insert_advance eid q)"
  "keeps (salaried w0 ss) (delete_period_slips month year)"
  "keeps (salaried w0 ss) (delete_period_runs month year)"
  "keeps (salaried w0 ss) (delete_period_advances month year)"
  "keeps (salaried w0 ss) (delete_period_days month year)"
  unfolding insert_weekend_def upsert_day_def insert_advance_def delete_period_slips_def
    delete_period_runs_def delete_period_advances_def delete_period_days_def
  by (rule quiet_exec quiet_insert_row, simp,
      auto simp: salaried_def Let_def split: option.splits if_splits)+

lemma salaried_seed_employee: "keeps (salaried w0 ss) (seed_employee month year pending x sm)"
proof -
  obtain i eid code where x: "x = (i, eid, code)" by (rule prod_cases3)
  have "keeps (salaried w0 ss) (seed_day month year pending i (eid, code) d sm)" for d sm
    unfolding seed_day_def prod.case Let_def by (intro keeps_rules salaried_days)
  then show ?thesis
    unfolding x seed_employee_def prod.case by (intro keeps_rules salaried_days)
qed

text \<open>One more active structure for each employee, with the given identifiers in this order.\<close>

definition one_more :: "string list \<Rightarrow> structure_row list \<Rightarrow> structure_row list \<Rightarrow> bool" where
  "one_more es ss ss' \<longleftrightarrow>
     (\<exists>new. ss' = ss @ new \<and> map ss_emp new = es \<and> (\<forall>s\<in>set new. ss_active s))"

lemma wp_seed_salary:
  assumes "salaried w0 ss w" "uuid_in w0 eid = Some eid" "\<forall>x. to_num w0 2 x \<noteq> None"
  shows "wp (seed_salary (i, eid, code)) (\<lambda>_ w'. \<exists>s. salaried w0 (ss @ [s]) w'
           \<and> ss_emp s = eid \<and> ss_active s) w"
proof -
  obtain b where b: "to_num w0 2 (seeded_salary i) = Some b" using assms(3) by blast
  have o: "outcomes w = []" using assms(1) by (simp add: salaried_def)
  show ?thesis
    using assms(1,2) b
    by (auto simp: wp_def seed_salary_def run_bind insert_structure_def run_insert_calm [OF o]
        run_query_row_calm salaried_def)
qed

lemma wp_seed_salaries:
  assumes "salaried w0 ss w" "\<forall>x\<in>set xs. uuid_in w0 (fst (snd x)) = Some (fst (snd x))"
    "\<forall>x. to_num w0 2 x \<noteq> None"
  shows "wp (foreach seed_salary xs)
           (\<lambda>_ w'. \<exists>ss'. salaried w0 ss' w' \<and> one_more (map (\<lambda>x. fst (snd x)) xs) ss ss') w"
  using assms(1,2)
proof (induction xs arbitrary: ss w)
  case Nil
  then show ?case by (auto simp: one_more_def)
next
  case (Cons x xs)
  obtain i eid code where x: "x = (i, eid, code)" by (rule prod_cases3)
  have "wp (seed_salary x) (\<lambda>_ w'. \<exists>s. salaried w0 (ss @ [s]) w' \<and> ss_emp s = eid \<and> ss_active s) w"
    unfolding x by (rule wp_seed_salary [OF Cons.prems(1) _ assms(3)]) (use Cons.prems(2) x in simp)
  then show ?case
    unfolding foreach.simps wp_bind
  proof (rule wp_mono)
    fix u :: unit and w'
    assume "\<exists>s. salaried w0 (ss @ [s]) w' \<and> ss_emp s = eid \<and> ss_active s"
    then obtain s where s: "salaried w0 (ss @ [s]) w'" "ss_emp s = eid" "ss_active s" by blast
    show "wp (foreach seed_salary xs) (\<lambda>_ w'. \<exists>ss'. salaried w0 ss' w'
        \<and> one_more (map (\<lambda>x. fst (snd x)) (x # xs)) ss ss') w'"
    proof (rule wp_mono [OF Cons.IH [OF s(1)]])
      show "\<forall>y\<in>set xs. uuid_in w0 (fst (snd y)) = Some (fst (snd y))" using Cons.prems(2) by simp
      fix u :: unit and v
      assume "\<exists>ss'. salaried w0 ss' v \<and> one_more (map (\<lambda>x. fst (snd x)) xs) (ss @ [s]) ss'"
      then obtain new where "salaried w0 (ss @ s # new) v"
        "map ss_emp new = map (\<lambda>x. fst (snd x)) xs" "\<forall>s\<in>set new. ss_active s"
        by (auto simp: one_more_def)
      then show "\<exists>ss'. salaried w0 ss' v \<and> one_more (map (\<lambda>x. fst (snd x)) (x # xs)) ss ss'"
        using s(2,3) x by (intro exI [of _ "ss @ s # new"]) (auto simp: one_more_def)
    qed
  qed
qed

lemma wp_seed_once:
  assumes "salaried w0 ss w" "\<forall>e\<in>set (employees w0). uuid_in w0 (e_id e) = Some (e_id e)"
    "\<forall>x. to_num w0 2 x \<noteq> None"
  shows "wp (seed_payroll_data month year reset pending)
           (\<lambda>_ w'. \<exists>ss'. salaried w0 ss' w' \<and> one_more (map fst (seeded_employees w0)) ss ss') w"
proof -
  let ?Q = "\<lambda>w' :: 'a world_scheme. \<exists>ss'. salaried w0 ss' w' \<and> one_more (map fst (seeded_employees w0)) ss ss'"
  let ?emps = "seeded_employees w0"
  have r: "keeps (salaried w0 ss) (if reset then reset_period month year else State_Monad.return ())"
    unfolding reset_period_def by (intro keeps_rules salaried_days)
  have ids: "\<forall>x\<in>set (enumerate 0 ?emps). uuid_in w0 (fst (snd x)) = Some (fst (snd x))"
  proof
    fix x
    assume x: "x \<in> set (enumerate 0 ?emps)"
    obtain i eid code where y: "x = (i, eid, code)" by (rule prod_cases3)
    have "(eid, code) \<in> set ?emps" by (rule enumerate_codes [of i]) (use x y in simp)
    then show "uuid_in w0 (fst (snd x)) = Some (fst (snd x))"
      using assms(2) y by (auto simp: seeded_employees_set)
  qed
  have names: "map (\<lambda>x. fst (snd x)) (enumerate 0 ?emps) = map fst ?emps"
  proof -
    have "map (\<lambda>x. fst (snd x)) (enumerate 0 ?emps) = map fst (map snd (enumerate 0 ?emps))"
      by (simp del: map_snd_enumerate)
    then show ?thesis by simp
  qed
  have all: "wp (seed_all month year pending ?emps) (\<lambda>_. ?Q) v" if v: "salaried w0 ss v" for v
  proof -
    have o: "keeps (salaried w0 t) (select_row orgs)" for t
      unfolding select_row_def by (rule quiet_query_row) simp
    have k: "keeps (salaried w0 t) (do { _ \<leftarrow> select_row orgs;
        sm \<leftarrow> fold_loop (seed_employee month year pending) (enumerate 0 ?emps) b;
        State_Monad.return (Inr sm) })" for t b
      by (intro keeps_bind keeps_return keeps_fold_loop salaried_seed_employee o)
    have rest: "wp (do { _ \<leftarrow> select_row orgs;
        sm \<leftarrow> fold_loop (seed_employee month year pending) (enumerate 0 ?emps) b;
        State_Monad.return (Inr sm) }) (\<lambda>_. ?Q) u" if q: "?Q u" for u b
    proof -
      obtain ss' where "salaried w0 ss' u" "one_more (map fst ?emps) ss ss'" using q by blast
      then show ?thesis
        by (intro wp_mono [OF wp_keeps [OF k]]) blast+
    qed
    show ?thesis
      unfolding seed_all_def wp_bind [of "foreach _ _"]
      by (rule wp_mono [OF wp_seed_salaries [OF v ids assms(3)]]) (simp only: names rest)
  qed
  have none: "?Q v" if "salaried w0 ss v" "?emps = []" for v
    using that by (auto simp: one_more_def)
  have "wp (orelse (select seeded_employees) (Inl ''Failed to query employees'')
       (\<lambda>emps. if emps = []
          then State_Monad.return
            (Inl ''No active employees found! Run scripts/seed-50-employees.sh first.'')
          else seed_all month year pending emps)) (\<lambda>_. ?Q) v" if v: "salaried w0 ss v" for v
  proof -
    have "seeded_employees v = ?emps" "outcomes v = []"
      using v by (simp_all add: salaried_def seeded_employees_def)
    then show ?thesis
      using none [OF v] all [OF v] by (simp add: wp_def run_orelse run_select_calm)
  qed
  then show ?thesis
    unfolding seed_payroll_data_def wp_bind
    by (rule wp_mono [OF wp_keeps [OF r assms(1)]])
qed

definition active_of :: "string \<Rightarrow> structure_row list \<Rightarrow> nat" where
  "active_of e ss = count_where (\<lambda>s. ss_emp s = e \<and> ss_active s) ss"

lemma active_of_one_more:
  assumes "one_more es ss ss'" "distinct es" "e \<in> set es"
  shows "active_of e ss' = active_of e ss + 1"
proof -
  obtain new where n: "ss' = ss @ new" "map ss_emp new = es" "\<forall>s\<in>set new. ss_active s"
    using assms(1) by (auto simp: one_more_def)
  have "filter (\<lambda>s. ss_emp s = e \<and> ss_active s) new = filter (\<lambda>s. ss_emp s = e) new"
    using n(3) by (intro filter_cong) auto
  moreover have "length (filter (\<lambda>s. ss_emp s = e) new) = length (filter ((=) e) es)"
    unfolding n(2) [symmetric] filter_map by (simp add: o_def eq_commute)
  moreover have "length (filter ((=) e) es) = 1"
    using distinct_length_filter [OF assms(2), of "(=) e"] assms(3) by (simp add: Collect_conv_if)
  ultimately show ?thesis by (simp add: active_of_def count_where_def n(1))
qed

lemma length_payroll_rows:
  "length (payroll_rows w) =
     sum_list (map (\<lambda>e. max 1 (active_of (e_id e) (structures w))) (filter active_employee (employees w)))"
  unfolding payroll_rows_def length_concat map_map
  by (rule arg_cong [where f = sum_list], rule map_cong)
    (auto simp: Let_def active_of_def count_where_def split: list.split)



end
