(* ===== verification/Seed_Data.thy ===== *)
theory Seed_Data
  imports Seed_Payroll Employees Users
begin

text \<open>
  \<^verbatim>\<open>backend/scripts/seed.go\<close>, \<^verbatim>\<open>seed_rbac_audit.go\<close> and
  \<^verbatim>\<open>seed_50_test_employees.go\<close>: the scripts that fill an empty database with roles,
  accounts and employees. Each is a computation on the tables of the service and those that only the
  scripts write; its output on the terminal is left out.
\<close>

section \<open>Tables and statements\<close>

text \<open>
  The codes of the organizations, the organization and the code of the departments, and
  \<^verbatim>\<open>performance_cycles\<close>. The names of organizations are left out.
\<close>

record cycle_row =
  cy_id :: string
  cy_title :: string
  cy_start :: int
  cy_end :: int
  cy_status :: string

record seed_world = office_world +
  org_codes :: "(string \<times> string) list"
  dept_keys :: "(string \<times> string \<times> string) list"
  cycles :: "cycle_row list"

definition empty_seed :: seed_world where
  "empty_seed = office_world.extend empty_office (seed_world.fields [] [] [])"

text \<open>An \<^verbatim>\<open>INSERT\<close> without the organization, which is \<^verbatim>\<open>NOT NULL\<close>.\<close>

definition without_org :: "('t conn_scheme, string option) state" where
  "without_org = stmt (\<lambda>_. None)"

text \<open>
  \<^verbatim>\<open>ON CONFLICT ... DO UPDATE ... RETURNING id\<close> on a table with the key \<open>p\<close>: the first row
  that has it is updated and its identifier returned, or the row is added under a new identifier.
\<close>

definition returning ::
  "('r \<Rightarrow> bool) \<Rightarrow> ('r \<Rightarrow> string) \<Rightarrow> ('r \<Rightarrow> 'r) \<Rightarrow> 'r \<Rightarrow> 'r list \<Rightarrow> (string \<times> 'r list) option" where
  "returning p key f r rs =
     (case find p rs of
        Some x \<Rightarrow> Some (key x, upd_where p f rs)
      | None \<Rightarrow> if key r \<in> key ` set rs then None else Some (key r, rs @ [r]))"

definition upsert_role :: "string \<Rightarrow> ('a world_scheme, string option) state" where
  "upsert_role name = stmt (\<lambda>w. map_option
     (\<lambda>(i, rs). (i, w\<lparr>roles := rs, issued := issued w + 1\<rparr>))
     (returning (\<lambda>r. ro_name r = name) ro_id id
        \<lparr>ro_id = ids w (issued w), ro_name = name, ro_desc = None\<rparr> (roles w)))"

definition upsert_described_role :: "string \<Rightarrow> string \<Rightarrow> ('a world_scheme, string option) state" where
  "upsert_described_role name desc = stmt (\<lambda>w. map_option
     (\<lambda>(i, rs). (i, w\<lparr>roles := rs, issued := issued w + 1\<rparr>))
     (returning (\<lambda>r. ro_name r = name) ro_id (\<lambda>r. r\<lparr>ro_desc := Some desc\<rparr>)
        \<lparr>ro_id = ids w (issued w), ro_name = name, ro_desc = Some desc\<rparr> (roles w)))"

text \<open>An account that exists keeps all but its password.\<close>

definition upsert_user :: "string \<Rightarrow> string \<Rightarrow> ('a world_scheme, string option) state" where
  "upsert_user email hash = stmt (\<lambda>w. map_option
     (\<lambda>(i, us). (i, w\<lparr>users := us, issued := issued w + 1\<rparr>))
     (returning (\<lambda>u. u_email u = email) u_id (\<lambda>u. u\<lparr>u_hash := hash\<rparr>)
        (new_user email hash True (now w) (ids w (issued w))) (users w)))"

text \<open>\<^verbatim>\<open>INSERT INTO user_roles ... ON CONFLICT DO NOTHING\<close>.\<close>

definition give_role :: "string \<Rightarrow> string \<Rightarrow> ('a world_scheme, nat option) state" where
  "give_role uid rid = exec (\<lambda>w.
     case (uuid_in w uid, uuid_in w rid) of
       (Some u, Some r) \<Rightarrow>
         if (u, r) \<in> set (user_roles w) then Some (0, w)
         else if u \<notin> u_id ` set (users w) then None
         else Some (1, w\<lparr>user_roles := user_roles w @ [(u, r)]\<rparr>)
     | _ \<Rightarrow> None)"

definition upsert_org :: "string \<Rightarrow> ('a seed_world_scheme, string option) state" where
  "upsert_org code = stmt (\<lambda>w.
     let i = ids w (issued w)
     in case find (\<lambda>x. snd x = code) (org_codes w) of
          Some x \<Rightarrow> Some (fst x, w\<lparr>issued := issued w + 1\<rparr>)
        | None \<Rightarrow>
            if i \<in> set (orgs w) then None
            else Some (i, w\<lparr>orgs := orgs w @ [i], org_codes := org_codes w @ [(i, code)],
                   issued := issued w + 1\<rparr>))"

definition upsert_department ::
  "string \<Rightarrow> string \<Rightarrow> string \<Rightarrow> ('a seed_world_scheme, string option) state" where
  "upsert_department org name code = stmt (\<lambda>w.
     case uuid_in w org of
       None \<Rightarrow> None
     | Some g \<Rightarrow>
         let i = ids w (issued w)
         in case find (\<lambda>x. snd x = (g, code)) (dept_keys w) of
              Some x \<Rightarrow> Some (fst x,
                w\<lparr>departments := upd_where (\<lambda>d. fst d = fst x) (\<lambda>d. (fst d, name)) (departments w),
                  issued := issued w + 1\<rparr>)
            | None \<Rightarrow>
                if i \<in> fst ` set (departments w) \<or> g \<notin> set (orgs w) then None
                else Some (i, w\<lparr>departments := departments w @ [(i, name)],
                       dept_keys := dept_keys w @ [(i, g, code)], issued := issued w + 1\<rparr>))"

definition insert_location ::
  "string \<Rightarrow> string \<Rightarrow> string \<Rightarrow> ('a people_world_scheme, string option) state" where
  "insert_location org name city = insert_row (\<lambda>i w.
     case uuid_in w org of
       None \<Rightarrow> None
     | Some g \<Rightarrow>
         if g \<in> set (orgs w)
         then Some (w\<lparr>locations := locations w @
                [\<lparr>lc_id = i, lc_org = g, lc_name = name, lc_address = None, lc_city = Some city,
                  lc_state = None, lc_country = None, lc_zip = None\<rparr>]\<rparr>)
         else None)"

definition find_location ::
  "string \<Rightarrow> string \<Rightarrow> ('a people_world_scheme, string option) state" where
  "find_location org name = query_row (\<lambda>w. map_option (\<lambda>g.
     [lc_id l. l \<leftarrow> locations w, lc_org l = g \<and> lc_name l = name]) (uuid_in w org))"

definition find_designation :: "string \<Rightarrow> string \<Rightarrow> ('a world_scheme, string option) state" where
  "find_designation org name = query_row (\<lambda>w. map_option (\<lambda>g.
     [dg_id d. d \<leftarrow> designations w, dg_org d = g \<and> dg_name d = name]) (uuid_in w org))"

text \<open>
  The row of an employee with the defaults of the table. \<^verbatim>\<open>employee_id\<close>, which is the code,
  and \<^verbatim>\<open>user_id\<close> are unique, and the references exist.
\<close>

definition staff_row ::
  "string \<Rightarrow> string \<Rightarrow> string \<Rightarrow> string \<Rightarrow> string \<Rightarrow> emp_refs \<Rightarrow> int \<Rightarrow> int \<Rightarrow> employee_row" where
  "staff_row i u code fname lname r joined created =
     \<lparr>e_id = i, e_user = Some u, e_code = code, e_first = fname, e_last = lname, e_dept = rf_dept r,
      e_manager = rf_manager r, e_desig = rf_desig r, e_status = ''ACTIVE'', e_deleted = False,
      e_type = Some ''PERMANENT'', e_joined = joined, e_probation = None, e_confirmed = None,
      e_notice = Some 30, e_nation = Some ''Indian'', e_location = rf_location r, e_phone = None,
      e_reports = None, e_created = created\<rparr>"

definition add_staff :: "employee_row \<Rightarrow> emp_refs \<Rightarrow> 'a people_world_scheme \<Rightarrow> 'a people_world_scheme option"
  where
  "add_staff x r w =
     (if (\<exists>u\<in>u_id ` set (users w). user_is u x) \<and> refs_exist r w
         \<and> (\<forall>e\<in>set (employees w). e_user e \<noteq> e_user x \<and> e_code e \<noteq> e_code x \<and> e_id e \<noteq> e_id x)
      then Some (w\<lparr>employees := employees w @ [x]\<rparr>)
      else None)"

definition insert_staff ::
  "string \<Rightarrow> string \<Rightarrow> string \<Rightarrow> emp_refs \<Rightarrow> string \<Rightarrow> ('a people_world_scheme, string option) state" where
  "insert_staff code fname lname refs uid = insert_row (\<lambda>i w.
     case (uuid_in w uid, cast_refs refs w) of
       (Some u, Some r) \<Rightarrow> add_staff (staff_row i u code fname lname r (today w) (now w)) r w
     | _ \<Rightarrow> None)"

text \<open>The same with \<^verbatim>\<open>ON CONFLICT (employee_id) DO UPDATE SET user_id = EXCLUDED.user_id\<close>.\<close>

definition upsert_staff ::
  "string \<Rightarrow> string \<Rightarrow> string \<Rightarrow> emp_refs \<Rightarrow> string \<Rightarrow> ('a people_world_scheme, string option) state" where
  "upsert_staff code fname lname refs uid = stmt (\<lambda>w.
     case (uuid_in w uid, cast_refs refs w) of
       (Some u, Some r) \<Rightarrow>
         (case find (\<lambda>e. e_code e = code) (employees w) of
            Some e \<Rightarrow>
              if u \<in> u_id ` set (users w) \<and> (\<forall>x\<in>set (employees w). e_code x \<noteq> code \<longrightarrow> \<not> user_is u x)
              then Some (e_id e,
                w\<lparr>employees := upd_where (\<lambda>x. e_code x = code) (\<lambda>x. x\<lparr>e_user := Some u\<rparr>) (employees w),
                  issued := issued w + 1\<rparr>)
              else None
          | None \<Rightarrow>
              let i = ids w (issued w)
              in map_option (\<lambda>w'. (i, w'\<lparr>issued := issued w + 1\<rparr>))
                   (add_staff (staff_row i u code fname lname r (today w) (now w)) r w))
     | _ \<Rightarrow> None)"


section \<open>Deletions\<close>

definition ends_with :: "string \<Rightarrow> string \<Rightarrow> bool" where
  "ends_with suf s \<longleftrightarrow> drop (length s - length suf) s = suf"

text \<open>\<^verbatim>\<open>DELETE FROM users WHERE email LIKE '%@test.hrms.local'\<close>: all of them or none.\<close>

definition delete_test_users :: "('a att_world_scheme, nat option) state" where
  "delete_test_users = exec (\<lambda>w.
     let us = filter (\<lambda>u. ends_with ''@test.hrms.local'' (u_email u)) (users w)
     in if \<exists>u\<in>set us. user_pinned (u_id u) w then None
        else Some (length us, fold (\<lambda>u. forget_user (u_id u)) us w))"

text \<open>
  What an employee takes along (\<^verbatim>\<open>ON DELETE CASCADE\<close>) and what keeps it: the employees that it
  manages, an import that created it, and its salary advances.
\<close>

definition forget_staff :: "string list \<Rightarrow> 'a office_world_scheme \<Rightarrow> 'a office_world_scheme" where
  "forget_staff ds w =
     w\<lparr>employees := filter (\<lambda>e. e_id e \<notin> set ds) (employees w),
       structures := filter (\<lambda>s. ss_emp s \<notin> set ds) (structures w),
       payslips := filter (\<lambda>p. ps_emp p \<notin> set ds) (payslips w),
       leaves := filter (\<lambda>l. la_emp l \<notin> set ds) (leaves w),
       regularizations := filter (\<lambda>r. rq_emp r \<notin> set ds) (regularizations w),
       ods := filter (\<lambda>r. rq_emp r \<notin> set ds) (ods w),
       wfhs := filter (\<lambda>r. rq_emp r \<notin> set ds) (wfhs w),
       exits := filter (\<lambda>r. rq_emp r \<notin> set ds) (exits w),
       daily := filter (\<lambda>d. ad_emp d \<notin> set ds) (daily w),
       leave_balances := filter (\<lambda>b. lb_emp b \<notin> set ds) (leave_balances w),
       accruals := filter (\<lambda>a. al_emp a \<notin> set ds) (accruals w),
       encashments := filter (\<lambda>e. en_emp e \<notin> set ds) (encashments w),
       comments := filter (\<lambda>c. \<not> (\<exists>t\<in>set (tickets w). tk_id t = cm_ticket c \<and> tk_emp t \<in> set ds))
         (comments w),
       tickets := filter (\<lambda>t. tk_emp t \<notin> set ds) (tickets w),
       raw_punches := filter (\<lambda>p. rp_emp p \<notin> set ds) (raw_punches w),
       att_logs := filter (\<lambda>l. lg_emp l \<notin> set ds) (att_logs w),
       exceptions := filter (\<lambda>x. ax_emp x \<notin> set ds) (exceptions w),
       personals := filter (\<lambda>p. pd_emp p \<notin> set ds) (personals w),
       statutories := filter (\<lambda>s. sd_emp s \<notin> set ds) (statutories w),
       life_events := filter (\<lambda>l. lf_emp l \<notin> set ds) (life_events w)\<rparr>"

definition staff_pinned :: "string list \<Rightarrow> 'a people_world_scheme \<Rightarrow> bool" where
  "staff_pinned ds w \<longleftrightarrow>
     (\<exists>e\<in>set (employees w). e_id e \<notin> set ds
        \<and> (e_manager e \<in> Some ` set ds \<or> e_reports e \<in> Some ` set ds))
     \<or> (\<exists>r\<in>set (import_rows w). ir_emp r \<in> Some ` set ds)
     \<or> (\<exists>a\<in>set (advances w). pa_emp a \<in> set ds)"

definition delete_staff :: "string \<Rightarrow> string \<Rightarrow> ('a office_world_scheme, nat option) state" where
  "delete_staff uid code = exec (\<lambda>w.
     case uuid_in w uid of
       None \<Rightarrow> None
     | Some u \<Rightarrow>
         let ds = [e_id e. e \<leftarrow> employees w, e_user e = Some u \<or> e_code e = code]
         in if staff_pinned ds w then None else Some (length ds, forget_staff ds w))"

section \<open>Ends of a script\<close>

text \<open>A step that may end the script, and a loop of such steps.\<close>

definition unless_fatal ::
  "('w, string + 'a) state \<Rightarrow> ('a \<Rightarrow> ('w, string + 'b) state) \<Rightarrow> ('w, string + 'b) state" where
  "unless_fatal m k = State_Monad.bind m
     (\<lambda>r. case r of Inl e \<Rightarrow> State_Monad.return (Inl e) | Inr a \<Rightarrow> k a)"

primrec fatal_loop ::
  "('a \<Rightarrow> 'b \<Rightarrow> ('w, string + 'b) state) \<Rightarrow> 'a list \<Rightarrow> 'b \<Rightarrow> ('w, string + 'b) state" where
  "fatal_loop f [] b = State_Monad.return (Inr b)"
| "fatal_loop f (x # xs) b = unless_fatal (f x b) (fatal_loop f xs)"

text \<open>The entry of a Go map of strings, empty if there is none.\<close>

definition entry :: "(string \<times> string) list \<Rightarrow> string \<Rightarrow> string" where
  "entry m k = text_or_empty (map_of m k)"

definition seed_roles :: "string list" where
  "seed_roles = [''SUPER_ADMIN'', ''HR_ADMIN'', ''MANAGER'', ''EMPLOYEE'']"

section \<open>seed.go\<close>

definition demo_roles :: "('a world_scheme, (string \<times> string) list) state" where
  "demo_roles = fold_loop (\<lambda>r rids. do {
     x \<leftarrow> upsert_role r;
     State_Monad.return (case x of None \<Rightarrow> rids | Some i \<Rightarrow> rids @ [(r, i)])
   }) seed_roles []"

definition demo_users :: "(string \<times> string \<times> string) list" where
  "demo_users =
     [(''admin@company.com'', ''admin123'', ''SUPER_ADMIN''),
      (''hr@company.com'', ''hr123'', ''HR_ADMIN''),
      (''manager@company.com'', ''mgr123'', ''MANAGER''),
      (''employee@company.com'', ''emp123'', ''EMPLOYEE''),
      (''aarav@company.com'', ''password123'', ''EMPLOYEE''),
      (''priya@company.com'', ''password123'', ''EMPLOYEE''),
      (''vikram@company.com'', ''password123'', ''EMPLOYEE''),
      (''neha@company.com'', ''password123'', ''EMPLOYEE'')]"

definition seed_user ::
  "crypto \<Rightarrow> (string \<times> string) list \<Rightarrow> string \<times> string \<times> string \<Rightarrow> ('a world_scheme, unit) state" where
  "seed_user cr rids = (\<lambda>(email, password, role). do {
     u \<leftarrow> upsert_user email (text_or_empty (bcrypt_hash cr password));
     (case u of
        None \<Rightarrow> State_Monad.return ()
      | Some uid \<Rightarrow>
          (case map_of rids role of
             None \<Rightarrow> State_Monad.return ()
           | Some rid \<Rightarrow> State_Monad.bind (give_role uid rid) (\<lambda>_. State_Monad.return ())))
   })"

definition failing :: "('w, string option) state \<Rightarrow> 'x list \<Rightarrow> ('w, unit) state" where
  "failing m xs = foreach (\<lambda>_. State_Monad.bind m (\<lambda>_. State_Monad.return ())) xs"

definition demo_locations :: "string list" where
  "demo_locations =
     [''Mumbai HQ'', ''Bengaluru Tech Hub'', ''Hyderabad R&D Center'', ''Delhi Regional Office'']"

definition demo_departments :: "string list" where
  "demo_departments = [''Engineering'', ''Product Management'', ''HR & People Ops'',
     ''Finance & Payroll'', ''Sales & Marketing'']"

definition demo_designations :: "string list" where
  "demo_designations = [''VP of Engineering'', ''Lead System Architect'',
     ''Senior Fullstack Developer'', ''HR Business Partner'', ''Senior Payroll Specialist'']"

definition demo_staff_codes :: "string list" where
  "demo_staff_codes = [''EMP-000'', ''EMP-000B'', ''EMP-000C'', ''EMP-000D'', ''EMP-001'',
     ''EMP-002'', ''EMP-003'', ''EMP-004'', ''EMP-005'']"

definition demo_leave_codes :: "string list" where
  "demo_leave_codes = [''CL'', ''SL'', ''EL'', ''ML'']"

definition insert_cycle :: "('a seed_world_scheme, string option) state" where
  "insert_cycle = insert_row (\<lambda>i w. Some (w\<lparr>cycles := cycles w @
     [\<lparr>cy_id = i, cy_title = ''FY26 Annual Performance Review'', cy_start = days_of 2026 4 1,
       cy_end = days_of 2027 3 31, cy_status = ''ACTIVE''\<rparr>]\<rparr>))"

text \<open>
  Locations, departments and designations have no organization; the employees name the columns
  \<^verbatim>\<open>employee_code\<close>, \<^verbatim>\<open>work_email\<close> and \<^verbatim>\<open>phone_number\<close>, the leave types
  \<^verbatim>\<open>default_days\<close>, the onboarding template \<^verbatim>\<open>title\<close>: no migration creates them. The
  errors of all these are ignored.
\<close>

definition seed_demo :: "crypto \<Rightarrow> ('a seed_world_scheme, unit) state" where
  "seed_demo cr = do {
     rids \<leftarrow> demo_roles;
     foreach (seed_user cr rids) demo_users;
     failing without_org demo_locations;
     failing without_org demo_departments;
     failing without_org demo_designations;
     failing no_such_column demo_staff_codes;
     failing no_such_column demo_leave_codes;
     failing no_such_column [''Engineering Onboarding 2026''];
     _ \<leftarrow> insert_cycle;
     State_Monad.return ()
   }"

section \<open>seed\_rbac\_audit.go\<close>

definition audit_roles :: "('a world_scheme, string + (string \<times> string) list) state" where
  "audit_roles = fatal_loop (\<lambda>r rids.
     orelse (upsert_described_role r (r @ '' Role'')) (Inl (''Failed role '' @ r))
       (\<lambda>i. State_Monad.return (Inr (rids @ [(r, i)])))) seed_roles []"

definition staff_refs :: "string \<Rightarrow> string option \<Rightarrow> emp_refs" where
  "staff_refs dept manager =
     \<lparr>rf_dept = Some dept, rf_desig = None, rf_location = None, rf_manager = manager\<rparr>"

text \<open>\<open>createUser\<close>: the account, its only role, and the employee instead of the one before.\<close>

definition audit_user ::
  "crypto \<Rightarrow> (string \<times> string) list \<Rightarrow> string \<Rightarrow> string \<Rightarrow> string \<Rightarrow> string \<Rightarrow> string \<Rightarrow> string \<Rightarrow>
   string option \<Rightarrow> ('a office_world_scheme, string + string) state" where
  "audit_user cr rids dept email role code fname lname manager =
     orelse (upsert_user email (text_or_empty (bcrypt_hash cr ''pass123'')))
       (Inl (''Failed user '' @ email))
       (\<lambda>uid. do {
          _ \<leftarrow> delete_user_roles uid;
          _ \<leftarrow> insert_user_role uid (entry rids role);
          _ \<leftarrow> delete_staff uid code;
          orelse (insert_staff code fname lname (staff_refs dept manager) uid)
            (Inl (''Failed employee '' @ code))
            (\<lambda>eid. State_Monad.return (Inr eid))
        })"

definition audit_team ::
  "crypto \<Rightarrow> (string \<times> string) list \<Rightarrow> string \<Rightarrow> string \<Rightarrow> (string \<times> string \<times> string) list \<Rightarrow>
   ('a office_world_scheme, string + unit) state" where
  "audit_team cr rids dept manager team = fatal_loop (\<lambda>(email, code, lname) _.
     unless_fatal (audit_user cr rids dept email ''EMPLOYEE'' code ''Employee'' lname (Some manager))
       (\<lambda>_. State_Monad.return (Inr ()))) team ()"

definition first_team :: "(string \<times> string \<times> string) list" where
  "first_team =
     [(''employee_001@company.com'', ''RBAC-EMP001'', ''One''),
      (''employee_002@company.com'', ''RBAC-EMP002'', ''Two''),
      (''employee_003@company.com'', ''RBAC-EMP003'', ''Three'')]"

definition second_team :: "(string \<times> string \<times> string) list" where
  "second_team =
     [(''employee_004@company.com'', ''RBAC-EMP004'', ''Four''),
      (''employee_005@company.com'', ''RBAC-EMP005'', ''Five''),
      (''employee_006@company.com'', ''RBAC-EMP006'', ''Six'')]"

text \<open>The errors on the organization and its department are ignored.\<close>

definition seed_audit :: "crypto \<Rightarrow> ('a seed_world_scheme, string + unit) state" where
  "seed_audit cr = unless_fatal audit_roles (\<lambda>rids. do {
     org \<leftarrow> upsert_org ''RBAC_ORG'';
     dept \<leftarrow> upsert_department (text_or_empty org) ''Audit Dept'' ''RBAC_DEPT'';
     let user = audit_user cr rids (text_or_empty dept);
     unless_fatal
       (user ''hr_admin_001@company.com'' ''HR_ADMIN'' ''RBAC-HR001'' ''HR'' ''Admin'' None) (\<lambda>_.
     unless_fatal
       (user ''manager_001@company.com'' ''MANAGER'' ''RBAC-MGR001'' ''Manager'' ''One'' None) (\<lambda>m1.
     unless_fatal
       (user ''manager_002@company.com'' ''MANAGER'' ''RBAC-MGR002'' ''Manager'' ''Two'' None) (\<lambda>m2.
     unless_fatal (audit_team cr rids (text_or_empty dept) m1 first_team) (\<lambda>_.
     audit_team cr rids (text_or_empty dept) m2 second_team))))
   })"

section \<open>seed\_50\_test\_employees.go\<close>

text \<open>The second statement names the column \<^verbatim>\<open>work_email\<close>; both errors are ignored.\<close>

definition reset_test_data :: "('a att_world_scheme, unit) state" where
  "reset_test_data = do {
     _ \<leftarrow> delete_test_users;
     _ \<leftarrow> (no_such_column :: ('a att_world_scheme, nat option) state);
     State_Monad.return ()
   }"

definition test_role :: "string \<Rightarrow> ('a world_scheme, string) state" where
  "test_role r = do {
     x \<leftarrow> find_role r;
     (if text_or_empty x \<noteq> '''' then State_Monad.return (text_or_empty x)
      else State_Monad.bind (upsert_role r) (\<lambda>y. State_Monad.return (text_or_empty y)))
   }"

definition test_locations :: "string list" where
  "test_locations = [''Mumbai'', ''Pune'', ''Bengaluru'', ''Hyderabad'']"

definition test_departments :: "string list" where
  "test_departments = [''Engineering'', ''Human Resources'', ''Finance'', ''Sales'', ''Marketing'',
     ''Operations'', ''IT Support'', ''Administration'']"

definition test_designations :: "string list" where
  "test_designations = [''Intern'', ''Junior Executive'', ''Executive'', ''Senior Executive'',
     ''Team Lead'', ''Assistant Manager'', ''Manager'', ''Senior Manager'']"

text \<open>Looked up when the insert gave nothing.\<close>

definition test_location :: "string \<Rightarrow> string \<Rightarrow> ('a people_world_scheme, string) state" where
  "test_location org name = do {
     x \<leftarrow> insert_location org name name;
     (if text_or_empty x \<noteq> '''' then State_Monad.return (text_or_empty x)
      else State_Monad.bind (find_location org name) (\<lambda>y. State_Monad.return (text_or_empty y)))
   }"

definition test_designation :: "string \<Rightarrow> string \<Rightarrow> ('a world_scheme, string) state" where
  "test_designation org name = do {
     x \<leftarrow> insert_designation
       \<lparr>dq_name = name, dq_grade = None, dq_org = org\<rparr>;
     (if text_or_empty x \<noteq> '''' then State_Monad.return (text_or_empty x)
      else State_Monad.bind (find_designation org name) (\<lambda>y. State_Monad.return (text_or_empty y)))
   }"

definition collect :: "('x \<Rightarrow> ('w, string) state) \<Rightarrow> 'x list \<Rightarrow> ('w, string list) state" where
  "collect f xs = fold_loop (\<lambda>x is.
     State_Monad.bind (f x) (\<lambda>i. State_Monad.return (is @ [i]))) xs []"

text \<open>An account, its role and its employee; the texts are those of the two fatal errors.\<close>

definition test_account ::
  "string \<Rightarrow> string \<Rightarrow> string \<Rightarrow> string \<Rightarrow> string \<Rightarrow> string \<Rightarrow> string \<Rightarrow> emp_refs \<Rightarrow> string \<Rightarrow>
   ('a people_world_scheme, string + string) state" where
  "test_account email hash rid no_user code fname lname refs no_employee =
     orelse (upsert_user email hash) (Inl no_user)
       (\<lambda>uid. do {
          _ \<leftarrow> give_role uid rid;
          orelse (upsert_staff code fname lname refs uid) (Inl no_employee)
            (\<lambda>eid. State_Monad.return (Inr eid))
        })"

definition demo_presets :: "(string \<times> string \<times> string \<times> string \<times> string \<times> string) list" where
  "demo_presets =
     [(''admin@company.com'', ''admin123'', ''SUPER_ADMIN'', ''SYS_ADMIN'', ''System'', ''Admin''),
      (''hr@company.com'', ''hr123'', ''HR_ADMIN'', ''DEMO_HR'', ''Demo'', ''HR''),
      (''manager@company.com'', ''mgr123'', ''MANAGER'', ''DEMO_MGR'', ''Demo'', ''Manager''),
      (''employee@company.com'', ''emp123'', ''EMPLOYEE'', ''DEMO_EMP'', ''Demo'', ''Employee'')]"

definition test_email :: "string \<Rightarrow> string" where
  "test_email name = name @ ''@test.hrms.local''"

definition test_preset ::
  "crypto \<Rightarrow> (string \<times> string) list \<Rightarrow> string \<Rightarrow>
   string \<times> string \<times> string \<times> string \<times> string \<times> string \<Rightarrow> unit \<Rightarrow>
   ('a people_world_scheme, string + unit) state" where
  "test_preset cr rids dept = (\<lambda>(email, password, role, code, fname, lname) _.
     unless_fatal
       (test_account email (text_or_empty (bcrypt_hash cr password)) (entry rids role)
          (''Demo user '' @ email) code fname lname (staff_refs dept None) (''Demo employee '' @ email))
       (\<lambda>_. State_Monad.return (Inr ())))"

definition test_manager ::
  "string \<Rightarrow> (string \<times> string) list \<Rightarrow> string \<Rightarrow> string \<Rightarrow> string \<Rightarrow> nat \<Rightarrow> string list \<Rightarrow>
   ('a people_world_scheme, string + string list) state" where
  "test_manager hash rids dept loc desig = (\<lambda>i mgrs.
     unless_fatal
       (test_account (test_email (''manager_'' @ decpad 2 i)) hash (entry rids ''MANAGER'')
          (''Mgr user '' @ decn i) (''TEST_MGR_'' @ decpad 2 i) ''Manager'' (decn i)
          \<lparr>rf_dept = Some dept, rf_desig = Some desig, rf_location = Some loc, rf_manager = None\<rparr>
          (''Mgr employee '' @ decn i))
       (\<lambda>eid. State_Monad.return (Inr (mgrs @ [eid]))))"

definition test_employee_refs ::
  "string list \<Rightarrow> string list \<Rightarrow> string list \<Rightarrow> string list \<Rightarrow> nat \<Rightarrow> emp_refs" where
  "test_employee_refs depts locs desigs mgrs i =
     \<lparr>rf_dept = Some (depts ! (i mod length depts)), rf_desig = Some (desigs ! (i mod length desigs)),
      rf_location = Some (locs ! (i mod length locs)), rf_manager = Some (mgrs ! ((i - 1) div 10))\<rparr>"

text \<open>The counts are those of the created and of the skipped employees.\<close>

definition test_employee ::
  "bool \<Rightarrow> string \<Rightarrow> (string \<times> string) list \<Rightarrow> (nat \<Rightarrow> emp_refs) \<Rightarrow> nat \<Rightarrow> nat \<times> nat \<Rightarrow>
   ('a people_world_scheme, string + nat \<times> nat) state" where
  "test_employee reset hash rids refs = (\<lambda>i (created, skipped). do {
     let code = ''TEST_EMP_'' @ decpad 3 i;
     x \<leftarrow> select (\<lambda>w. \<exists>e\<in>set (employees w). e_code e = code);
     (if x = Some True \<and> \<not> reset then State_Monad.return (Inr (created, skipped + 1))
      else unless_fatal
        (test_account (test_email (''employee_'' @ decpad 3 i)) hash (entry rids ''EMPLOYEE'')
           (''Emp user '' @ decn i) code ''Test'' (''Emp '' @ decn i) (refs i)
           (''Emp employee '' @ decn i))
        (\<lambda>_. State_Monad.return (Inr (created + 1, skipped))))
   })"

text \<open>The accounts and employees, after the organization is there.\<close>

definition test_staff ::
  "crypto \<Rightarrow> bool \<Rightarrow> (string \<times> string) list \<Rightarrow> string list \<Rightarrow> string list \<Rightarrow> string list \<Rightarrow>
   ('a people_world_scheme, string + nat \<times> nat) state" where
  "test_staff cr reset rids locs depts desigs = (let hash = text_or_empty (bcrypt_hash cr ''password123'')
     in unless_fatal (fatal_loop (test_preset cr rids (depts ! 0)) demo_presets ()) (\<lambda>_.
        unless_fatal
          (test_account (test_email ''hr_admin'') hash (entry rids ''HR_ADMIN'') ''HR user''
             ''TEST_HR_01'' ''HR'' ''Admin'' (staff_refs (depts ! 1) None) ''HR employee'') (\<lambda>_.
        unless_fatal
          (fatal_loop (test_manager hash rids (depts ! 0) (locs ! 0) (desigs ! 6)) [1..<6] [])
          (\<lambda>mgrs. fatal_loop
             (test_employee reset hash rids (test_employee_refs depts locs desigs mgrs)) [1..<51] (0, 0)))))"

definition seed_test_employees ::
  "crypto \<Rightarrow> bool \<Rightarrow> ('a seed_world_scheme, string + nat \<times> nat) state" where
  "seed_test_employees cr reset = do {
     (if reset then reset_test_data else State_Monad.return ());
     rids \<leftarrow> fold_loop (\<lambda>r rids.
       State_Monad.bind (test_role r) (\<lambda>i. State_Monad.return (rids @ [(r, i)]))) seed_roles [];
     orelse (upsert_org ''TESTCORP'') (Inl ''Organization'') (\<lambda>org. do {
       locs \<leftarrow> collect (test_location org) test_locations;
       depts \<leftarrow> collect (\<lambda>(i, d).
           State_Monad.bind (upsert_department org d (''DEPT'' @ decpad 2 i))
             (\<lambda>x. State_Monad.return (text_or_empty x))) (enumerate 0 test_departments);
       desigs \<leftarrow> collect (test_designation org) test_designations;
       test_staff cr reset rids locs depts desigs
     })
   }"

end
