(* ===== verification/Seed_Full.thy ===== *)
theory Seed_Full
  imports Seed_Data
begin

text \<open>
  \<^verbatim>\<open>backend/scripts/seed_50_employees.go\<close>: fifty employees with a published payroll run.
  \<^verbatim>\<open>Seed50Employees\<close> is a function that no script calls. The last part of the theory shows what
  it does to a payroll run and to payslips that are there already.
\<close>

section \<open>Statements\<close>

definition insert_branch ::
  "string \<Rightarrow> string \<times> string \<times> string \<times> string \<Rightarrow> ('a people_world_scheme, string option) state" where
  "insert_branch org = (\<lambda>(name, city, st, country). insert_row (\<lambda>i w.
     case uuid_in w org of
       None \<Rightarrow> None
     | Some g \<Rightarrow>
         if g \<in> set (orgs w)
         then Some (w\<lparr>locations := locations w @
                [\<lparr>lc_id = i, lc_org = g, lc_name = name, lc_address = None, lc_city = Some city,
                  lc_state = Some st, lc_country = Some country, lc_zip = None\<rparr>]\<rparr>)
         else None))"

definition find_account :: "string \<Rightarrow> ('a world_scheme, string option) state" where
  "find_account email = select_row (\<lambda>w. [u_id u. u \<leftarrow> users w, u_email u = email])"

definition find_staff :: "string \<Rightarrow> ('a world_scheme, string option) state" where
  "find_staff code = select_row (\<lambda>w. [e_id e. e \<leftarrow> employees w, e_code e = code])"

text \<open>An employee as the script makes it, before its references are read.\<close>

record full_staff =
  fs_code :: string
  fs_first :: string
  fs_last :: string
  fs_joined :: int
  fs_type :: string
  fs_status :: string
  fs_phone :: string

definition full_row :: "string \<Rightarrow> string \<Rightarrow> full_staff \<Rightarrow> emp_refs \<Rightarrow> int \<Rightarrow> employee_row" where
  "full_row i u s r created =
     (staff_row i u (fs_code s) (fs_first s) (fs_last s) r (fs_joined s) created)
       \<lparr>e_type := Some (fs_type s), e_status := fs_status s, e_notice := Some 60,
        e_phone := Some (fs_phone s)\<rparr>"

text \<open>An employee that has the code keeps its account, its dates and its type.\<close>

definition upsert_full_staff ::
  "full_staff \<Rightarrow> emp_refs \<Rightarrow> string \<Rightarrow> ('a people_world_scheme, string option) state" where
  "upsert_full_staff s refs uid = stmt (\<lambda>w.
     case (uuid_in w uid, cast_refs refs w) of
       (Some u, Some r) \<Rightarrow>
         (case find (\<lambda>e. e_code e = fs_code s) (employees w) of
            Some e \<Rightarrow>
              if refs_exist r w
              then Some (e_id e,
                w\<lparr>employees := upd_where (\<lambda>x. e_code x = fs_code s)
                    (\<lambda>x. x\<lparr>e_first := fs_first s, e_last := fs_last s, e_dept := rf_dept r,
                           e_desig := rf_desig r, e_location := rf_location r,
                           e_status := fs_status s\<rparr>) (employees w),
                  issued := issued w + 1\<rparr>)
              else None
          | None \<Rightarrow>
              let i = ids w (issued w)
              in map_option (\<lambda>w'. (i, w'\<lparr>issued := issued w + 1\<rparr>))
                   (add_staff (full_row i u s r (now w)) r w))
     | _ \<Rightarrow> None)"

definition is_august :: "string \<Rightarrow> run_row \<Rightarrow> bool" where
  "is_august g r \<longleftrightarrow> pr_org r = g \<and> pr_month r = 8 \<and> pr_year r = 2026"

definition august_run :: "string \<Rightarrow> string \<Rightarrow> int \<Rightarrow> run_row" where
  "august_run i g created =
     \<lparr>pr_id = i, pr_org = g, pr_month = 8, pr_year = 2026, pr_status = ''PUBLISHED'',
      pr_employees = 0, pr_gross = 0, pr_deductions = 0, pr_net = 0, pr_lop = 29 / 2,
      pr_advances = 75000, pr_variance = 9 / 5, pr_processed_by = None, pr_approved_by = None,
      pr_approved_at = None, pr_locked_at = None, pr_created = created\<rparr>"

text \<open>A run of the period that is there already is published, in whatever state it is.\<close>

definition upsert_august_run :: "string \<Rightarrow> ('a world_scheme, string option) state" where
  "upsert_august_run org = stmt (\<lambda>w.
     case uuid_in w org of
       None \<Rightarrow> None
     | Some g \<Rightarrow>
         if g \<notin> set (orgs w) then None
         else map_option (\<lambda>(i, rs). (i, w\<lparr>runs := rs, issued := issued w + 1\<rparr>))
           (returning (is_august g) pr_id (\<lambda>r. r\<lparr>pr_status := ''PUBLISHED''\<rparr>)
              (august_run (ids w (issued w)) g (now w)) (runs w)))"

definition find_august_run :: "string \<Rightarrow> ('a world_scheme, string option) state" where
  "find_august_run org = query_row (\<lambda>w. map_option (\<lambda>g.
     [pr_id r. r \<leftarrow> runs w, is_august g r]) (uuid_in w org))"

text \<open>A payslip that is there already keeps its allowance, its deductions and its state.\<close>

definition upsert_full_slip ::
  "string \<Rightarrow> string \<Rightarrow> float64 \<Rightarrow> float64 \<Rightarrow> float64 \<Rightarrow> float64 \<Rightarrow> float64 \<Rightarrow>
   ('a world_scheme, nat option) state" where
  "upsert_full_slip run emp basic hra gross ded net = exec (\<lambda>w.
     case (uuid_in w run, uuid_in w emp, to_num w 2 basic, to_num w 2 hra, to_num w 2 gross,
           to_num w 2 ded, to_num w 2 net) of
       (Some r, Some e, Some b, Some h, Some g, Some d, Some n) \<Rightarrow>
         if r \<in> pr_id ` set (runs w) \<and> e \<in> e_id ` set (employees w)
         then Some (1, w\<lparr>payslips :=
           upsert (\<lambda>p. ps_run p = r \<and> ps_emp p = e)
             (\<lambda>p. p\<lparr>ps_basic := b, ps_earnings := g, ps_net := n\<rparr>)
             \<lparr>ps_id = ids w (issued w), ps_run = r, ps_emp = e, ps_basic = b, ps_hra = h,
              ps_earnings = g, ps_deductions = d, ps_net = n, ps_status = ''PUBLISHED'',
              ps_created = now w\<rparr>
             (payslips w),
           issued := issued w + 1\<rparr>)
         else None
     | _ \<Rightarrow> None)"

section \<open>The data of the script\<close>

definition full_locations :: "(string \<times> string \<times> string \<times> string) list" where
  "full_locations =
     [(''Bengaluru HQ'', ''Bengaluru'', ''Karnataka'', ''India''),
      (''Gurugram Office'', ''Gurugram'', ''Haryana'', ''India''),
      (''Mumbai Branch'', ''Mumbai'', ''Maharashtra'', ''India''),
      (''Hyderabad Tech Hub'', ''Hyderabad'', ''Telangana'', ''India'')]"

definition full_departments :: "(string \<times> string) list" where
  "full_departments = [(''Engineering'', ''ENG''), (''Human Resources'', ''HR''),
     (''Sales & Business'', ''SALES''), (''Product Management'', ''PROD''),
     (''Finance & Operations'', ''FIN'')]"

definition full_designations :: "string list" where
  "full_designations =
     [''Staff Engineer'', ''Senior Fullstack Engineer'', ''Backend Developer'',
      ''QA Automation Lead'', ''DevOps Engineer'', ''HR Operations Manager'',
      ''Talent Acquisition Lead'', ''HR Business Partner'', ''Payroll Specialist'',
      ''Enterprise Account Exec'', ''Sales Development Rep'', ''Regional Sales Manager'',
      ''Customer Success Lead'', ''Senior Product Manager'', ''Product Owner'', ''UI/UX Designer'',
      ''Product Analyst'', ''Finance Controller'', ''Senior Accountant'', ''Operations Analyst'',
      ''Compliance Officer'']"

definition first_names :: "string list" where
  "first_names =
     [''Aarav'', ''Priya'', ''Rohan'', ''Ananya'', ''Vikram'', ''Neha'', ''Rahul'', ''Kavya'',
      ''Siddharth'', ''Pooja'', ''Aditya'', ''Sneha'', ''Karan'', ''Riya'', ''Amit'', ''Divya'',
      ''Manish'', ''Isha'', ''Rajesh'', ''Tanvi'', ''Suresh'', ''Meera'', ''Deepak'', ''Anushka'',
      ''Nikhil'', ''Simran'', ''Alok'', ''Swati'', ''Gaurav'', ''Preeti'', ''Varun'', ''Shweta'',
      ''Yash'', ''Monika'', ''Tarun'', ''Nisha'', ''Harsh'', ''Rashmi'', ''Abhishek'', ''Sonam'',
      ''Arjun'', ''Komal'', ''Mayank'', ''Shalini'', ''Pranav'', ''Richa'', ''Saurabh'', ''Payal'',
      ''Vineet'', ''Bhavna'']"

definition last_names :: "string list" where
  "last_names =
     [''Sharma'', ''Verma'', ''Gupta'', ''Iyer'', ''Malhotra'', ''Patel'', ''Singh'', ''Reddy'',
      ''Joshi'', ''Deshmukh'', ''Kumar'', ''Chawla'', ''Mehta'', ''Bhasin'', ''Nair'', ''Saxena'',
      ''Rao'', ''Kapoor'', ''Bhat'', ''Shah'', ''Trivedi'', ''Dutta'', ''Mukherjee'', ''Roy'',
      ''Agarwal'', ''Bansal'', ''Choudhury'', ''Pillai'', ''Menon'', ''Kulkarni'', ''Shenoy'',
      ''Hegde'', ''Gowda'', ''Naidu'', ''Sen'', ''Das'', ''Biswas'', ''Mishra'', ''Pandey'',
      ''Tripathi'', ''Tiwari'', ''Shukla'', ''Dubey'', ''Yadav'', ''Chauhan'', ''Rathore'',
      ''Solanki'', ''Vaghela'', ''Jain'', ''Bhattacharya'']"

text \<open>The first four accounts, with the password and the role that the maps give them.\<close>

definition core_accounts :: "(string \<times> string \<times> string) list" where
  "core_accounts =
     [(''admin@company.com'', ''admin123'', ''SUPER_ADMIN''),
      (''hr@company.com'', ''hr123'', ''HR_ADMIN''),
      (''manager@company.com'', ''mgr123'', ''MANAGER''),
      (''employee@company.com'', ''emp123'', ''EMPLOYEE'')]"

definition full_email :: "nat \<Rightarrow> string" where
  "full_email i =
     (if i < 4 then fst (core_accounts ! i)
      else to_lower (first_names ! i) @ ''.'' @ to_lower (last_names ! i) @ ''@company.com'')"

definition full_password :: "string \<Rightarrow> string" where
  "full_password email =
     (case map_of core_accounts email of None \<Rightarrow> ''password123'' | Some (p, _) \<Rightarrow> p)"

definition full_role :: "string \<Rightarrow> string" where
  "full_role email =
     (case map_of core_accounts email of None \<Rightarrow> ''EMPLOYEE'' | Some (_, r) \<Rightarrow> r)"

definition full_staff_of :: "nat \<Rightarrow> full_staff" where
  "full_staff_of i =
     \<lparr>fs_code = ''EMP-'' @ decn (1001 + i), fs_first = first_names ! i, fs_last = last_names ! i,
      fs_joined = days_of 2023 (int (i mod 12) + 1) (int (i mod 25) + 1),
      fs_type = (if i mod 11 = 0 then ''CONTRACT'' else ''PERMANENT''),
      fs_status =
        (if i mod 7 = 0 then ''PROBATION''
         else if i mod 19 = 0 then ''NOTICE_PERIOD'' else ''ACTIVE''),
      fs_phone = ''+91 98765 '' @ decn (10000 + i)\<rparr>"

text \<open>Basic pay, allowance, earnings, deductions and net pay, in the order of the source.\<close>

definition full_pay :: "nat \<Rightarrow> float64 \<times> float64 \<times> float64 \<times> float64 \<times> float64" where
  "full_pay i =
     (let basic = of_nat (60000 + (i mod 5) * 15000);
          hra = fmul basic pct_50;
          special = fmul basic (1 / 4);
          gross = fadd (fadd basic hra) special;
          pf = fmul basic pct_12;
          tds = fmul gross pct_10;
          lop = (if i mod 6 = 0 then fmul (fdiv gross 30) (of_nat (i mod 3 + 1)) else 0);
          ded = fadd (fadd (fadd pf tds) 200) lop
      in (basic, hra, gross, ded, fsub gross ded))"

section \<open>The script\<close>

definition full_roles :: "('a world_scheme, (string \<times> string) list) state" where
  "full_roles = fold_loop (\<lambda>r rids. do {
     x \<leftarrow> upsert_described_role r (r @ '' Role'');
     State_Monad.return (case x of None \<Rightarrow> rids | Some i \<Rightarrow> rids @ [(r, i)])
   }) seed_roles []"

text \<open>The identifier from the insert, or, after an error, from the lookup.\<close>

definition or_found ::
  "('w, string option) state \<Rightarrow> ('w, string option) state \<Rightarrow> ('w, string) state" where
  "or_found m n = do {
     x \<leftarrow> m;
     (case x of
        Some i \<Rightarrow> State_Monad.return i
      | None \<Rightarrow> State_Monad.bind n (\<lambda>y. State_Monad.return (text_or_empty y)))
   }"

definition full_location ::
  "string \<Rightarrow> string \<times> string \<times> string \<times> string \<Rightarrow> (string \<times> string) list \<Rightarrow>
   ('a people_world_scheme, (string \<times> string) list) state" where
  "full_location org l ls = do {
     i \<leftarrow> or_found (insert_branch org l) (find_location org (fst l));
     State_Monad.return (ls @ [(fst l, i)])
   }"

definition full_department ::
  "string \<Rightarrow> string \<times> string \<Rightarrow> (string \<times> string) list \<Rightarrow>
   ('a seed_world_scheme, (string \<times> string) list) state" where
  "full_department org d ds = do {
     x \<leftarrow> upsert_department org (fst d) (snd d);
     State_Monad.return (case x of None \<Rightarrow> ds | Some i \<Rightarrow> ds @ [(fst d, i)])
   }"

definition full_designation ::
  "string \<Rightarrow> string \<Rightarrow> (string \<times> string) list \<Rightarrow> ('a world_scheme, (string \<times> string) list) state"
  where
  "full_designation org d gs = do {
     i \<leftarrow> or_found (insert_designation \<lparr>dq_name = d, dq_grade = None, dq_org = org\<rparr>)
       (find_designation org d);
     State_Monad.return (gs @ [(d, i)])
   }"

definition full_refs ::
  "(string \<times> string) list \<Rightarrow> (string \<times> string) list \<Rightarrow> (string \<times> string) list \<Rightarrow> nat \<Rightarrow> emp_refs" where
  "full_refs ls ds gs i =
     \<lparr>rf_dept = Some (entry ds (fst (full_departments ! (i mod 5)))),
      rf_desig = Some (entry gs (full_designations ! (i mod 21))),
      rf_location = Some (entry ls (fst (full_locations ! (i mod 4)))), rf_manager = None\<rparr>"

definition full_employee ::
  "crypto \<Rightarrow> (string \<times> string) list \<Rightarrow> (nat \<Rightarrow> emp_refs) \<Rightarrow> nat \<Rightarrow>
   ('a people_world_scheme, string) state" where
  "full_employee cr rids refs i = do {
     let email = full_email i;
     uid \<leftarrow> or_found (upsert_user email (text_or_empty (bcrypt_hash cr (full_password email))))
       (find_account email);
     (case map_of rids (full_role email) of
        None \<Rightarrow> State_Monad.return ()
      | Some rid \<Rightarrow>
          if uid = '''' then State_Monad.return ()
          else State_Monad.bind (give_role uid rid) (\<lambda>_. State_Monad.return ()));
     or_found (upsert_full_staff (full_staff_of i) (refs i) uid) (find_staff (fs_code (full_staff_of i)))
   }"

definition full_slip :: "string \<Rightarrow> nat \<times> string \<Rightarrow> ('a world_scheme, unit) state" where
  "full_slip run = (\<lambda>(i, eid).
     if eid = '''' then State_Monad.return ()
     else (case full_pay i of (basic, hra, gross, ded, net) \<Rightarrow>
       State_Monad.bind (upsert_full_slip run eid basic hra gross ded net)
         (\<lambda>_. State_Monad.return ())))"

text \<open>The payroll of August 2026 for the employees of the list.\<close>

definition full_payroll :: "string \<Rightarrow> string list \<Rightarrow> ('a world_scheme, unit) state" where
  "full_payroll org eids = do {
     run \<leftarrow> or_found (upsert_august_run org) (find_august_run org);
     foreach (full_slip run) (enumerate 0 eids)
   }"

text \<open>\<^verbatim>\<open>leave_types\<close> has no column \<^verbatim>\<open>default_days\<close>; the error is ignored.\<close>

definition seed_full :: "crypto \<Rightarrow> ('a seed_world_scheme, string + unit) state" where
  "seed_full cr = orelse (upsert_org ''ENT_CORP'') (Inl ''Failed to create org'') (\<lambda>org. do {
     rids \<leftarrow> full_roles;
     ls \<leftarrow> fold_loop (full_location org) full_locations [];
     ds \<leftarrow> fold_loop (full_department org) full_departments [];
     gs \<leftarrow> fold_loop (full_designation org) full_designations [];
     eids \<leftarrow> collect (full_employee cr rids (full_refs ls ds gs)) [0..<50];
     full_payroll org eids;
     failing no_such_column demo_leave_codes;
     State_Monad.return (Inr ())
   })"

section \<open>A payroll that is there already\<close>

definition slips_kept :: "payslip_row list \<Rightarrow> 'a world_scheme \<Rightarrow> bool" where
  "slips_kept ps w \<longleftrightarrow> (\<forall>p\<in>set ps. \<exists>p'\<in>set (payslips w). ps_id p' = ps_id p \<and> ps_run p' = ps_run p
     \<and> ps_emp p' = ps_emp p \<and> ps_hra p' = ps_hra p \<and> ps_deductions p' = ps_deductions p
     \<and> ps_status p' = ps_status p)"

definition published_with :: "run_row \<Rightarrow> payslip_row list \<Rightarrow> 'a world_scheme \<Rightarrow> bool" where
  "published_with r ps w \<longleftrightarrow> r\<lparr>pr_status := ''PUBLISHED''\<rparr> \<in> set (runs w) \<and> slips_kept ps w"

lemma stable_published_with [simp]: "stable (published_with r ps)"
  by (simp add: stable_def published_with_def slips_kept_def)

lemma slips_kept_upsert:
  assumes "slips_kept ps w" "\<And>p. ps_id (f p) = ps_id p \<and> ps_run (f p) = ps_run p \<and> ps_emp (f p) = ps_emp p
     \<and> ps_hra (f p) = ps_hra p \<and> ps_deductions (f p) = ps_deductions p \<and> ps_status (f p) = ps_status p"
  shows "slips_kept ps (w\<lparr>payslips := upsert q f x (payslips w), issued := n\<rparr>)"
  unfolding slips_kept_def
proof
  fix p
  assume "p \<in> set ps"
  then obtain p' where p': "p' \<in> set (payslips w)" "ps_id p' = ps_id p" "ps_run p' = ps_run p"
    "ps_emp p' = ps_emp p" "ps_hra p' = ps_hra p" "ps_deductions p' = ps_deductions p"
    "ps_status p' = ps_status p"
    using assms(1) unfolding slips_kept_def by blast
  have "(if q p' then f p' else p') \<in> set (payslips (w\<lparr>payslips := upsert q f x (payslips w), issued := n\<rparr>))"
    using p'(1) by (auto simp: upsert_def in_upd_where)
  then show "\<exists>p'\<in>set (payslips (w\<lparr>payslips := upsert q f x (payslips w), issued := n\<rparr>)).
      ps_id p' = ps_id p \<and> ps_run p' = ps_run p \<and> ps_emp p' = ps_emp p \<and> ps_hra p' = ps_hra p
      \<and> ps_deductions p' = ps_deductions p \<and> ps_status p' = ps_status p"
    by (rule bexI [rotated]) (use p' assms(2) in simp)
qed

lemma published_full_slip: "keeps (published_with r ps) (full_slip run x)"
proof -
  have "keeps (published_with r ps) (upsert_full_slip run emp basic hra gross ded net)" for emp basic hra gross ded net
    unfolding upsert_full_slip_def
    by (rule keeps_exec)
      (auto simp: published_with_def intro: slips_kept_upsert split: option.splits if_splits)
  then show ?thesis
    unfolding full_slip_def by (cases x) (simp split: prod.split, intro conjI impI allI keeps_rules)
qed

lemma wp_upsert_august_run:
  fixes w :: "'a world_scheme"
  assumes "outcomes w = []" "uuid_in w org = Some g" "g \<in> set (orgs w)" "r \<in> set (runs w)" "is_august g r"
  shows "wp (upsert_august_run org) (\<lambda>x w'. x \<noteq> None \<and> published_with r (payslips w) w') w"
proof -
  obtain x where x: "find (is_august g) (runs w) = Some x"
    using assms(4,5) by (cases "find (is_august g) (runs w)") (auto simp: find_None_iff)
  have "r\<lparr>pr_status := ''PUBLISHED''\<rparr>
      \<in> set (upd_where (is_august g) (\<lambda>r. r\<lparr>pr_status := ''PUBLISHED''\<rparr>) (runs w))"
    unfolding in_upd_where by (rule bexI [OF _ assms(4)]) (simp add: assms(5))
  then show ?thesis
    by (simp add: wp_def upsert_august_run_def run_stmt_calm [OF assms(1)] assms(2,3) returning_def x
        published_with_def slips_kept_def) blast
qed

text \<open>
  A payroll that is there already is published over: whatever the state of the run of August
  2026, \<^verbatim>\<open>Seed50Employees\<close> leaves it PUBLISHED and otherwise as it was, and every payslip
  keeps its allowance, its deductions and its state, while its basic pay, earnings and net pay may be
  replaced. A locked run is opened to its employees without its guard, and the net pay is no longer
  the earnings less the deductions.
\<close>

theorem full_seed_publishes:
  assumes "outcomes w = []" "uuid_in w org = Some g" "g \<in> set (orgs w)" "r \<in> set (runs w)" "is_august g r"
  shows "let w' = snd (run_state (full_payroll org eids) w)
         in r\<lparr>pr_status := ''PUBLISHED''\<rparr> \<in> set (runs w')
            \<and> (\<forall>p\<in>set (payslips w). \<exists>p'\<in>set (payslips w'). ps_id p' = ps_id p \<and> ps_run p' = ps_run p
                 \<and> ps_emp p' = ps_emp p \<and> ps_hra p' = ps_hra p \<and> ps_deductions p' = ps_deductions p
                 \<and> ps_status p' = ps_status p)"
proof -
  have "keeps (published_with r (payslips w)) (foreach (full_slip run) xs)" for run xs
    by (intro keeps_foreach published_full_slip)
  then have "wp (full_payroll org eids) (\<lambda>_. published_with r (payslips w)) w"
    unfolding full_payroll_def or_found_def
    by (auto intro!: wp_mono [OF wp_upsert_august_run [OF assms]] wp_keeps)
  then show ?thesis by (simp add: wp_def case_prod_unfold Let_def published_with_def slips_kept_def)
qed

definition locked_august :: "hr_world" where
  "locked_august = empty_hr\<lparr>orgs := [''o1''], runs := [(august_run ''r1'' ''o1'' 0)\<lparr>pr_status := ''LOCKED''\<rparr>]\<rparr>"

theorem full_seed_publishes_witness:
  "august_run ''r1'' ''o1'' 0 \<in> set (runs (snd (run_state (full_payroll ''o1'' [''e1'']) locked_august)))"
proof -
  have "outcomes locked_august = []" "uuid_in locked_august ''o1'' = Some ''o1''"
    "''o1'' \<in> set (orgs locked_august)"
    "(august_run ''r1'' ''o1'' 0)\<lparr>pr_status := ''LOCKED''\<rparr> \<in> set (runs locked_august)"
    "is_august ''o1'' ((august_run ''r1'' ''o1'' 0)\<lparr>pr_status := ''LOCKED''\<rparr>)"
    by (simp_all add: locked_august_def empty_hr_def empty_world_def hr_world.defs world.defs
        august_run_def is_august_def)
  from full_seed_publishes [OF this, of "[''e1'']"] show ?thesis
    by (simp add: Let_def) (simp add: august_run_def)
qed

end
