(* ===== verification/Seed_Rules.thy ===== *)
theory Seed_Rules
  imports Seed_Full Portal_Invariants
begin

text \<open>
  What the scripts do to the tables of the service: they keep the accounts well
  formed, the accounts of \<^verbatim>\<open>seed.go\<close> can log in, a reset of the test data removes no employee,
  and the audit data can be seeded once only.
\<close>

section \<open>The accounts stay well formed\<close>

lemma returning_cases:
  assumes "returning p key f r rs = Some (i, rs')"
  obtains "\<exists>x\<in>set rs. p x \<and> i = key x" "rs' = upd_where p f rs"
  | "\<forall>x\<in>set rs. \<not> p x" "key r \<notin> key ` set rs" "i = key r" "rs' = rs @ [r]"
  using assms by (auto simp: returning_def find_None_iff split: option.splits if_splits dest!: find_in)

lemma keeps_upsert_user [keeps_rules]: "keeps accounts_ok (upsert_user email hash)"
  unfolding upsert_user_def
proof (rule keeps_stmt)
  fix w w' :: "'a world_scheme" and a
  let ?r = "new_user email hash True (now w) (ids w (issued w))"
  assume ok: "accounts_ok w" and s: "map_option (\<lambda>(i, us). (i, w\<lparr>users := us, issued := issued w + 1\<rparr>))
    (returning (\<lambda>u. u_email u = email) u_id (\<lambda>u. u\<lparr>u_hash := hash\<rparr>) ?r (users w)) = Some (a, w')"
  then obtain us where us: "returning (\<lambda>u. u_email u = email) u_id (\<lambda>u. u\<lparr>u_hash := hash\<rparr>) ?r (users w)
      = Some (a, us)" "w' = w\<lparr>users := us, issued := issued w + 1\<rparr>"
    by auto
  from us(1) show "accounts_ok w'"
  proof (cases rule: returning_cases)
    case 1
    then show ?thesis
      using ok accounts_upd_users [OF ok, of "\<lambda>u. u\<lparr>u_hash := hash\<rparr>"] by (simp add: us(2))
  next
    case 2
    have "\<forall>u\<in>set (users w). u_email u \<noteq> u_email ?r \<and> u_id u \<noteq> u_id ?r"
      using 2(1,2) by (force simp: new_user_def)
    then have "accounts_fit (users w @ [?r]) (user_roles w) (employees w)"
      using ok by (intro fit_insert_user) (simp_all add: accounts_ok_def)
    then show ?thesis using 2 by (simp add: accounts_ok_def us(2))
  qed
qed simp

lemma keeps_give_role [keeps_rules]: "keeps accounts_ok (give_role uid rid)"
  unfolding give_role_def
  by (rule keeps_exec)
    (auto simp: accounts_ok_def accounts_fit_def roles_fit_def split: if_splits option.splits)

lemma add_staff_Some:
  assumes "add_staff x r w = Some w'"
  shows "w' = w\<lparr>employees := employees w @ [x]\<rparr>"
    "\<forall>e\<in>set (employees w). e_user e \<noteq> e_user x \<and> e_code e \<noteq> e_code x \<and> e_id e \<noteq> e_id x"
    "\<exists>u\<in>u_id ` set (users w). e_user x = Some u"
  using assms unfolding add_staff_def user_is_def by (auto split: if_splits)

lemma accounts_add_staff:
  assumes "accounts_ok w" "add_staff x r w = Some w'"
  shows "accounts_ok w'"
  unfolding add_staff_Some(1) [OF assms(2)]
  using add_staff_Some(2,3) [OF assms(2)] by (intro accounts_append_employee [OF assms(1)]) auto

lemma keeps_insert_staff [keeps_rules]: "keeps accounts_ok (insert_staff code fname lname refs uid)"
  unfolding insert_staff_def
  by (rule keeps_insert_row) (auto split: option.splits intro: accounts_add_staff)

lemma links_relink:
  assumes "links_fit us es" "u \<in> us" "\<forall>x\<in>set es. \<not> p x \<longrightarrow> e_user x \<noteq> Some u"
    "\<And>x y. x \<in> set es \<Longrightarrow> y \<in> set es \<Longrightarrow> p x \<Longrightarrow> p y \<Longrightarrow> e_id x = e_id y"
  shows "links_fit us (upd_where p (\<lambda>x. x\<lparr>e_user := Some u\<rparr>) es)" (is "links_fit us ?es")
proof -
  have m: "map e_id ?es = map e_id es" by (rule map_upd_where) simp
  have old: "\<exists>y\<in>set es. e_id y = e_id x \<and> (if p y then e_user x = Some u else x = y)"
    if "x \<in> set ?es" for x
    using that by (auto simp: in_upd_where)
  have fit: "v \<in> us" "e_id e = e_id x"
    if "e \<in> set es" "x \<in> set es" "e_user e = Some v" "e_user x = Some v" for e x v
    using that assms(1) unfolding links_fit_def by blast+
  show ?thesis
    unfolding links_fit_def m
  proof (intro conjI allI impI)
    show "distinct (map e_id es)" using assms(1) by (simp add: links_fit_def)
    show "v \<in> us" if "e \<in> set ?es" "e_user e = Some v" for v e
      using old [OF that(1)] that(2) fit(1) assms(2) by (auto split: if_splits)
    show "e_id e = e_id x"
      if e: "e \<in> set ?es" "x \<in> set ?es" "e_user e = Some v" "e_user x = Some v" for v e x
    proof -
      obtain e0 x0 where "e0 \<in> set es" "e_id e0 = e_id e" "if p e0 then e_user e = Some u else e = e0"
        "x0 \<in> set es" "e_id x0 = e_id x" "if p x0 then e_user x = Some u else x = x0"
        using old [OF e(1)] old [OF e(2)] by blast
      note ex = this
      consider "p e0" "p x0" | "p e0" "\<not> p x0" | "\<not> p e0" "p x0" | "\<not> p e0" "\<not> p x0" by blast
      then show ?thesis
      proof cases
        case 1
        then show ?thesis using assms(4) ex(1,2,4,5) by metis
      next
        case 2
        then have "e_user x0 = Some u" using ex(3,6) e(3,4) by simp
        then show ?thesis using 2 assms(3) ex(4) by blast
      next
        case 3
        then have "e_user e0 = Some u" using ex(3,6) e(3,4) by simp
        then show ?thesis using 3 assms(3) ex(1) by blast
      next
        case 4
        then have "e = e0" "x = x0" using ex(3,6) by simp_all
        then show ?thesis using fit(2) ex(1,4) e(3,4) by blast
      qed
    qed
  qed
qed

text \<open>The codes of the employees are unique, which the database guarantees.\<close>

definition codes_ok :: "'a world_scheme \<Rightarrow> bool" where
  "codes_ok w \<longleftrightarrow> accounts_ok w \<and> distinct (map e_code (employees w))"

lemma codes_ok_same:
  "codes_ok w \<Longrightarrow> accounts_ok w' \<Longrightarrow> employees w' = employees w \<Longrightarrow> codes_ok w'"
  by (simp add: codes_ok_def)

lemma stable_codes_ok [simp]: "stable codes_ok"
  using stable_accounts_ok by (auto simp: stable_def codes_ok_def)

lemma keeps_upsert_staff: "keeps codes_ok (upsert_staff code fname lname refs uid)"
  unfolding upsert_staff_def
proof (rule keeps_stmt, simp)
  fix w w' :: "'a people_world_scheme" and a
  assume ok: "codes_ok w" and s: "(case (uuid_in w uid, cast_refs refs w) of
       (Some u, Some r) \<Rightarrow>
         (case find (\<lambda>e. e_code e = code) (employees w) of
            Some e \<Rightarrow>
              if u \<in> u_id ` set (users w) \<and> (\<forall>x\<in>set (employees w). e_code x \<noteq> code \<longrightarrow> \<not> user_is u x)
              then Some (e_id e,
                w\<lparr>employees := upd_where (\<lambda>x. e_code x = code) (\<lambda>x. x\<lparr>e_user := Some u\<rparr>) (employees w),
                  issued := issued w + 1\<rparr>)
              else None
          | None \<Rightarrow>
              let i = ids w (issued w)
              in map_option (\<lambda>w'. (i, w'\<lparr>issued := issued w + 1\<rparr>))
                   (add_staff (staff_row i u code fname lname r (today w) (now w)) r w))
     | _ \<Rightarrow> None) = Some (a, w')"
  then obtain u r where ur: "uuid_in w uid = Some u" "cast_refs refs w = Some r"
    by (auto split: option.splits)
  have d: "distinct (map e_code (employees w))" and ok': "accounts_ok w" using ok by (simp_all add: codes_ok_def)
  show "codes_ok w'"
  proof (cases "find (\<lambda>e. e_code e = code) (employees w)")
    case None
    then obtain v where v: "w' = v\<lparr>issued := issued w + 1\<rparr>"
      "add_staff (staff_row (ids w (issued w)) u code fname lname r (today w) (now w)) r w = Some v"
      using s by (auto simp: ur Let_def)
    then show ?thesis
      using accounts_add_staff [OF ok' v(2)] add_staff_Some(1,2) [OF v(2)] d
      by (auto simp: codes_ok_def)
  next
    case (Some e)
    let ?es = "upd_where (\<lambda>x. e_code x = code) (\<lambda>x. x\<lparr>e_user := Some u\<rparr>) (employees w)"
    have c: "u \<in> u_id ` set (users w)" "\<forall>x\<in>set (employees w). e_code x \<noteq> code \<longrightarrow> e_user x \<noteq> Some u"
      "w' = w\<lparr>employees := ?es, issued := issued w + 1\<rparr>"
      using s unfolding ur Some by (auto simp: user_is_def split: if_splits)
    have "links_fit (u_id ` set (users w)) ?es"
    proof (rule links_relink)
      show "e_id x = e_id y" if "x \<in> set (employees w)" "y \<in> set (employees w)" "e_code x = code" "e_code y = code"
        for x y
        using that d by (metis distinct_map inj_onD)
    qed (use ok' c in \<open>simp_all add: accounts_ok_def accounts_fit_def\<close>)
    moreover have "map e_code ?es = map e_code (employees w)" by (rule map_upd_where) simp
    ultimately show ?thesis
      using ok' d by (simp add: codes_ok_def accounts_ok_def accounts_fit_def c(3))
  qed
qed

lemma keeps_conj: "keeps I m \<Longrightarrow> keeps J m \<Longrightarrow> keeps (\<lambda>w. I w \<and> J w) m"
  by (simp add: keeps_def wp_conj)

definition codes_distinct :: "'a world_scheme \<Rightarrow> bool" where
  "codes_distinct w \<longleftrightarrow> distinct (map e_code (employees w))"

lemma stable_codes_distinct [simp]: "stable codes_distinct"
  by (simp add: stable_def codes_distinct_def)

lemma keeps_codes_ok: "keeps accounts_ok m \<Longrightarrow> keeps codes_distinct m \<Longrightarrow> keeps codes_ok m"
  using keeps_conj [of accounts_ok m codes_distinct]
  by (simp add: codes_ok_def [abs_def] codes_distinct_def [abs_def])

lemma keeps_scripts_tables:
  assumes s: "stable I" and t: "\<And>w rs n. I (w\<lparr>roles := rs, issued := n\<rparr>) = I w"
    "\<And>w os cs n. I (w\<lparr>orgs := os, org_codes := cs, issued := n\<rparr>) = I w"
    "\<And>w ds ks n. I (w\<lparr>departments := ds, dept_keys := ks, issued := n\<rparr>) = I w"
    "\<And>w ds n. I (w\<lparr>departments := ds, issued := n\<rparr>) = I w"
    "\<And>w ls n. I (w\<lparr>locations := ls, issued := n\<rparr>) = I w"
    "\<And>w ds n. I (w\<lparr>designations := ds, issued := n\<rparr>) = I w"
    "\<And>w cs n. I (w\<lparr>cycles := cs, issued := n\<rparr>) = I w"
    "\<And>w n. I (w\<lparr>issued := n\<rparr>) = I w"
  shows "keeps I (upsert_role name)" "keeps I (upsert_described_role name desc)"
    "keeps I (upsert_org code)" "keeps I (upsert_department org name code)"
    "keeps I (insert_location org name city)" "keeps I (insert_designation q)"
    "keeps I (find_location org name)" "keeps I (find_designation org name)"
    "keeps I (find_role name)" "keeps I insert_cycle" "keeps I without_org"
proof -
  show "keeps I (upsert_role name)" "keeps I (upsert_described_role name desc)"
    unfolding upsert_role_def upsert_described_role_def by (rule keeps_stmt [OF s], use t in auto)+
  show "keeps I (upsert_org code)" "keeps I (upsert_department org name code)"
    unfolding upsert_org_def upsert_department_def
    by (rule keeps_stmt [OF s], use t in \<open>auto simp: Let_def split: option.splits if_splits\<close>)+
  show "keeps I (insert_location org name city)" "keeps I (insert_designation q)" "keeps I insert_cycle"
    unfolding insert_location_def insert_designation_def insert_cycle_def
    by (rule keeps_insert_row [OF s], use t in \<open>auto split: option.splits if_splits\<close>)+
  show "keeps I (find_location org name)" "keeps I (find_designation org name)" "keeps I (find_role name)"
    unfolding find_location_def find_designation_def find_role_def
    by (rule keeps_query_row keeps_select_row, rule s)+
  show "keeps I without_org" unfolding without_org_def by (rule keeps_stmt [OF s]) simp
qed

lemma codes_scripts_statements:
  "keeps codes_distinct (upsert_user email hash)" "keeps codes_distinct (give_role uid rid)"
  "keeps codes_distinct (delete_user_roles uid)" "keeps codes_distinct (insert_user_role uid rid)"
  unfolding upsert_user_def give_role_def delete_user_roles_def insert_user_role_def
  by (rule keeps_stmt keeps_exec, simp,
      auto simp: codes_distinct_def split: option.splits if_splits prod.splits)+

lemma codes_add_staff: "codes_distinct w \<Longrightarrow> add_staff x r w = Some w' \<Longrightarrow> codes_distinct (w'\<lparr>issued := n\<rparr>)"
  using add_staff_Some(1,2) [of x r w w'] by (auto simp: codes_distinct_def)

lemma codes_insert_staff: "keeps codes_distinct (insert_staff code fname lname refs uid)"
  unfolding insert_staff_def
  by (rule keeps_insert_row) (auto split: option.splits intro: codes_add_staff)

lemma links_filter: "links_fit us es \<Longrightarrow> links_fit us (filter p es)"
  unfolding links_fit_def by (auto simp: distinct_map_filter)

lemma keeps_delete_staff: "keeps codes_ok (delete_staff uid code)"
  unfolding delete_staff_def
  by (rule keeps_exec)
    (auto simp: codes_ok_def accounts_ok_def accounts_fit_def forget_staff_def Let_def
      distinct_map_filter intro: links_filter split: option.splits if_splits)

lemma forget_users_ok:
  assumes "codes_ok w" "\<forall>u\<in>set us. \<forall>e\<in>set (employees w). e_user e \<noteq> Some (u_id u)"
  shows "codes_ok (fold (\<lambda>u. forget_user (u_id u)) us w)"
  using assms
proof (induction us arbitrary: w)
  case (Cons u us)
  have "accounts_ok (forget_user (u_id u) w)"
    using Cons.prems fit_delete [of "users w" "user_roles w" "employees w" "u_id u"]
    by (simp add: codes_ok_def accounts_ok_def forget_user_def)
  then show ?case
    using Cons by (simp add: codes_ok_def forget_user_def)
qed simp

lemma keeps_delete_test_users: "keeps codes_ok delete_test_users"
  unfolding delete_test_users_def
  by (rule keeps_exec)
    (auto simp: Let_def user_pinned_def user_is_def intro!: forget_users_ok split: if_splits)

lemma keeps_sum [keeps_rules]:
  "(\<And>a. keeps I (k a)) \<Longrightarrow> (\<And>b. keeps I (l b)) \<Longrightarrow> keeps I (case x of Inl a \<Rightarrow> k a | Inr b \<Rightarrow> l b)"
  by (cases x) auto

lemma keeps_prod_fun [keeps_rules]:
  "(\<And>a b. keeps I (k a b y)) \<Longrightarrow> keeps I ((case x of (a, b) \<Rightarrow> k a b) y)"
  by (cases x) auto

lemma keeps_prod_fun2 [keeps_rules]:
  "(\<And>a b. keeps I (k a b y z)) \<Longrightarrow> keeps I ((case x of (a, b) \<Rightarrow> k a b) y z)"
  by (cases x) auto

lemma keeps_unless_fatal [keeps_rules]:
  "keeps I m \<Longrightarrow> (\<And>a. keeps I (k a)) \<Longrightarrow> keeps I (unless_fatal m k)"
  unfolding unless_fatal_def by (intro keeps_rules)

lemma keeps_fatal_loop [keeps_rules]:
  "(\<And>x b. keeps I (f x b)) \<Longrightarrow> keeps I (fatal_loop f xs b)"
  by (induction xs arbitrary: b) (auto intro: keeps_return keeps_unless_fatal)

lemma keeps_failing [keeps_rules]: "keeps I m \<Longrightarrow> keeps I (failing m xs)"
  unfolding failing_def by (intro keeps_rules)

lemma keeps_collect [keeps_rules]: "(\<And>x. keeps I (f x)) \<Longrightarrow> keeps I (collect f xs)"
  unfolding collect_def by (intro keeps_rules)

lemmas codes_ok_tables = keeps_scripts_tables [where I = codes_ok, OF stable_codes_ok,
    simplified codes_ok_def accounts_ok_def, simplified, folded accounts_ok_def codes_ok_def]

lemma codes_ok_statements:
  "keeps codes_ok (upsert_user email hash)" "keeps codes_ok (give_role uid rid)"
  "keeps codes_ok (delete_user_roles uid)" "keeps codes_ok (insert_user_role uid rid)"
  "keeps codes_ok (insert_staff code fname lname refs uid)"
  by (rule keeps_codes_ok, rule keeps_rules, rule codes_scripts_statements codes_insert_staff)+

lemma codes_ok_demo: "keeps codes_ok (seed_demo cr)"
  unfolding seed_demo_def demo_roles_def seed_user_def
  by (intro keeps_rules codes_ok_tables codes_ok_statements stable_codes_ok)

lemma codes_ok_audit: "keeps codes_ok (seed_audit cr)"
  unfolding seed_audit_def audit_roles_def audit_user_def audit_team_def Let_def
  by (intro keeps_rules codes_ok_tables codes_ok_statements keeps_delete_staff stable_codes_ok)

lemma codes_ok_test: "keeps codes_ok (seed_test_employees cr reset)"
  unfolding seed_test_employees_def reset_test_data_def test_role_def test_location_def
    test_designation_def test_staff_def test_preset_def test_manager_def test_employee_def
    test_account_def
  by (intro keeps_rules codes_ok_tables codes_ok_statements keeps_upsert_staff
      keeps_delete_test_users stable_codes_ok)

lemma codes_upsert_full_staff: "keeps codes_ok (upsert_full_staff s refs uid)"
  unfolding upsert_full_staff_def
proof (rule keeps_stmt, simp)
  fix w w' :: "'a people_world_scheme" and a
  let ?f = "\<lambda>r x. x\<lparr>e_first := fs_first s, e_last := fs_last s, e_dept := rf_dept r,
    e_desig := rf_desig r, e_location := rf_location r, e_status := fs_status s\<rparr>"
  assume ok: "codes_ok w" and u: "(case (uuid_in w uid, cast_refs refs w) of
       (Some u, Some r) \<Rightarrow>
         (case find (\<lambda>e. e_code e = fs_code s) (employees w) of
            Some e \<Rightarrow>
              if refs_exist r w
              then Some (e_id e,
                w\<lparr>employees := upd_where (\<lambda>x. e_code x = fs_code s)
                    (\<lambda>x. x\<lparr>e_first := fs_first s, e_last := fs_last s, e_dept := rf_dept r,
                           e_desig := rf_desig r, e_location := rf_location r,
                           e_status := fs_status s\<rparr>) (employees w),
                  issued := issued w + 1\<rparr>)
              else None
          | None \<Rightarrow>
              let i = ids w (issued w)
              in map_option (\<lambda>w'. (i, w'\<lparr>issued := issued w + 1\<rparr>))
                   (add_staff (full_row i u s r (now w)) r w))
     | _ \<Rightarrow> None) = Some (a, w')"
  obtain v r where vr: "uuid_in w uid = Some v" "cast_refs refs w = Some r"
    using u by (auto split: option.splits)
  have a: "accounts_ok w" "distinct (map e_code (employees w))" using ok by (simp_all add: codes_ok_def)
  show "codes_ok w'"
  proof (cases "find (\<lambda>e. e_code e = fs_code s) (employees w)")
    case None
    then obtain w'' where w: "add_staff (full_row (ids w (issued w)) v s r (now w)) r w = Some w''"
      "w' = w''\<lparr>issued := issued w + 1\<rparr>"
      using u vr by (auto simp: Let_def)
    show ?thesis
      using accounts_add_staff [OF a(1) w(1)] codes_add_staff [OF _ w(1)] a(2) w(2)
      by (simp add: codes_ok_def accounts_ok_def codes_distinct_def)
  next
    case (Some e)
    then have w: "w' = w\<lparr>employees := upd_where (\<lambda>x. e_code x = fs_code s) (?f r) (employees w),
        issued := issued w + 1\<rparr>"
      using u vr by (auto split: if_splits)
    have "map e_code (upd_where (\<lambda>x. e_code x = fs_code s) (?f r) (employees w)) = map e_code (employees w)"
      by (rule map_upd_where) simp
    then show ?thesis
      using accounts_upd_employees [OF a(1), of "?f r" "\<lambda>x. e_code x = fs_code s"] a(2)
      by (simp add: codes_ok_def accounts_ok_def w)
  qed
qed

lemma codes_full_statements:
  "keeps codes_ok (insert_branch org l)" "keeps codes_ok (find_account email)"
  "keeps codes_ok (find_staff code)" "keeps codes_ok (upsert_august_run org)"
  "keeps codes_ok (find_august_run org)" "keeps codes_ok (upsert_full_slip run emp basic hra gross ded net)"
proof -
  show "keeps codes_ok (insert_branch org l)"
    unfolding insert_branch_def
    by (cases l) (simp, rule keeps_insert_row, simp,
        auto simp: codes_ok_def accounts_ok_def split: option.splits if_splits)
  show "keeps codes_ok (upsert_august_run org)"
    unfolding upsert_august_run_def
    by (rule keeps_stmt, simp, auto simp: codes_ok_def accounts_ok_def split: option.splits if_splits)
  show "keeps codes_ok (upsert_full_slip run emp basic hra gross ded net)"
    unfolding upsert_full_slip_def
    by (rule keeps_exec, simp, auto simp: codes_ok_def accounts_ok_def split: option.splits if_splits)
  show "keeps codes_ok (find_account email)" "keeps codes_ok (find_staff code)"
    "keeps codes_ok (find_august_run org)"
    unfolding find_account_def find_staff_def find_august_run_def
    by (rule keeps_query_row keeps_select_row, rule stable_codes_ok)+
qed

lemma codes_ok_full: "keeps codes_ok (seed_full cr)"
  unfolding seed_full_def full_roles_def full_location_def full_department_def full_designation_def
    full_employee_def full_payroll_def full_slip_def or_found_def Let_def
  by (intro keeps_rules codes_ok_tables codes_ok_statements codes_full_statements
      codes_upsert_full_staff stable_codes_ok)

text \<open>One run of a script, or of \<^verbatim>\<open>Seed50Employees\<close>, with any statements failing.\<close>

inductive script_run :: "'a seed_world_scheme \<Rightarrow> 'a seed_world_scheme \<Rightarrow> bool" where
  demo: "script_run w (snd (run_state (seed_demo cr) w))"
| audit: "script_run w (snd (run_state (seed_audit cr) w))"
| test: "script_run w (snd (run_state (seed_test_employees cr reset) w))"
| payroll: "script_run w (snd (run_state (seed_payroll_data month year reset pending) w))"
| full: "script_run w (snd (run_state (seed_full cr) w))"
| later: "script_run w (w\<lparr>now := t, outcomes := os\<rparr>)"

inductive_cases script_runE: "script_run w w'"

lemma codes_ok_payroll: "keeps codes_ok (seed_payroll_data month year reset pending)"
proof -
  have "keeps codes_ok (insert_weekend eid date)" "keeps codes_ok (upsert_day eid date st valid)"
    "keeps codes_ok (insert_advance eid q)" "keeps codes_ok (insert_structure sq)"
    "keeps codes_ok (delete_period_slips month year)" "keeps codes_ok (delete_period_runs month year)"
    "keeps codes_ok (delete_period_advances month year)" "keeps codes_ok (delete_period_days month year)"
    for eid date st valid q sq
    unfolding insert_weekend_def upsert_day_def insert_advance_def insert_structure_def
      delete_period_slips_def delete_period_runs_def delete_period_advances_def delete_period_days_def
    by (rule keeps_exec keeps_insert_row, simp,
        auto simp: codes_ok_def accounts_ok_def Let_def split: option.splits if_splits)+
  then show ?thesis
    unfolding seed_payroll_data_def reset_period_def seed_all_def seed_salary_def seed_employee_def
      seed_day_def Let_def
    by (intro keeps_rules stable_codes_ok)
qed

lemma script_run_codes: "script_run w w' \<Longrightarrow> codes_ok w \<Longrightarrow> codes_ok w'"
  by (erule script_runE) (use keepsD [OF codes_ok_demo] keepsD [OF codes_ok_audit]
    keepsD [OF codes_ok_test] keepsD [OF codes_ok_payroll] keepsD [OF codes_ok_full] in
    \<open>simp_all, simp_all add: codes_ok_def accounts_ok_def\<close>)


lemma empty_seed_simps:
  "outcomes empty_seed = []" "\<not> db_nil empty_seed" "uuid_in empty_seed = Some"
  "ids empty_seed = (\<lambda>n. ''id-'' @ decn n)" "users empty_seed = []" "roles empty_seed = []"
  "user_roles empty_seed = []" "employees empty_seed = []"
  by (simp_all add: empty_seed_def empty_office_def empty_people_def empty_att_def empty_hr_def
      empty_world_def office_world.defs people_world.defs att_world.defs hr_world.defs
      world.defs seed_world.defs)

lemma empty_seed_ok: "codes_ok empty_seed"
  by (simp add: codes_ok_def accounts_ok_def accounts_fit_def roles_fit_def links_fit_def
      empty_seed_simps)


section \<open>A reset that resets nothing\<close>

text \<open>Every one of the given employees is still there, with another account at most.\<close>

definition staff_kept :: "employee_row list \<Rightarrow> 'a world_scheme \<Rightarrow> bool" where
  "staff_kept es w \<longleftrightarrow> (\<forall>e\<in>set es. \<exists>x\<in>set (employees w). \<exists>u. x = e\<lparr>e_user := u\<rparr>)"

lemma stable_staff_kept [simp]: "stable (staff_kept es)"
  by (simp add: stable_def staff_kept_def)

lemma staff_kept_append: "staff_kept es w \<Longrightarrow> staff_kept es (w\<lparr>employees := employees w @ xs, issued := n\<rparr>)"
  by (auto simp: staff_kept_def)

lemma staff_kept_relink:
  assumes "staff_kept es w"
  shows "staff_kept es (w\<lparr>employees := upd_where p (\<lambda>x. x\<lparr>e_user := u\<rparr>) (employees w), issued := n\<rparr>)"
  unfolding staff_kept_def
proof
  fix e
  assume "e \<in> set es"
  then obtain x v where x: "x \<in> set (employees w)" "x = e\<lparr>e_user := v\<rparr>"
    using assms by (auto simp: staff_kept_def)
  let ?x = "if p x then x\<lparr>e_user := u\<rparr> else x"
  have "?x \<in> set (upd_where p (\<lambda>x. x\<lparr>e_user := u\<rparr>) (employees w))"
    using x(1) by (auto simp: in_upd_where)
  moreover have "\<exists>v. ?x = e\<lparr>e_user := v\<rparr>" unfolding x(2) by auto
  ultimately have "\<exists>x\<in>set (upd_where p (\<lambda>x. x\<lparr>e_user := u\<rparr>) (employees w)). \<exists>u. x = e\<lparr>e_user := u\<rparr>"
    by (rule bexI [rotated])
  then show "\<exists>x\<in>set (employees (w\<lparr>employees := upd_where p (\<lambda>x. x\<lparr>e_user := u\<rparr>) (employees w),
      issued := n\<rparr>)). \<exists>u. x = e\<lparr>e_user := u\<rparr>"
    by simp
qed

lemma kept_upsert_staff: "keeps (staff_kept es) (upsert_staff code fname lname refs uid)"
  unfolding upsert_staff_def
  by (rule keeps_stmt)
    (auto simp: Let_def intro: staff_kept_relink staff_kept_append dest!: add_staff_Some(1)
      split: option.splits if_splits)

lemma kept_delete_test_users: "keeps (staff_kept es) delete_test_users"
proof -
  have "employees (fold (\<lambda>u. forget_user (u_id u)) us w) = employees w" for us :: "user_row list"
    and w :: "'a att_world_scheme"
    by (induction us arbitrary: w) (simp_all add: forget_user_def)
  then show ?thesis
    unfolding delete_test_users_def
    by (intro keeps_exec) (auto simp: Let_def staff_kept_def split: if_splits)
qed

lemmas kept_tables = keeps_scripts_tables [where I = "staff_kept es" for es, OF stable_staff_kept,
    simplified staff_kept_def, simplified, folded staff_kept_def]

lemma kept_statements:
  "keeps (staff_kept es) (upsert_user email hash)" "keeps (staff_kept es) (give_role uid rid)"
  unfolding upsert_user_def give_role_def
  by (rule keeps_stmt keeps_exec, simp,
      auto simp: staff_kept_def split: option.splits if_splits prod.splits)+

text \<open>
  \<^verbatim>\<open>seed\_50\_test\_employees.go --reset\<close> removes no employee. The statement that is to
  delete them names a column that does not exist, and its error is ignored: whatever the tables, the
  flag and the failing statements, every employee of before the run is there afterwards, unchanged
  but for the account it is linked to.
\<close>

theorem reset_keeps_employees:
  "let w' = snd (run_state (seed_test_employees cr reset) w)
   in \<forall>e\<in>set (employees w). \<exists>x\<in>set (employees w'). \<exists>u. x = e\<lparr>e_user := u\<rparr>"
proof -
  have k: "keeps (staff_kept es) (seed_test_employees cr reset)" for es :: "employee_row list"
    unfolding seed_test_employees_def reset_test_data_def test_role_def test_location_def
      test_designation_def test_staff_def test_preset_def test_manager_def test_employee_def
      test_account_def
    by (intro keeps_rules kept_tables kept_statements kept_upsert_staff
        kept_delete_test_users stable_staff_kept)
  have s: "staff_kept (employees w) w"
  proof -
    have "e = e\<lparr>e_user := e_user e\<rparr>" for e :: employee_row by simp
    then show ?thesis unfolding staff_kept_def by blast
  qed
  show ?thesis using keepsD [OF k s] unfolding Let_def staff_kept_def .
qed

definition reset_office :: seed_world where
  "reset_office = empty_seed\<lparr>users := [demo_user], employees :=
     [demo_employee\<lparr>e_code := ''TEST_EMP_001''\<rparr>]\<rparr>"

theorem reset_keeps_employees_witness:
  "\<exists>x\<in>set (employees (snd (run_state (seed_test_employees demo_crypto True) reset_office))).
     e_code x = ''TEST_EMP_001'' \<and> e_id x = ''e1''"
proof -
  have e: "employees reset_office = [demo_employee\<lparr>e_code := ''TEST_EMP_001''\<rparr>]"
    by (simp add: reset_office_def)
  obtain x u where x: "x \<in> set (employees (snd (run_state (seed_test_employees demo_crypto True) reset_office)))"
    "x = demo_employee\<lparr>e_code := ''TEST_EMP_001''\<rparr>\<lparr>e_user := u\<rparr>"
    using reset_keeps_employees [of demo_crypto True reset_office] unfolding Let_def e by auto
  show ?thesis by (rule bexI [OF _ x(1)]) (simp add: x(2) demo_employee_def)
qed

section \<open>The accounts of seed.go\<close>

text \<open>
  A server where nothing fails: identifiers are UUIDs that differ from each other and from those in
  the tables, and the accounts that the script is about are not suspended.
\<close>

definition ids_free :: "'a world_scheme \<Rightarrow> bool" where
  "ids_free w \<longleftrightarrow> outcomes w = [] \<and> \<not> db_nil w \<and> inj (ids w) \<and> uuid_in w = Some
     \<and> (\<forall>k\<ge>issued w. ids w k \<notin> ro_id ` set (roles w) \<and> ids w k \<notin> u_id ` set (users w))"

definition demo_emails :: "string list" where
  "demo_emails = map fst demo_users"

definition demo_active :: "'a world_scheme \<Rightarrow> bool" where
  "demo_active w \<longleftrightarrow> (\<forall>u\<in>set (users w). u_email u \<in> set demo_emails \<longrightarrow> u_active u)"

definition known_roles :: "(string \<times> string) list \<Rightarrow> 'a world_scheme \<Rightarrow> bool" where
  "known_roles rids w \<longleftrightarrow> ids_free w \<and> demo_active w
     \<and> (\<forall>(r, i)\<in>set rids. \<exists>x\<in>set (roles w). ro_name x = r \<and> ro_id x = i)"

lemma fresh_id:
  assumes "ids_free w"
  shows "ids w (issued w) \<notin> ro_id ` set (roles w)" "ids w (issued w) \<notin> u_id ` set (users w)"
    "k \<ge> issued w + 1 \<Longrightarrow> ids w k \<noteq> ids w (issued w)"
  using assms by (auto simp: ids_free_def dest: injD)

lemma wp_upsert_role:
  assumes "known_roles rids w"
  shows "wp (upsert_role r) (\<lambda>x w'. \<exists>i. x = Some i \<and> known_roles (rids @ [(r, i)]) w') w"
proof -
  have f: "ids_free w" "outcomes w = []" using assms by (simp_all add: known_roles_def ids_free_def)
  show ?thesis
  proof (cases "find (\<lambda>x. ro_name x = r) (roles w)")
    case None
    let ?x = "\<lparr>ro_id = ids w (issued w), ro_name = r, ro_desc = None\<rparr>"
    have "known_roles (rids @ [(r, ids w (issued w))])
        (w\<lparr>roles := roles w @ [?x], issued := issued w + 1\<rparr>)"
      using assms fresh_id(3) [OF f(1)]
      by (fastforce simp: known_roles_def ids_free_def demo_active_def)
    then show ?thesis
      using None fresh_id(1) [OF f(1)]
      by (simp add: wp_def upsert_role_def run_stmt_calm [OF f(2)] returning_def)
  next
    case (Some x)
    then have x: "x \<in> set (roles w)" "ro_name x = r" using find_in by fast+
    have "upd_where (\<lambda>x. ro_name x = r) id (roles w) = roles w"
      unfolding upd_where_def by (rule map_idI) simp
    moreover have "known_roles (rids @ [(r, ro_id x)]) (w\<lparr>issued := issued w + 1\<rparr>)"
      using assms x by (auto simp: known_roles_def ids_free_def demo_active_def)
    ultimately show ?thesis
      using Some by (simp add: wp_def upsert_role_def run_stmt_calm [OF f(2)] returning_def)
  qed
qed

lemma wp_demo_roles:
  assumes "ids_free w" "demo_active w"
  shows "wp demo_roles (\<lambda>rids w'. known_roles rids w' \<and> map fst rids = seed_roles) w"
proof -
  have "wp (fold_loop (\<lambda>r rids. do {
      x \<leftarrow> upsert_role r;
      State_Monad.return (case x of None \<Rightarrow> rids | Some i \<Rightarrow> rids @ [(r, i)])
    }) rs rids) (\<lambda>rids' w'. known_roles rids' w' \<and> map fst rids' = map fst rids @ rs) v"
    if "known_roles rids v" for rs rids and v :: "'a world_scheme"
    using that
  proof (induction rs arbitrary: rids v)
    case (Cons r rs)
    show ?case
      unfolding fold_loop.simps wp_bind
      by (rule wp_mono [OF wp_upsert_role [OF Cons.prems]])
        (auto intro!: wp_mono [OF Cons.IH])
  qed simp
  from this [of "[]" w seed_roles] show ?thesis
    using assms by (simp add: demo_roles_def known_roles_def)
qed

definition seeded_account :: "crypto \<Rightarrow> string \<times> string \<times> string \<Rightarrow> 'a world_scheme \<Rightarrow> bool" where
  "seeded_account cr a w \<longleftrightarrow> (case a of (email, password, role) \<Rightarrow>
     \<exists>u. find (\<lambda>u. u_email u = email) (users w) = Some u \<and> u_active u
       \<and> u_hash u = text_or_empty (bcrypt_hash cr password)
       \<and> (\<exists>r\<in>set (roles w). ro_name r = role \<and> (u_id u, ro_id r) \<in> set (user_roles w)))"

lemma find_append_new: "find q rs = None \<Longrightarrow> q r \<Longrightarrow> find q (rs @ [r]) = Some r"
  by (induction rs) (auto split: if_splits)

lemma wp_upsert_user_demo:
  assumes "known_roles rids w" "email \<in> set demo_emails"
  shows "wp (upsert_user email hash) (\<lambda>x w'. \<exists>u. x = Some (u_id u) \<and> known_roles rids w'
           \<and> find (\<lambda>u. u_email u = email) (users w') = Some u \<and> u_active u \<and> u_hash u = hash
           \<and> roles w' = roles w \<and> user_roles w' = user_roles w
           \<and> (\<forall>e. e \<noteq> email \<longrightarrow> find (\<lambda>u. u_email u = e) (users w') = find (\<lambda>u. u_email u = e) (users w))) w"
proof -
  have f: "ids_free w" "outcomes w = []" using assms by (simp_all add: known_roles_def ids_free_def)
  show ?thesis
  proof (cases "find (\<lambda>u. u_email u = email) (users w)")
    case None
    let ?u = "new_user email hash True (now w) (ids w (issued w))"
    let ?w = "w\<lparr>users := users w @ [?u], issued := issued w + 1\<rparr>"
    have k: "known_roles rids ?w"
      using assms(1) fresh_id(3) [OF f(1)]
      by (fastforce simp: known_roles_def ids_free_def demo_active_def new_user_def)
    have "find (\<lambda>u. u_email u = email) (users ?w) = Some ?u"
      using find_append_new [OF None] by (simp add: new_user_def)
    moreover have "find (\<lambda>u. u_email u = e) (users ?w) = find (\<lambda>u. u_email u = e) (users w)"
      if "e \<noteq> email" for e
      using that by (simp add: find_append_none new_user_def)
    moreover have "u_id ?u = ids w (issued w)" "u_active ?u" "u_hash ?u = hash"
      by (simp_all add: new_user_def)
    ultimately show ?thesis
      using None k fresh_id(2) [OF f(1)]
      by (auto simp: wp_def upsert_user_def run_stmt_calm [OF f(2)] returning_def)
  next
    case (Some x)
    then have x: "x \<in> set (users w)" "u_email x = email" using find_in by fast+
    let ?us = "upd_where (\<lambda>u. u_email u = email) (\<lambda>u. u\<lparr>u_hash := hash\<rparr>) (users w)"
    have a: "u_active x" using assms x by (auto simp: known_roles_def demo_active_def)
    have "map u_id ?us = map u_id (users w)" by (rule map_upd_where) simp
    then have ids: "u_id ` set ?us = u_id ` set (users w)" by (metis list.set_map)
    have k: "known_roles rids (w\<lparr>users := ?us, issued := issued w + 1\<rparr>)"
      using assms(1) ids
      by (auto simp: known_roles_def ids_free_def demo_active_def in_upd_where split: if_splits)
    have "find (\<lambda>u. u_email u = email) ?us = Some (x\<lparr>u_hash := hash\<rparr>)"
      using Some by (simp add: find_upd_where_same)
    moreover have "find (\<lambda>u. u_email u = e) ?us = find (\<lambda>u. u_email u = e) (users w)"
      if "e \<noteq> email" for e
      using that by (intro find_upd_where_other) auto
    ultimately show ?thesis
      using Some k a by (auto simp: wp_def upsert_user_def run_stmt_calm [OF f(2)] returning_def)
  qed
qed

lemma known_give_role:
  assumes "known_roles rids w" "u \<in> u_id ` set (users w)"
  shows "wp (give_role u i) (\<lambda>_ w'. known_roles rids w' \<and> users w' = users w \<and> roles w' = roles w
           \<and> set (user_roles w') = insert (u, i) (set (user_roles w))) w"
proof -
  have f: "outcomes w = []" "uuid_in w = Some" using assms by (simp_all add: known_roles_def ids_free_def)
  show ?thesis
    using assms
    by (auto simp: wp_def give_role_def run_exec_calm [OF f(1)] f(2) known_roles_def ids_free_def
        demo_active_def)
qed

lemma wp_seed_user:
  assumes "known_roles rids w" "map fst rids = seed_roles" "a = (email, password, role)"
    "email \<in> set demo_emails" "role \<in> set seed_roles"
  shows "wp (seed_user cr rids a) (\<lambda>_ w'. known_roles rids w' \<and> seeded_account cr a w'
           \<and> (\<forall>b. fst b \<noteq> email \<longrightarrow> seeded_account cr b w \<longrightarrow> seeded_account cr b w')) w"
proof -
  have "role \<in> fst ` set rids" using assms(2,5) by (metis list.set_map)
  then obtain i where i: "map_of rids role = Some i" by (metis map_of_eq_None_iff not_Some_eq)
  show ?thesis
    unfolding assms(3) seed_user_def prod.case wp_bind
  proof (rule wp_mono [OF wp_upsert_user_demo [OF assms(1,4)]])
    fix x and v :: "'a world_scheme"
    assume "\<exists>u. x = Some (u_id u) \<and> known_roles rids v
      \<and> find (\<lambda>u. u_email u = email) (users v) = Some u \<and> u_active u
      \<and> u_hash u = text_or_empty (bcrypt_hash cr password)
      \<and> roles v = roles w \<and> user_roles v = user_roles w
      \<and> (\<forall>e. e \<noteq> email \<longrightarrow> find (\<lambda>u. u_email u = e) (users v) = find (\<lambda>u. u_email u = e) (users w))"
    then obtain u where u: "x = Some (u_id u)" "known_roles rids v"
      "find (\<lambda>u. u_email u = email) (users v) = Some u" "u_active u"
      "u_hash u = text_or_empty (bcrypt_hash cr password)"
      "roles v = roles w" "user_roles v = user_roles w"
      "\<And>e. e \<noteq> email \<Longrightarrow> find (\<lambda>u. u_email u = e) (users v) = find (\<lambda>u. u_email u = e) (users w)"
      by blast
    obtain r where r: "r \<in> set (roles v)" "ro_name r = role" "ro_id r = i"
      using u(2) map_of_SomeD [OF i] by (auto simp: known_roles_def)
    have m: "u_id u \<in> u_id ` set (users v)" using find_in [OF u(3)] by blast
    have "seeded_account cr (email, password, role) v'"
      "\<forall>b. fst b \<noteq> email \<longrightarrow> seeded_account cr b w \<longrightarrow> seeded_account cr b v'"
      if "users v' = users v" "roles v' = roles v"
        "set (user_roles v') = insert (u_id u, i) (set (user_roles v))" for v' :: "'a world_scheme"
      using that u r by (auto simp: seeded_account_def)
    then show "wp (case x of None \<Rightarrow> State_Monad.return ()
        | Some uid \<Rightarrow> (case map_of rids role of None \<Rightarrow> State_Monad.return ()
            | Some rid \<Rightarrow> State_Monad.bind (give_role uid rid) (\<lambda>_. State_Monad.return ())))
        (\<lambda>_ w'. known_roles rids w' \<and> seeded_account cr (email, password, role) w'
          \<and> (\<forall>b. fst b \<noteq> email \<longrightarrow> seeded_account cr b w \<longrightarrow> seeded_account cr b w')) v"
      unfolding u(1) i option.case wp_bind wp_return
      by (intro wp_mono [OF known_give_role [OF u(2) m]]) blast
  qed
qed

lemma wp_seed_users:
  assumes "known_roles rids w" "map fst rids = seed_roles" "distinct (map fst as)"
    "\<forall>a\<in>set as. fst a \<in> set demo_emails \<and> snd (snd a) \<in> set seed_roles"
  shows "wp (foreach (seed_user cr rids) as)
           (\<lambda>_ w'. known_roles rids w' \<and> (\<forall>a\<in>set as. seeded_account cr a w')
              \<and> (\<forall>b. fst b \<notin> fst ` set as \<longrightarrow> seeded_account cr b w \<longrightarrow> seeded_account cr b w')) w"
  using assms(1,3,4)
proof (induction as arbitrary: w)
  case (Cons a as)
  obtain email password role where a: "a = (email, password, role)" by (rule prod_cases3)
  have e: "email \<in> set demo_emails" "role \<in> set seed_roles" "email \<notin> fst ` set as"
    using Cons.prems(2,3) by (auto simp: a)
  show ?case
    unfolding foreach.simps wp_bind
  proof (rule wp_mono [OF wp_seed_user [OF Cons.prems(1) assms(2) a e(1,2)]])
    fix x and v :: "'a world_scheme"
    assume v: "known_roles rids v \<and> seeded_account cr a v
      \<and> (\<forall>b. fst b \<noteq> email \<longrightarrow> seeded_account cr b w \<longrightarrow> seeded_account cr b v)"
    have "wp (foreach (seed_user cr rids) as)
           (\<lambda>_ w'. known_roles rids w' \<and> (\<forall>a\<in>set as. seeded_account cr a w')
              \<and> (\<forall>b. fst b \<notin> fst ` set as \<longrightarrow> seeded_account cr b v \<longrightarrow> seeded_account cr b w')) v"
      by (rule Cons.IH) (use v Cons.prems in auto)
    then show "wp (foreach (seed_user cr rids) as)
           (\<lambda>_ w'. known_roles rids w' \<and> (\<forall>a\<in>set (a # as). seeded_account cr a w')
              \<and> (\<forall>b. fst b \<notin> fst ` set (a # as) \<longrightarrow> seeded_account cr b w \<longrightarrow> seeded_account cr b w')) v"
      by (rule wp_mono) (use v e(3) a in auto)
  qed
qed simp

text \<open>What the login looks at is left alone by the rest of the script.\<close>

definition login_view :: "'a world_scheme \<Rightarrow> 'a world_scheme \<Rightarrow> bool" where
  "login_view v w \<longleftrightarrow> outcomes w = [] \<and> db_nil w = db_nil v \<and> users w = users v
     \<and> roles w = roles v \<and> user_roles w = user_roles v"

lemma rest_of_demo:
  assumes "outcomes v = []"
  shows "keeps (login_view v) (failing without_org xs)" "keeps (login_view v) (failing no_such_column ys)"
    "keeps (login_view v) insert_cycle"
proof -
  have q: "quiet (login_view v)" by (simp add: quiet_def login_view_def)
  have "keeps (login_view v) without_org"
    "keeps (login_view v) (no_such_column :: (_, string option) state)"
    unfolding without_org_def no_such_column_def by (rule quiet_stmt [OF q], simp)+
  then show "keeps (login_view v) (failing without_org xs)"
    "keeps (login_view v) (failing no_such_column ys)"
    by (auto intro: keeps_failing)
  show "keeps (login_view v) insert_cycle"
    unfolding insert_cycle_def by (rule quiet_insert_row [OF q]) (auto simp: login_view_def)
qed

lemma demo_users_ok:
  "distinct (map fst demo_users)"
  "\<forall>a\<in>set demo_users. fst a \<in> set demo_emails \<and> snd (snd a) \<in> set seed_roles"
  by (simp_all add: demo_users_def demo_emails_def seed_roles_def)

lemma wp_seed_demo:
  assumes "ids_free w" "demo_active w"
  shows "wp (seed_demo cr) (\<lambda>_ w'. outcomes w' = [] \<and> \<not> db_nil w'
           \<and> (\<forall>a\<in>set demo_users. seeded_account cr a w')) w"
proof -
  let ?Q = "\<lambda>w'. outcomes w' = [] \<and> \<not> db_nil w' \<and> (\<forall>a\<in>set demo_users. seeded_account cr a w')"
  let ?rest = "do {
     failing without_org demo_locations;
     failing without_org demo_departments;
     failing without_org demo_designations;
     failing no_such_column demo_staff_codes;
     failing no_such_column demo_leave_codes;
     failing no_such_column [''Engineering Onboarding 2026''];
     _ \<leftarrow> insert_cycle;
     State_Monad.return ()
   }"
  have rest: "wp ?rest (\<lambda>_. ?Q) v" if "?Q v" for v
  proof -
    have "keeps (login_view v) ?rest" by (intro keeps_bind keeps_return rest_of_demo) (use that in simp_all)
    moreover have "login_view v v" using that by (simp add: login_view_def)
    ultimately have "wp ?rest (\<lambda>_. login_view v) v" by (rule wp_keeps)
    then show ?thesis
      by (rule wp_mono) (use that in \<open>auto simp: login_view_def seeded_account_def\<close>)
  qed
  have users: "wp (foreach (seed_user cr rids) demo_users) (\<lambda>_. ?Q) v"
    if "known_roles rids v \<and> map fst rids = seed_roles" for rids and v
    using that demo_users_ok
    by (intro wp_mono [OF wp_seed_users]) (auto simp: known_roles_def ids_free_def)
  show ?thesis
    unfolding seed_demo_def wp_bind [of demo_roles] wp_bind [of "foreach _ _"]
    by (rule wp_mono [OF wp_demo_roles [OF assms]], rule wp_mono [OF users], assumption, rule rest)
qed

lemma login_with_password:
  assumes "outcomes w = []" "\<not> db_nil w" "\<And>c. sign cr c \<noteq> None"
    "find (\<lambda>u. u_email u = lr_email req) (users w) = Some u" "u_active u"
    "bcrypt_ok cr (u_hash u) (lr_password req)"
  shows "rcode (fst (run_state (handle_login cr (Some req)) w)) = status_ok"
proof -
  define tok where "tok t i e rs = the (generate_token cr t i e rs)" for t i e rs
  have g: "generate_token cr t i e rs = Some (tok t i e rs)" for t i e rs
    using assms(3) by (simp add: generate_token_def tok_def)
  show ?thesis
    using assms(1,2,4-6)
    by (auto simp: handle_login_def g run_calm first_row Let_def split: option.split)
qed

text \<open>
  The demo accounts can log in. On a server where nothing fails, after \<^verbatim>\<open>seed.go\<close> each of
  its eight addresses has an account, whose owner is given the role of the script; a login with the
  password of the script succeeds, unless the account was suspended before: the script resets the
  password of an existing account but does not activate it.
\<close>

theorem seeded_accounts_log_in:
  assumes "ids_free w" "demo_active w" "(email, password, role) \<in> set demo_users"
    "\<And>c. sign cr c \<noteq> None"
    "\<And>p. length p \<le> 72 \<Longrightarrow> \<exists>h. bcrypt_hash cr p = Some h \<and> bcrypt_ok cr h p"
  shows "let w' = snd (run_state (seed_demo cr) w)
         in (\<exists>u. find (\<lambda>u. u_email u = email) (users w') = Some u
               \<and> role \<in> set (user_role_names (u_id u) w'))
            \<and> rcode (fst (run_state (handle_login cr
                (Some \<lparr>lr_email = email, lr_password = password\<rparr>)) w')) = status_ok"
proof -
  define w' where "w' = snd (run_state (seed_demo cr) w)"
  have w': "outcomes w' = []" "\<not> db_nil w'" "seeded_account cr (email, password, role) w'"
    using wp_snd [OF wp_seed_demo [OF assms(1,2)]] assms(3) unfolding w'_def by blast+
  then obtain u r where u: "find (\<lambda>u. u_email u = email) (users w') = Some u" "u_active u"
    "u_hash u = text_or_empty (bcrypt_hash cr password)" "r \<in> set (roles w')" "ro_name r = role"
    "(u_id u, ro_id r) \<in> set (user_roles w')"
    by (auto simp: seeded_account_def)
  have "length password \<le> 72" using assms(3) by (auto simp: demo_users_def)
  then have p: "bcrypt_ok cr (u_hash u) password"
    using assms(5) [of password] u(3) by (auto simp: text_or_empty_def)
  have "rcode (fst (run_state (handle_login cr
      (Some \<lparr>lr_email = email, lr_password = password\<rparr>)) w')) = status_ok"
    by (rule login_with_password [where u = u]) (use w'(1,2) u(1,2) p assms(4) in simp_all)
  moreover have "role \<in> set (user_role_names (u_id u) w')"
    using u(4-6) by (force simp: user_role_names_def)
  ultimately show ?thesis using u(1) unfolding w'_def Let_def by blast
qed

theorem seeded_accounts_log_in_witness:
  "rcode (fst (run_state (handle_login demo_crypto
     (Some \<lparr>lr_email = ''neha@company.com'', lr_password = ''password123''\<rparr>))
     (snd (run_state (seed_demo demo_crypto) empty_seed)))) = status_ok"
proof -
  have "inj (\<lambda>n. ''id-'' @ decn n)" by (auto simp: inj_def decn_inj)
  then have w: "ids_free empty_seed" "demo_active empty_seed"
    by (simp_all add: ids_free_def demo_active_def empty_seed_simps)
  have "(''neha@company.com'', ''password123'', ''EMPLOYEE'') \<in> set demo_users"
    by (simp add: demo_users_def)
  from seeded_accounts_log_in [OF w this, of demo_crypto] show ?thesis
    by (simp add: Let_def demo_crypto_def)
qed

section \<open>The audit data are seeded once\<close>

text \<open>
  An anchor is an employee with the email of its account, its code, its identifier and its manager
  (any when not given).
\<close>

definition staff_of :: "string \<times> string \<times> string \<times> string option \<Rightarrow> 'a world_scheme \<Rightarrow> bool" where
  "staff_of a w \<longleftrightarrow> (case a of (email, code, i, manager) \<Rightarrow>
     \<exists>u\<in>set (users w). \<exists>e\<in>set (employees w).
       u_email u = email \<and> e_user e = Some (u_id u) \<and> e_code e = code \<and> e_id e = i
       \<and> (manager = None \<or> e_manager e = manager))"

definition anchored :: "(string \<times> string \<times> string \<times> string option) list \<Rightarrow> 'a world_scheme \<Rightarrow> bool" where
  "anchored as w \<longleftrightarrow> codes_ok w \<and> uuid_in w = Some \<and> (\<forall>a\<in>set as. staff_of a w)"

definition owns :: "string \<Rightarrow> string \<Rightarrow> 'a world_scheme \<Rightarrow> bool" where
  "owns email uid w \<longleftrightarrow> (\<exists>u\<in>set (users w). u_email u = email \<and> u_id u = uid)"

lemma stable_anchored [simp]: "stable (anchored as)" "stable (\<lambda>w. anchored as w \<and> owns email uid w)"
  using stable_codes_ok by (auto simp: stable_def anchored_def staff_of_def owns_def)

lemma anchored_same:
  assumes "anchored as w" "codes_ok w'" "uuid_in w' = uuid_in w" "employees w' = employees w"
    "\<And>u. u \<in> set (users w) \<Longrightarrow> \<exists>v\<in>set (users w'). u_email v = u_email u \<and> u_id v = u_id u"
  shows "anchored as w'"
  unfolding anchored_def
proof (intro conjI ballI)
  fix a
  assume "a \<in> set as"
  then have "staff_of a w" using assms(1) by (simp add: anchored_def)
  moreover obtain em c i mg where a: "a = (em, c, i, mg)" by (cases a)
  ultimately obtain u e where ue: "u \<in> set (users w)" "e \<in> set (employees w)" "u_email u = em"
    "e_user e = Some (u_id u)" "e_code e = c" "e_id e = i" "mg = None \<or> e_manager e = mg"
    by (auto simp: staff_of_def)
  obtain v where v: "v \<in> set (users w')" "u_email v = em" "u_id v = u_id u"
    using assms(5) [OF ue(1)] ue(3) by auto
  show "staff_of a w'"
    unfolding staff_of_def a prod.case assms(4)
    by (rule bexI [OF _ v(1)], rule bexI [OF _ ue(2)]) (use v ue in simp)
qed (use assms in \<open>simp_all add: anchored_def\<close>)

lemma wp_stmtI:
  assumes "Q None (popped w)" "\<And>a w'. f (popped w) = Some (a, w') \<Longrightarrow> Q (Some a) w'"
  shows "wp (stmt f) Q w"
  using assms by (auto simp: wp_stmt split: option.split)

lemma anchored_popped: "anchored as w \<Longrightarrow> anchored as (popped w)"
  by (simp add: stable_popped)

lemma wp_upsert_owner:
  assumes "anchored as w"
  shows "wp (upsert_user email hash) (\<lambda>x w'. anchored as w' \<and> (\<forall>i. x = Some i \<longrightarrow> owns email i w')) w"
  unfolding upsert_user_def
proof (rule wp_stmtI)
  let ?w = "popped w"
  show "anchored as ?w \<and> (\<forall>i. None = Some i \<longrightarrow> owns email i ?w)"
    using anchored_popped [OF assms] by simp
  let ?f = "\<lambda>u. u\<lparr>u_hash := hash\<rparr>" and ?r = "new_user email hash True (now ?w) (ids ?w (issued ?w))"
  fix a w'
  assume s: "map_option (\<lambda>(i, us). (i, ?w\<lparr>users := us, issued := issued ?w + 1\<rparr>))
    (returning (\<lambda>u. u_email u = email) u_id ?f ?r (users ?w)) = Some (a, w')"
  then obtain us where us: "returning (\<lambda>u. u_email u = email) u_id ?f ?r (users ?w) = Some (a, us)"
    and w': "w' = ?w\<lparr>users := us, issued := issued ?w + 1\<rparr>"
    by auto
  have "codes_ok w'"
  proof -
    have "wp (upsert_user email hash) (\<lambda>_. codes_ok) (?w\<lparr>outcomes := []\<rparr>)"
      by (rule wp_keeps [OF codes_ok_statements(1)])
        (use assms in \<open>simp add: anchored_def codes_ok_def accounts_ok_def\<close>)
    then show ?thesis
      using us by (simp add: wp_def upsert_user_def run_stmt_calm w' codes_ok_def accounts_ok_def)
  qed
  moreover have "\<exists>v\<in>set us. u_email v = u_email u \<and> u_id v = u_id u" if "u \<in> set (users ?w)" for u
    using us
  proof (cases rule: returning_cases)
    case 1
    then show ?thesis
      using that by (intro bexI [of _ "if u_email u = email then ?f u else u"]) (auto simp: in_upd_where)
  next
    case 2
    then show ?thesis using that by auto
  qed
  ultimately have "anchored as w'"
    by (intro anchored_same [OF anchored_popped [OF assms]]) (simp_all add: w')
  moreover have "owns email a w'"
    using us
  proof (cases rule: returning_cases)
    case 1
    then obtain x where x: "x \<in> set (users ?w)" "u_email x = email" "a = u_id x" by blast
    then have "?f x \<in> set us" using 1(2) by (auto simp: in_upd_where)
    then show ?thesis using x by (auto simp: owns_def w' intro: bexI [of _ "?f x"])
  next
    case 2
    then show ?thesis by (simp add: owns_def w' new_user_def)
  qed
  ultimately show "anchored as w' \<and> (\<forall>i. Some a = Some i \<longrightarrow> owns email i w')" by simp
qed

text \<open>The statements of \<open>createUser\<close> on the account of another email.\<close>

definition staff_frame :: "user_row list \<Rightarrow> employee_row list \<Rightarrow> (string \<Rightarrow> string option) \<Rightarrow> 'a world_scheme \<Rightarrow> bool"
  where
  "staff_frame us es conv w \<longleftrightarrow> users w = us \<and> employees w = es \<and> uuid_in w = conv"

lemma stable_staff_frame [simp]: "stable (staff_frame us es conv)"
  by (simp add: stable_def staff_frame_def)

lemma keeps_anchored_frame:
  assumes "keeps codes_ok m" "\<And>us es conv. keeps (staff_frame us es conv) m"
  shows "keeps (\<lambda>w. anchored as w \<and> owns email uid w) m" "keeps (anchored as) m"
proof -
  have f: "wp m (\<lambda>_ w'. codes_ok w' \<and> staff_frame (users w) (employees w) (uuid_in w) w') w"
    if "anchored as w" for w
    unfolding wp_conj
    using that by (intro conjI wp_keeps [OF assms(1)] wp_keeps [OF assms(2)])
      (simp_all add: anchored_def staff_frame_def)
  have a: "anchored as w' \<and> (owns email uid w \<longrightarrow> owns email uid w')"
    if "anchored as w" "codes_ok w'" "staff_frame (users w) (employees w) (uuid_in w) w'" for w w'
    using that(2,3) anchored_same [OF that(1,2)] by (auto simp: staff_frame_def owns_def)
  show "keeps (\<lambda>w. anchored as w \<and> owns email uid w) m" "keeps (anchored as) m"
    by (rule keepsI, rule wp_mono [OF f], blast, use a in blast)+
qed

lemma frame_statements:
  "keeps (staff_frame us es conv) (delete_user_roles i)"
  "keeps (staff_frame us es conv) (insert_user_role i r)"
  unfolding delete_user_roles_def insert_user_role_def
  by (rule keeps_exec, simp, auto simp: staff_frame_def split: option.splits if_splits)+

lemmas frame_tables = keeps_scripts_tables [where I = "staff_frame us es conv" for us es conv,
    OF stable_staff_frame, simplified staff_frame_def, simplified, folded staff_frame_def]

lemmas keeps_anchored_roles = keeps_anchored_frame [OF codes_ok_statements(3) frame_statements(1)]
  keeps_anchored_frame [OF codes_ok_statements(4) frame_statements(2)]

lemma codes_forget_staff: "codes_ok w \<Longrightarrow> codes_ok (forget_staff ds w)"
  by (auto simp: codes_ok_def accounts_ok_def accounts_fit_def forget_staff_def
      distinct_map_filter intro: links_filter)

lemma same_owner:
  assumes "codes_ok w" "u \<in> set (users w)" "v \<in> set (users w)" "u_id u = u_id v"
  shows "u = v"
  using assms by (auto simp: codes_ok_def accounts_ok_def accounts_fit_def distinct_map dest: inj_onD)

lemma same_staff:
  assumes "codes_ok w" "x \<in> set (employees w)" "y \<in> set (employees w)" "e_id x = e_id y"
  shows "x = y"
  using assms
  by (auto simp: codes_ok_def accounts_ok_def accounts_fit_def links_fit_def distinct_map dest: inj_onD)

lemma anchored_delete_staff:
  assumes "\<forall>a\<in>set as. fst a \<noteq> email \<and> fst (snd a) \<noteq> code"
  shows "keeps (\<lambda>w. anchored as w \<and> owns email uid w) (delete_staff uid code)"
  unfolding delete_staff_def
proof (rule keeps_exec, simp)
  fix w w' :: "'a office_world_scheme" and n
  assume s: "(case uuid_in w uid of None \<Rightarrow> None | Some u \<Rightarrow>
      let ds = [e_id e. e \<leftarrow> employees w, e_user e = Some u \<or> e_code e = code]
      in if staff_pinned ds w then None else Some (length ds, forget_staff ds w)) = Some (n, w')"
    and w: "anchored as w \<and> owns email uid w"
  let ?ds = "[e_id e. e \<leftarrow> employees w, e_user e = Some uid \<or> e_code e = code]"
  have ok: "codes_ok w" "uuid_in w uid = Some uid" using w by (simp_all add: anchored_def)
  then have w': "w' = forget_staff ?ds w" using s by (auto simp: Let_def split: if_splits)
  obtain v where v: "v \<in> set (users w)" "u_email v = email" "u_id v = uid"
    using w by (auto simp: owns_def)
  have "staff_of a w'" if a: "a \<in> set as" for a
  proof -
    obtain em c i mg where m: "a = (em, c, i, mg)" by (cases a)
    have "staff_of a w" using w a by (simp add: anchored_def)
    then obtain u e where ue: "u \<in> set (users w)" "e \<in> set (employees w)" "u_email u = em"
      "e_user e = Some (u_id u)" "e_code e = c" "e_id e = i" "mg = None \<or> e_manager e = mg"
      by (auto simp: staff_of_def m)
    have "em \<noteq> email" "c \<noteq> code" using assms a m by force+
    then have "u_id u \<noteq> uid" using same_owner [OF ok(1) ue(1) v(1)] v ue(3) by auto
    then have "e_id e \<notin> set ?ds"
      using \<open>c \<noteq> code\<close> ue(4,5) same_staff [OF ok(1) ue(2)] by fastforce
    then have "e \<in> set (employees w')" using ue(2) by (simp add: w' forget_staff_def)
    moreover have "u \<in> set (users w')" using ue(1) by (simp add: w' forget_staff_def)
    ultimately show ?thesis unfolding staff_of_def m prod.case using ue(3-7) by blast
  qed
  moreover have "codes_ok w'" unfolding w' by (rule codes_forget_staff) (rule ok(1))
  moreover have "uuid_in w' = uuid_in w" "users w' = users w" by (simp_all add: w' forget_staff_def)
  ultimately show "anchored as w' \<and> owns email uid w'"
    using w unfolding anchored_def owns_def by auto
qed

lemma wp_insert_staff:
  assumes "anchored as w \<and> owns email uid w"
  shows "wp (insert_staff code fname lname (staff_refs dept manager) uid)
           (\<lambda>x w'. anchored as w' \<and> (\<forall>i. x = Some i \<longrightarrow> anchored ((email, code, i, manager) # as) w')) w"
  unfolding insert_staff_def insert_row_def
proof (rule wp_stmtI)
  let ?w = "popped w"
  have p: "anchored as ?w" "owns email uid ?w" "uuid_in ?w = Some"
    using assms anchored_popped by (auto simp: owns_def anchored_def)
  then show "anchored as ?w \<and> (\<forall>i. None = Some i \<longrightarrow> anchored ((email, code, i, manager) # as) ?w)"
    by simp
  fix i w'
  assume s: "map_option (\<lambda>w'. (ids ?w (issued ?w), w'\<lparr>issued := issued ?w + 1\<rparr>))
    (case (uuid_in ?w uid, cast_refs (staff_refs dept manager) ?w) of
       (Some u, Some r) \<Rightarrow>
         add_staff (staff_row (ids ?w (issued ?w)) u code fname lname r (today ?w) (now ?w)) r ?w
     | _ \<Rightarrow> None) = Some (i, w')"
  have c: "cast_refs (staff_refs dept manager) ?w = Some (staff_refs dept manager)"
    using p(3) by (cases manager) (simp_all add: cast_refs_def staff_refs_def cast_opt_def)
  let ?e = "staff_row (ids ?w (issued ?w)) uid code fname lname (staff_refs dept manager) (today ?w) (now ?w)"
  obtain v where v: "add_staff ?e (staff_refs dept manager) ?w = Some v" "i = ids ?w (issued ?w)"
    "w' = v\<lparr>issued := issued ?w + 1\<rparr>"
    using s unfolding c p(3) by auto
  have w': "w' = ?w\<lparr>employees := employees ?w @ [?e], issued := issued ?w + 1\<rparr>"
    unfolding v(3) add_staff_Some(1) [OF v(1)] by simp
  have ok: "codes_ok w'"
  proof -
    have "accounts_ok v" using accounts_add_staff [OF _ v(1)] p(1) by (simp add: anchored_def codes_ok_def)
    moreover have "codes_distinct (v\<lparr>issued := n\<rparr>)" for n
      using codes_add_staff [OF _ v(1)] p(1) by (simp add: anchored_def codes_ok_def codes_distinct_def)
    ultimately show ?thesis by (simp add: v(3) codes_ok_def codes_distinct_def)
  qed
  have "staff_of a w'" if "staff_of a ?w" for a
    using that by (force simp: staff_of_def w')
  then have a: "anchored as w'" using p(1) ok by (simp add: anchored_def w')
  obtain u where u: "u \<in> set (users w')" "u_email u = email" "u_id u = uid"
    using p(2) by (auto simp: owns_def w')
  have "staff_of (email, code, i, manager) w'"
    unfolding staff_of_def prod.case
    by (rule bexI [OF _ u(1)], rule bexI [of _ ?e])
      (use u v(2) in \<open>simp_all add: w' staff_row_def staff_refs_def\<close>)
  then show "anchored as w' \<and> (\<forall>j. Some i = Some j \<longrightarrow> anchored ((email, code, j, manager) # as) w')"
    using a by (simp add: anchored_def)
qed

lemma wp_then:
  "keeps I m \<Longrightarrow> I w \<Longrightarrow> (\<And>v. I v \<Longrightarrow> wp k Q v) \<Longrightarrow>
   wp (State_Monad.bind m (\<lambda>_. k)) Q w"
  by (auto simp: keeps_def intro: wp_mono)

lemma wp_audit_user:
  fixes w :: "'a office_world_scheme"
  assumes "anchored as w" "\<forall>a\<in>set as. fst a \<noteq> email \<and> fst (snd a) \<noteq> code"
  shows "wp (audit_user cr rids dept email role code fname lname manager)
           (\<lambda>r w'. anchored as w' \<and> (\<forall>i. r = Inr i \<longrightarrow> anchored ((email, code, i, manager) # as) w')) w"
proof -
  let ?I = "\<lambda>uid (w :: 'a office_world_scheme). anchored as w \<and> owns email uid w"
  let ?Q = "\<lambda>(r :: string + string) (w' :: 'a office_world_scheme). anchored as w' \<and> (\<forall>i. r = Inr i \<longrightarrow> anchored ((email, code, i, manager) # as) w')"
  have rest: "wp (do {
      _ \<leftarrow> delete_user_roles uid;
      _ \<leftarrow> insert_user_role uid (entry rids role);
      _ \<leftarrow> delete_staff uid code;
      orelse (insert_staff code fname lname (staff_refs dept manager) uid)
        (Inl (''Failed employee '' @ code)) (\<lambda>eid. State_Monad.return (Inr eid))
    }) ?Q v" if v: "?I uid v" for uid and v :: "'a office_world_scheme"
  proof (rule wp_then [OF keeps_anchored_roles(1) v], rule wp_then [OF keeps_anchored_roles(3)],
      assumption, rule wp_then [OF anchored_delete_staff [OF assms(2)]], assumption)
    fix u :: "'a office_world_scheme"
    assume u: "?I uid u"
    show "wp (orelse (insert_staff code fname lname (staff_refs dept manager) uid)
        (Inl (''Failed employee '' @ code)) (\<lambda>eid. State_Monad.return (Inr eid))) ?Q u"
      unfolding wp_orelse by (rule wp_mono [OF wp_insert_staff [OF u]]) (auto split: option.split)
  qed
  show ?thesis
    unfolding audit_user_def wp_orelse
    by (rule wp_mono [OF wp_upsert_owner [OF assms(1)]])
      (use rest in \<open>auto split: option.split simp del: wp_bind\<close>)
qed

lemma keeps_audit_user:
  assumes "\<forall>a\<in>set as. fst a \<noteq> email \<and> fst (snd a) \<noteq> code"
  shows "keeps (anchored as) (audit_user cr rids dept email role code fname lname manager)"
  by (rule keepsI, rule wp_mono [OF wp_audit_user [OF _ assms]]) auto

lemma keeps_audit_team:
  assumes "\<forall>a\<in>set as. \<forall>x\<in>set team. fst a \<noteq> fst x \<and> fst (snd a) \<noteq> fst (snd x)"
  shows "keeps (anchored as) (audit_team cr rids dept manager team)"
proof -
  have "keeps (anchored as) (fatal_loop (\<lambda>(email, code, lname) _.
     unless_fatal (audit_user cr rids dept email ''EMPLOYEE'' code ''Employee'' lname (Some manager))
       (\<lambda>_. State_Monad.return (Inr ()))) team u)" for u
    using assms
  proof (induction team arbitrary: u)
    case (Cons x team)
    obtain email code lname where x: "x = (email, code, lname)" by (rule prod_cases3)
    show ?case
      unfolding fatal_loop.simps x prod.case
      by (intro keeps_unless_fatal keeps_audit_user keeps_return Cons.IH)
        (use Cons.prems x in auto)
  qed (simp add: keeps_return)
  then show ?thesis by (simp add: audit_team_def)
qed

lemma wp_unless_fatal:
  "wp (unless_fatal m k) Q w = wp m (\<lambda>r. case r of Inl e \<Rightarrow> Q (Inl e) | Inr a \<Rightarrow> wp (k a) Q) w"
  unfolding unless_fatal_def wp_bind
  by (rule arg_cong2 [where f = "\<lambda>P. wp m P"]) (auto intro!: ext split: sum.split)

text \<open>An employee that manages another can be neither deleted nor added.\<close>

definition team_anchors :: "string \<Rightarrow> string \<Rightarrow> (string \<times> string \<times> string \<times> string option) list" where
  "team_anchors i j = [(''employee_001@company.com'', ''RBAC-EMP001'', j, Some i),
     (''manager_001@company.com'', ''RBAC-MGR001'', i, None)]"

lemma anchored_not_deleted:
  fixes i j :: string
  shows "keeps (\<lambda>w. anchored (team_anchors i j) w \<and> owns ''manager_001@company.com'' uid w)
           (delete_staff uid ''RBAC-MGR001'')"
  unfolding delete_staff_def
proof (rule keeps_exec, simp)
  fix w w' :: "'a office_world_scheme" and n
  assume s: "(case uuid_in w uid of None \<Rightarrow> None | Some u \<Rightarrow>
      let ds = [e_id e. e \<leftarrow> employees w, e_user e = Some u \<or> e_code e = ''RBAC-MGR001'']
      in if staff_pinned ds w then None else Some (length ds, forget_staff ds w)) = Some (n, w')"
    and w: "anchored (team_anchors i j) w \<and> owns ''manager_001@company.com'' uid w"
  let ?ds = "[e_id e. e \<leftarrow> employees w, e_user e = Some uid \<or> e_code e = ''RBAC-MGR001'']"
  have ok: "codes_ok w" "uuid_in w uid = Some uid" using w by (simp_all add: anchored_def)
  obtain o' where o': "o' \<in> set (users w)" "u_email o' = ''manager_001@company.com''" "u_id o' = uid"
    using w by (auto simp: owns_def)
  obtain v x where x: "v \<in> set (users w)" "x \<in> set (employees w)"
    "u_email v = ''employee_001@company.com''" "e_user x = Some (u_id v)" "e_code x = ''RBAC-EMP001''"
    "e_manager x = Some i"
    using w by (auto simp: anchored_def team_anchors_def staff_of_def)
  obtain m where m: "m \<in> set (employees w)" "e_code m = ''RBAC-MGR001''" "e_id m = i"
    using w by (auto simp: anchored_def team_anchors_def staff_of_def)
  have "u_id v \<noteq> uid" using same_owner [OF ok(1) x(1) o'(1)] x(3) o'(2,3) by auto
  then have "e_id x \<notin> set ?ds" using x(4,5) same_staff [OF ok(1) x(2)] by fastforce
  moreover have "i \<in> set ?ds" using m by auto
  ultimately have "staff_pinned ?ds w" using x(2,6) unfolding staff_pinned_def by blast
  then show "anchored (team_anchors i j) w' \<and> owns ''manager_001@company.com'' uid w'"
    using s ok(2) by (simp add: Let_def)
qed

lemma insert_staff_taken:
  assumes "anchored (team_anchors i j) w \<and> owns ''manager_001@company.com'' uid w"
  shows "wp (insert_staff ''RBAC-MGR001'' fname lname refs uid) (\<lambda>x _. x = None) w"
  unfolding insert_staff_def insert_row_def
proof (rule wp_stmtI, simp)
  let ?w = "popped w"
  obtain m where m: "m \<in> set (employees ?w)" "e_code m = ''RBAC-MGR001''"
    using assms by (auto simp: anchored_def team_anchors_def staff_of_def)
  fix a w'
  assume "map_option (\<lambda>w'. (ids ?w (issued ?w), w'\<lparr>issued := issued ?w + 1\<rparr>))
    (case (uuid_in ?w uid, cast_refs refs ?w) of
       (Some u, Some r) \<Rightarrow>
         add_staff (staff_row (ids ?w (issued ?w)) u ''RBAC-MGR001'' fname lname r (today ?w) (now ?w)) r ?w
     | _ \<Rightarrow> None) = Some (a, w')"
  then obtain u r v where "add_staff (staff_row (ids ?w (issued ?w)) u ''RBAC-MGR001'' fname lname r
      (today ?w) (now ?w)) r ?w = Some v"
    by (auto split: option.splits)
  from add_staff_Some(2) [OF this] show "Some a = None" using m by (auto simp: staff_row_def)
qed

lemma wp_audit_blocked:
  fixes w :: "'a office_world_scheme"
  assumes "anchored (team_anchors i j) w"
  shows "wp (audit_user cr rids dept ''manager_001@company.com'' role ''RBAC-MGR001'' fname lname manager)
           (\<lambda>r _. \<exists>e. r = Inl e) w"
proof -
  let ?I = "\<lambda>uid (w :: 'a office_world_scheme).
    anchored (team_anchors i j) w \<and> owns ''manager_001@company.com'' uid w"
  let ?Q = "\<lambda>(r :: string + string) (w' :: 'a office_world_scheme). \<exists>e. r = Inl e"
  have rest: "wp (do {
      _ \<leftarrow> delete_user_roles uid;
      _ \<leftarrow> insert_user_role uid (entry rids role);
      _ \<leftarrow> delete_staff uid ''RBAC-MGR001'';
      orelse (insert_staff ''RBAC-MGR001'' fname lname (staff_refs dept manager) uid)
        (Inl (''Failed employee '' @ ''RBAC-MGR001'')) (\<lambda>eid. State_Monad.return (Inr eid))
    }) ?Q v" if v: "?I uid v" for uid and v :: "'a office_world_scheme"
  proof (rule wp_then [where I = "?I uid", OF keeps_anchored_roles(1) v],
      rule wp_then [where I = "?I uid", OF keeps_anchored_roles(3)], assumption,
      rule wp_then [where I = "?I uid", OF anchored_not_deleted], assumption)
    fix u :: "'a office_world_scheme"
    assume u: "?I uid u"
    show "wp (orelse (insert_staff ''RBAC-MGR001'' fname lname (staff_refs dept manager) uid)
        (Inl (''Failed employee '' @ ''RBAC-MGR001'')) (\<lambda>eid. State_Monad.return (Inr eid))) ?Q u"
      unfolding wp_orelse by (rule wp_mono [OF insert_staff_taken [OF u]]) auto
  qed
  show ?thesis
    unfolding audit_user_def wp_orelse
    by (rule wp_mono [OF wp_upsert_owner [OF assms]])
      (use rest in \<open>auto split: option.split simp del: wp_bind\<close>)
qed

lemma keeps_audit_roles: "keeps (anchored as :: 'a seed_world_scheme \<Rightarrow> bool) audit_roles"
  unfolding audit_roles_def
  by (intro keeps_rules keeps_anchored_frame(2) codes_ok_tables frame_tables)

lemma keeps_audit_tables:
  "keeps (anchored as) (upsert_org code)" "keeps (anchored as) (upsert_department org name code)"
  by (intro keeps_anchored_frame(2) codes_ok_tables frame_tables)+

text \<open>The script up to its second account, which is the first manager.\<close>

definition audit_rest ::
  "crypto \<Rightarrow> (string \<times> string) list \<Rightarrow> string \<Rightarrow> string \<Rightarrow> ('a office_world_scheme, string + unit) state" where
  "audit_rest cr rids dept m1 =
     unless_fatal
       (audit_user cr rids dept ''manager_002@company.com'' ''MANAGER'' ''RBAC-MGR002'' ''Manager'' ''Two'' None)
       (\<lambda>m2. unless_fatal (audit_team cr rids dept m1 first_team)
          (\<lambda>_. audit_team cr rids dept m2 second_team))"

lemma wp_seed_audit:
  fixes w :: "'a seed_world_scheme"
  assumes "anchored as w" "\<forall>a\<in>set as. fst a \<noteq> ''hr_admin_001@company.com'' \<and> fst (snd a) \<noteq> ''RBAC-HR001''"
    "\<And>e w'. Q (Inl e) w'"
    "\<And>rids dept v. anchored as v \<Longrightarrow>
       wp (audit_user cr rids dept ''manager_001@company.com'' ''MANAGER'' ''RBAC-MGR001'' ''Manager'' ''One'' None)
         (\<lambda>r. case r of Inl e \<Rightarrow> Q (Inl e) | Inr m1 \<Rightarrow> wp (audit_rest cr rids dept m1) Q) v"
  shows "wp (seed_audit cr) Q w"
proof -
  have hr: "wp (unless_fatal
      (audit_user cr rids dept ''hr_admin_001@company.com'' ''HR_ADMIN'' ''RBAC-HR001'' ''HR'' ''Admin'' None)
      (\<lambda>_. unless_fatal
        (audit_user cr rids dept ''manager_001@company.com'' ''MANAGER'' ''RBAC-MGR001'' ''Manager'' ''One'' None)
        (audit_rest cr rids dept))) Q v" if "anchored as v" for rids dept and v :: "'a seed_world_scheme"
    unfolding wp_unless_fatal
    by (rule wp_mono [OF wp_keeps [OF keeps_audit_user [OF assms(2)] that]])
      (use assms(3,4) in \<open>auto split: sum.split\<close>)
  have tables: "wp (do { org \<leftarrow> upsert_org ''RBAC_ORG'';
      dept \<leftarrow> upsert_department (text_or_empty org) ''Audit Dept'' ''RBAC_DEPT'';
      unless_fatal
      (audit_user cr rids (text_or_empty dept) ''hr_admin_001@company.com'' ''HR_ADMIN'' ''RBAC-HR001'' ''HR''
        ''Admin'' None)
      (\<lambda>_. unless_fatal
        (audit_user cr rids (text_or_empty dept) ''manager_001@company.com'' ''MANAGER'' ''RBAC-MGR001'' ''Manager''
          ''One'' None)
        (audit_rest cr rids (text_or_empty dept))) }) Q v"
    if "anchored as v" for rids and v :: "'a seed_world_scheme"
    unfolding wp_bind
    by (rule wp_mono [OF wp_keeps [OF keeps_audit_tables(1) that]],
        rule wp_mono [OF wp_keeps [OF keeps_audit_tables(2)]], assumption, rule hr)
  show ?thesis
    unfolding seed_audit_def Let_def audit_rest_def [symmetric] wp_unless_fatal [of audit_roles]
    by (rule wp_mono [OF wp_keeps [OF keeps_audit_roles assms(1)]])
      (use assms(3) tables in \<open>auto split: sum.split simp del: wp_bind\<close>)
qed

lemma wp_unless_fatalI:
  assumes "wp m (\<lambda>r w'. (\<forall>e. r = Inl e \<longrightarrow> Q (Inl e) w') \<and> (\<forall>a. r = Inr a \<longrightarrow> wp (k a) Q w')) w"
  shows "wp (unless_fatal m k) Q w"
  unfolding wp_unless_fatal by (rule wp_mono [OF assms]) (auto split: sum.split)

lemma unless_fatal_assoc:
  "unless_fatal (unless_fatal m k) l = unless_fatal m (\<lambda>a. unless_fatal (k a) l)"
  by (rule state.expand) (auto simp: unless_fatal_def run_bind split: sum.split prod.split)

lemma wp_audit_rest:
  fixes w :: "'a office_world_scheme"
  assumes "anchored [(''manager_001@company.com'', ''RBAC-MGR001'', i, None)] w"
  shows "wp (audit_rest cr rids dept i)
           (\<lambda>r w'. r = Inr () \<longrightarrow> (\<exists>j. anchored (team_anchors i j) w')) w"
proof -
  let ?m = "[(''manager_001@company.com'', ''RBAC-MGR001'', i, None)]"
  let ?Q = "\<lambda>(r :: string + unit) (w' :: 'a office_world_scheme).
    r = Inr () \<longrightarrow> (\<exists>j. anchored (team_anchors i j) w')"
  have late: "wp (unless_fatal (audit_team cr rids dept i (tl first_team))
      (\<lambda>_. audit_team cr rids dept m2 second_team)) ?Q v" if "anchored (team_anchors i j) v"
    for j m2 and v :: "'a office_world_scheme"
  proof -
    have "keeps (anchored (team_anchors i j)) (unless_fatal (audit_team cr rids dept i (tl first_team))
      (\<lambda>_. audit_team cr rids dept m2 second_team))"
      by (intro keeps_unless_fatal keeps_audit_team)
        (simp_all add: team_anchors_def first_team_def second_team_def)
    from wp_keeps [OF this that] show ?thesis by (rule wp_mono) blast
  qed
  have team: "audit_team cr rids dept i first_team = unless_fatal
      (audit_user cr rids dept ''employee_001@company.com'' ''EMPLOYEE'' ''RBAC-EMP001'' ''Employee'' ''One'' (Some i))
      (\<lambda>_. audit_team cr rids dept i (tl first_team))"
    by (rule state.expand) (auto simp: audit_team_def first_team_def unless_fatal_def run_bind
        split: sum.split prod.split)
  have early: "wp (unless_fatal (audit_team cr rids dept i first_team)
      (\<lambda>_. audit_team cr rids dept m2 second_team)) ?Q v" if v: "anchored ?m v"
    for m2 and v :: "'a office_world_scheme"
    unfolding team unless_fatal_assoc
  proof (rule wp_unless_fatalI, rule wp_mono [OF wp_audit_user [OF v]])
    fix r :: "string + string" and v' :: "'a office_world_scheme"
    assume r: "anchored ?m v' \<and> (\<forall>j. r = Inr j \<longrightarrow>
      anchored ((''employee_001@company.com'', ''RBAC-EMP001'', j, Some i) # ?m) v')"
    have "anchored (team_anchors i j) v'" if "r = Inr j" for j
      unfolding team_anchors_def using r that by blast
    then have "wp (unless_fatal (audit_team cr rids dept i (tl first_team))
          (\<lambda>_. audit_team cr rids dept m2 second_team)) ?Q v'" if "r = Inr j" for j
      using that by (intro late)
    then show "(\<forall>e. r = Inl e \<longrightarrow> ?Q (Inl e) v') \<and> (\<forall>a. r = Inr a \<longrightarrow>
        wp (unless_fatal (audit_team cr rids dept i (tl first_team))
          (\<lambda>_. audit_team cr rids dept m2 second_team)) ?Q v')"
      by (intro conjI allI impI) simp_all
  qed simp
  have k: "keeps (anchored ?m :: 'a office_world_scheme \<Rightarrow> bool)
      (audit_user cr rids dept ''manager_002@company.com'' ''MANAGER'' ''RBAC-MGR002'' ''Manager'' ''Two'' None)"
    by (rule keeps_audit_user) simp
  show ?thesis
    unfolding audit_rest_def
  proof (rule wp_unless_fatalI, rule wp_mono, rule wp_keeps, rule k, rule assms)
    fix r :: "string + string" and v' :: "'a office_world_scheme"
    assume "anchored ?m v'"
    then show "(\<forall>e. r = Inl e \<longrightarrow> ?Q (Inl e) v') \<and> (\<forall>a. r = Inr a \<longrightarrow>
        wp (unless_fatal (audit_team cr rids dept i first_team)
          (\<lambda>_. audit_team cr rids dept a second_team)) ?Q v')"
      by (intro conjI allI impI early) simp_all
  qed
qed



lemma refs_exist_code [code]:
  "refs_exist r w \<longleftrightarrow>
     (case rf_dept r of None \<Rightarrow> True | Some d \<Rightarrow> d \<in> fst ` set (departments w))
     \<and> (case rf_desig r of None \<Rightarrow> True | Some g \<Rightarrow> g \<in> dg_id ` set (designations w))
     \<and> (case rf_location r of None \<Rightarrow> True | Some l \<Rightarrow> l \<in> lc_id ` set (locations w))
     \<and> (case rf_manager r of None \<Rightarrow> True | Some m \<Rightarrow> m \<in> e_id ` set (employees w))"
  by (auto simp: refs_exist_def split: option.splits)

lemma empty_seed_completes: "\<not> isl (fst (run_state (seed_audit demo_crypto) empty_seed))"
  by code_simp


end
