(* ===== verification/Spec2Isabelle.thy ===== *)
theory Spec2Isabelle
  imports
    Prelude Float64 Db Dates Schema
    Auth Authz Audit_Log Pagination
    Salary Payroll Payroll_Runs
    Workflow Workflow_Safety
    Leave Leave_Rules
    Helpdesk Helpdesk_Rules
    Jobs Jobs_Safety
    Security
    Users Accounts Csv Employees Employees_Rules Importer Importer_Rules
    Attendance Attendance_Requests Attendance_Config Attendance_Days Attendance_Rules
    Organization Configuration Lifecycle Documents Onboarding Recruitment Performance Reports
    Routes Portal Portal_Invariants
    Seed_Payroll Seed_Data Seed_Full Seed_Rules
begin

text \<open>
  \<^bold>\<open>The HR portal.\<close> The program is a Go service (\<^verbatim>\<open>backend/cmd/api\<close>,
  \<^verbatim>\<open>backend/internal\<close>) of HTTP handlers over a PostgreSQL database: a request passes the
  authentication middleware, which puts the claims of its token into the context, and reaches a
  handler, which checks roles and scopes, runs SQL statements one by one, writes an audit entry and
  answers with JSON. There is no state in memory except in the job service.

  \<^bold>\<open>How the code is modelled.\<close> A handler is a function of the claims, the decoded body
  (\<^term>\<open>None\<close> when it does not decode), the path and query parameters, in the state monad over
  a record of the database. The record starts with the connection (\<^verbatim>\<open>Db\<close>) and goes on with
  the tables (\<^verbatim>\<open>Schema\<close>): \<^typ>\<open>world\<close> for those that several parts share,
  \<^typ>\<open>hr_world\<close>, \<^typ>\<open>att_world\<close>, \<^typ>\<open>people_world\<close> and \<^typ>\<open>office_world\<close>
  for those of one part only. Every statement goes through \<^const>\<open>stmt\<close>
  and may fail for a reason outside the model, as the list \<^const>\<open>outcomes\<close> says, so that a
  theorem without a hypothesis on it holds whatever fails; \<^const>\<open>calm\<close> states that nothing
  fails. A query that fails in the middle of its rows gives none of them (\<^const>\<open>query_rows\<close>). A transaction (\<^const>\<open>transaction\<close>) runs its statements on a marked state, which a failure
  marks, and ends in a rollback then. An error that the code ignores is ignored in the model. A panic is the answer that the
  recovery middleware gives. Statements on tables or columns that no migration creates always fail.
  Numbers keep their type: \<^verbatim>\<open>int\<close> is an integer with \<^const>\<open>wrap64\<close> where it can
  overflow, \<^verbatim>\<open>float64\<close> is a rational rounded by \<^const>\<open>fl\<close> after each operation, a
  NUMERIC column is a rational. Points in time are nanoseconds in UTC.

  \<^bold>\<open>The theories.\<close>
  \<^item> \<^verbatim>\<open>Prelude\<close>, \<^verbatim>\<open>Float64\<close>, \<^verbatim>\<open>Db\<close>, \<^verbatim>\<open>Dates\<close>, \<^verbatim>\<open>Schema\<close>: strings
    and integers of Go, IEEE doubles (locale \<open>rounding\<close>, interpreted on \<^const>\<open>fl\<close>), statements
    with the rules \<^const>\<open>wp\<close> and \<^const>\<open>keeps\<close>, the calendar, the tables.
  \<^item> \<^verbatim>\<open>Auth\<close> (\<^verbatim>\<open>internal/auth\<close>): tokens, the middleware, login, password reset.
    Password hashes, signatures and digests are a record of parameters with their documented laws.
  \<^item> \<^verbatim>\<open>Authz\<close>, \<^verbatim>\<open>Audit_Log\<close>, \<^verbatim>\<open>Pagination\<close> (\<^verbatim>\<open>internal/authz\<close>,
    \<^verbatim>\<open>audit\<close>, \<^verbatim>\<open>common\<close>): roles and the scope condition with its meaning on rows, audit
    entries, page arithmetic.
  \<^item> \<^verbatim>\<open>Salary\<close>, \<^verbatim>\<open>Payroll\<close>, \<^verbatim>\<open>Payroll_Runs\<close> (\<^verbatim>\<open>internal/payroll\<close>): the
    salary breakdown, structures, the processing of a period, the states of a run, advances and
    payslips; then the step relation of all payroll operations and what it preserves.
  \<^item> \<^verbatim>\<open>Workflow\<close>, \<^verbatim>\<open>Workflow_Safety\<close> (\<^verbatim>\<open>internal/workflow\<close>): the inbox and the
    decisions on six kinds of requests (locale \<open>task_table\<close>, interpreted on each), and who may decide.
  \<^item> \<^verbatim>\<open>Leave\<close>, \<^verbatim>\<open>Leave_Rules\<close> (\<^verbatim>\<open>internal/leave\<close>): balances, applications,
    policies, the sandwich rule, accruals, encashment, approval levels.
  \<^item> \<^verbatim>\<open>Helpdesk\<close>, \<^verbatim>\<open>Helpdesk_Rules\<close> (\<^verbatim>\<open>internal/helpdesk\<close>): tickets, their numbers,
    service levels and states.
  \<^item> \<^verbatim>\<open>Jobs\<close>, \<^verbatim>\<open>Jobs_Safety\<close> (\<^verbatim>\<open>internal/jobs\<close>): the job service, whose two
    critical sections are the steps of a relation over interleaved executions.
  \<^item> \<^verbatim>\<open>Attendance\<close>, \<^verbatim>\<open>Attendance_Requests\<close>, \<^verbatim>\<open>Attendance_Config\<close>
    (\<^verbatim>\<open>internal/attendance\<close>): punches, the validation of days, summaries; exceptions and
    regularizations; rules, allowlist and geofences. \<^verbatim>\<open>Attendance_Days\<close> has the invariant of
    the stored days and their refinement of a clock, \<^verbatim>\<open>Attendance_Rules\<close> the decisions.
  \<^item> \<^verbatim>\<open>Security\<close> (\<^verbatim>\<open>internal/security\<close>): scopes, masks, access log and matrix.
  \<^item> \<^verbatim>\<open>Users\<close>, \<^verbatim>\<open>Accounts\<close> (\<^verbatim>\<open>internal/user\<close>): the accounts, their creation and
    invitation in a transaction, roles, suspension, deletion with the foreign keys that it meets; then
    the step relation of the account operations and its invariant.
  \<^item> \<^verbatim>\<open>Csv\<close>: the writer and the reader of Go's \<^verbatim>\<open>encoding/csv\<close>
    (\<^verbatim>\<open>local_go/src/encoding/csv\<close>), with their round trip.
  \<^item> \<^verbatim>\<open>Employees\<close>, \<^verbatim>\<open>Employees_Rules\<close> (\<^verbatim>\<open>internal/employee\<close>): the listing
    with the scope condition and its filters, the profile, creation, update and export; who sees what.
  \<^item> \<^verbatim>\<open>Importer\<close>, \<^verbatim>\<open>Importer_Rules\<close> (\<^verbatim>\<open>internal/importer\<close>): the upload of a
    file of employees and the processing of its rows.
  \<^item> \<^verbatim>\<open>Lifecycle\<close> (\<^verbatim>\<open>internal/lifecycle\<close>): the probations that end, the
    timeline of an employee, exits. \<^verbatim>\<open>Documents\<close>, \<^verbatim>\<open>Onboarding\<close>,
    \<^verbatim>\<open>Organization\<close>, \<^verbatim>\<open>Recruitment\<close>, \<^verbatim>\<open>Performance\<close>,
    \<^verbatim>\<open>Configuration\<close> (\<^verbatim>\<open>internal/document\<close> and the packages of these names):
    listings and creations, many of them of fixed data. \<^verbatim>\<open>Reports\<close>
    (\<^verbatim>\<open>internal/reports\<close>): the dashboard of each role and the exports.
  \<^item> \<^verbatim>\<open>Routes\<close>, \<^verbatim>\<open>Portal\<close>, \<^verbatim>\<open>Portal_Invariants\<close>
    (\<^verbatim>\<open>cmd/api/main.go\<close> and the \<^verbatim>\<open>RegisterRoutes\<close> of every package): one constructor
    per registered route with its method, its pattern and its parameters; \<^const>\<open>serve\<close> is a request
    to the whole service, the middleware and then the handler of the route, on the database together with
    the job service. The step relation \<^const>\<open>api_step\<close> ranges over all routes. A handler of one
    part leaves the tables of the others alone (the \<open>bystander\<close> locales, interpreted on the
    routes of each package), and the locale \<open>service_invariant\<close> lifts the invariant of a part to the
    whole service.

  \<^item> \<^verbatim>\<open>Seed_Payroll\<close>, \<^verbatim>\<open>Seed_Data\<close>, \<^verbatim>\<open>Seed_Full\<close>,
    \<^verbatim>\<open>Seed_Rules\<close> (\<^verbatim>\<open>backend/scripts\<close>): the scripts that fill the database, as
    computations on the same tables (\<^typ>\<open>seed_world\<close> adds those that only they write).
    \<^verbatim>\<open>Seed_Payroll\<close> is \<^verbatim>\<open>seed_payroll_test_data.go\<close> with what the payroll of the
    service then does, \<^verbatim>\<open>Seed_Data\<close> the scripts \<^verbatim>\<open>seed.go\<close>,
    \<^verbatim>\<open>seed_rbac_audit.go\<close> and \<^verbatim>\<open>seed_50_test_employees.go\<close>,
    \<^verbatim>\<open>Seed_Full\<close> the function of \<^verbatim>\<open>seed_50_employees.go\<close>, which nothing calls, and
    \<^verbatim>\<open>Seed_Rules\<close> what they do to accounts and employees.

  \<^bold>\<open>What is shown.\<close> Safety and invariants under any failing statements: locked payroll runs
  are final, only the responsible decide a request and only a pending one changes, the tickets and
  policies keep their order, applications are booked on their author, job keys run once per window,
  accounts, employees and uploads are stored completely or not at all, statutory data reach only
  those who may see them.
  Functional behaviour: the scope condition selects the scope, the salary breakdown conserves the
  amount in floating point, processing writes one payslip per employee, pages partition the rows, the
  sandwich rule counts days, the approval chain needs every level, the punches of a day implement an
  abstract clock, shift exceptions are classified exactly, the employee listing shows the page of
  the scope, CSV files read back, a processed batch is done, the buckets of the probations and the
  headcounts add up, and validating the days that wait lets payroll go on (below, across the two
  components). Over all routes of the service: a request changes the database only with a verified
  token and never with GET, only payroll administrators change payroll data, final payroll runs stay
  in every history of requests, and so do the invariants of the parts. Of the scripts: they keep the
  accounts well formed; a seeded period lets payroll go on unless a day is held back; a second run
  doubles the payroll; the demo accounts can log in; a reset removes no employee; the audit data can
  be seeded once only. Behaviour that the code has and does not mean to have is stated as it is.

  \<^bold>\<open>Bounds.\<close> Every loop of the modelled code runs over a list or up to a date and is a
  structural recursion or one with a measure; no fuel is used. Amounts in the salary theorem are
  those that double precision can halve, counters are exact up to \<open>2 ^ 53\<close>, durations up to
  2562047 hours, minutes of a shift up to \<open>2 ^ 17\<close>.

  \<^bold>\<open>Not modelled.\<close> The reading of the environment, the start and the shutdown of the server,
  its CORS and logging middleware, and the matching of a path with a pattern, which the third-party
  router does; the flags and the terminal output of the scripts, which are arguments and left out,
  the shell scripts that start them, the migrations as such (the tables are in
  \<^verbatim>\<open>Schema\<close>) and the front end.
  Lengths and other constraints, and foreign keys outside accounts, employees and imports, appear
  only as a statement that may fail; two requests interleave only between handlers, except in the
  job service.
\<close>

section \<open>Attendance and payroll\<close>

lemma list_all2_right: "list_all2 P xs ys \<Longrightarrow> y \<in> set ys \<Longrightarrow> \<exists>x\<in>set xs. P x y"
  by (induction rule: list_all2_induct) auto

lemma list_all2_left: "list_all2 P xs ys \<Longrightarrow> x \<in> set xs \<Longrightarrow> \<exists>y\<in>set ys. P x y"
  by (induction rule: list_all2_induct) auto

lemma no_pending_rows:
  assumes "list_all2 (validated_row is st) ds ds'" "st \<notin> {''TO_VALIDATE'', ''OT_PENDING''}"
    "\<And>d. d \<in> set ds \<Longrightarrow> in_period month year (ad_date d) \<Longrightarrow>
       ad_valid d \<in> {''TO_VALIDATE'', ''OT_PENDING''} \<Longrightarrow> ad_id d \<in> set is"
    "d' \<in> set ds'" "in_period month year (ad_date d')"
  shows "ad_valid d' \<notin> {''TO_VALIDATE'', ''OT_PENDING''}"
proof -
  obtain d where d: "d \<in> set ds" "validated_row is st d d'"
    using list_all2_right [OF assms(1,4)] by blast
  then show ?thesis
    using assms(2,3,5) by (cases "ad_id d \<in> set is") (auto simp: validated_row_def)
qed

text \<open>
  C23. Validating the days that wait lets payroll go on. When a validator sends a batch with the ids
  of all days of a period that wait for validation or for an overtime decision, the readiness check
  of the period, blocked before by any such day, succeeds afterwards, whatever the action of the
  batch; the days that are not in the batch stay as they are.
\<close>

theorem validation_unblocks_payroll:
  assumes "validation_server c w" "has_role (Some c) validator_roles" "bq_ids req \<noteq> []"
    "\<And>d. d \<in> set (daily w) \<Longrightarrow> in_period month year (ad_date d) \<Longrightarrow>
       ad_valid d \<in> {''TO_VALIDATE'', ''OT_PENDING''} \<Longrightarrow> ad_id d \<in> set (bq_ids req)"
  shows "let w' = snd (run_state (handle_batch_validation (Some c) (Some req)) w)
         in rd_ready (fst (run_state (check_payroll_readiness month year) w'))
            \<and> (\<forall>d\<in>set (daily w). ad_id d \<notin> set (bq_ids req) \<longrightarrow> d \<in> set (daily w'))"
proof -
  define w' where "w' = snd (run_state (handle_batch_validation (Some c) (Some req)) w)"
  obtain ds as where w0: "w' = w\<lparr>daily := ds, audit_logs := as\<rparr>"
    "list_all2 (validated_row (bq_ids req) (validation_target (bq_action req))) (daily w) ds"
    using run_batch [OF assms(1-3)] unfolding w'_def by blast
  have w': "outcomes w' = outcomes w \<and> db_nil w' = db_nil w"
    "list_all2 (validated_row (bq_ids req) (validation_target (bq_action req))) (daily w) (daily w')"
    using w0(2) by (simp_all add: w0(1))
  have st: "validation_target (bq_action req) \<notin> {''TO_VALIDATE'', ''OT_PENDING''}"
    by (simp add: validation_target_def)
  have "outcomes w = []" "\<not> db_nil w" using assms(1) by (simp_all add: validation_server_def)
  then have "outcomes w' = []" "\<not> db_nil w'"
    using w'(1) by simp_all
  then obtain rd where "run_state (check_payroll_readiness month year) w' = (rd, w')"
    "rd_ready rd \<longleftrightarrow> (\<forall>d\<in>set (daily w'). in_period month year (ad_date d) \<longrightarrow>
       ad_valid d \<noteq> ''TO_VALIDATE'' \<and> ad_valid d \<noteq> ''OT_PENDING'')"
    using readiness_calm by blast
  then have "rd_ready (fst (run_state (check_payroll_readiness month year) w'))"
    using no_pending_rows [OF w'(2) st assms(4)] by simp
  moreover have "d \<in> set (daily w')" if "d \<in> set (daily w)" "ad_id d \<notin> set (bq_ids req)" for d
    using list_all2_left [OF w'(2) that(1)] that(2) by (auto simp: validated_row_def)
  ultimately show ?thesis unfolding w'_def Let_def by blast
qed

definition pending_office :: att_world where
  "pending_office = demo_office\<lparr>daily := [pending_day]\<rparr>"

theorem validation_unblocks_payroll_witness:
  "let w' = snd (run_state (handle_batch_validation (Some admin_claims)
              (Some \<lparr>bq_ids = [''d1''], bq_action = ''VALIDATE'', bq_comments = ''ok''\<rparr>)) pending_office)
   in \<not> rd_ready (fst (run_state (check_payroll_readiness 7 2026) pending_office))
      \<and> rd_ready (fst (run_state (check_payroll_readiness 7 2026) w'))"
proof -
  have p: "in_period 7 2026 (ad_date pending_day)" by code_simp
  have w: "validation_server admin_claims pending_office"
    by (simp add: validation_server_def pending_office_def)
  then have "\<not> rd_ready (fst (run_state (check_payroll_readiness 7 2026) pending_office))"
    using readiness_calm [of pending_office 7 2026] p
    by (auto simp: validation_server_def pending_office_def) (simp add: pending_day_def)
  then show ?thesis
    using validation_unblocks_payroll [OF w, of
        "\<lparr>bq_ids = [''d1''], bq_action = ''VALIDATE'', bq_comments = ''ok''\<rparr>" 7 2026]
    by (simp add: Let_def) (simp add: pending_office_def pending_day_def)
qed

end
